(* ===== verification/JS_Prelude.thy ===== *)
theory JS_Prelude
  imports Main "HOL-Library.Word"
begin

text \<open>
  Shared vocabulary of the development: JavaScript strings as lists of UTF-16 code
  units, the string literals of the sources, decimal rendering of integers, the
  errors a call can throw and the result type that carries them, and the generic
  list lemmas the component theories use.

  A JavaScript string is a sequence of 16-bit code units, so \<open>jsstring\<close> is
  \<open>16 word list\<close>: \<open>length\<close> is the source's \<open>.length\<close>, and a character
  outside the Basic Multilingual Plane is two units (a surrogate pair), which is what
  \<open>encodeURIComponent\<close> has to decode. A literal of the source is written
  \<open>lit ''...''\<close>.
\<close>

section \<open>Collections of facts\<close>

named_theorems lit_eval "equations that evaluate string literals to code units"

section \<open>Strings\<close>

type_synonym code_unit = "16 word"
type_synonym jsstring = "code_unit list"
type_synonym byte = "8 word"

definition unit_of_char :: "char \<Rightarrow> code_unit" where
  "unit_of_char c = of_nat (of_char c)"

definition lit :: "string \<Rightarrow> jsstring" where
  "lit s = map unit_of_char s"

lemma unat_of_nat_small: "n < 2 ^ LENGTH('a) \<Longrightarrow> unat (of_nat n :: 'a::len word) = n"
  by (simp add: unat_of_nat)

lemma unat_unit_of_char: "unat (unit_of_char c) = of_char c"
proof -
  have "(of_char c :: nat) < 256" by simp
  also have "(256 :: nat) < 2 ^ LENGTH(16)" by simp
  finally show ?thesis
    unfolding unit_of_char_def by (rule unat_of_nat_small)
qed

lemma unit_of_char_inj [simp]: "unit_of_char c = unit_of_char d \<longleftrightarrow> c = d"
proof
  assume "unit_of_char c = unit_of_char d"
  then have "unat (unit_of_char c) = unat (unit_of_char d)" by simp
  then have "(of_char c :: nat) = of_char d" by (simp only: unat_unit_of_char)
  then show "c = d" by simp
qed simp

lemma lit_Nil [lit_eval]: "lit [] = []"
  by (simp add: lit_def)

lemma lit_Cons [lit_eval]: "lit (c # cs) = unit_of_char c # lit cs"
  by (simp add: lit_def)

lemmas [lit_eval] = unit_of_char_def

lemma lit_append [simp]: "lit (s @ t) = lit s @ lit t"
  by (simp add: lit_def)

lemma length_lit [simp]: "length (lit s) = length s"
  by (simp add: lit_def)

lemma lit_eq_iff [simp]: "lit s = lit t \<longleftrightarrow> s = t"
  by (simp add: lit_def inj_def)

lemma lit_eq_Nil_iff [simp]: "lit s = [] \<longleftrightarrow> s = []" "[] = lit s \<longleftrightarrow> s = []"
  by (auto simp: lit_def)

lemma filter_lit: "filter P (lit s) = lit (filter (\<lambda>c. P (unit_of_char c)) s)"
  by (simp add: lit_def filter_map comp_def)

lemma map_lit: "(\<And>c. c \<in> set s \<Longrightarrow> f (unit_of_char c) = unit_of_char (g c)) \<Longrightarrow>
    map f (lit s) = lit (map g s)"
  by (simp add: lit_def)

section \<open>Decimal rendering of integers\<close>

text \<open>
  \<open>Number.prototype.toString\<close> on an integer of magnitude below \<open>2^53\<close> is its
  decimal numeral, with a leading \<open>-\<close> for a negative one. \<open>nat_digits\<close> produces
  the digits, most significant first.
\<close>

definition digit_unit :: "nat \<Rightarrow> code_unit" where
  "digit_unit d = of_nat (48 + d)"

fun nat_digits :: "nat \<Rightarrow> jsstring" where
  "nat_digits n = (if n < 10 then [digit_unit n] else nat_digits (n div 10) @ [digit_unit (n mod 10)])"

declare nat_digits.simps [simp del]

definition int_digits :: "int \<Rightarrow> jsstring" where
  "int_digits i = (if i < 0 then 0x2D # nat_digits (nat (- i)) else nat_digits (nat i))"

definition is_digit_unit :: "code_unit \<Rightarrow> bool" where
  "is_digit_unit c \<longleftrightarrow> 0x30 \<le> c \<and> c \<le> 0x39"

lemma is_digit_unit_digit_unit: "d < 10 \<Longrightarrow> is_digit_unit (digit_unit d)"
proof -
  assume "d < 10"
  then have "d \<in> {0, 1, 2, 3, 4, 5, 6, 7, 8, 9}" by auto
  then show ?thesis
    by (auto simp: is_digit_unit_def digit_unit_def)
qed

lemma nat_digits_nonempty [simp]: "nat_digits n \<noteq> []"
  by (subst nat_digits.simps) simp

lemma nat_digits_all_digits: "list_all is_digit_unit (nat_digits n)"
proof (induction n rule: nat_digits.induct)
  case (1 n)
  show ?case
  proof (cases "n < 10")
    case True
    then show ?thesis
      by (subst nat_digits.simps) (simp add: is_digit_unit_digit_unit)
  next
    case False
    with "1.IH" show ?thesis
      by (subst nat_digits.simps) (simp add: is_digit_unit_digit_unit)
  qed
qed

lemma length_nat_digits_less: "n < 10 ^ k \<Longrightarrow> 0 < k \<Longrightarrow> length (nat_digits n) \<le> k"
proof (induction n arbitrary: k rule: nat_digits.induct)
  case (1 n)
  show ?case
  proof (cases "n < 10")
    case True
    with "1.prems" show ?thesis
      by (subst nat_digits.simps) simp
  next
    case False
    with "1.prems" obtain j where k: "k = Suc j" and j: "0 < j"
      by (cases k; cases "k - 1") auto
    from "1.prems" k have "n div 10 < 10 ^ j"
      by (simp add: less_mult_imp_div_less mult.commute)
    with "1.IH" False j have "length (nat_digits (n div 10)) \<le> j" by simp
    with False k show ?thesis
      by (subst nat_digits.simps) simp
  qed
qed

section \<open>Errors and results\<close>

text \<open>
  What a call of the modelled code can throw. \<open>TypeError\<close>, \<open>URIError\<close> and
  \<open>SyntaxError\<close> are raised by the engine (a property read on \<open>null\<close>, a call
  of something that is not a function, \<open>encodeURIComponent\<close> on a lone surrogate,
  \<open>response.json()\<close> on a malformed body); \<open>FetchFailed\<close> is the rejection of
  \<open>fetch\<close> itself. Their message texts are the engine's and are not modelled.
  \<open>Thrown status message\<close> is the \<open>Error\<close> object the sources build themselves:
  \<open>new Error(message)\<close> with its \<open>status\<close> property set; the status 0
  stands for an error on which no status was set.

  A \<open>message\<close> is what \<open>error.message\<close> reads: the text of an error the
  sources built, or the engine's text for an error the engine raised.
\<close>

datatype js_error =
    TypeError
  | URIError
  | SyntaxError
  | FetchFailed
  | Thrown nat jsstring

datatype message = Text jsstring | EngineMessage js_error

type_synonym 'a result = "js_error + 'a"

fun bind_result :: "'e + 'a \<Rightarrow> ('a \<Rightarrow> 'e + 'b) \<Rightarrow> 'e + 'b" where
  "bind_result (Inl e) f = Inl e"
| "bind_result (Inr x) f = f x"

lemma bind_result_cong [fundef_cong]:
  "m = m' \<Longrightarrow> (\<And>x. m' = Inr x \<Longrightarrow> f x = f' x) \<Longrightarrow> bind_result m f = bind_result m' f'"
  by (cases m') auto

lemma bind_result_eq_Inr_iff:
  "bind_result m f = Inr y \<longleftrightarrow> (\<exists>x. m = Inr x \<and> f x = Inr y)"
  by (cases m) auto

lemma bind_result_eq_Inl_iff:
  "bind_result m f = Inl e \<longleftrightarrow> m = Inl e \<or> (\<exists>x. m = Inr x \<and> f x = Inl e)"
  by (cases m) auto

lemma bind_result_Inr_right [simp]: "bind_result m Inr = m"
  by (cases m) auto

lemma bind_result_assoc:
  "bind_result (bind_result m f) g = bind_result m (\<lambda>x. bind_result (f x) g)"
  by (cases m) auto

section \<open>Lists\<close>

lemma length_filter_less_eq_sum:
  "length (filter P (xs @ ys)) \<le> length xs + length ys"
  by (simp add: add_mono)

lemma filter_eq_Nil_iff_none: "filter P xs = [] \<longleftrightarrow> (\<forall>x \<in> set xs. \<not> P x)"
  by (simp add: filter_empty_conv)

lemma hd_filter_append_singleton:
  "P x \<Longrightarrow> filter P (x # xs) = x # filter P xs"
  by simp

lemma list_all_filter_same [simp]: "list_all P (filter P xs)"
  by (simp add: list_all_iff)

lemma list_all_map_filter:
  "list_all Q (map f (filter P xs)) \<longleftrightarrow> (\<forall>x \<in> set xs. P x \<longrightarrow> Q (f x))"
  by (auto simp: list_all_iff)

end
