(* ===== verification/JS_Values.thy ===== *)
theory JS_Values
  imports JS_Prelude
begin

text \<open>
  The JavaScript values the server handles and the language operations the sources
  apply to them. A request body, a query string and a provider response are parsed
  JSON, so a value is \<open>undefined\<close>, \<open>null\<close>, a boolean, a number, a string, an
  array or an object with string keys; \<open>JFunction\<close> stands for a built-in method
  read as a property (the sources read \<open>.small\<close>, which every string inherits from
  \<open>String.prototype\<close>).

  Numbers are modelled for integer values (of magnitude below \<open>2^53\<close>, where
  \<open>ToString\<close> is the decimal numeral). An object is the association list of its own
  properties, in insertion order.

  The operations are the ones the sources use: truthiness (\<open>!x\<close>, \<open>if (x)\<close>,
  \<open>filter(Boolean)\<close>), \<open>||\<close>, property reads with and without optional
  chaining, \<open>ToString\<close> (\<open>String(x)\<close>, template literals, \<open>join\<close>), spreading
  an iterable, and \<open>map\<close> over an array. Each returns \<open>Inl TypeError\<close> where the
  engine throws.
\<close>

section \<open>Values\<close>

datatype jsval =
    JUndefined
  | JNull
  | JBool bool
  | JNum int
  | JStr jsstring
  | JArr "jsval list"
  | JObj "(jsstring \<times> jsval) list"
  | JFunction jsstring nat

fun nullish :: "jsval \<Rightarrow> bool" where
  "nullish JUndefined = True"
| "nullish JNull = True"
| "nullish _ = False"

text \<open>\<open>ToBoolean\<close>: what \<open>!x\<close>, \<open>if (x)\<close>, \<open>x || y\<close> and \<open>filter(Boolean)\<close> test.\<close>

fun truthy :: "jsval \<Rightarrow> bool" where
  "truthy JUndefined = False"
| "truthy JNull = False"
| "truthy (JBool b) = b"
| "truthy (JNum n) = (n \<noteq> 0)"
| "truthy (JStr s) = (s \<noteq> [])"
| "truthy (JArr xs) = True"
| "truthy (JObj kvs) = True"
| "truthy (JFunction name n) = True"

definition js_or :: "jsval \<Rightarrow> jsval \<Rightarrow> jsval" where
  "js_or a b = (if truthy a then a else b)"

definition filter_Boolean :: "jsval list \<Rightarrow> jsval list" where
  "filter_Boolean xs = filter truthy xs"

section \<open>Property reads\<close>

text \<open>
  \<open>lookup_prop v k\<close> is \<open>v[k]\<close> for a value that is neither \<open>null\<close> nor
  \<open>undefined\<close>: an own property of an object; \<open>length\<close> of an array or a string;
  the inherited method \<open>small\<close> of a string; \<open>name\<close> and \<open>length\<close> of a
  function; \<open>undefined\<close> otherwise. It is exact for the names the sources read
  (\<open>title\<close>, \<open>authors\<close>, \<open>name\<close>, \<open>cover\<close>, \<open>large\<close>, \<open>medium\<close>,
  \<open>small\<close>, \<open>url\<close>, \<open>volumeInfo\<close>, \<open>imageLinks\<close>, \<open>thumbnail\<close>,
  \<open>previewLink\<close>, \<open>infoLink\<close>, \<open>items\<close>, \<open>length\<close>, \<open>isbn\<close>, \<open>query\<close>,
  \<open>imageBase64\<close>, \<open>locale\<close>, \<open>asin\<close>, the key \<open>ISBN:...\<close>, and in the
  client \<open>choices\<close>, \<open>message\<close>, \<open>content\<close>, \<open>error\<close>, \<open>author\<close>,
  \<open>kindleUrl\<close> and \<open>uri\<close>); an index is read with \<open>opt_at\<close>, and the other
  inherited methods are not modelled.
\<close>

fun lookup_prop :: "jsval \<Rightarrow> jsstring \<Rightarrow> jsval" where
  "lookup_prop (JObj kvs) k = (case map_of kvs k of Some v \<Rightarrow> v | None \<Rightarrow> JUndefined)"
| "lookup_prop (JArr xs) k = (if k = lit ''length'' then JNum (int (length xs)) else JUndefined)"
| "lookup_prop (JStr s) k =
     (if k = lit ''length'' then JNum (int (length s))
      else if k = lit ''small'' then JFunction (lit ''small'') 0
      else JUndefined)"
| "lookup_prop (JFunction name n) k =
     (if k = lit ''name'' then JStr name
      else if k = lit ''length'' then JNum (int n)
      else JUndefined)"
| "lookup_prop _ k = JUndefined"

text \<open>\<open>v.k\<close> throws on \<open>null\<close> and \<open>undefined\<close>; \<open>v?.k\<close> gives \<open>undefined\<close> there.\<close>

definition get_prop :: "jsval \<Rightarrow> jsstring \<Rightarrow> jsval result" where
  "get_prop v k = (if nullish v then Inl TypeError else Inr (lookup_prop v k))"

definition opt_get :: "jsval \<Rightarrow> jsstring \<Rightarrow> jsval" where
  "opt_get v k = (if nullish v then JUndefined else lookup_prop v k)"

text \<open>
  \<open>v?.[n]\<close> for an index: an element of an array, a unit of a string, the own
  property of an object under the numeral, and \<open>undefined\<close> for everything else,
  \<open>null\<close> and \<open>undefined\<close> included.
\<close>

definition opt_at :: "jsval \<Rightarrow> nat \<Rightarrow> jsval" where
  "opt_at v n =
     (case v of
        JArr xs \<Rightarrow> if n < length xs then xs ! n else JUndefined
      | JStr s \<Rightarrow> if n < length s then JStr [s ! n] else JUndefined
      | JObj kvs \<Rightarrow> lookup_prop v (nat_digits n)
      | _ \<Rightarrow> JUndefined)"

section \<open>ToString\<close>

text \<open>
  \<open>to_string\<close> is the abstract operation \<open>ToString\<close>. An array joins the strings
  of its elements with a comma, \<open>null\<close> and \<open>undefined\<close> elements giving the
  empty string; a parsed object is \<open>[object Object]\<close> unless it has an own
  property \<open>toString\<close>, which (never being a function in parsed JSON) leaves no
  method that returns a primitive, and the engine throws. \<open>js_join\<close> is
  \<open>Array.prototype.join\<close> with a separator.
\<close>

fun to_string :: "jsval \<Rightarrow> jsstring result"
  and js_join :: "jsstring \<Rightarrow> jsval list \<Rightarrow> jsstring result" where
  "to_string JUndefined = Inr (lit ''undefined'')"
| "to_string JNull = Inr (lit ''null'')"
| "to_string (JBool b) = Inr (if b then lit ''true'' else lit ''false'')"
| "to_string (JNum n) = Inr (int_digits n)"
| "to_string (JStr s) = Inr s"
| "to_string (JArr xs) = js_join (lit '','') xs"
| "to_string (JObj kvs) =
     (if lit ''toString'' \<in> fst ` set kvs then Inl TypeError else Inr (lit ''[object Object]''))"
| "to_string (JFunction name n) = Inr (lit ''function '' @ name @ lit ''() { [native code] }'')"
| "js_join sep [] = Inr []"
| "js_join sep [x] = (if nullish x then Inr [] else to_string x)"
| "js_join sep (x # y # ys) =
     bind_result (if nullish x then Inr [] else to_string x) (\<lambda>s.
     bind_result (js_join sep (y # ys)) (\<lambda>r. Inr (s @ sep @ r)))"

text \<open>
  What \<open>join\<close> gives on strings: the strings with the separator between them. The
  function is stated for lists of any kind, so that it also joins lists of tokens.
\<close>

fun join_strings :: "'a list \<Rightarrow> 'a list list \<Rightarrow> 'a list" where
  "join_strings sep [] = []"
| "join_strings sep [s] = s"
| "join_strings sep (s # t # ss) = s @ sep @ join_strings sep (t # ss)"

section \<open>Iteration\<close>

text \<open>
  The string iterator yields code points: a leading surrogate followed by a trailing
  one is one element of two units, every other unit is an element of its own.
\<close>

definition is_lead :: "code_unit \<Rightarrow> bool" where
  "is_lead c \<longleftrightarrow> 0xD800 \<le> c \<and> c \<le> 0xDBFF"

definition is_trail :: "code_unit \<Rightarrow> bool" where
  "is_trail c \<longleftrightarrow> 0xDC00 \<le> c \<and> c \<le> 0xDFFF"

fun code_points :: "jsstring \<Rightarrow> jsstring list" where
  "code_points [] = []"
| "code_points [c] = [[c]]"
| "code_points (c # d # cs) =
     (if is_lead c \<and> is_trail d then [c, d] # code_points cs else [c] # code_points (d # cs))"

text \<open>
  Spreading \<open>...v\<close> into an array literal: the elements of an array, the code
  points of a string; anything else is not iterable.
\<close>

fun js_spread :: "jsval \<Rightarrow> jsval list result" where
  "js_spread (JArr xs) = Inr xs"
| "js_spread (JStr s) = Inr (map JStr (code_points s))"
| "js_spread _ = Inl TypeError"

text \<open>
  \<open>v.map(f)\<close>: on an array, \<open>f\<close> on each element from the left, the first
  exception ending the call; a value of any other kind has no callable \<open>map\<close>.
\<close>

fun map_result :: "('a \<Rightarrow> 'e + 'b) \<Rightarrow> 'a list \<Rightarrow> 'e + 'b list" where
  "map_result f [] = Inr []"
| "map_result f (x # xs) =
     bind_result (f x) (\<lambda>y. bind_result (map_result f xs) (\<lambda>ys. Inr (y # ys)))"

fun js_map :: "(jsval \<Rightarrow> 'b result) \<Rightarrow> jsval \<Rightarrow> 'b list result" where
  "js_map f (JArr xs) = map_result f xs"
| "js_map f _ = Inl TypeError"

section \<open>Facts\<close>

lemma truthy_not_nullish [simp]: "truthy v \<Longrightarrow> \<not> nullish v"
  by (cases v) auto

lemma nullish_iff: "nullish v \<longleftrightarrow> v = JUndefined \<or> v = JNull"
  by (cases v) auto

lemma truthy_JStr_lit [simp]: "truthy (JStr (lit s)) \<longleftrightarrow> s \<noteq> []"
  by simp

lemma js_or_truthy [simp]: "truthy a \<Longrightarrow> js_or a b = a"
  by (simp add: js_or_def)

lemma js_or_falsy [simp]: "\<not> truthy a \<Longrightarrow> js_or a b = b"
  by (simp add: js_or_def)

lemma truthy_js_or [simp]: "truthy (js_or a b) \<longleftrightarrow> truthy a \<or> truthy b"
  by (simp add: js_or_def)

lemma js_or_JNull_cases: "js_or a JNull = JNull \<and> \<not> truthy a \<or> js_or a JNull = a \<and> truthy a"
  by (simp add: js_or_def)

lemma js_or_assoc: "js_or (js_or a b) c = js_or a (js_or b c)"
  by (simp add: js_or_def)

lemma filter_Boolean_all_truthy [simp]: "list_all truthy (filter_Boolean xs)"
  by (simp add: filter_Boolean_def)

lemma length_filter_Boolean [simp]: "length (filter_Boolean xs) \<le> length xs"
  by (simp add: filter_Boolean_def)

lemma filter_Boolean_append [simp]:
  "filter_Boolean (xs @ ys) = filter_Boolean xs @ filter_Boolean ys"
  by (simp add: filter_Boolean_def)

lemma filter_Boolean_Cons:
  "filter_Boolean (x # xs) = (if truthy x then x # filter_Boolean xs else filter_Boolean xs)"
  by (simp add: filter_Boolean_def)

lemma filter_Boolean_Nil [simp]: "filter_Boolean [] = []"
  by (simp add: filter_Boolean_def)

lemma filter_Boolean_idem [simp]: "list_all truthy xs \<Longrightarrow> filter_Boolean xs = xs"
  by (simp add: filter_Boolean_def list_all_iff)

lemma set_filter_Boolean [simp]: "set (filter_Boolean xs) = {x \<in> set xs. truthy x}"
  by (simp add: filter_Boolean_def)

lemma get_prop_opt_get: "\<not> nullish v \<Longrightarrow> get_prop v k = Inr (opt_get v k)"
  by (simp add: get_prop_def opt_get_def)

lemma opt_get_nullish [simp]: "opt_get JUndefined k = JUndefined" "opt_get JNull k = JUndefined"
  by (simp_all add: opt_get_def)

lemma opt_get_JObj [simp]:
  "opt_get (JObj kvs) k = (case map_of kvs k of Some v \<Rightarrow> v | None \<Rightarrow> JUndefined)"
  by (simp add: opt_get_def)

lemma get_prop_nullish [simp]: "get_prop JUndefined k = Inl TypeError" "get_prop JNull k = Inl TypeError"
  by (simp_all add: get_prop_def)

lemma get_prop_truthy [simp]: "truthy v \<Longrightarrow> get_prop v k = Inr (lookup_prop v k)"
  by (simp add: get_prop_def)

lemma get_prop_cases: "get_prop v k = Inl TypeError \<and> nullish v \<or> get_prop v k = Inr (lookup_prop v k) \<and> \<not> nullish v"
  by (simp add: get_prop_def)

lemma get_prop_error: "get_prop v k = Inl e \<Longrightarrow> e = TypeError"
  by (simp add: get_prop_def split: if_splits)

text \<open>\<open>ToString\<close> throws nothing but a \<open>TypeError\<close>, and only below an object.\<close>

lemma to_string_error: "to_string v = Inl e \<Longrightarrow> e = TypeError"
  and js_join_error: "js_join sep xs = Inl e \<Longrightarrow> e = TypeError"
  by (induction v and sep xs rule: to_string_js_join.induct)
    (auto simp: bind_result_eq_Inl_iff split: if_splits)

lemma js_join_strings: "js_join sep (map JStr ss) = Inr (join_strings sep ss)"
  by (induction sep ss rule: join_strings.induct) simp_all

lemma filter_Boolean_strings:
  "filter_Boolean (map JStr ss) = map JStr (filter (\<lambda>s. s \<noteq> []) ss)"
  by (induction ss) (simp_all add: filter_Boolean_Cons)

lemma join_strings_concat: "concat ss = join_strings [] ss"
  by (induction ss rule: induct_list012) simp_all

lemma length_join_strings:
  "length (join_strings sep ss) = sum_list (map length ss) + length sep * (length ss - 1)"
  by (induction sep ss rule: join_strings.induct) simp_all

lemma map_result_Inr_iff:
  "map_result f xs = Inr ys \<longleftrightarrow> list_all2 (\<lambda>x y. f x = Inr y) xs ys"
proof (induction xs arbitrary: ys)
  case Nil
  show ?case by auto
next
  case (Cons x xs)
  show ?case
    by (cases ys) (auto simp: bind_result_eq_Inr_iff Cons.IH)
qed

lemma map_result_Inr_fun [simp]: "map_result (\<lambda>x. Inr (f x)) xs = Inr (map f xs)"
  by (induction xs) simp_all

lemma map_result_length: "map_result f xs = Inr ys \<Longrightarrow> length ys = length xs"
  by (simp add: map_result_Inr_iff list_all2_lengthD)

lemma map_result_total: "(\<And>x. x \<in> set xs \<Longrightarrow> f x = Inr (g x)) \<Longrightarrow> map_result f xs = Inr (map g xs)"
  by (induction xs) auto

lemma map_result_Inl: "map_result f xs = Inl e \<Longrightarrow> \<exists>x \<in> set xs. f x = Inl e"
  by (induction xs) (auto simp: bind_result_eq_Inl_iff)

lemma js_map_Inr_iff:
  "js_map f v = Inr ys \<longleftrightarrow> (\<exists>xs. v = JArr xs \<and> list_all2 (\<lambda>x y. f x = Inr y) xs ys)"
  by (cases v) (auto simp: map_result_Inr_iff)

lemma concat_code_points [simp]: "concat (code_points s) = s"
  by (induction s rule: code_points.induct) auto

lemma code_points_nonempty [simp]: "[] \<notin> set (code_points s)"
  by (induction s rule: code_points.induct) auto

lemma js_spread_truthy_elems: "js_spread (JStr s) = Inr xs \<Longrightarrow> list_all truthy xs"
  by (auto simp: list_all_iff)

end
