(* ===== verification/Validation.thy ===== *)
theory Validation
  imports JS_Values
begin

text \<open>
  The identifier validator of \<open>src/src/utils/validation.js\<close>: \<open>normalizeIsbn\<close>
  and \<open>assertIsbn\<close>. The argument is whatever the request carried (a JSON value
  of the body, a value of the parsed query string), so it is a \<open>jsval\<close>; the
  result \<open>null\<close> is \<open>None\<close>.

  \<open>replace(/[^0-9X]/gi, "")\<close> deletes every code unit outside the class. Under
  the \<open>i\<close> flag a unit is in the class when its canonical (upper case) form is a
  digit or \<open>X\<close>, which holds for the digits, \<open>X\<close> and \<open>x\<close> and for nothing
  else, so the units kept are those of \<open>is_isbn_unit\<close>. \<open>toUpperCase\<close> is
  modelled on the ASCII letters; it is only applied to what the replacement kept.
\<close>

section \<open>Definitions\<close>

definition is_isbn_unit :: "code_unit \<Rightarrow> bool" where
  "is_isbn_unit c \<longleftrightarrow> is_digit_unit c \<or> c = 0x58 \<or> c = 0x78"

definition upper_unit :: "code_unit \<Rightarrow> code_unit" where
  "upper_unit c = (if 0x61 \<le> c \<and> c \<le> 0x7A then c - 0x20 else c)"

definition toUpperCase :: "jsstring \<Rightarrow> jsstring" where
  "toUpperCase s = map upper_unit s"

definition invalid_isbn :: js_error where
  "invalid_isbn = Thrown 400 (lit ''Invalid ISBN. Provide a 10 or 13 digit ISBN.'')"

definition normalizeIsbn :: "jsval \<Rightarrow> jsstring option result" where
  "normalizeIsbn isbn =
     (if \<not> truthy isbn then Inr None
      else
        bind_result (to_string isbn) (\<lambda>s.
          let cleaned = toUpperCase (filter is_isbn_unit s) in
          if length cleaned = 10 \<or> length cleaned = 13 then Inr (Some cleaned) else Inr None))"

definition assertIsbn :: "jsval \<Rightarrow> jsstring result" where
  "assertIsbn isbn =
     bind_result (normalizeIsbn isbn) (\<lambda>normalized.
       case normalized of
         None \<Rightarrow> Inl invalid_isbn
       | Some n \<Rightarrow> if n = [] then Inl invalid_isbn else Inr n)"

text \<open>
  The shape every accepted identifier has: ten or thirteen units, each a digit or
  the capital \<open>X\<close>.
\<close>

definition is_normal_unit :: "code_unit \<Rightarrow> bool" where
  "is_normal_unit c \<longleftrightarrow> is_digit_unit c \<or> c = 0x58"

definition normalized_isbn :: "jsstring \<Rightarrow> bool" where
  "normalized_isbn s \<longleftrightarrow> (length s = 10 \<or> length s = 13) \<and> list_all is_normal_unit s"

section \<open>Units\<close>

lemmas isbn_eval =
  normalizeIsbn_def assertIsbn_def invalid_isbn_def toUpperCase_def upper_unit_def
  is_isbn_unit_def is_normal_unit_def is_digit_unit_def normalized_isbn_def

lemma upper_unit_isbn: "is_isbn_unit c \<Longrightarrow> is_normal_unit (upper_unit c)"
  by (auto simp: is_isbn_unit_def is_normal_unit_def upper_unit_def is_digit_unit_def
      word_le_nat_alt)

lemma upper_unit_normal [simp]: "is_normal_unit c \<Longrightarrow> upper_unit c = c"
  by (auto simp: is_normal_unit_def upper_unit_def is_digit_unit_def word_le_nat_alt)

lemma is_normal_isbn_unit [simp]: "is_normal_unit c \<Longrightarrow> is_isbn_unit c"
  by (auto simp: is_normal_unit_def is_isbn_unit_def)

lemma upper_unit_idem [simp]: "upper_unit (upper_unit c) = upper_unit c"
  by (auto simp: upper_unit_def word_le_nat_alt unat_sub_if_size word_size)

section \<open>Strings\<close>

lemma length_toUpperCase [simp]: "length (toUpperCase s) = length s"
  by (simp add: toUpperCase_def)

lemma toUpperCase_append [simp]: "toUpperCase (s @ t) = toUpperCase s @ toUpperCase t"
  by (simp add: toUpperCase_def)

lemma toUpperCase_idem [simp]: "toUpperCase (toUpperCase s) = toUpperCase s"
  by (simp add: toUpperCase_def)

lemma cleaned_normal: "list_all is_normal_unit (toUpperCase (filter is_isbn_unit s))"
  by (simp add: toUpperCase_def list_all_map_filter upper_unit_isbn)

lemma toUpperCase_normal: "list_all is_normal_unit s \<Longrightarrow> toUpperCase s = s"
  by (induction s) (simp_all add: toUpperCase_def)

lemma filter_isbn_normal: "list_all is_normal_unit s \<Longrightarrow> filter is_isbn_unit s = s"
  by (induction s) simp_all

lemma normalized_isbn_nonempty: "normalized_isbn s \<Longrightarrow> s \<noteq> []"
  by (auto simp: normalized_isbn_def)

lemma normalized_isbn_truthy [simp]: "normalized_isbn s \<Longrightarrow> truthy (JStr s)"
  by (simp add: normalized_isbn_nonempty)

section \<open>normalizeIsbn\<close>

lemma normalizeIsbn_JStr:
  "normalizeIsbn (JStr s) =
     Inr (if length (filter is_isbn_unit s) = 10 \<or> length (filter is_isbn_unit s) = 13
          then Some (toUpperCase (filter is_isbn_unit s)) else None)"
  by (cases "s = []") (simp_all add: normalizeIsbn_def)

lemma normalizeIsbn_falsy: "\<not> truthy v \<Longrightarrow> normalizeIsbn v = Inr None"
  by (simp add: normalizeIsbn_def)

lemma normalizeIsbn_to_string:
  "truthy v \<Longrightarrow> to_string v = Inr s \<Longrightarrow> normalizeIsbn v = normalizeIsbn (JStr s)"
  by (cases "s = []") (simp_all add: normalizeIsbn_def)

lemma normalizeIsbn_Some_cleaned:
  "normalizeIsbn v = Inr (Some n) \<Longrightarrow>
     \<exists>s. to_string v = Inr s \<and> n = toUpperCase (filter is_isbn_unit s)"
  by (auto simp: normalizeIsbn_def bind_result_eq_Inr_iff Let_def split: if_splits)

lemma normalizeIsbn_normalized: "normalizeIsbn v = Inr (Some n) \<Longrightarrow> normalized_isbn n"
  by (auto simp: normalizeIsbn_def bind_result_eq_Inr_iff Let_def normalized_isbn_def
      cleaned_normal split: if_splits)

lemma normalizeIsbn_fixed: "normalized_isbn n \<Longrightarrow> normalizeIsbn (JStr n) = Inr (Some n)"
  by (auto simp: normalizeIsbn_JStr normalized_isbn_def filter_isbn_normal toUpperCase_normal)

lemma normalizeIsbn_error: "normalizeIsbn v = Inl e \<Longrightarrow> e = TypeError"
  by (auto simp: normalizeIsbn_def bind_result_eq_Inl_iff Let_def
      dest: to_string_error split: if_splits)

section \<open>assertIsbn\<close>

lemma assertIsbn_cases:
  "normalizeIsbn v = Inl e \<Longrightarrow> assertIsbn v = Inl e"
  "normalizeIsbn v = Inr None \<Longrightarrow> assertIsbn v = Inl invalid_isbn"
  "normalizeIsbn v = Inr (Some n) \<Longrightarrow> assertIsbn v = Inr n"
proof -
  assume "normalizeIsbn v = Inr (Some n)"
  moreover from this have "n \<noteq> []"
    by (blast dest: normalizeIsbn_normalized normalized_isbn_nonempty)
  ultimately show "assertIsbn v = Inr n" by (simp add: assertIsbn_def)
qed (simp_all add: assertIsbn_def)

lemma assertIsbn_Inr_iff: "assertIsbn v = Inr n \<longleftrightarrow> normalizeIsbn v = Inr (Some n)"
proof (cases "normalizeIsbn v")
  case (Inl e)
  then show ?thesis by (simp add: assertIsbn_cases)
next
  case (Inr r)
  then show ?thesis by (cases r) (auto simp: assertIsbn_cases)
qed

lemma assertIsbn_Inl_iff:
  "assertIsbn v = Inl e \<longleftrightarrow>
     normalizeIsbn v = Inl e \<or> normalizeIsbn v = Inr None \<and> e = invalid_isbn"
proof (cases "normalizeIsbn v")
  case (Inl e')
  then show ?thesis by (simp add: assertIsbn_cases)
next
  case (Inr r)
  then show ?thesis by (cases r) (auto simp: assertIsbn_cases)
qed

lemma assertIsbn_normalized: "assertIsbn v = Inr n \<Longrightarrow> normalized_isbn n"
  by (simp add: assertIsbn_Inr_iff normalizeIsbn_normalized)

section \<open>Properties\<close>

text \<open>
  C4 (type). Whatever \<open>normalizeIsbn\<close> accepts is a normalised identifier: ten or
  thirteen units, each a digit or the capital \<open>X\<close>, obtained from the string of the
  argument by deleting the other units and upper-casing.
\<close>

theorem normalizeIsbn_sound:
  assumes "normalizeIsbn v = Inr (Some n)"
  shows "normalized_isbn n \<and> (\<exists>s. to_string v = Inr s \<and> n = toUpperCase (filter is_isbn_unit s))"
  using assms by (simp add: normalizeIsbn_normalized normalizeIsbn_Some_cleaned)

lemma normalizeIsbn_hyphenated:
  "normalizeIsbn (JStr (lit ''978-0-441-01359-x'')) = Inr (Some (lit ''978044101359X''))"
  by (simp add: normalizeIsbn_JStr lit_eval isbn_eval)

theorem normalizeIsbn_sound_witness:
  "normalizeIsbn (JStr (lit ''978-0-441-01359-x'')) = Inr (Some (lit ''978044101359X'')) \<and>
   normalized_isbn (lit ''978044101359X'')"
  using normalizeIsbn_sound [OF normalizeIsbn_hyphenated] normalizeIsbn_hyphenated by blast

text \<open>
  C29 (functional). Normalising is idempotent: an accepted identifier, passed again, is
  accepted unchanged.
\<close>

theorem normalizeIsbn_idempotent:
  "normalizeIsbn v = Inr (Some n) \<Longrightarrow> normalizeIsbn (JStr n) = Inr (Some n)"
  by (simp add: normalizeIsbn_normalized normalizeIsbn_fixed)

theorem normalizeIsbn_idempotent_witness:
  "normalizeIsbn (JStr (lit ''978-0-441-01359-x'')) = Inr (Some (lit ''978044101359X'')) \<and>
   normalizeIsbn (JStr (lit ''978044101359X'')) = Inr (Some (lit ''978044101359X''))"
  using normalizeIsbn_idempotent [OF normalizeIsbn_hyphenated] normalizeIsbn_hyphenated by blast

text \<open>
  C21 (error). \<open>assertIsbn\<close> fails exactly when \<open>normalizeIsbn\<close> fails or returns
  \<open>null\<close>; in the second case the error carries the status 400 and the message of
  the source.
\<close>

theorem assertIsbn_rejects:
  "assertIsbn v = Inl e \<longleftrightarrow>
     normalizeIsbn v = Inl e \<or>
     normalizeIsbn v = Inr None \<and>
       e = Thrown 400 (lit ''Invalid ISBN. Provide a 10 or 13 digit ISBN.'')"
  by (simp add: assertIsbn_Inl_iff invalid_isbn_def)

end
