(* ===== verification/URI_Encoding.thy ===== *)
theory URI_Encoding
  imports JS_Values
begin

text \<open>
  The two URL encoders the sources call: \<open>encodeURIComponent\<close> (the search link of
  \<open>links.js\<close>) and the \<open>application/x-www-form-urlencoded\<close> serialiser behind
  \<open>url.searchParams.set\<close> and \<open>url.toString()\<close> (the provider requests of
  \<open>books.js\<close>). Both turn UTF-16 code units into code points, code points into
  UTF-8 bytes and bytes into \<open>%XX\<close>; they differ in the units they leave alone,
  in the space, and in what a lone surrogate does: \<open>encodeURIComponent\<close> throws
  a \<open>URIError\<close>, the serialiser encodes U+FFFD in its place.
\<close>

section \<open>Code points and UTF-8\<close>

definition pair_code_point :: "code_unit \<Rightarrow> code_unit \<Rightarrow> nat" where
  "pair_code_point c d = (unat c - 0xD800) * 0x400 + (unat d - 0xDC00) + 0x10000"

definition utf8_encode :: "nat \<Rightarrow> byte list" where
  "utf8_encode cp =
     (if cp < 0x80 then [of_nat cp]
      else if cp < 0x800 then [of_nat (0xC0 + cp div 64), of_nat (0x80 + cp mod 64)]
      else if cp < 0x10000 then
        [of_nat (0xE0 + cp div 4096), of_nat (0x80 + cp div 64 mod 64), of_nat (0x80 + cp mod 64)]
      else
        [of_nat (0xF0 + cp div 262144), of_nat (0x80 + cp div 4096 mod 64),
         of_nat (0x80 + cp div 64 mod 64), of_nat (0x80 + cp mod 64)])"

definition hex_unit :: "nat \<Rightarrow> code_unit" where
  "hex_unit n = (if n < 10 then of_nat (48 + n) else of_nat (55 + n))"

definition percent_byte :: "byte \<Rightarrow> jsstring" where
  "percent_byte b = [0x25, hex_unit (unat b div 16), hex_unit (unat b mod 16)]"

definition percent_bytes :: "byte list \<Rightarrow> jsstring" where
  "percent_bytes bs = concat (map percent_byte bs)"

section \<open>encodeURIComponent\<close>

definition is_alnum_unit :: "code_unit \<Rightarrow> bool" where
  "is_alnum_unit c \<longleftrightarrow>
     (0x30 \<le> c \<and> c \<le> 0x39) \<or> (0x41 \<le> c \<and> c \<le> 0x5A) \<or> (0x61 \<le> c \<and> c \<le> 0x7A)"

text \<open>The units \<open>encodeURIComponent\<close> copies: letters, digits and \<open>- _ . ! ~ * ' ( )\<close>.\<close>

definition uri_unreserved :: "code_unit \<Rightarrow> bool" where
  "uri_unreserved c \<longleftrightarrow>
     is_alnum_unit c \<or> c \<in> {0x2D, 0x5F, 0x2E, 0x21, 0x7E, 0x2A, 0x27, 0x28, 0x29}"

text \<open>What a percent-encoded string is made of: the copied units and \<open>%\<close>.\<close>

definition uri_safe :: "code_unit \<Rightarrow> bool" where
  "uri_safe c \<longleftrightarrow> uri_unreserved c \<or> c = 0x25"

fun encodeURIComponent :: "jsstring \<Rightarrow> jsstring result" where
  "encodeURIComponent [] = Inr []"
| "encodeURIComponent (c # cs) =
     (if uri_unreserved c then
        bind_result (encodeURIComponent cs) (\<lambda>r. Inr (c # r))
      else if is_trail c then Inl URIError
      else if is_lead c then
        (case cs of
           [] \<Rightarrow> Inl URIError
         | d # ds \<Rightarrow>
             if is_trail d then
               bind_result (encodeURIComponent ds)
                 (\<lambda>r. Inr (percent_bytes (utf8_encode (pair_code_point c d)) @ r))
             else Inl URIError)
      else
        bind_result (encodeURIComponent cs)
          (\<lambda>r. Inr (percent_bytes (utf8_encode (unat c)) @ r)))"

text \<open>
  A string is well formed when every surrogate is half of a pair
  (\<open>String.prototype.isWellFormed\<close>).
\<close>

fun well_formed :: "jsstring \<Rightarrow> bool" where
  "well_formed [] = True"
| "well_formed (c # cs) =
     (if is_trail c then False
      else if is_lead c then (case cs of [] \<Rightarrow> False | d # ds \<Rightarrow> is_trail d \<and> well_formed ds)
      else well_formed cs)"

section \<open>The form-urlencoded serialiser\<close>

text \<open>
  \<open>searchParams.set(name, value)\<close> replaces the value of the first pair named
  \<open>name\<close> and drops the other pairs of that name, or appends a pair when there is
  none. The URL's string is the base, \<open>?\<close>, and the pairs as \<open>name=value\<close> joined
  by \<open>&\<close>; in names and values letters, digits and \<open>* - . _\<close> stand for
  themselves, a space is \<open>+\<close>, a lone surrogate is U+FFFD and every other code
  point is the \<open>%XX\<close> of its UTF-8 bytes.
\<close>

type_synonym search_params = "(jsstring \<times> jsstring) list"

fun searchParams_set :: "search_params \<Rightarrow> jsstring \<Rightarrow> jsstring \<Rightarrow> search_params" where
  "searchParams_set [] name v = [(name, v)]"
| "searchParams_set ((k, w) # ps) name v =
     (if k = name then (name, v) # filter (\<lambda>p. fst p \<noteq> name) ps
      else (k, w) # searchParams_set ps name v)"

definition form_safe :: "code_unit \<Rightarrow> bool" where
  "form_safe c \<longleftrightarrow> is_alnum_unit c \<or> c \<in> {0x2A, 0x2D, 0x2E, 0x5F}"

fun form_encode :: "jsstring \<Rightarrow> jsstring" where
  "form_encode [] = []"
| "form_encode (c # cs) =
     (if form_safe c then c # form_encode cs
      else if c = 0x20 then 0x2B # form_encode cs
      else if is_lead c then
        (case cs of
           [] \<Rightarrow> percent_bytes (utf8_encode 0xFFFD)
         | d # ds \<Rightarrow>
             if is_trail d then percent_bytes (utf8_encode (pair_code_point c d)) @ form_encode ds
             else percent_bytes (utf8_encode 0xFFFD) @ form_encode cs)
      else if is_trail c then percent_bytes (utf8_encode 0xFFFD) @ form_encode cs
      else percent_bytes (utf8_encode (unat c)) @ form_encode cs)"

fun serialize_params :: "search_params \<Rightarrow> jsstring" where
  "serialize_params [] = []"
| "serialize_params [(k, v)] = form_encode k @ 0x3D # form_encode v"
| "serialize_params ((k, v) # p # ps) =
     form_encode k @ 0x3D # form_encode v @ 0x26 # serialize_params (p # ps)"

definition url_toString :: "jsstring \<Rightarrow> search_params \<Rightarrow> jsstring" where
  "url_toString base ps = (if ps = [] then base else base @ 0x3F # serialize_params ps)"

section \<open>Facts\<close>

lemmas uri_eval =
  uri_unreserved_def is_alnum_unit_def is_lead_def is_trail_def form_safe_def
  percent_bytes_def percent_byte_def hex_unit_def utf8_encode_def pair_code_point_def

subsection \<open>Bytes and hex digits\<close>

lemma is_alnum_unit_unat:
  "is_alnum_unit c \<longleftrightarrow>
     (48 \<le> unat c \<and> unat c \<le> 57) \<or> (65 \<le> unat c \<and> unat c \<le> 90) \<or> (97 \<le> unat c \<and> unat c \<le> 122)"
  by (simp add: is_alnum_unit_def word_le_nat_alt)

lemma unat_hex_unit: "n < 16 \<Longrightarrow> unat (hex_unit n) = (if n < 10 then 48 + n else 55 + n)"
  by (simp add: hex_unit_def unat_of_nat_small del: of_nat_add)

lemma hex_unit_alnum: "n < 16 \<Longrightarrow> is_alnum_unit (hex_unit n)"
  by (simp add: is_alnum_unit_unat unat_hex_unit)

lemma unat_byte_div16: "unat (b :: byte) div 16 < 16"
proof -
  have "unat b < 2 ^ LENGTH(8)" by (rule unsigned_less)
  then show ?thesis by simp
qed

lemma unat_unit_less: "unat (c :: code_unit) < 0x10000"
  using unsigned_less [of c, where 'a = nat] by simp

subsection \<open>Surrogates\<close>

lemma surrogate_not_unreserved: "is_lead c \<or> is_trail c \<Longrightarrow> \<not> uri_unreserved c"
  by (auto simp: is_lead_def is_trail_def uri_unreserved_def is_alnum_unit_def word_le_nat_alt)

lemma lead_not_trail: "is_lead c \<Longrightarrow> \<not> is_trail c"
  by (auto simp: is_lead_def is_trail_def word_le_nat_alt)

subsection \<open>The equations of encodeURIComponent, by the kind of the first unit\<close>

lemma encodeURIComponent_unreserved:
  "uri_unreserved c \<Longrightarrow>
     encodeURIComponent (c # cs) = bind_result (encodeURIComponent cs) (\<lambda>r. Inr (c # r))"
  by simp

lemma encodeURIComponent_trail: "is_trail c \<Longrightarrow> encodeURIComponent (c # cs) = Inl URIError"
  by (simp add: surrogate_not_unreserved)

lemma encodeURIComponent_lead_end: "is_lead c \<Longrightarrow> encodeURIComponent [c] = Inl URIError"
  by (simp add: surrogate_not_unreserved)

lemma encodeURIComponent_lead_pair:
  "is_lead c \<Longrightarrow> is_trail d \<Longrightarrow>
     encodeURIComponent (c # d # ds) =
       bind_result (encodeURIComponent ds)
         (\<lambda>r. Inr (percent_bytes (utf8_encode (pair_code_point c d)) @ r))"
  by (simp add: surrogate_not_unreserved lead_not_trail)

lemma encodeURIComponent_lead_unpaired:
  "is_lead c \<Longrightarrow> \<not> is_trail d \<Longrightarrow> encodeURIComponent (c # d # ds) = Inl URIError"
  by (simp add: surrogate_not_unreserved lead_not_trail)

lemma encodeURIComponent_other:
  "\<not> uri_unreserved c \<Longrightarrow> \<not> is_lead c \<Longrightarrow> \<not> is_trail c \<Longrightarrow>
     encodeURIComponent (c # cs) =
       bind_result (encodeURIComponent cs) (\<lambda>r. Inr (percent_bytes (utf8_encode (unat c)) @ r))"
  by simp

lemmas encodeURIComponent_eqs =
  encodeURIComponent_unreserved encodeURIComponent_trail
  encodeURIComponent_lead_end encodeURIComponent_lead_pair encodeURIComponent_lead_unpaired
  encodeURIComponent_other

lemma well_formed_eqs:
  "well_formed []"
  "is_trail c \<Longrightarrow> \<not> well_formed (c # cs)"
  "is_lead c \<Longrightarrow> \<not> well_formed [c]"
  "is_lead c \<Longrightarrow> is_trail d \<Longrightarrow> well_formed (c # d # ds) = well_formed ds"
  "is_lead c \<Longrightarrow> \<not> is_trail d \<Longrightarrow> \<not> well_formed (c # d # ds)"
  "\<not> is_lead c \<Longrightarrow> \<not> is_trail c \<Longrightarrow> well_formed (c # cs) = well_formed cs"
  by (simp_all add: lead_not_trail)

declare encodeURIComponent.simps(2) [simp del] well_formed.simps(2) [simp del]

lemma units_induct [case_names Nil unreserved trail lead_end lead_pair lead_unpaired other]:
  assumes "P []"
    and "\<And>c cs. uri_unreserved c \<Longrightarrow> \<not> is_lead c \<Longrightarrow> \<not> is_trail c \<Longrightarrow> P cs \<Longrightarrow> P (c # cs)"
    and "\<And>c cs. is_trail c \<Longrightarrow> P (c # cs)"
    and "\<And>c. is_lead c \<Longrightarrow> P [c]"
    and "\<And>c d ds. is_lead c \<Longrightarrow> is_trail d \<Longrightarrow> P ds \<Longrightarrow> P (c # d # ds)"
    and "\<And>c d ds. is_lead c \<Longrightarrow> \<not> is_trail d \<Longrightarrow> P (c # d # ds)"
    and "\<And>c cs. \<not> uri_unreserved c \<Longrightarrow> \<not> is_lead c \<Longrightarrow> \<not> is_trail c \<Longrightarrow> P cs \<Longrightarrow> P (c # cs)"
  shows "P s"
proof (induction s rule: length_induct)
  case (1 s)
  show ?case
  proof (cases s)
    case Nil
    with assms(1) show ?thesis by simp
  next
    case (Cons c cs)
    with 1 have IH: "P cs" by simp
    consider (t) "is_trail c" | (l) "is_lead c" | (u) "uri_unreserved c" "\<not> is_lead c" "\<not> is_trail c"
      | (o) "\<not> uri_unreserved c" "\<not> is_lead c" "\<not> is_trail c"
      by blast
    then show ?thesis
    proof cases
      case t
      with Cons assms(3) show ?thesis by simp
    next
      case l
      show ?thesis
      proof (cases cs)
        case Nil
        with Cons l assms(4) show ?thesis by simp
      next
        case (Cons d ds)
        with 1 \<open>s = c # cs\<close> have "P ds" by simp
        with Cons \<open>s = c # cs\<close> l assms(5,6) show ?thesis by (cases "is_trail d") simp_all
      qed
    next
      case u
      with Cons IH assms(2) show ?thesis by simp
    next
      case o
      with Cons IH assms(7) show ?thesis by simp
    qed
  qed
qed

subsection \<open>What the encoding returns\<close>

lemma uri_unreserved_safe: "uri_unreserved c \<Longrightarrow> uri_safe c"
  by (simp add: uri_safe_def)

lemma percent_byte_safe: "list_all uri_safe (percent_byte b)"
  by (simp add: percent_byte_def uri_safe_def uri_unreserved_def hex_unit_alnum unat_byte_div16)

lemma percent_bytes_safe [simp]: "list_all uri_safe (percent_bytes bs)"
  by (induction bs) (simp_all add: percent_bytes_def percent_byte_safe)

lemma encodeURIComponent_safe:
  "encodeURIComponent s = Inr t \<Longrightarrow> list_all uri_safe t"
  by (induction s arbitrary: t rule: units_induct)
    (auto simp: encodeURIComponent_eqs bind_result_eq_Inr_iff uri_unreserved_safe)

lemma encodeURIComponent_error:
  "encodeURIComponent s = Inl e \<Longrightarrow> e = URIError"
  by (induction s rule: units_induct)
    (auto simp: encodeURIComponent_eqs bind_result_eq_Inl_iff)

lemma encodeURIComponent_well_formed:
  "(\<exists>t. encodeURIComponent s = Inr t) \<longleftrightarrow> well_formed s"
  by (induction s rule: units_induct)
    (auto simp: encodeURIComponent_eqs well_formed_eqs bind_result_eq_Inr_iff)

lemma encodeURIComponent_id:
  "list_all uri_unreserved s \<Longrightarrow> encodeURIComponent s = Inr s"
  by (induction s) (auto simp: encodeURIComponent_eqs)

lemma length_percent_bytes [simp]: "length (percent_bytes bs) = 3 * length bs"
  by (induction bs) (simp_all add: percent_bytes_def percent_byte_def)

lemma length_utf8_encode: "length (utf8_encode cp) \<le> 4" "0 < length (utf8_encode cp)"
  by (simp_all add: utf8_encode_def)

lemma length_utf8_encode_bmp: "cp < 0x10000 \<Longrightarrow> length (utf8_encode cp) \<le> 3"
  by (simp add: utf8_encode_def)

lemma encodeURIComponent_Dune:
  "encodeURIComponent (lit ''Dune: Part One Frank Herbert'') =
     Inr (lit ''Dune%3A%20Part%20One%20Frank%20Herbert'')"
  by (simp add: lit_eval uri_eval encodeURIComponent.simps(2))

section \<open>Properties\<close>

text \<open>
  C13 (safety). What \<open>encodeURIComponent\<close> returns holds nothing but unreserved
  units and \<open>%\<close>: no space, colon, slash, question mark or ampersand survives.
\<close>

theorem encodeURIComponent_url_safe:
  "encodeURIComponent s = Inr t \<Longrightarrow>
     list_all uri_safe t \<and> set t \<inter> {0x20, 0x26, 0x2F, 0x3A, 0x3F} = {}"
proof -
  assume "encodeURIComponent s = Inr t"
  then have "list_all uri_safe t" by (rule encodeURIComponent_safe)
  moreover have "\<not> uri_safe 0x20" "\<not> uri_safe 0x26" "\<not> uri_safe 0x2F" "\<not> uri_safe 0x3A"
    "\<not> uri_safe 0x3F"
    by (simp_all add: uri_safe_def uri_eval)
  ultimately show ?thesis by (auto simp: list_all_iff)
qed

theorem encodeURIComponent_url_safe_witness:
  "encodeURIComponent (lit ''Dune: Part One Frank Herbert'') =
     Inr (lit ''Dune%3A%20Part%20One%20Frank%20Herbert'') \<and>
   list_all uri_safe (lit ''Dune%3A%20Part%20One%20Frank%20Herbert'')"
  using encodeURIComponent_url_safe [OF encodeURIComponent_Dune] encodeURIComponent_Dune by blast

text \<open>
  C30 (error). \<open>encodeURIComponent\<close> returns a string exactly on the well-formed
  strings; on a string with a lone surrogate it throws, and what it throws is a
  \<open>URIError\<close>.
\<close>

theorem encodeURIComponent_throws_iff:
  "encodeURIComponent s = Inl e \<longleftrightarrow> e = URIError \<and> \<not> well_formed s"
proof
  assume l: "encodeURIComponent s = Inl e"
  then have "e = URIError" by (rule encodeURIComponent_error)
  moreover from l have "\<not> (\<exists>t. encodeURIComponent s = Inr t)" by simp
  ultimately show "e = URIError \<and> \<not> well_formed s"
    by (simp add: encodeURIComponent_well_formed)
next
  assume r: "e = URIError \<and> \<not> well_formed s"
  then have "\<not> (\<exists>t. encodeURIComponent s = Inr t)"
    by (simp add: encodeURIComponent_well_formed)
  then obtain e' where e': "encodeURIComponent s = Inl e'"
    by (cases "encodeURIComponent s") auto
  with r show "encodeURIComponent s = Inl e"
    by (simp add: encodeURIComponent_error [OF e'])
qed

text \<open>
  C31 (bounds). The encoding of a string of \<open>n\<close> units has at least \<open>n\<close> and at
  most \<open>9 n\<close> units: a unit is copied or becomes at most three \<open>%XX\<close> groups.
\<close>

theorem encodeURIComponent_bounds:
  "encodeURIComponent s = Inr t \<Longrightarrow> length s \<le> length t \<and> length t \<le> 9 * length s"
proof (induction s arbitrary: t rule: units_induct)
  case Nil
  then show ?case by simp
next
  case (unreserved c cs)
  then obtain r where "encodeURIComponent cs = Inr r" "t = c # r"
    by (auto simp: encodeURIComponent_eqs bind_result_eq_Inr_iff)
  with unreserved.IH [of r] show ?case by simp
next
  case (lead_pair c d ds)
  let ?bs = "utf8_encode (pair_code_point c d)"
  from lead_pair obtain r where r: "encodeURIComponent ds = Inr r" "t = percent_bytes ?bs @ r"
    by (auto simp: encodeURIComponent_eqs bind_result_eq_Inr_iff)
  have "0 < length ?bs" "length ?bs \<le> 4"
    by (rule length_utf8_encode)+
  moreover have "length t = 3 * length ?bs + length r" "length (c # d # ds) = length ds + 2"
    using r by simp_all
  ultimately show ?case using lead_pair.IH [OF r(1)] by linarith
next
  case (other c cs)
  let ?bs = "utf8_encode (unat c)"
  from other obtain r where r: "encodeURIComponent cs = Inr r" "t = percent_bytes ?bs @ r"
    by (auto simp: encodeURIComponent_eqs bind_result_eq_Inr_iff)
  have "0 < length ?bs" "length ?bs \<le> 3"
    by (rule length_utf8_encode, rule length_utf8_encode_bmp, rule unat_unit_less)
  moreover have "length t = 3 * length ?bs + length r" "length (c # cs) = length cs + 1"
    using r by simp_all
  ultimately show ?case using other.IH [OF r(1)] by linarith
qed (simp_all add: encodeURIComponent_eqs)


theorem encodeURIComponent_bounds_witness:
  "encodeURIComponent (lit ''Dune: Part One Frank Herbert'') =
     Inr (lit ''Dune%3A%20Part%20One%20Frank%20Herbert'') \<and>
   length (lit ''Dune%3A%20Part%20One%20Frank%20Herbert'') \<le>
     9 * length (lit ''Dune: Part One Frank Herbert'')"
  using encodeURIComponent_bounds [OF encodeURIComponent_Dune] encodeURIComponent_Dune by blast

end
