(* ===== verification/Candidate.thy ===== *)
theory Candidate
  imports JS_Values
begin

text \<open>
  The normalised bibliographic record the provider adapters build
  (\<open>src/src/services/books.js\<close>, the object literals of \<open>normalizeOpenLibrary\<close>
  and \<open>normalizeGoogleBooks\<close>) and the link builder and the handlers read. It is
  the interface between them: the adapters' lemmas say what values the fields hold,
  the link builder's lemmas hold for every record.

  A field holds the JavaScript value the adapter stored: providers are not
  type-checked, so a title can be any JSON value. A key the literal does not have
  (\<open>openLibraryUrl\<close> of a Google Books candidate, \<open>googleBooksPreviewUrl\<close> and
  \<open>googleBooksInfoUrl\<close> of an OpenLibrary one) reads as \<open>undefined\<close> and is
  \<open>JUndefined\<close> here.
\<close>

datatype provider = OpenLibrary | GoogleBooks

record candidate =
  source :: provider
  isbn :: jsval
  title :: jsval
  authors :: jsval
  coverUrl :: jsval
  openLibraryUrl :: jsval
  googleBooksPreviewUrl :: jsval
  googleBooksInfoUrl :: jsval

text \<open>The string the \<open>source\<close> key carries.\<close>

fun provider_name :: "provider \<Rightarrow> jsstring" where
  "provider_name OpenLibrary = lit ''openlibrary''"
| "provider_name GoogleBooks = lit ''googlebooks''"

text \<open>
  \<open>[...].filter(Boolean)\<close> on a list of candidates and \<open>null\<close>s: an object is
  truthy, \<open>null\<close> is not.
\<close>

fun filter_candidates :: "candidate option list \<Rightarrow> candidate list" where
  "filter_candidates [] = []"
| "filter_candidates (None # cs) = filter_candidates cs"
| "filter_candidates (Some c # cs) = c # filter_candidates cs"

text \<open>
  The fields no adapter leaves \<open>undefined\<close>: \<open>coverUrl\<close> and the provider's own
  links are a value or \<open>null\<close>, never absent.
\<close>

definition optional_url :: "jsval \<Rightarrow> bool" where
  "optional_url v \<longleftrightarrow> v = JNull \<or> truthy v"

definition well_formed_candidate :: "candidate \<Rightarrow> bool" where
  "well_formed_candidate c \<longleftrightarrow>
     optional_url (coverUrl c) \<and>
     (case source c of
        OpenLibrary \<Rightarrow>
          (\<exists>xs. authors c = JArr xs \<and> list_all truthy xs) \<and>
          (openLibraryUrl c = JNull \<or> (\<exists>s. openLibraryUrl c = JStr (lit ''https://openlibrary.org'' @ s))) \<and>
          googleBooksPreviewUrl c = JUndefined \<and> googleBooksInfoUrl c = JUndefined
      | GoogleBooks \<Rightarrow>
          truthy (authors c) \<and> openLibraryUrl c = JUndefined \<and>
          optional_url (googleBooksPreviewUrl c) \<and> optional_url (googleBooksInfoUrl c))"

text \<open>
  Two records the examples of the development use: what the providers' documents
  for the identifier \<open>9780441013593\<close> normalise to.
\<close>

definition dune_openLibrary :: candidate where
  "dune_openLibrary =
     \<lparr>source = OpenLibrary, isbn = JStr (lit ''9780441013593''), title = JStr (lit ''Dune''),
      authors = JArr [JStr (lit ''Frank Herbert'')],
      coverUrl = JStr (lit ''https://covers.openlibrary.org/b/id/1-M.jpg''),
      openLibraryUrl = JStr (lit ''https://openlibrary.org/books/OL1M/Dune''),
      googleBooksPreviewUrl = JUndefined, googleBooksInfoUrl = JUndefined\<rparr>"

definition dune_googleBooks :: "jsval \<Rightarrow> candidate" where
  "dune_googleBooks i =
     \<lparr>source = GoogleBooks, isbn = i, title = JStr (lit ''Dune''),
      authors = JArr [JStr (lit ''Frank Herbert'')], coverUrl = JNull,
      openLibraryUrl = JUndefined,
      googleBooksPreviewUrl = JStr (lit ''http://books.google.com/books?id=B1hSG45JCX4C''),
      googleBooksInfoUrl = JNull\<rparr>"

lemma provider_name_inj [simp]: "provider_name p = provider_name q \<longleftrightarrow> p = q"
  by (cases p; cases q) simp_all

lemma filter_candidates_append [simp]:
  "filter_candidates (xs @ ys) = filter_candidates xs @ filter_candidates ys"
  by (induction xs rule: filter_candidates.induct) simp_all

lemma filter_candidates_map_Some [simp]: "filter_candidates (map Some cs) = cs"
  by (induction cs) simp_all

lemma length_filter_candidates: "length (filter_candidates cs) \<le> length cs"
  by (induction cs rule: filter_candidates.induct) simp_all

lemma set_filter_candidates: "set (filter_candidates cs) = {c. Some c \<in> set cs}"
  by (induction cs rule: filter_candidates.induct) auto

lemma list_all_filter_candidates:
  "list_all P (filter_candidates cs) \<longleftrightarrow> (\<forall>c. Some c \<in> set cs \<longrightarrow> P c)"
  by (simp add: list_all_iff set_filter_candidates)

lemma filter_candidates_Nil_iff: "filter_candidates cs = [] \<longleftrightarrow> (\<forall>c \<in> set cs. c = None)"
  by (induction cs rule: filter_candidates.induct) simp_all

lemma optional_url_js_or_JNull [simp]: "optional_url (js_or v JNull)"
  by (simp add: optional_url_def js_or_def)

end
