(* ===== verification/Links.thy ===== *)
theory Links
  imports URI_Encoding Candidate
begin

text \<open>
  The link builder of \<open>src/src/services/links.js\<close>: \<open>buildAmazonProductUrl\<close>,
  \<open>buildAmazonSearchUrl\<close> and \<open>buildFallbackLinks\<close>. The arguments are the
  values of the query string and the fields of a candidate, so they are \<open>jsval\<close>s:
  the functions are total on them, and what the engine throws (\<open>ToString\<close> of an
  object that shadows \<open>toString\<close>, spreading a value that is not iterable,
  \<open>encodeURIComponent\<close> on a lone surrogate) is an \<open>Inl\<close>.

  \<open>buildAmazonSearchUrl\<close> takes the three properties of its argument object;
  \<open>default_arg\<close> is a default parameter value, which replaces \<open>undefined\<close> only.
\<close>

section \<open>Definitions\<close>

definition default_arg :: "jsval \<Rightarrow> jsval \<Rightarrow> jsval" where
  "default_arg d v = (if v = JUndefined then d else v)"

definition amazon_domain :: "jsval \<Rightarrow> jsstring" where
  "amazon_domain loc = (if loc = JStr (lit ''uk'') then lit ''amazon.co.uk'' else lit ''amazon.com'')"

definition buildAmazonProductUrl :: "jsval \<Rightarrow> jsval \<Rightarrow> jsval result" where
  "buildAmazonProductUrl asin loc0 =
     (let loc = default_arg (JStr (lit ''us'')) loc0 in
      if \<not> truthy asin then Inr JNull
      else
        let domain = amazon_domain loc in
        bind_result (to_string asin) (\<lambda>a.
          Inr (JStr (lit ''https://www.'' @ domain @ lit ''/dp/'' @ a))))"

definition buildAmazonSearchUrl :: "jsval \<Rightarrow> jsval \<Rightarrow> jsval \<Rightarrow> jsstring result" where
  "buildAmazonSearchUrl t as0 loc0 =
     (let as = default_arg (JArr []) as0;
          loc = default_arg (JStr (lit ''us'')) loc0;
          domain = amazon_domain loc in
      bind_result (js_spread as) (\<lambda>elems.
      bind_result (js_join (lit '' '') (filter_Boolean (t # elems))) (\<lambda>joined.
      bind_result (encodeURIComponent joined) (\<lambda>query.
        Inr (lit ''https://www.'' @ domain @ lit ''/s?k='' @ query)))))"

record fallback_links =
  amazonSearchUrl :: jsstring
  fallback_googleBooksPreviewUrl :: jsval
  fallback_openLibraryUrl :: jsval

definition buildFallbackLinks :: "candidate \<Rightarrow> jsval \<Rightarrow> fallback_links result" where
  "buildFallbackLinks c loc =
     bind_result (buildAmazonSearchUrl (title c) (authors c) loc) (\<lambda>search.
       Inr \<lparr>amazonSearchUrl = search,
            fallback_googleBooksPreviewUrl = js_or (googleBooksPreviewUrl c) JNull,
            fallback_openLibraryUrl = js_or (openLibraryUrl c) JNull\<rparr>)"

text \<open>
  The search string before encoding, for a title and authors that are strings: the
  non-empty ones joined by single spaces.
\<close>

definition search_words :: "jsstring \<Rightarrow> jsstring list \<Rightarrow> jsstring" where
  "search_words t as = join_strings (lit '' '') (filter (\<lambda>s. s \<noteq> []) (t # as))"

section \<open>Facts\<close>

lemmas links_eval =
  buildAmazonProductUrl_def buildAmazonSearchUrl_def buildFallbackLinks_def
  amazon_domain_def default_arg_def

lemma default_arg_simps [simp]:
  "default_arg d JUndefined = d"
  "v \<noteq> JUndefined \<Longrightarrow> default_arg d v = v"
  by (simp_all add: default_arg_def)

lemma amazon_domain_default [simp]:
  "amazon_domain (default_arg (JStr (lit ''us'')) loc) = amazon_domain loc"
  by (simp add: amazon_domain_def default_arg_def)

lemma amazon_domain_uk_iff: "amazon_domain loc = lit ''amazon.co.uk'' \<longleftrightarrow> loc = JStr (lit ''uk'')"
  by (simp add: amazon_domain_def)

lemma amazon_domain_cases:
  "amazon_domain loc = lit ''amazon.co.uk'' \<and> loc = JStr (lit ''uk'') \<or>
   amazon_domain loc = lit ''amazon.com'' \<and> loc \<noteq> JStr (lit ''uk'')"
  by (simp add: amazon_domain_def)

subsection \<open>buildAmazonProductUrl\<close>

lemma buildAmazonProductUrl_falsy: "\<not> truthy asin \<Longrightarrow> buildAmazonProductUrl asin loc = Inr JNull"
  by (simp add: buildAmazonProductUrl_def)

lemma buildAmazonProductUrl_truthy:
  "truthy asin \<Longrightarrow>
     buildAmazonProductUrl asin loc =
       bind_result (to_string asin)
         (\<lambda>a. Inr (JStr (lit ''https://www.'' @ amazon_domain loc @ lit ''/dp/'' @ a)))"
  by (simp add: buildAmazonProductUrl_def Let_def)

lemma buildAmazonProductUrl_JStr:
  "a \<noteq> [] \<Longrightarrow>
     buildAmazonProductUrl (JStr a) loc =
       Inr (JStr (lit ''https://www.'' @ amazon_domain loc @ lit ''/dp/'' @ a))"
  by (simp add: buildAmazonProductUrl_truthy)

lemma buildAmazonProductUrl_error: "buildAmazonProductUrl asin loc = Inl e \<Longrightarrow> e = TypeError"
  by (cases "truthy asin")
    (auto simp: buildAmazonProductUrl_falsy buildAmazonProductUrl_truthy bind_result_eq_Inl_iff
      dest: to_string_error)

subsection \<open>buildAmazonSearchUrl\<close>

lemma buildAmazonSearchUrl_unfold:
  "buildAmazonSearchUrl t as loc =
     bind_result (js_spread (default_arg (JArr []) as)) (\<lambda>elems.
     bind_result (js_join (lit '' '') (filter_Boolean (t # elems))) (\<lambda>joined.
     bind_result (encodeURIComponent joined) (\<lambda>query.
       Inr (lit ''https://www.'' @ amazon_domain loc @ lit ''/s?k='' @ query))))"
  by (simp add: buildAmazonSearchUrl_def Let_def)

lemma js_spread_not_iterable:
  "(\<forall>xs. v \<noteq> JArr xs) \<Longrightarrow> (\<forall>s. v \<noteq> JStr s) \<Longrightarrow> js_spread v = Inl TypeError"
  by (cases v) simp_all

lemma buildAmazonSearchUrl_error:
  "buildAmazonSearchUrl t as loc = Inl e \<Longrightarrow> e = TypeError \<or> e = URIError"
  by (auto simp: buildAmazonSearchUrl_unfold bind_result_eq_Inl_iff
      dest: js_join_error encodeURIComponent_error elim: js_spread.elims)

lemma buildAmazonSearchUrl_strings:
  "buildAmazonSearchUrl (JStr t) (JArr (map JStr as)) loc =
     bind_result (encodeURIComponent (search_words t as))
       (\<lambda>query. Inr (lit ''https://www.'' @ amazon_domain loc @ lit ''/s?k='' @ query))"
proof -
  have "js_join (lit '' '') (filter_Boolean (map JStr (t # as))) = Inr (search_words t as)"
    by (simp only: filter_Boolean_strings js_join_strings search_words_def)
  then show ?thesis
    by (simp add: buildAmazonSearchUrl_unfold)
qed

subsection \<open>The domain of a link\<close>

lemma buildAmazonSearchUrl_domain:
  assumes "buildAmazonSearchUrl t as loc = Inr u"
  shows "\<exists>k. u = lit ''https://www.'' @ amazon_domain loc @ lit ''/s?k='' @ k \<and> list_all uri_safe k"
  using assms
  by (auto simp: buildAmazonSearchUrl_unfold bind_result_eq_Inr_iff dest: encodeURIComponent_safe)

lemma buildAmazonProductUrl_domain:
  assumes "buildAmazonProductUrl asin loc = Inr u"
  shows "if truthy asin
     then \<exists>a. to_string asin = Inr a \<and> u = JStr (lit ''https://www.'' @ amazon_domain loc @ lit ''/dp/'' @ a)
     else u = JNull"
  using assms
  by (auto simp: buildAmazonProductUrl_falsy buildAmazonProductUrl_truthy bind_result_eq_Inr_iff)

lemma amazon_domain_address:
  "lit ''https://www.'' @ amazon_domain loc @ rest =
     (if loc = JStr (lit ''uk'') then lit ''https://www.amazon.co.uk'' else lit ''https://www.amazon.com'') @ rest"
  by (simp add: amazon_domain_def lit_eval)

subsection \<open>buildFallbackLinks\<close>

lemma buildFallbackLinks_Inr_iff:
  "buildFallbackLinks c loc = Inr fl \<longleftrightarrow>
     buildAmazonSearchUrl (title c) (authors c) loc = Inr (amazonSearchUrl fl) \<and>
     fallback_googleBooksPreviewUrl fl = js_or (googleBooksPreviewUrl c) JNull \<and>
     fallback_openLibraryUrl fl = js_or (openLibraryUrl c) JNull"
  by (cases fl) (auto simp: buildFallbackLinks_def bind_result_eq_Inr_iff)

lemma buildFallbackLinks_Inl_iff:
  "buildFallbackLinks c loc = Inl e \<longleftrightarrow> buildAmazonSearchUrl (title c) (authors c) loc = Inl e"
  by (simp add: buildFallbackLinks_def bind_result_eq_Inl_iff)

subsection \<open>Examples\<close>

lemma buildAmazonSearchUrl_Dune:
  "buildAmazonSearchUrl (JStr (lit ''Dune: Part One'')) (JArr [JStr (lit ''Frank Herbert'')]) JUndefined =
     Inr (lit ''https://www.amazon.com/s?k=Dune%3A%20Part%20One%20Frank%20Herbert'')"
  by (simp add: links_eval filter_Boolean_def lit_eval uri_eval encodeURIComponent.simps(2))

lemma buildFallbackLinks_Dune:
  "buildFallbackLinks dune_openLibrary (JStr (lit ''uk'')) =
     Inr \<lparr>amazonSearchUrl = lit ''https://www.amazon.co.uk/s?k=Dune%20Frank%20Herbert'',
          fallback_googleBooksPreviewUrl = JNull,
          fallback_openLibraryUrl = JStr (lit ''https://openlibrary.org/books/OL1M/Dune'')\<rparr>"
  by (simp add: links_eval dune_openLibrary_def filter_Boolean_def lit_eval uri_eval
      encodeURIComponent.simps(2))

section \<open>Properties\<close>

text \<open>
  C11 (safety). A search link is the address of the retailer's search on the domain
  of the locale, followed by a query that holds nothing but unreserved units and
  \<open>%\<close>, whatever the title and the authors were.
\<close>

theorem buildAmazonSearchUrl_url_safe:
  assumes "buildAmazonSearchUrl t as loc = Inr u"
  shows "\<exists>q. u = lit ''https://www.'' @ amazon_domain loc @ lit ''/s?k='' @ q \<and> list_all uri_safe q"
  using assms
  by (auto simp: buildAmazonSearchUrl_unfold bind_result_eq_Inr_iff dest: encodeURIComponent_safe)

theorem buildAmazonSearchUrl_url_safe_witness:
  "\<exists>q. lit ''https://www.amazon.com/s?k=Dune%3A%20Part%20One%20Frank%20Herbert'' =
     lit ''https://www.'' @ amazon_domain JUndefined @ lit ''/s?k='' @ q \<and> list_all uri_safe q"
  using buildAmazonSearchUrl_url_safe [OF buildAmazonSearchUrl_Dune] .

text \<open>
  For a title and authors that are strings, the query of the search
  link is the encoding of the non-empty ones joined by single spaces; the call throws
  exactly when that text has a lone surrogate.
\<close>

theorem buildAmazonSearchUrl_of_strings:
  "buildAmazonSearchUrl (JStr t) (JArr (map JStr as)) loc =
     (if well_formed (search_words t as)
      then map_sum id (\<lambda>q. lit ''https://www.'' @ amazon_domain loc @ lit ''/s?k='' @ q)
             (encodeURIComponent (search_words t as))
      else Inl URIError)"
proof (cases "encodeURIComponent (search_words t as)")
  case (Inl e)
  then show ?thesis
    using encodeURIComponent_well_formed [of "search_words t as"]
    by (simp add: buildAmazonSearchUrl_strings encodeURIComponent_error [OF Inl])
next
  case (Inr q)
  then show ?thesis
    using encodeURIComponent_well_formed [of "search_words t as"]
    by (simp add: buildAmazonSearchUrl_strings)
qed

text \<open>
  No product link is built without a retailer identifier: the result
  is \<open>null\<close> exactly when the identifier is falsy.
\<close>

theorem buildAmazonProductUrl_null_iff:
  "buildAmazonProductUrl asin loc = Inr JNull \<longleftrightarrow> \<not> truthy asin"
  by (cases "truthy asin")
    (auto simp: buildAmazonProductUrl_falsy buildAmazonProductUrl_truthy bind_result_eq_Inr_iff)

text \<open>
  C22 (error). The search link is not always constructible. For a title and authors
  that are strings, \<open>buildAmazonSearchUrl\<close> throws exactly when the words to search
  for have a lone surrogate, and what it throws is a \<open>URIError\<close>; for authors that
  are neither an array nor a string nor left out it throws a \<open>TypeError\<close> whatever
  the title is; and authors given as one string are spread into their code points.
\<close>

theorem buildAmazonSearchUrl_partial:
  "(buildAmazonSearchUrl (JStr t) (JArr (map JStr as)) loc = Inl e \<longleftrightarrow>
      e = URIError \<and> \<not> well_formed (search_words t as)) \<and>
   ((\<forall>xs. v \<noteq> JArr xs) \<and> (\<forall>s. v \<noteq> JStr s) \<and> v \<noteq> JUndefined \<longrightarrow>
      buildAmazonSearchUrl u v loc = Inl TypeError) \<and>
   buildAmazonSearchUrl u (JStr s) loc = buildAmazonSearchUrl u (JArr (map JStr (code_points s))) loc"
proof (intro conjI impI)
  show "buildAmazonSearchUrl (JStr t) (JArr (map JStr as)) loc = Inl e \<longleftrightarrow>
      e = URIError \<and> \<not> well_formed (search_words t as)"
  proof (cases "encodeURIComponent (search_words t as)")
    case (Inl e')
    with encodeURIComponent_well_formed [of "search_words t as"] encodeURIComponent_error [OF Inl]
    show ?thesis by (auto simp: buildAmazonSearchUrl_strings)
  next
    case (Inr q)
    with encodeURIComponent_well_formed [of "search_words t as"]
    show ?thesis by (auto simp: buildAmazonSearchUrl_strings)
  qed
  show "buildAmazonSearchUrl u v loc = Inl TypeError"
    if "(\<forall>xs. v \<noteq> JArr xs) \<and> (\<forall>s. v \<noteq> JStr s) \<and> v \<noteq> JUndefined"
    using that by (simp add: buildAmazonSearchUrl_unfold js_spread_not_iterable)
  show "buildAmazonSearchUrl u (JStr s) loc = buildAmazonSearchUrl u (JArr (map JStr (code_points s))) loc"
    by (simp add: buildAmazonSearchUrl_unfold)
qed

theorem buildAmazonSearchUrl_partial_witness:
  "buildAmazonSearchUrl (JStr [0xD83D]) (JArr (map JStr [])) JUndefined = Inl URIError \<and>
   buildAmazonSearchUrl (JStr (lit ''Dune'')) (JNum 5) JUndefined = Inl TypeError \<and>
   buildAmazonSearchUrl (JStr (lit ''Dune'')) (JStr (lit ''FH'')) JUndefined =
     Inr (lit ''https://www.amazon.com/s?k=Dune%20F%20H'')"
proof -
  have "\<not> well_formed (search_words [0xD83D] [])"
    by (simp add: search_words_def well_formed.simps(2) uri_eval)
  moreover have "buildAmazonSearchUrl (JStr (lit ''Dune'')) (JArr (map JStr (code_points (lit ''FH'')))) JUndefined =
      Inr (lit ''https://www.amazon.com/s?k=Dune%20F%20H'')"
    by (simp add: links_eval filter_Boolean_def lit_eval uri_eval encodeURIComponent.simps(2))
  ultimately show ?thesis
    using buildAmazonSearchUrl_partial [of "[0xD83D]" "[]" JUndefined URIError "JNum 5"
        "JStr (lit ''Dune'')" "lit ''FH''"]
    by simp
qed

end
