(* ===== verification/Fetch.thy ===== *)
theory Fetch
  imports JS_Values
begin

text \<open>
  What \<open>fetch\<close> gives the sources: the interface between the code and the network.
  The provider adapters (\<open>src/src/services/books.js\<close>, \<open>fetchJson\<close>) and the
  mobile client (\<open>src/expo-app/App.js\<close>, \<open>resolveWithOpenAI\<close>) read the same
  three things of a response: \<open>status\<close>, \<open>statusText\<close> and the body through
  \<open>response.json()\<close>, which is \<open>None\<close> when the body is not JSON and the
  promise rejects.

  A \<open>world\<close> answers a request by its URL; \<open>None\<close> is a \<open>fetch\<close> that
  rejects (no connection, no such host).
\<close>

record http_response =
  status :: nat
  statusText :: jsstring
  json :: "jsval option"

type_synonym world = "jsstring \<Rightarrow> http_response option"

text \<open>\<open>response.ok\<close>: the status is in the range 200 to 299.\<close>

definition ok :: "http_response \<Rightarrow> bool" where
  "ok r \<longleftrightarrow> 200 \<le> status r \<and> status r \<le> 299"

text \<open>The responses the examples of the development use.\<close>

definition ok_response :: "jsval \<Rightarrow> http_response" where
  "ok_response v = \<lparr>status = 200, statusText = lit ''OK'', json = Some v\<rparr>"

definition unavailable :: http_response where
  "unavailable = \<lparr>status = 503, statusText = lit ''Service Unavailable'', json = None\<rparr>"

definition always :: "http_response \<Rightarrow> world" where
  "always r = (\<lambda>url. Some r)"

lemma ok_ok_response [simp]: "ok (ok_response v)"
  by (simp add: ok_def ok_response_def)

lemma not_ok_unavailable [simp]: "\<not> ok unavailable"
  by (simp add: ok_def unavailable_def)

lemma json_ok_response [simp]: "json (ok_response v) = Some v"
  by (simp add: ok_response_def)

lemma ok_status_iff: "ok r \<longleftrightarrow> status r \<in> {200..299}"
  by (auto simp: ok_def)

end
