(* ===== verification/Books.thy ===== *)
theory Books
  imports URI_Encoding Candidate Fetch
begin

text \<open>
  The provider adapters of \<open>src/src/services/books.js\<close>: \<open>fetchJson\<close>, the two
  normalisers and the three fetch functions.

  The network is a parameter: a \<open>world\<close> gives, for the URL of a request, the
  response the provider returns, or nothing when \<open>fetch\<close> itself rejects. A
  response carries its status, its status text and its body as parsed JSON (nothing
  when \<open>response.json()\<close> rejects). The adapters build the URL with
  \<open>searchParams.set\<close> and \<open>url.toString()\<close> and read the response through
  the operations of \<open>JS_Values\<close>, so a malformed provider document leads to the
  value or the \<open>TypeError\<close> it leads to in the source.

  The identifier argument of the OpenLibrary adapter and of
  \<open>fetchGoogleBooksByIsbn\<close> is a string (the handlers pass the result of
  \<open>assertIsbn\<close>); the query of \<open>fetchGoogleBooksByQuery\<close> is whatever truthy
  value the request body held.
\<close>

section \<open>Requests\<close>

definition OPEN_LIBRARY_URL :: jsstring where
  "OPEN_LIBRARY_URL = lit ''https://openlibrary.org/api/books''"

definition GOOGLE_BOOKS_URL :: jsstring where
  "GOOGLE_BOOKS_URL = lit ''https://www.googleapis.com/books/v1/volumes''"

definition fetchJson :: "world \<Rightarrow> jsstring \<Rightarrow> jsval result" where
  "fetchJson w url =
     (case w url of
        None \<Rightarrow> Inl FetchFailed
      | Some response \<Rightarrow>
          if \<not> ok response then
            Inl (Thrown (status response)
              (lit ''Request failed: '' @ int_digits (int (status response)) @ lit '' '' @
               statusText response))
          else (case json response of None \<Rightarrow> Inl SyntaxError | Some v \<Rightarrow> Inr v))"

section \<open>Normalisers\<close>

definition openLibrary_authors :: "jsval \<Rightarrow> jsval result" where
  "openLibrary_authors entry =
     (let a = lookup_prop entry (lit ''authors'') in
      if nullish a then Inr (js_or JUndefined (JArr []))
      else
        bind_result (js_map (\<lambda>author. get_prop author (lit ''name'')) a) (\<lambda>names.
          Inr (js_or (JArr (filter_Boolean names)) (JArr []))))"

definition openLibrary_cover :: "jsval \<Rightarrow> jsval" where
  "openLibrary_cover entry =
     (let cover = lookup_prop entry (lit ''cover'') in
      js_or (opt_get cover (lit ''large''))
        (js_or (opt_get cover (lit ''medium'')) (js_or (opt_get cover (lit ''small'')) JNull)))"

definition openLibrary_url :: "jsval \<Rightarrow> jsval result" where
  "openLibrary_url entry =
     (let u = lookup_prop entry (lit ''url'') in
      if truthy u then bind_result (to_string u) (\<lambda>s. Inr (JStr (lit ''https://openlibrary.org'' @ s)))
      else Inr JNull)"

definition normalizeOpenLibrary :: "jsval \<Rightarrow> jsstring \<Rightarrow> candidate option result" where
  "normalizeOpenLibrary data i =
     (let key = lit ''ISBN:'' @ i;
          entry = opt_get data key in
      if \<not> truthy entry then Inr None
      else
        bind_result (openLibrary_authors entry) (\<lambda>auths.
        bind_result (openLibrary_url entry) (\<lambda>u.
          Inr (Some \<lparr>source = OpenLibrary,
                     isbn = JStr i,
                     title = lookup_prop entry (lit ''title''),
                     authors = auths,
                     coverUrl = openLibrary_cover entry,
                     openLibraryUrl = u,
                     googleBooksPreviewUrl = JUndefined,
                     googleBooksInfoUrl = JUndefined\<rparr>))))"

definition normalizeGoogleBooks :: "jsval \<Rightarrow> jsval \<Rightarrow> candidate option" where
  "normalizeGoogleBooks volume i =
     (if \<not> truthy (opt_get volume (lit ''volumeInfo'')) then None
      else
        let info = lookup_prop volume (lit ''volumeInfo'') in
        Some \<lparr>source = GoogleBooks,
              isbn = i,
              title = lookup_prop info (lit ''title''),
              authors = js_or (lookup_prop info (lit ''authors'')) (JArr []),
              coverUrl = js_or (opt_get (lookup_prop info (lit ''imageLinks'')) (lit ''thumbnail'')) JNull,
              openLibraryUrl = JUndefined,
              googleBooksPreviewUrl = js_or (lookup_prop info (lit ''previewLink'')) JNull,
              googleBooksInfoUrl = js_or (lookup_prop info (lit ''infoLink'')) JNull\<rparr>)"

text \<open>What every candidate of a Google Books document is, for the identifier passed.\<close>

definition googleBooks_candidate :: "jsval \<Rightarrow> candidate \<Rightarrow> bool" where
  "googleBooks_candidate i c \<longleftrightarrow> source c = GoogleBooks \<and> isbn c = i \<and> well_formed_candidate c"

section \<open>Fetch functions\<close>

definition openLibrary_request :: "jsstring \<Rightarrow> jsstring" where
  "openLibrary_request i =
     url_toString OPEN_LIBRARY_URL
       (searchParams_set
         (searchParams_set
           (searchParams_set [] (lit ''bibkeys'') (lit ''ISBN:'' @ i))
           (lit ''format'') (lit ''json''))
         (lit ''jscmd'') (lit ''data''))"

definition googleBooks_request :: "jsstring \<Rightarrow> jsstring" where
  "googleBooks_request q =
     url_toString GOOGLE_BOOKS_URL
       (searchParams_set (searchParams_set [] (lit ''q'') q) (lit ''maxResults'') (lit ''5''))"

definition fetchOpenLibraryByIsbn :: "world \<Rightarrow> jsstring \<Rightarrow> candidate option result" where
  "fetchOpenLibraryByIsbn w i =
     bind_result (fetchJson w (openLibrary_request i)) (\<lambda>data. normalizeOpenLibrary data i)"

text \<open>
  What both Google Books functions do with the document: no \<open>items\<close>, or none
  with a truthy \<open>length\<close>, is the empty list; otherwise every item is normalised
  and the \<open>null\<close>s are dropped.
\<close>

definition normalize_items :: "jsval \<Rightarrow> jsval \<Rightarrow> candidate list result" where
  "normalize_items data i =
     bind_result (get_prop data (lit ''items'')) (\<lambda>items.
       if \<not> truthy (opt_get items (lit ''length'')) then Inr []
       else
         bind_result (js_map (\<lambda>item. Inr (normalizeGoogleBooks item i)) items) (\<lambda>cs.
           Inr (filter_candidates cs)))"

definition fetchGoogleBooksByIsbn :: "world \<Rightarrow> jsstring \<Rightarrow> candidate list result" where
  "fetchGoogleBooksByIsbn w i =
     bind_result (fetchJson w (googleBooks_request (lit ''isbn:'' @ i))) (\<lambda>data.
       normalize_items data (JStr i))"

definition fetchGoogleBooksByQuery :: "world \<Rightarrow> jsval \<Rightarrow> candidate list result" where
  "fetchGoogleBooksByQuery w query =
     bind_result (to_string query) (\<lambda>q.
     bind_result (fetchJson w (googleBooks_request q)) (\<lambda>data.
       normalize_items data JNull))"

text \<open>
  What a provider call can fail with: an engine error on a malformed document, a
  rejected \<open>fetch\<close>, an unparsable body, or the error \<open>fetchJson\<close> throws for a
  status outside 200 to 299.
\<close>

definition provider_error :: "js_error \<Rightarrow> bool" where
  "provider_error e \<longleftrightarrow>
     e = TypeError \<or> e = FetchFailed \<or> e = SyntaxError \<or>
     (\<exists>st m. e = Thrown st m \<and> \<not> (200 \<le> st \<and> st \<le> 299))"

section \<open>Scenarios\<close>

text \<open>
  A provider document that holds what both providers answer for the identifier
  \<open>9780441013593\<close> (the entry OpenLibrary keys by \<open>ISBN:\<close> and the \<open>items\<close>
  of Google Books).
\<close>

definition dune_entry :: jsval where
  "dune_entry =
     JObj [(lit ''title'', JStr (lit ''Dune'')),
           (lit ''authors'', JArr [JObj [(lit ''name'', JStr (lit ''Frank Herbert''))], JObj []]),
           (lit ''cover'', JObj [(lit ''medium'', JStr (lit ''https://covers.openlibrary.org/b/id/1-M.jpg''))]),
           (lit ''url'', JStr (lit ''/books/OL1M/Dune''))]"

definition dune_volume :: jsval where
  "dune_volume =
     JObj [(lit ''volumeInfo'',
       JObj [(lit ''title'', JStr (lit ''Dune'')),
             (lit ''authors'', JArr [JStr (lit ''Frank Herbert'')]),
             (lit ''previewLink'', JStr (lit ''http://books.google.com/books?id=B1hSG45JCX4C''))])]"

definition dune_document :: jsval where
  "dune_document =
     JObj [(lit ''ISBN:9780441013593'', dune_entry),
           (lit ''items'', JArr [dune_volume, JObj []])]"

section \<open>Facts\<close>

subsection \<open>fetchJson\<close>

lemma fetchJson_Inr_iff:
  "fetchJson w url = Inr v \<longleftrightarrow> (\<exists>r. w url = Some r \<and> ok r \<and> json r = Some v)"
  by (auto simp: fetchJson_def split: option.splits)

lemma fetchJson_not_ok:
  "w url = Some r \<Longrightarrow> \<not> ok r \<Longrightarrow>
     fetchJson w url =
       Inl (Thrown (status r) (lit ''Request failed: '' @ int_digits (int (status r)) @ lit '' '' @ statusText r))"
  by (simp add: fetchJson_def)

lemma fetchJson_Thrown:
  "fetchJson w url = Inl (Thrown st m) \<Longrightarrow> \<exists>r. w url = Some r \<and> \<not> ok r \<and> st = status r"
  by (auto simp: fetchJson_def split: option.splits if_splits)

lemma fetchJson_error_cases:
  "fetchJson w url = Inl e \<Longrightarrow> e = FetchFailed \<or> e = SyntaxError \<or> (\<exists>st m. e = Thrown st m \<and> \<not> (200 \<le> st \<and> st \<le> 299))"
  by (auto simp: fetchJson_def ok_def split: option.splits if_splits)

subsection \<open>normalizeOpenLibrary\<close>

lemma openLibrary_authors_Inr:
  "openLibrary_authors entry = Inr a \<Longrightarrow> \<exists>xs. a = JArr xs \<and> list_all truthy xs"
  by (auto simp: openLibrary_authors_def Let_def bind_result_eq_Inr_iff split: if_splits)

lemma openLibrary_authors_error: "openLibrary_authors entry = Inl e \<Longrightarrow> e = TypeError"
  by (cases "lookup_prop entry (lit ''authors'')")
    (auto simp: openLibrary_authors_def Let_def bind_result_eq_Inl_iff 
      dest!: map_result_Inl dest: get_prop_error split: if_splits)

lemma openLibrary_url_Inr:
  "openLibrary_url entry = Inr u \<Longrightarrow>
     u = JNull \<or> (\<exists>s. u = JStr (lit ''https://openlibrary.org'' @ s))"
  by (auto simp: openLibrary_url_def Let_def bind_result_eq_Inr_iff split: if_splits)

lemma openLibrary_url_error: "openLibrary_url entry = Inl e \<Longrightarrow> e = TypeError"
  by (auto simp: openLibrary_url_def Let_def bind_result_eq_Inl_iff dest: to_string_error
      split: if_splits)

lemma openLibrary_cover_optional [simp]: "optional_url (openLibrary_cover entry)"
  by (simp add: openLibrary_cover_def Let_def optional_url_def js_or_def)

lemma normalizeOpenLibrary_None_iff:
  "normalizeOpenLibrary data i = Inr None \<longleftrightarrow> \<not> truthy (opt_get data (lit ''ISBN:'' @ i))"
  by (auto simp: normalizeOpenLibrary_def Let_def bind_result_eq_Inr_iff)

lemma normalizeOpenLibrary_Some:
  assumes "normalizeOpenLibrary data i = Inr (Some c)"
  shows "source c = OpenLibrary" and "isbn c = JStr i" and "well_formed_candidate c"
    and "title c = lookup_prop (opt_get data (lit ''ISBN:'' @ i)) (lit ''title'')"
proof -
  let ?entry = "opt_get data (lit ''ISBN:'' @ i)"
  from assms obtain a u where a: "openLibrary_authors ?entry = Inr a"
    and u: "openLibrary_url ?entry = Inr u"
    and c: "c = \<lparr>source = OpenLibrary, isbn = JStr i, title = lookup_prop ?entry (lit ''title''),
      authors = a, coverUrl = openLibrary_cover ?entry, openLibraryUrl = u,
      googleBooksPreviewUrl = JUndefined, googleBooksInfoUrl = JUndefined\<rparr>"
    by (auto simp: normalizeOpenLibrary_def Let_def bind_result_eq_Inr_iff split: if_splits)
  from c show "source c = OpenLibrary" "isbn c = JStr i"
    "title c = lookup_prop ?entry (lit ''title'')" by simp_all
  from openLibrary_authors_Inr [OF a] openLibrary_url_Inr [OF u] c
  show "well_formed_candidate c"
    by (auto simp: well_formed_candidate_def)
qed

lemma normalizeOpenLibrary_error: "normalizeOpenLibrary data i = Inl e \<Longrightarrow> e = TypeError"
  by (auto simp: normalizeOpenLibrary_def Let_def bind_result_eq_Inl_iff
      dest: openLibrary_authors_error openLibrary_url_error split: if_splits)

subsection \<open>normalizeGoogleBooks\<close>

lemma normalizeGoogleBooks_None_iff:
  "normalizeGoogleBooks volume i = None \<longleftrightarrow> \<not> truthy (opt_get volume (lit ''volumeInfo''))"
  by (simp add: normalizeGoogleBooks_def Let_def)

lemma normalizeGoogleBooks_Some:
  assumes "normalizeGoogleBooks volume i = Some c"
  shows "source c = GoogleBooks" and "isbn c = i" and "well_formed_candidate c"
  using assms
  by (auto simp: normalizeGoogleBooks_def Let_def well_formed_candidate_def js_or_def
      optional_url_def split: if_splits)

subsection \<open>Items\<close>

lemma filter_candidates_normalizeGoogleBooks:
  "list_all (googleBooks_candidate i) (filter_candidates (map (\<lambda>x. normalizeGoogleBooks x i) xs))"
  unfolding list_all_filter_candidates googleBooks_candidate_def
proof (intro allI impI)
  fix c
  assume "Some c \<in> set (map (\<lambda>x. normalizeGoogleBooks x i) xs)"
  then obtain x where "normalizeGoogleBooks x i = Some c" by auto
  then show "source c = GoogleBooks \<and> isbn c = i \<and> well_formed_candidate c"
    by (simp add: normalizeGoogleBooks_Some)
qed

lemma normalize_items_cases:
  "nullish data \<Longrightarrow> normalize_items data i = Inl TypeError"
  "\<not> nullish data \<Longrightarrow> \<not> truthy (opt_get (lookup_prop data (lit ''items'')) (lit ''length'')) \<Longrightarrow>
     normalize_items data i = Inr []"
  "\<not> nullish data \<Longrightarrow> lookup_prop data (lit ''items'') = JArr xs \<Longrightarrow> xs \<noteq> [] \<Longrightarrow>
     normalize_items data i = Inr (filter_candidates (map (\<lambda>x. normalizeGoogleBooks x i) xs))"
  by (simp_all add: normalize_items_def get_prop_def opt_get_def)

lemma normalize_items_not_array:
  assumes "\<not> nullish data"
    and "truthy (opt_get (lookup_prop data (lit ''items'')) (lit ''length''))"
    and "\<forall>xs. lookup_prop data (lit ''items'') \<noteq> JArr xs"
  shows "normalize_items data i = Inl TypeError"
  using assms
  by (cases "lookup_prop data (lit ''items'')") (simp_all add: normalize_items_def get_prop_def)

lemma normalize_items_Inr:
  assumes "normalize_items data i = Inr cs"
  shows "cs = [] \<or> (\<exists>xs. lookup_prop data (lit ''items'') = JArr xs \<and> xs \<noteq> [] \<and>
           cs = filter_candidates (map (\<lambda>x. normalizeGoogleBooks x i) xs))"
proof -
  from assms have d: "\<not> nullish data"
    by (auto simp: normalize_items_cases)
  show ?thesis
  proof (cases "truthy (opt_get (lookup_prop data (lit ''items'')) (lit ''length''))")
    case False
    with d assms show ?thesis by (simp add: normalize_items_cases)
  next
    case True
    with d assms obtain xs where xs: "lookup_prop data (lit ''items'') = JArr xs"
      using normalize_items_not_array [of data i] by auto
    with True have "xs \<noteq> []" by (simp add: opt_get_def)
    with d xs assms show ?thesis by (simp add: normalize_items_cases)
  qed
qed

lemma normalize_items_candidates:
  "normalize_items data i = Inr cs \<Longrightarrow> list_all (googleBooks_candidate i) cs"
  by (auto dest!: normalize_items_Inr simp: filter_candidates_normalizeGoogleBooks)

lemma normalize_items_error: "normalize_items data i = Inl e \<Longrightarrow> e = TypeError"
  by (auto simp: normalize_items_def bind_result_eq_Inl_iff dest: get_prop_error
      elim: js_map.elims split: if_splits)

subsection \<open>Requests\<close>

lemma form_encode_safe: "list_all form_safe s \<Longrightarrow> form_encode s = s"
  by (induction s) simp_all

lemma form_safe_normal: "is_digit_unit c \<or> c = 0x58 \<Longrightarrow> form_safe c"
  by (auto simp: form_safe_def is_alnum_unit_def is_digit_unit_def)

lemma form_encode_lit_bibkeys: "form_encode (lit ''ISBN:'' @ s) = lit ''ISBN%3A'' @ form_encode s"
  by (simp add: lit_eval uri_eval)

lemma form_encode_lit_isbn: "form_encode (lit ''isbn:'' @ s) = lit ''isbn%3A'' @ form_encode s"
  by (simp add: lit_eval uri_eval)

lemma openLibrary_request_safe:
  "list_all form_safe i \<Longrightarrow>
     openLibrary_request i =
       lit ''https://openlibrary.org/api/books?bibkeys=ISBN%3A'' @ i @ lit ''&format=json&jscmd=data''"
  by (simp add: openLibrary_request_def url_toString_def OPEN_LIBRARY_URL_def
      form_encode_lit_bibkeys form_encode_safe)
    (simp add: lit_eval uri_eval)

lemma googleBooks_request_isbn:
  "list_all form_safe i \<Longrightarrow>
     googleBooks_request (lit ''isbn:'' @ i) =
       lit ''https://www.googleapis.com/books/v1/volumes?q=isbn%3A'' @ i @ lit ''&maxResults=5''"
  by (simp add: googleBooks_request_def url_toString_def GOOGLE_BOOKS_URL_def
      form_encode_lit_isbn form_encode_safe)
    (simp add: lit_eval uri_eval)

subsection \<open>Fetch functions\<close>

lemma fetchJson_provider_error: "fetchJson w url = Inl e \<Longrightarrow> provider_error e"
  by (auto simp: provider_error_def dest: fetchJson_error_cases)

lemma provider_error_TypeError [simp]: "provider_error TypeError"
  by (simp add: provider_error_def)

lemma fetchOpenLibraryByIsbn_Inr_iff:
  "fetchOpenLibraryByIsbn w i = Inr r \<longleftrightarrow>
     (\<exists>data. fetchJson w (openLibrary_request i) = Inr data \<and> normalizeOpenLibrary data i = Inr r)"
  by (simp add: fetchOpenLibraryByIsbn_def bind_result_eq_Inr_iff)

lemma fetchOpenLibraryByIsbn_error: "fetchOpenLibraryByIsbn w i = Inl e \<Longrightarrow> provider_error e"
  by (auto simp: fetchOpenLibraryByIsbn_def bind_result_eq_Inl_iff
      dest: fetchJson_provider_error normalizeOpenLibrary_error)

lemma fetchOpenLibraryByIsbn_Some:
  assumes "fetchOpenLibraryByIsbn w i = Inr (Some c)"
  shows "source c = OpenLibrary" and "isbn c = JStr i" and "well_formed_candidate c"
  using assms by (auto simp: fetchOpenLibraryByIsbn_Inr_iff dest: normalizeOpenLibrary_Some)

lemma fetchGoogleBooksByIsbn_Inr_iff:
  "fetchGoogleBooksByIsbn w i = Inr cs \<longleftrightarrow>
     (\<exists>data. fetchJson w (googleBooks_request (lit ''isbn:'' @ i)) = Inr data \<and>
        normalize_items data (JStr i) = Inr cs)"
  by (simp add: fetchGoogleBooksByIsbn_def bind_result_eq_Inr_iff)

lemma fetchGoogleBooksByIsbn_candidates:
  "fetchGoogleBooksByIsbn w i = Inr cs \<Longrightarrow> list_all (googleBooks_candidate (JStr i)) cs"
  by (auto simp: fetchGoogleBooksByIsbn_Inr_iff dest: normalize_items_candidates)

lemma fetchGoogleBooksByIsbn_error: "fetchGoogleBooksByIsbn w i = Inl e \<Longrightarrow> provider_error e"
  by (auto simp: fetchGoogleBooksByIsbn_def bind_result_eq_Inl_iff
      dest: fetchJson_provider_error normalize_items_error)

lemma fetchGoogleBooksByQuery_Inr_iff:
  "fetchGoogleBooksByQuery w query = Inr cs \<longleftrightarrow>
     (\<exists>q data. to_string query = Inr q \<and> fetchJson w (googleBooks_request q) = Inr data \<and>
        normalize_items data JNull = Inr cs)"
  by (simp add: fetchGoogleBooksByQuery_def bind_result_eq_Inr_iff)

lemma fetchGoogleBooksByQuery_candidates:
  "fetchGoogleBooksByQuery w query = Inr cs \<Longrightarrow> list_all (googleBooks_candidate JNull) cs"
  by (auto simp: fetchGoogleBooksByQuery_Inr_iff dest: normalize_items_candidates)

lemma fetchGoogleBooksByQuery_error: "fetchGoogleBooksByQuery w query = Inl e \<Longrightarrow> provider_error e"
  by (auto simp: fetchGoogleBooksByQuery_def bind_result_eq_Inl_iff
      dest: fetchJson_provider_error normalize_items_error to_string_error)

subsection \<open>Messages of thrown errors\<close>

lemma fetchJson_Thrown_message:
  "fetchJson w url = Inl (Thrown st m) \<Longrightarrow> \<exists>t. m = lit ''Request failed: '' @ t"
  by (auto simp: fetchJson_def split: option.splits if_splits)

lemma fetchOpenLibraryByIsbn_Thrown:
  "fetchOpenLibraryByIsbn w i = Inl (Thrown st m) \<Longrightarrow> \<exists>t. m = lit ''Request failed: '' @ t"
  by (auto simp: fetchOpenLibraryByIsbn_def bind_result_eq_Inl_iff
      dest: fetchJson_Thrown_message normalizeOpenLibrary_error)

lemma fetchGoogleBooksByIsbn_Thrown:
  "fetchGoogleBooksByIsbn w i = Inl (Thrown st m) \<Longrightarrow> \<exists>t. m = lit ''Request failed: '' @ t"
  by (auto simp: fetchGoogleBooksByIsbn_def bind_result_eq_Inl_iff
      dest: fetchJson_Thrown_message normalize_items_error)

subsection \<open>Examples\<close>

lemma normalizeOpenLibrary_Dune:
  "normalizeOpenLibrary dune_document (lit ''9780441013593'') = Inr (Some dune_openLibrary)"
  by (simp add: normalizeOpenLibrary_def openLibrary_authors_def openLibrary_url_def
      openLibrary_cover_def dune_document_def dune_entry_def dune_openLibrary_def
      filter_Boolean_def get_prop_def lit_eval)

lemma normalizeGoogleBooks_Dune: "normalizeGoogleBooks dune_volume i = Some (dune_googleBooks i)"
  by (simp add: normalizeGoogleBooks_def dune_volume_def dune_googleBooks_def)

lemma normalize_items_Dune: "normalize_items dune_document i = Inr [dune_googleBooks i]"
proof -
  have "normalizeGoogleBooks (JObj []) i = None"
    by (simp add: normalizeGoogleBooks_def)
  moreover have "lookup_prop dune_document (lit ''items'') = JArr [dune_volume, JObj []]"
    by (simp add: dune_document_def)
  ultimately show ?thesis
    by (simp add: normalize_items_cases normalizeGoogleBooks_Dune dune_document_def)
qed

lemma fetchJson_always_ok [simp]: "fetchJson (always (ok_response v)) url = Inr v"
  by (simp add: fetchJson_def always_def ok_response_def ok_def)

lemma fetchJson_always_unavailable:
  "fetchJson (always unavailable) url =
     Inl (Thrown 503 (lit ''Request failed: 503 Service Unavailable''))"
  by (simp add: fetchJson_def always_def unavailable_def ok_def int_digits_def
      nat_digits.simps digit_unit_def lit_eval)

lemma fetchOpenLibraryByIsbn_Dune:
  "fetchOpenLibraryByIsbn (always (ok_response dune_document)) (lit ''9780441013593'') =
     Inr (Some dune_openLibrary)"
  by (simp add: fetchOpenLibraryByIsbn_def normalizeOpenLibrary_Dune)

lemma fetchGoogleBooksByIsbn_Dune:
  "fetchGoogleBooksByIsbn (always (ok_response dune_document)) i = Inr [dune_googleBooks (JStr i)]"
  by (simp add: fetchGoogleBooksByIsbn_def normalize_items_Dune)

lemma fetchGoogleBooksByQuery_Dune:
  "fetchGoogleBooksByQuery (always (ok_response dune_document)) (JStr q) = Inr [dune_googleBooks JNull]"
  by (simp add: fetchGoogleBooksByQuery_def normalize_items_Dune)

section \<open>Properties\<close>

text \<open>
  C12 (invariant). A candidate that \<open>normalizeOpenLibrary\<close> returns is tagged
  \<open>openlibrary\<close>, carries the identifier of the lookup, and is well formed: its
  authors are an array of truthy names, its cover and its link are a value or
  \<open>null\<close>, the link starts with the provider's address, and it has no Google Books
  links.
\<close>

theorem normalizeOpenLibrary_candidate:
  assumes "normalizeOpenLibrary data i = Inr (Some c)"
  shows "source c = OpenLibrary \<and> isbn c = JStr i \<and> well_formed_candidate c"
  using normalizeOpenLibrary_Some [OF assms] by simp

theorem normalizeOpenLibrary_candidate_witness:
  "source dune_openLibrary = OpenLibrary \<and> isbn dune_openLibrary = JStr (lit ''9780441013593'') \<and>
   well_formed_candidate dune_openLibrary"
  using normalizeOpenLibrary_candidate [OF normalizeOpenLibrary_Dune] .

text \<open>
  C24 (invariant). \<open>normalizeGoogleBooks\<close> drops a volume exactly when it has no
  truthy \<open>volumeInfo\<close>, and never throws; a candidate it returns is tagged
  \<open>googlebooks\<close>, carries the identifier passed, and is well formed.
\<close>

theorem normalizeGoogleBooks_candidate:
  "(case normalizeGoogleBooks volume i of
      None \<Rightarrow> \<not> truthy (opt_get volume (lit ''volumeInfo''))
    | Some c \<Rightarrow> truthy (opt_get volume (lit ''volumeInfo'')) \<and> googleBooks_candidate i c)"
proof (cases "normalizeGoogleBooks volume i")
  case None
  moreover from None have "\<not> truthy (opt_get volume (lit ''volumeInfo''))"
    using normalizeGoogleBooks_None_iff [of volume i] by blast
  ultimately show ?thesis by simp
next
  case (Some c)
  moreover from Some have "truthy (opt_get volume (lit ''volumeInfo''))"
    using normalizeGoogleBooks_None_iff [of volume i] by auto
  ultimately show ?thesis
    by (simp add: googleBooks_candidate_def normalizeGoogleBooks_Some)
qed

text \<open>
  C25 (invariant). Every candidate of \<open>fetchGoogleBooksByIsbn\<close> is a well-formed
  Google Books candidate that carries the identifier of the lookup, and there are no
  more candidates than the document has items.
\<close>

theorem fetchGoogleBooksByIsbn_candidates_of_items:
  assumes "fetchGoogleBooksByIsbn w i = Inr cs"
  shows "list_all (googleBooks_candidate (JStr i)) cs \<and>
     (cs = [] \<or> (\<exists>data xs. fetchJson w (googleBooks_request (lit ''isbn:'' @ i)) = Inr data \<and>
        lookup_prop data (lit ''items'') = JArr xs \<and> length cs \<le> length xs))"
proof -
  from assms obtain data where d: "fetchJson w (googleBooks_request (lit ''isbn:'' @ i)) = Inr data"
    and n: "normalize_items data (JStr i) = Inr cs"
    by (auto simp: fetchGoogleBooksByIsbn_Inr_iff)
  from normalize_items_Inr [OF n] d
  have "cs = [] \<or> (\<exists>data xs. fetchJson w (googleBooks_request (lit ''isbn:'' @ i)) = Inr data \<and>
        lookup_prop data (lit ''items'') = JArr xs \<and> length cs \<le> length xs)"
    using length_filter_candidates [of "map (\<lambda>x. normalizeGoogleBooks x (JStr i)) _"]
    by (metis length_map)
  with fetchGoogleBooksByIsbn_candidates [OF assms] show ?thesis by simp
qed

theorem fetchGoogleBooksByIsbn_candidates_of_items_witness:
  "list_all (googleBooks_candidate (JStr (lit ''9780441013593''))) [dune_googleBooks (JStr (lit ''9780441013593''))]"
  using fetchGoogleBooksByIsbn_candidates_of_items [OF fetchGoogleBooksByIsbn_Dune [of "lit ''9780441013593''"]]
  by (rule conjunct1)

text \<open>
  A free-text lookup returns Google Books candidates only, each with
  the identifier \<open>null\<close>.
\<close>

theorem fetchGoogleBooksByQuery_isbn_absent:
  "fetchGoogleBooksByQuery w query = Inr cs \<Longrightarrow>
     list_all (\<lambda>c. source c = GoogleBooks \<and> isbn c = JNull) cs"
  by (drule fetchGoogleBooksByQuery_candidates) (simp add: list_all_iff googleBooks_candidate_def)

theorem fetchGoogleBooksByQuery_isbn_absent_witness:
  "list_all (\<lambda>c. source c = GoogleBooks \<and> isbn c = JNull) [dune_googleBooks JNull]"
  using fetchGoogleBooksByQuery_isbn_absent [OF fetchGoogleBooksByQuery_Dune [of "lit ''Dune Frank Herbert''"]] .

end
