(* ===== verification/Promise.thy ===== *)
theory Promise
  imports JS_Prelude
begin

text \<open>
  The parallel join of the two provider calls, \<open>await Promise.all([p, q])\<close> in both
  handlers of \<open>src/src/index.js\<close>. Both calls are issued before either is awaited;
  the joined promise is fulfilled with both values once both calls are fulfilled, and
  rejected with the reason of the first call that is seen to reject.

  The sources only call \<open>Promise.all\<close>: what follows is the semantics of the
  built-in, and \<open>resolveByIsbn\<close> in \<open>Server\<close> is the code that uses it. Two
  models of it, and the lemmas that relate them:
  \<^item> \<open>join_step\<close>, a step relation on the state of the join: which of the two calls
    has settled, and what the joined promise has become. The calls settle in either
    order, one per step.
  \<^item> \<open>promise_all2\<close>, the function the handlers are written with: the outcome as
    a function of the two results and of the order in which the calls settle.
\<close>

section \<open>The join as a state machine\<close>

record ('a, 'b) join_state =
  first :: "'a result option"
  second :: "'b result option"
  joined :: "('a \<times> 'b) result option"

definition join_init :: "('a, 'b) join_state" where
  "join_init = \<lparr>first = None, second = None, joined = None\<rparr>"

text \<open>
  What the joined promise becomes when a call settles. A promise settles once: a
  joined promise that is already settled stays as it is.
\<close>

definition on_first :: "'a result \<Rightarrow> ('a, 'b) join_state \<Rightarrow> ('a \<times> 'b) result option" where
  "on_first r s =
     (case joined s of
        Some out \<Rightarrow> Some out
      | None \<Rightarrow>
          (case r of
             Inl e \<Rightarrow> Some (Inl e)
           | Inr a \<Rightarrow> (case second s of Some (Inr b) \<Rightarrow> Some (Inr (a, b)) | _ \<Rightarrow> None)))"

definition on_second :: "'b result \<Rightarrow> ('a, 'b) join_state \<Rightarrow> ('a \<times> 'b) result option" where
  "on_second r s =
     (case joined s of
        Some out \<Rightarrow> Some out
      | None \<Rightarrow>
          (case r of
             Inl e \<Rightarrow> Some (Inl e)
           | Inr b \<Rightarrow> (case first s of Some (Inr a) \<Rightarrow> Some (Inr (a, b)) | _ \<Rightarrow> None)))"

inductive join_step ::
  "'a result \<Rightarrow> 'b result \<Rightarrow> ('a, 'b) join_state \<Rightarrow> ('a, 'b) join_state \<Rightarrow> bool"
  for r1 :: "'a result" and r2 :: "'b result" where
  settle_first:
    "first s = None \<Longrightarrow> join_step r1 r2 s (s\<lparr>first := Some r1, joined := on_first r1 s\<rparr>)"
| settle_second:
    "second s = None \<Longrightarrow> join_step r1 r2 s (s\<lparr>second := Some r2, joined := on_second r2 s\<rparr>)"

inductive join_reachable :: "'a result \<Rightarrow> 'b result \<Rightarrow> ('a, 'b) join_state \<Rightarrow> bool"
  for r1 :: "'a result" and r2 :: "'b result" where
  init: "join_reachable r1 r2 join_init"
| step: "join_reachable r1 r2 s \<Longrightarrow> join_step r1 r2 s t \<Longrightarrow> join_reachable r1 r2 t"

definition join_complete :: "('a, 'b) join_state \<Rightarrow> bool" where
  "join_complete s \<longleftrightarrow> first s \<noteq> None \<and> second s \<noteq> None"

text \<open>The number of calls still pending: what every step decreases.\<close>

definition join_pending :: "('a, 'b) join_state \<Rightarrow> nat" where
  "join_pending s = (if first s = None then 1 else 0) + (if second s = None then 1 else 0)"

section \<open>The join as a function\<close>

datatype settle_order = FirstSettlesFirst | SecondSettlesFirst

fun promise_all2 :: "settle_order \<Rightarrow> 'a result \<Rightarrow> 'b result \<Rightarrow> ('a \<times> 'b) result" where
  "promise_all2 ord (Inr a) (Inr b) = Inr (a, b)"
| "promise_all2 ord (Inl e) (Inr b) = Inl e"
| "promise_all2 ord (Inr a) (Inl e) = Inl e"
| "promise_all2 FirstSettlesFirst (Inl e1) (Inl e2) = Inl e1"
| "promise_all2 SecondSettlesFirst (Inl e1) (Inl e2) = Inl e2"

text \<open>
  The invariant of the join: a settled call has the result the world gives it, and the
  joined promise is what the settled calls determine.
\<close>

definition join_inv :: "'a result \<Rightarrow> 'b result \<Rightarrow> ('a, 'b) join_state \<Rightarrow> bool" where
  "join_inv r1 r2 s \<longleftrightarrow>
     (first s = None \<or> first s = Some r1) \<and>
     (second s = None \<or> second s = Some r2) \<and>
     (case joined s of
        None \<Rightarrow>
          (first s = None \<or> (\<exists>a. r1 = Inr a)) \<and> (second s = None \<or> (\<exists>b. r2 = Inr b)) \<and>
          \<not> join_complete s
      | Some (Inr (a, b)) \<Rightarrow> first s = Some (Inr a) \<and> second s = Some (Inr b)
      | Some (Inl e) \<Rightarrow> first s = Some (Inl e) \<or> second s = Some (Inl e))"

section \<open>Facts\<close>

subsection \<open>The function\<close>

lemma promise_all2_Inr_iff: "promise_all2 ord r1 r2 = Inr (a, b) \<longleftrightarrow> r1 = Inr a \<and> r2 = Inr b"
  by (cases "(ord, r1, r2)" rule: promise_all2.cases) auto

lemma promise_all2_Inl_cases:
  "promise_all2 ord r1 r2 = Inl e \<Longrightarrow> r1 = Inl e \<or> r2 = Inl e"
  by (cases "(ord, r1, r2)" rule: promise_all2.cases) auto

lemma promise_all2_Inl_iff:
  "(\<exists>e. promise_all2 ord r1 r2 = Inl e) \<longleftrightarrow> (\<exists>e. r1 = Inl e) \<or> (\<exists>e. r2 = Inl e)"
  by (cases "(ord, r1, r2)" rule: promise_all2.cases) auto

lemma promise_all2_order_irrelevant:
  "(\<exists>a. r1 = Inr a) \<or> (\<exists>b. r2 = Inr b) \<Longrightarrow> promise_all2 ord r1 r2 = promise_all2 ord' r1 r2"
  by (cases "(ord, r1, r2)" rule: promise_all2.cases; cases ord') auto

subsection \<open>The invariant\<close>

inductive_cases join_stepE: "join_step r1 r2 s t"

lemma join_inv_init: "join_inv r1 r2 join_init"
  by (simp add: join_inv_def join_init_def join_complete_def)

lemma join_inv_first:
  assumes "join_inv r1 r2 s" and "first s = None"
  shows "join_inv r1 r2 (s\<lparr>first := Some r1, joined := on_first r1 s\<rparr>)"
proof (cases "joined s")
  case None
  with assms show ?thesis
    by (cases r1; cases "second s")
      (auto simp: join_inv_def on_first_def join_complete_def split: sum.splits)
next
  case (Some out)
  with assms show ?thesis
    by (auto simp: join_inv_def on_first_def join_complete_def split: sum.splits)
qed

lemma join_inv_second:
  assumes "join_inv r1 r2 s" and "second s = None"
  shows "join_inv r1 r2 (s\<lparr>second := Some r2, joined := on_second r2 s\<rparr>)"
proof (cases "joined s")
  case None
  with assms show ?thesis
    by (cases r2; cases "first s")
      (auto simp: join_inv_def on_second_def join_complete_def split: sum.splits)
next
  case (Some out)
  with assms show ?thesis
    by (auto simp: join_inv_def on_second_def join_complete_def split: sum.splits)
qed

lemma join_step_inv: "join_step r1 r2 s t \<Longrightarrow> join_inv r1 r2 s \<Longrightarrow> join_inv r1 r2 t"
  by (induction rule: join_step.induct) (simp_all add: join_inv_first join_inv_second)

lemma join_reachable_inv: "join_reachable r1 r2 s \<Longrightarrow> join_inv r1 r2 s"
  by (induction rule: join_reachable.induct) (auto intro: join_inv_init join_step_inv)

lemma join_inv_complete:
  assumes "join_inv r1 r2 s" and "join_complete s"
  shows "\<exists>ord. joined s = Some (promise_all2 ord r1 r2)"
proof (cases "joined s")
  case None
  with assms show ?thesis by (simp add: join_inv_def)
next
  case (Some out)
  from assms have f: "first s = Some r1" and g: "second s = Some r2"
    by (auto simp: join_inv_def join_complete_def)
  show ?thesis
  proof (cases out)
    case (Inl e)
    with Some assms f g have "r1 = Inl e \<or> r2 = Inl e" by (auto simp: join_inv_def)
    then have "promise_all2 FirstSettlesFirst r1 r2 = Inl e \<or> promise_all2 SecondSettlesFirst r1 r2 = Inl e"
      by (cases r1; cases r2) auto
    with Some Inl show ?thesis by metis
  next
    case (Inr p)
    with Some assms f g show ?thesis by (cases p) (auto simp: join_inv_def)
  qed
qed

subsection \<open>Runs\<close>

lemma join_run_first_then_second:
  "join_reachable r1 r2
     \<lparr>first = Some r1, second = Some r2, joined = Some (promise_all2 FirstSettlesFirst r1 r2)\<rparr>"
proof -
  let ?s1 = "join_init\<lparr>first := Some r1, joined := on_first r1 join_init\<rparr> :: ('a, 'b) join_state"
  have "join_step r1 r2 join_init ?s1"
    by (rule join_step.settle_first) (simp add: join_init_def)
  with join_reachable.init have r: "join_reachable r1 r2 ?s1" by (rule join_reachable.step)
  have "join_step r1 r2 ?s1 (?s1\<lparr>second := Some r2, joined := on_second r2 ?s1\<rparr>)"
    by (rule join_step.settle_second) (simp add: join_init_def)
  with r have "join_reachable r1 r2 (?s1\<lparr>second := Some r2, joined := on_second r2 ?s1\<rparr>)"
    by (rule join_reachable.step)
  moreover have "?s1\<lparr>second := Some r2, joined := on_second r2 ?s1\<rparr> =
      \<lparr>first = Some r1, second = Some r2, joined = Some (promise_all2 FirstSettlesFirst r1 r2)\<rparr>"
    by (cases r1; cases r2) (simp_all add: join_init_def on_first_def on_second_def)
  ultimately show ?thesis by simp
qed

lemma join_run_second_then_first:
  "join_reachable r1 r2
     \<lparr>first = Some r1, second = Some r2, joined = Some (promise_all2 SecondSettlesFirst r1 r2)\<rparr>"
proof -
  let ?s1 = "join_init\<lparr>second := Some r2, joined := on_second r2 join_init\<rparr> :: ('a, 'b) join_state"
  have "join_step r1 r2 join_init ?s1"
    by (rule join_step.settle_second) (simp add: join_init_def)
  with join_reachable.init have r: "join_reachable r1 r2 ?s1" by (rule join_reachable.step)
  have "join_step r1 r2 ?s1 (?s1\<lparr>first := Some r1, joined := on_first r1 ?s1\<rparr>)"
    by (rule join_step.settle_first) (simp add: join_init_def)
  with r have "join_reachable r1 r2 (?s1\<lparr>first := Some r1, joined := on_first r1 ?s1\<rparr>)"
    by (rule join_reachable.step)
  moreover have "?s1\<lparr>first := Some r1, joined := on_first r1 ?s1\<rparr> =
      \<lparr>first = Some r1, second = Some r2, joined = Some (promise_all2 SecondSettlesFirst r1 r2)\<rparr>"
    by (cases r1; cases r2) (simp_all add: join_init_def on_first_def on_second_def)
  ultimately show ?thesis by simp
qed

lemma join_progress: "\<not> join_complete s \<Longrightarrow> \<exists>t. join_step r1 r2 s t"
  by (auto simp: join_complete_def intro: join_step.intros)

lemma join_step_pending: "join_step r1 r2 s t \<Longrightarrow> join_pending t < join_pending s"
  by (induction rule: join_step.induct) (simp_all add: join_pending_def)

lemma join_complete_pending: "join_complete s \<longleftrightarrow> join_pending s = 0"
  by (simp add: join_complete_def join_pending_def)

lemma join_pending_le: "join_pending s \<le> 2"
  by (simp add: join_pending_def)

section \<open>Properties\<close>

text \<open>
  The function \<open>promise_all2\<close> is what the state machine of the
  join computes: a value is the outcome of the joined promise in a reachable state in
  which both calls have settled exactly when it is \<open>promise_all2\<close> of the two
  results for one of the two orders.
\<close>

theorem join_refines_promise_all2:
  "(\<exists>s. join_reachable r1 r2 s \<and> join_complete s \<and> joined s = Some out) \<longleftrightarrow>
     (\<exists>ord. out = promise_all2 ord r1 r2)"
proof
  assume "\<exists>s. join_reachable r1 r2 s \<and> join_complete s \<and> joined s = Some out"
  then obtain s where "join_inv r1 r2 s" "join_complete s" "joined s = Some out"
    by (blast dest: join_reachable_inv)
  then show "\<exists>ord. out = promise_all2 ord r1 r2"
    using join_inv_complete [of r1 r2 s] by auto
next
  assume "\<exists>ord. out = promise_all2 ord r1 r2"
  then obtain ord where out: "out = promise_all2 ord r1 r2" ..
  let ?s = "\<lparr>first = Some r1, second = Some r2, joined = Some out\<rparr>"
  from out have "join_reachable r1 r2 ?s"
    by (cases ord) (simp_all add: join_run_first_then_second join_run_second_then_first)
  moreover have "join_complete ?s \<and> joined ?s = Some out"
    by (simp add: join_complete_def)
  ultimately show "\<exists>s. join_reachable r1 r2 s \<and> join_complete s \<and> joined s = Some out"
    by blast
qed

text \<open>
  In every reachable state of the join a settled call has its
  result, a pending joined promise means no call seen so far has rejected and one is
  still pending, a fulfilled one carries the values of both calls, and a rejected one
  the reason of a call that has settled.
\<close>

theorem join_reachable_invariant: "join_reachable r1 r2 s \<Longrightarrow> join_inv r1 r2 s"
  by (induction rule: join_reachable.induct) (auto intro: join_inv_init join_step_inv)

theorem join_reachable_invariant_witness:
  "join_inv (Inl TypeError :: nat result) (Inr 5 :: nat result)
     \<lparr>first = Some (Inl TypeError), second = Some (Inr 5), joined = Some (Inl TypeError)\<rparr>"
  using join_reachable_invariant
    [OF join_run_first_then_second [of "Inl TypeError :: nat result" "Inr 5 :: nat result"]]
  by simp

text \<open>
  A promise settles once: a step of the join leaves a joined promise
  that is already settled as it is, so the reason reported is that of the first
  rejection seen.
\<close>

theorem join_settles_once:
  "join_step r1 r2 s t \<Longrightarrow> joined s = Some out \<Longrightarrow> joined t = Some out"
  by (induction rule: join_step.induct) (simp_all add: on_first_def on_second_def)

theorem join_settles_once_witness:
  "joined \<lparr>first = Some (Inl URIError), second = Some (Inl TypeError :: nat result),
      joined = Some (Inl URIError :: (nat \<times> nat) result)\<rparr> = Some (Inl URIError)"
proof -
  let ?s = "\<lparr>first = Some (Inl URIError :: nat result), second = None :: nat result option,
      joined = Some (Inl URIError :: (nat \<times> nat) result)\<rparr>"
  have "join_step (Inl URIError) (Inl TypeError) ?s
      (?s\<lparr>second := Some (Inl TypeError), joined := on_second (Inl TypeError) ?s\<rparr>)"
    by (rule join_step.settle_second) simp
  from join_settles_once [OF this] show ?thesis by simp
qed

text \<open>
  The order in which the two calls settle changes the outcome of
  \<open>promise_all2\<close> exactly when both calls reject, with different reasons.
\<close>

theorem promise_all2_order:
  "promise_all2 ord r1 r2 \<noteq> promise_all2 ord' r1 r2 \<longleftrightarrow>
     ord \<noteq> ord' \<and> (\<exists>e1 e2. r1 = Inl e1 \<and> r2 = Inl e2 \<and> e1 \<noteq> e2)"
  by (cases "(ord, r1, r2)" rule: promise_all2.cases; cases ord') auto

end
