(* ===== verification/Server.thy ===== *)
theory Server
  imports Validation Links Books Promise
begin

text \<open>
  The request handlers of \<open>src/src/index.js\<close>: \<open>GET /health\<close>,
  \<open>POST /identify\<close>, \<open>GET /kindle-link\<close> and the error middleware.

  A handler is a function from the network (a \<open>world\<close>), the order in which the two
  provider calls settle, and the request (the parsed JSON body, the parsed query
  string) to the reply it sends. The server keeps no state between requests. What a
  handler throws is caught by its \<open>try\<close> and passed to \<open>next\<close>, which reaches
  the error middleware: \<open>respond\<close> is that path.

  A reply is its status code and its JSON body. The body is one of the object shapes
  the handlers build; the text of an engine-raised error is the engine's and is
  carried as \<open>EngineMessage\<close>.
\<close>

section \<open>Replies\<close>

datatype input = InputIsbn jsstring | InputQuery jsval

datatype reply_body =
    StatusOk
  | Candidates input "candidate list"
  | KindleLinks input jsval "candidate list" fallback_links
  | ErrorBody message

record reply =
  statusCode :: nat
  body :: reply_body

definition json_reply :: "reply_body \<Rightarrow> reply" where
  "json_reply b = \<lparr>statusCode = 200, body = b\<rparr>"

definition status_reply :: "nat \<Rightarrow> reply_body \<Rightarrow> reply" where
  "status_reply n b = \<lparr>statusCode = n, body = b\<rparr>"

section \<open>The error middleware\<close>

fun error_status :: "js_error \<Rightarrow> nat" where
  "error_status (Thrown st m) = (if st = 0 then 500 else st)"
| "error_status e = 500"

fun error_message :: "js_error \<Rightarrow> message" where
  "error_message (Thrown st m) = Text (if m = [] then lit ''Unexpected error'' else m)"
| "error_message e = EngineMessage e"

definition error_handler :: "js_error \<Rightarrow> reply" where
  "error_handler e = status_reply (error_status e) (ErrorBody (error_message e))"

definition respond :: "reply result \<Rightarrow> reply" where
  "respond r = (case r of Inl e \<Rightarrow> error_handler e | Inr rep \<Rightarrow> rep)"

section \<open>Handlers\<close>

definition health :: reply where
  "health = json_reply StatusOk"

text \<open>
  The resolution both handlers start with: validate the identifier, issue both provider
  calls, join them, and put the OpenLibrary candidate (when there is one) before the
  Google Books candidates.
\<close>

definition resolveByIsbn ::
  "world \<Rightarrow> settle_order \<Rightarrow> jsval \<Rightarrow> (jsstring \<times> candidate list) result" where
  "resolveByIsbn w ord v =
     bind_result (assertIsbn v) (\<lambda>normalizedIsbn.
     bind_result
       (promise_all2 ord (fetchOpenLibraryByIsbn w normalizedIsbn)
          (fetchGoogleBooksByIsbn w normalizedIsbn))
       (\<lambda>(openLibrary, googleBooks).
          Inr (normalizedIsbn, filter_candidates (openLibrary # map Some googleBooks))))"

definition identify :: "world \<Rightarrow> settle_order \<Rightarrow> jsval \<Rightarrow> reply" where
  "identify w ord req_body =
     (let b = js_or req_body (JObj []);
          isbn_v = lookup_prop b (lit ''isbn'');
          imageBase64 = lookup_prop b (lit ''imageBase64'');
          query = lookup_prop b (lit ''query'') in
      respond
        (if truthy isbn_v then
           bind_result (resolveByIsbn w ord isbn_v) (\<lambda>(normalizedIsbn, candidates).
             Inr (json_reply (Candidates (InputIsbn normalizedIsbn) candidates)))
         else if truthy query then
           bind_result (fetchGoogleBooksByQuery w query) (\<lambda>candidates.
             Inr (json_reply (Candidates (InputQuery query) candidates)))
         else if truthy imageBase64 then
           Inr (status_reply 501 (ErrorBody (Text
             (lit ''OCR pipeline not implemented. Provide an ISBN or query for now.''))))
         else
           Inr (status_reply 400 (ErrorBody (Text (lit ''Provide isbn, query, or imageBase64.''))))))"

definition kindle_link :: "world \<Rightarrow> settle_order \<Rightarrow> jsval \<Rightarrow> reply" where
  "kindle_link w ord req_query =
     (let isbn_v = lookup_prop req_query (lit ''isbn'');
          loc = lookup_prop req_query (lit ''locale'');
          asin = lookup_prop req_query (lit ''asin'') in
      respond
        (bind_result (resolveByIsbn w ord isbn_v) (\<lambda>(normalizedIsbn, candidates).
           case candidates of
             [] \<Rightarrow> Inr (status_reply 404 (ErrorBody (Text (lit ''No matches found.''))))
           | primary # rest \<Rightarrow>
               bind_result (buildAmazonProductUrl asin loc) (\<lambda>amazonUrl.
               bind_result (buildFallbackLinks primary loc) (\<lambda>fallbackLinks.
                 Inr (json_reply
                   (KindleLinks (InputIsbn normalizedIsbn) amazonUrl candidates fallbackLinks)))))))"

text \<open>A reply that reports success, and the candidates a reply carries.\<close>

definition success :: "reply \<Rightarrow> bool" where
  "success rep \<longleftrightarrow> 200 \<le> statusCode rep \<and> statusCode rep \<le> 299"

fun reply_candidates :: "reply_body \<Rightarrow> candidate list option" where
  "reply_candidates (Candidates inp cs) = Some cs"
| "reply_candidates (KindleLinks inp u cs fl) = Some cs"
| "reply_candidates _ = None"

text \<open>
  The order of a candidate list: at most one OpenLibrary candidate, and it comes
  first.
\<close>

fun openLibrary_first :: "candidate list \<Rightarrow> bool" where
  "openLibrary_first [] = True"
| "openLibrary_first (c # cs) = list_all (\<lambda>d. source d = GoogleBooks) cs"

section \<open>Scenarios\<close>

text \<open>The world in which both providers know the book, and what the resolution finds in it.\<close>

definition dune_world :: world where
  "dune_world = always (ok_response dune_document)"

definition dune_candidates :: "candidate list" where
  "dune_candidates = [dune_openLibrary, dune_googleBooks (JStr (lit ''9780441013593''))]"

text \<open>
  A world in which OpenLibrary answers 503 for the identifier of the examples and
  every other request is rejected by the network.
\<close>

definition outage_world :: world where
  "outage_world url =
     (if url = openLibrary_request (lit ''9780441013593'') then Some unavailable else None)"

text \<open>A request for the links of the book on the British site, with a retailer identifier.\<close>

definition uk_query :: jsval where
  "uk_query =
     JObj [(lit ''isbn'', JStr (lit ''978-0-441-01359-3'')), (lit ''locale'', JStr (lit ''uk'')),
           (lit ''asin'', JStr (lit ''B00B7NPRY8''))]"

section \<open>Facts\<close>

lemmas reply_defs = json_reply_def status_reply_def error_handler_def respond_def success_def

subsection \<open>The error middleware\<close>

lemma respond_simps [simp]:
  "respond (Inl e) = error_handler e"
  "respond (Inr rep) = rep"
  by (simp_all add: respond_def)

lemma error_handler_simps [simp]:
  "statusCode (error_handler e) = error_status e"
  "body (error_handler e) = ErrorBody (error_message e)"
  by (simp_all add: error_handler_def status_reply_def)

lemma reply_simps [simp]:
  "statusCode (json_reply b) = 200" "body (json_reply b) = b"
  "statusCode (status_reply n b) = n" "body (status_reply n b) = b"
  by (simp_all add: json_reply_def status_reply_def)

lemma error_status_provider: "provider_error e \<Longrightarrow> \<not> (200 \<le> error_status e \<and> error_status e \<le> 299)"
  by (cases e) (auto simp: provider_error_def)

lemma error_status_invalid_isbn [simp]: "error_status invalid_isbn = 400"
  by (simp add: invalid_isbn_def)

lemma error_status_ge: "100 \<le> error_status e \<or> (\<exists>st m. e = Thrown st m \<and> 0 < st \<and> st < 100)"
  by (cases e) auto

subsection \<open>resolveByIsbn\<close>

lemma resolveByIsbn_Inr_iff:
  "resolveByIsbn w ord v = Inr (n, cs) \<longleftrightarrow>
     assertIsbn v = Inr n \<and>
     (\<exists>ol gb. fetchOpenLibraryByIsbn w n = Inr ol \<and> fetchGoogleBooksByIsbn w n = Inr gb \<and>
        cs = filter_candidates (ol # map Some gb))"
  by (auto simp: resolveByIsbn_def bind_result_eq_Inr_iff promise_all2_Inr_iff)

lemma resolveByIsbn_Inl:
  assumes "resolveByIsbn w ord v = Inl e"
  shows "assertIsbn v = Inl e \<or>
     (\<exists>n. assertIsbn v = Inr n \<and>
        (fetchOpenLibraryByIsbn w n = Inl e \<or> fetchGoogleBooksByIsbn w n = Inl e))"
  using assms
  by (auto simp: resolveByIsbn_def bind_result_eq_Inl_iff dest: promise_all2_Inl_cases)

lemma resolveByIsbn_fails:
  assumes "assertIsbn v = Inr n"
    and "(\<exists>e. fetchOpenLibraryByIsbn w n = Inl e) \<or> (\<exists>e. fetchGoogleBooksByIsbn w n = Inl e)"
  shows "\<exists>e. resolveByIsbn w ord v = Inl e"
proof -
  from assms(2) obtain e where
    "promise_all2 ord (fetchOpenLibraryByIsbn w n) (fetchGoogleBooksByIsbn w n) = Inl e"
    using promise_all2_Inl_iff by blast
  with assms(1) show ?thesis by (simp add: resolveByIsbn_def)
qed

lemma resolveByIsbn_error_status:
  assumes "resolveByIsbn w ord v = Inl e"
  shows "\<not> (200 \<le> error_status e \<and> error_status e \<le> 299)"
proof -
  from resolveByIsbn_Inl [OF assms] consider "assertIsbn v = Inl e"
    | n where "fetchOpenLibraryByIsbn w n = Inl e" | n where "fetchGoogleBooksByIsbn w n = Inl e"
    by blast
  then show ?thesis
  proof cases
    case 1
    then have "e = TypeError \<or> e = invalid_isbn"
      by (auto simp: assertIsbn_Inl_iff dest: normalizeIsbn_error)
    then show ?thesis by auto
  next
    case 2
    then show ?thesis by (blast dest: fetchOpenLibraryByIsbn_error error_status_provider)
  next
    case 3
    then show ?thesis by (blast dest: fetchGoogleBooksByIsbn_error error_status_provider)
  qed
qed

lemma googleBooks_candidates_source:
  "list_all (googleBooks_candidate i) cs \<Longrightarrow> list_all (\<lambda>d. source d = GoogleBooks) cs"
  by (simp add: list_all_iff googleBooks_candidate_def)

lemma openLibrary_first_googleBooks:
  "list_all (\<lambda>d. source d = GoogleBooks) cs \<Longrightarrow> openLibrary_first cs"
  by (cases cs) simp_all

lemma resolveByIsbn_candidates:
  assumes "resolveByIsbn w ord v = Inr (n, cs)"
  shows "normalized_isbn n" and "openLibrary_first cs"
    and "list_all (\<lambda>c. isbn c = JStr n \<and> well_formed_candidate c) cs"
proof -
  from assms obtain ol gb where n: "assertIsbn v = Inr n"
    and ol: "fetchOpenLibraryByIsbn w n = Inr ol" and gb: "fetchGoogleBooksByIsbn w n = Inr gb"
    and cs: "cs = filter_candidates (ol # map Some gb)"
    by (auto simp: resolveByIsbn_Inr_iff)
  from n show "normalized_isbn n" by (rule assertIsbn_normalized)
  from gb have g: "list_all (googleBooks_candidate (JStr n)) gb"
    by (rule fetchGoogleBooksByIsbn_candidates)
  then have g': "list_all (\<lambda>c. isbn c = JStr n \<and> well_formed_candidate c) gb"
    by (simp add: list_all_iff googleBooks_candidate_def)
  show "openLibrary_first cs"
  proof (cases ol)
    case None
    with cs g show ?thesis
      by (simp add: openLibrary_first_googleBooks googleBooks_candidates_source)
  next
    case (Some c)
    with cs g show ?thesis by (simp add: googleBooks_candidates_source)
  qed
  show "list_all (\<lambda>c. isbn c = JStr n \<and> well_formed_candidate c) cs"
  proof (cases ol)
    case None
    with cs g' show ?thesis by simp
  next
    case (Some c)
    with ol have "isbn c = JStr n" "well_formed_candidate c"
      by (simp_all add: fetchOpenLibraryByIsbn_Some)
    with Some cs g' show ?thesis by simp
  qed
qed

subsection \<open>Handlers\<close>

lemma identify_isbn:
  "truthy (lookup_prop (js_or req_body (JObj [])) (lit ''isbn'')) \<Longrightarrow>
     identify w ord req_body =
       respond (bind_result (resolveByIsbn w ord (lookup_prop (js_or req_body (JObj [])) (lit ''isbn'')))
         (\<lambda>(n, cs). Inr (json_reply (Candidates (InputIsbn n) cs))))"
  by (simp add: identify_def Let_def)

lemma identify_query:
  "\<not> truthy (lookup_prop (js_or req_body (JObj [])) (lit ''isbn'')) \<Longrightarrow>
   truthy (lookup_prop (js_or req_body (JObj [])) (lit ''query'')) \<Longrightarrow>
     identify w ord req_body =
       respond (bind_result (fetchGoogleBooksByQuery w (lookup_prop (js_or req_body (JObj [])) (lit ''query'')))
         (\<lambda>cs. Inr (json_reply (Candidates (InputQuery (lookup_prop (js_or req_body (JObj [])) (lit ''query''))) cs))))"
  by (simp add: identify_def Let_def)

lemma identify_image:
  "\<not> truthy (lookup_prop (js_or req_body (JObj [])) (lit ''isbn'')) \<Longrightarrow>
   \<not> truthy (lookup_prop (js_or req_body (JObj [])) (lit ''query'')) \<Longrightarrow>
   truthy (lookup_prop (js_or req_body (JObj [])) (lit ''imageBase64'')) \<Longrightarrow>
     identify w ord req_body =
       status_reply 501 (ErrorBody (Text
         (lit ''OCR pipeline not implemented. Provide an ISBN or query for now.'')))"
  by (simp add: identify_def Let_def)

lemma identify_nothing:
  "\<not> truthy (lookup_prop (js_or req_body (JObj [])) (lit ''isbn'')) \<Longrightarrow>
   \<not> truthy (lookup_prop (js_or req_body (JObj [])) (lit ''query'')) \<Longrightarrow>
   \<not> truthy (lookup_prop (js_or req_body (JObj [])) (lit ''imageBase64'')) \<Longrightarrow>
     identify w ord req_body =
       status_reply 400 (ErrorBody (Text (lit ''Provide isbn, query, or imageBase64.'')))"
  by (simp add: identify_def Let_def)

lemma kindle_link_unfold:
  "kindle_link w ord q =
     respond
       (bind_result (resolveByIsbn w ord (lookup_prop q (lit ''isbn''))) (\<lambda>(n, cs).
          case cs of
            [] \<Rightarrow> Inr (status_reply 404 (ErrorBody (Text (lit ''No matches found.''))))
          | primary # rest \<Rightarrow>
              bind_result (buildAmazonProductUrl (lookup_prop q (lit ''asin'')) (lookup_prop q (lit ''locale'')))
                (\<lambda>amazonUrl.
              bind_result (buildFallbackLinks primary (lookup_prop q (lit ''locale''))) (\<lambda>fallbackLinks.
                Inr (json_reply (KindleLinks (InputIsbn n) amazonUrl cs fallbackLinks))))))"
  by (simp add: kindle_link_def Let_def)

lemma kindle_link_resolved:
  "resolveByIsbn w ord (lookup_prop q (lit ''isbn'')) = Inr (n, cs) \<Longrightarrow>
     kindle_link w ord q =
       respond
         (case cs of
            [] \<Rightarrow> Inr (status_reply 404 (ErrorBody (Text (lit ''No matches found.''))))
          | primary # rest \<Rightarrow>
              bind_result (buildAmazonProductUrl (lookup_prop q (lit ''asin'')) (lookup_prop q (lit ''locale'')))
                (\<lambda>amazonUrl.
              bind_result (buildFallbackLinks primary (lookup_prop q (lit ''locale''))) (\<lambda>fallbackLinks.
                Inr (json_reply (KindleLinks (InputIsbn n) amazonUrl cs fallbackLinks)))))"
  by (simp add: kindle_link_unfold)

lemma kindle_link_unresolved:
  "resolveByIsbn w ord (lookup_prop q (lit ''isbn'')) = Inl e \<Longrightarrow>
     kindle_link w ord q = error_handler e"
  by (simp add: kindle_link_unfold)

subsection \<open>Replies and orders\<close>

lemma filter_candidates_merge:
  "filter_candidates (ol # map Some gb) = (case ol of None \<Rightarrow> gb | Some c \<Rightarrow> c # gb)"
  by (cases ol) simp_all

lemma provider_error_not_success:
  "provider_error e \<Longrightarrow> \<not> success (error_handler e)"
  by (auto simp: success_def dest: error_status_provider)

lemma resolveByIsbn_not_success:
  "resolveByIsbn w ord v = Inl e \<Longrightarrow> \<not> success (error_handler e)"
  by (auto simp: success_def dest: resolveByIsbn_error_status)

lemma success_json_reply [simp]: "success (json_reply b)"
  by (simp add: success_def)

lemma success_status_reply [simp]: "success (status_reply n b) \<longleftrightarrow> 200 \<le> n \<and> n \<le> 299"
  by (simp add: success_def)

lemma resolveByIsbn_order:
  "resolveByIsbn w ord v = Inr r \<Longrightarrow> resolveByIsbn w ord' v = Inr r"
  by (cases r) (simp add: resolveByIsbn_Inr_iff)

subsection \<open>Both calls reject\<close>

lemma resolveByIsbn_rejected:
  assumes "assertIsbn v = Inr n" and "fetchOpenLibraryByIsbn w n = Inl e1"
    and "fetchGoogleBooksByIsbn w n = Inl e2"
  shows "resolveByIsbn w FirstSettlesFirst v = Inl e1" "resolveByIsbn w SecondSettlesFirst v = Inl e2"
  using assms by (simp_all add: resolveByIsbn_def)

lemma resolveByIsbn_order_cases:
  obtains (same) "resolveByIsbn w FirstSettlesFirst v = resolveByIsbn w SecondSettlesFirst v"
  | (both_reject) n e1 e2 where "assertIsbn v = Inr n" and "fetchOpenLibraryByIsbn w n = Inl e1"
      and "fetchGoogleBooksByIsbn w n = Inl e2"
proof (cases "assertIsbn v")
  case (Inl e)
  then show ?thesis by (auto simp: resolveByIsbn_def intro: same)
next
  case (Inr n)
  show ?thesis
  proof (cases "\<exists>e1 e2. fetchOpenLibraryByIsbn w n = Inl e1 \<and> fetchGoogleBooksByIsbn w n = Inl e2")
    case True
    with Inr show ?thesis by (auto intro: both_reject)
  next
    case False
    then have "(\<exists>a. fetchOpenLibraryByIsbn w n = Inr a) \<or> (\<exists>b. fetchGoogleBooksByIsbn w n = Inr b)"
      by (cases "fetchOpenLibraryByIsbn w n"; cases "fetchGoogleBooksByIsbn w n") auto
    from promise_all2_order_irrelevant [OF this, of FirstSettlesFirst SecondSettlesFirst] Inr
    show ?thesis by (auto simp: resolveByIsbn_def intro: same)
  qed
qed

subsection \<open>Examples\<close>

lemma assertIsbn_Dune: "assertIsbn (JStr (lit ''978-0-441-01359-3'')) = Inr (lit ''9780441013593'')"
  by (simp add: assertIsbn_Inr_iff normalizeIsbn_JStr lit_eval isbn_eval)

lemma resolveByIsbn_Dune:
  "resolveByIsbn dune_world ord (JStr (lit ''978-0-441-01359-3'')) =
     Inr (lit ''9780441013593'', dune_candidates)"
  by (simp add: resolveByIsbn_Inr_iff assertIsbn_Dune dune_world_def dune_candidates_def
      fetchOpenLibraryByIsbn_Dune fetchGoogleBooksByIsbn_Dune)

lemma resolveByIsbn_unavailable:
  "resolveByIsbn (always unavailable) ord (JStr (lit ''978-0-441-01359-3'')) =
     Inl (Thrown 503 (lit ''Request failed: 503 Service Unavailable''))"
  by (cases ord)
    (simp_all add: resolveByIsbn_def assertIsbn_Dune fetchOpenLibraryByIsbn_def
      fetchGoogleBooksByIsbn_def fetchJson_always_unavailable)

lemma form_safe_Dune: "list_all form_safe (lit ''9780441013593'')"
  by (simp add: lit_eval form_safe_def is_alnum_unit_def)

lemma outage_world_requests:
  "fetchOpenLibraryByIsbn outage_world (lit ''9780441013593'') =
     Inl (Thrown 503 (lit ''Request failed: 503 Service Unavailable''))"
  "fetchGoogleBooksByIsbn outage_world (lit ''9780441013593'') = Inl FetchFailed"
proof -
  show "fetchOpenLibraryByIsbn outage_world (lit ''9780441013593'') =
     Inl (Thrown 503 (lit ''Request failed: 503 Service Unavailable''))"
    by (simp add: fetchOpenLibraryByIsbn_def fetchJson_def outage_world_def unavailable_def ok_def
        int_digits_def nat_digits.simps digit_unit_def lit_eval)
  have "googleBooks_request (lit ''isbn:'' @ lit ''9780441013593'') \<noteq>
      openLibrary_request (lit ''9780441013593'')"
    unfolding googleBooks_request_isbn [OF form_safe_Dune] openLibrary_request_safe [OF form_safe_Dune]
    by (simp add: lit_eval)
  then show "fetchGoogleBooksByIsbn outage_world (lit ''9780441013593'') = Inl FetchFailed"
    by (simp add: fetchGoogleBooksByIsbn_def fetchJson_def outage_world_def)
qed

subsection \<open>Cases of the handlers\<close>

lemma resolveByIsbn_Thrown:
  assumes "resolveByIsbn w ord v = Inl (Thrown st m)"
  shows "Thrown st m = invalid_isbn \<or> (\<exists>t. m = lit ''Request failed: '' @ t)"
proof -
  from resolveByIsbn_Inl [OF assms] consider "assertIsbn v = Inl (Thrown st m)"
    | n where "fetchOpenLibraryByIsbn w n = Inl (Thrown st m)"
    | n where "fetchGoogleBooksByIsbn w n = Inl (Thrown st m)"
    by blast
  then show ?thesis
  proof cases
    case 1
    then show ?thesis by (auto simp: assertIsbn_Inl_iff dest: normalizeIsbn_error)
  qed (blast dest: fetchOpenLibraryByIsbn_Thrown fetchGoogleBooksByIsbn_Thrown)+
qed

lemma error_handler_not_found:
  assumes "resolveByIsbn w ord v = Inl e"
  shows "error_handler e \<noteq> status_reply 404 (ErrorBody (Text (lit ''No matches found.'')))"
proof
  assume eq: "error_handler e = status_reply 404 (ErrorBody (Text (lit ''No matches found.'')))"
  then have "error_status e = 404" "error_message e = Text (lit ''No matches found.'')"
    by (simp_all add: error_handler_def status_reply_def)
  then obtain st m where e: "e = Thrown st m" and m: "m = lit ''No matches found.''"
    by (cases e) (auto split: if_splits simp: lit_eval)
  from resolveByIsbn_Thrown [OF assms [unfolded e]] m show False
    by (auto simp: invalid_isbn_def lit_eval)
qed

lemma links_not_found:
  "bind_result (buildAmazonProductUrl asin loc) (\<lambda>amazonUrl.
     bind_result (buildFallbackLinks primary loc) (\<lambda>fallbackLinks.
       Inr (json_reply (KindleLinks i amazonUrl cs fallbackLinks)))) = r \<Longrightarrow>
   (\<exists>u fl. r = Inr (json_reply (KindleLinks i u cs fl)) \<and> buildAmazonProductUrl asin loc = Inr u \<and>
      buildFallbackLinks primary loc = Inr fl) \<or>
   r = Inl TypeError \<or> r = Inl URIError"
  by (cases "buildAmazonProductUrl asin loc"; cases "buildFallbackLinks primary loc")
    (auto simp: buildFallbackLinks_Inl_iff dest: buildAmazonProductUrl_error buildAmazonSearchUrl_error)

lemma engine_error_handler [simp]:
  "error_handler TypeError = status_reply 500 (ErrorBody (EngineMessage TypeError))"
  "error_handler URIError = status_reply 500 (ErrorBody (EngineMessage URIError))"
  by (simp_all add: error_handler_def)

lemma kindle_link_cases:
  obtains (unresolved) e where "resolveByIsbn w ord (lookup_prop q (lit ''isbn'')) = Inl e"
      and "kindle_link w ord q = error_handler e"
  | (not_found) n where "resolveByIsbn w ord (lookup_prop q (lit ''isbn'')) = Inr (n, [])"
      and "kindle_link w ord q = status_reply 404 (ErrorBody (Text (lit ''No matches found.'')))"
  | (links) n c cs u fl where "resolveByIsbn w ord (lookup_prop q (lit ''isbn'')) = Inr (n, c # cs)"
      and "buildAmazonProductUrl (lookup_prop q (lit ''asin'')) (lookup_prop q (lit ''locale'')) = Inr u"
      and "buildFallbackLinks c (lookup_prop q (lit ''locale'')) = Inr fl"
      and "kindle_link w ord q = json_reply (KindleLinks (InputIsbn n) u (c # cs) fl)"
  | (engine_error) n c cs e where "resolveByIsbn w ord (lookup_prop q (lit ''isbn'')) = Inr (n, c # cs)"
      and "e = TypeError \<or> e = URIError"
      and "kindle_link w ord q = status_reply 500 (ErrorBody (EngineMessage e))"
proof (cases "resolveByIsbn w ord (lookup_prop q (lit ''isbn''))")
  case (Inl e)
  then show ?thesis by (auto simp: kindle_link_unresolved intro: unresolved)
next
  case (Inr r)
  obtain n cs where r: "r = (n, cs)" by (cases r)
  show ?thesis
  proof (cases cs)
    case Nil
    with Inr r show ?thesis by (auto simp: kindle_link_resolved intro: not_found)
  next
    case (Cons c cs')
    with Inr r have res: "resolveByIsbn w ord (lookup_prop q (lit ''isbn'')) = Inr (n, c # cs')"
      by simp
    from links_not_found [OF refl, of "lookup_prop q (lit ''asin'')" "lookup_prop q (lit ''locale'')" c
        "InputIsbn n" "c # cs'"]
    consider u fl where
        "buildAmazonProductUrl (lookup_prop q (lit ''asin'')) (lookup_prop q (lit ''locale'')) = Inr u"
        "buildFallbackLinks c (lookup_prop q (lit ''locale'')) = Inr fl"
        "kindle_link w ord q = json_reply (KindleLinks (InputIsbn n) u (c # cs') fl)"
      | e where "e = TypeError \<or> e = URIError"
        "kindle_link w ord q = status_reply 500 (ErrorBody (EngineMessage e))"
      unfolding kindle_link_resolved [OF res] by fastforce
    then show ?thesis
    proof cases
      case 1
      with res show ?thesis by (rule links)
    next
      case 2
      with res show ?thesis by (rule engine_error)
    qed
  qed
qed

lemma resolveByIsbn_Nil_iff:
  "resolveByIsbn w ord v = Inr (n, []) \<longleftrightarrow>
     assertIsbn v = Inr n \<and> fetchOpenLibraryByIsbn w n = Inr None \<and> fetchGoogleBooksByIsbn w n = Inr []"
proof -
  have "[] = filter_candidates (ol # map Some gb) \<longleftrightarrow> ol = None \<and> gb = []" for ol gb
    by (cases ol) auto
  then show ?thesis by (auto simp: resolveByIsbn_Inr_iff)
qed

lemma not_success_engine [simp]: "\<not> success (status_reply 500 b)" "\<not> success (status_reply 404 b)"
  by (simp_all add: success_def)

lemma json_reply_not_status [simp]:
  "json_reply b \<noteq> status_reply 404 b'" "json_reply b \<noteq> status_reply 500 b'"
  "status_reply 500 b \<noteq> status_reply 404 b'"
  by (simp_all add: json_reply_def status_reply_def)

lemma identify_isbn_cases:
  assumes "truthy (lookup_prop (js_or b (JObj [])) (lit ''isbn''))"
  obtains (unresolved) e where
      "resolveByIsbn w ord (lookup_prop (js_or b (JObj [])) (lit ''isbn'')) = Inl e"
      and "identify w ord b = error_handler e"
  | (resolved) n cs where
      "resolveByIsbn w ord (lookup_prop (js_or b (JObj [])) (lit ''isbn'')) = Inr (n, cs)"
      and "identify w ord b = json_reply (Candidates (InputIsbn n) cs)"
proof (cases "resolveByIsbn w ord (lookup_prop (js_or b (JObj [])) (lit ''isbn''))")
  case (Inl e)
  with assms show ?thesis by (auto simp: identify_isbn intro: unresolved)
next
  case (Inr r)
  with assms show ?thesis by (cases r) (auto simp: identify_isbn intro: resolved)
qed

subsection \<open>Examples of replies\<close>

lemma kindle_link_outage:
  "kindle_link outage_world FirstSettlesFirst (JObj [(lit ''isbn'', JStr (lit ''9780441013593''))]) =
     status_reply 503 (ErrorBody (Text (lit ''Request failed: 503 Service Unavailable'')))"
  "kindle_link outage_world SecondSettlesFirst (JObj [(lit ''isbn'', JStr (lit ''9780441013593''))]) =
     status_reply 500 (ErrorBody (EngineMessage FetchFailed))"
proof -
  let ?q = "JObj [(lit ''isbn'', JStr (lit ''9780441013593''))]"
  have "assertIsbn (lookup_prop ?q (lit ''isbn'')) = Inr (lit ''9780441013593'')"
    by (simp add: assertIsbn_Inr_iff normalizeIsbn_JStr lit_eval isbn_eval)
  from resolveByIsbn_rejected [OF this outage_world_requests]
  show "kindle_link outage_world FirstSettlesFirst ?q =
      status_reply 503 (ErrorBody (Text (lit ''Request failed: 503 Service Unavailable'')))"
    "kindle_link outage_world SecondSettlesFirst ?q = status_reply 500 (ErrorBody (EngineMessage FetchFailed))"
    by (simp_all add: kindle_link_unresolved error_handler_def del: lookup_prop.simps)
qed

lemma kindle_link_uk:
  "kindle_link dune_world ord uk_query =
     json_reply (KindleLinks (InputIsbn (lit ''9780441013593''))
       (JStr (lit ''https://www.amazon.co.uk/dp/B00B7NPRY8'')) dune_candidates
       \<lparr>amazonSearchUrl = lit ''https://www.amazon.co.uk/s?k=Dune%20Frank%20Herbert'',
         fallback_googleBooksPreviewUrl = JNull,
         fallback_openLibraryUrl = JStr (lit ''https://openlibrary.org/books/OL1M/Dune'')\<rparr>)"
proof -
  have "resolveByIsbn dune_world ord (lookup_prop uk_query (lit ''isbn'')) =
      Inr (lit ''9780441013593'', dune_candidates)"
    by (simp add: uk_query_def resolveByIsbn_Dune)
  moreover have "buildAmazonProductUrl (JStr (lit ''B00B7NPRY8'')) (JStr (lit ''uk'')) =
      Inr (JStr (lit ''https://www.amazon.co.uk/dp/B00B7NPRY8''))"
    by (simp add: buildAmazonProductUrl_JStr amazon_domain_def lit_eval)
  ultimately show ?thesis
    by (simp add: kindle_link_resolved dune_candidates_def uk_query_def buildFallbackLinks_Dune)
qed

section \<open>Properties\<close>

text \<open>
  C1 (invariant). When the resolution of an identifier succeeds, the identifier is
  normalised, the candidate list has at most one OpenLibrary candidate and it comes
  first, and every candidate is well formed and carries the normalised identifier.
\<close>

theorem resolveByIsbn_openLibrary_first:
  assumes "resolveByIsbn w ord v = Inr (n, cs)"
  shows "normalized_isbn n \<and> openLibrary_first cs \<and>
     list_all (\<lambda>c. isbn c = JStr n \<and> well_formed_candidate c) cs"
  using resolveByIsbn_candidates [OF assms] by simp

theorem resolveByIsbn_openLibrary_first_witness:
  "normalized_isbn (lit ''9780441013593'') \<and> openLibrary_first dune_candidates \<and>
   list_all (\<lambda>c. isbn c = JStr (lit ''9780441013593'') \<and> well_formed_candidate c) dune_candidates"
  using resolveByIsbn_openLibrary_first [OF resolveByIsbn_Dune [of FirstSettlesFirst]] .

text \<open>
  C17 (functional). The resolution succeeds exactly when the identifier is accepted
  and both provider calls are fulfilled; the candidates are then the OpenLibrary
  candidate, when there is one, followed by the Google Books candidates in the order
  of the provider.
\<close>

theorem resolveByIsbn_merge:
  "resolveByIsbn w ord v = Inr (n, cs) \<longleftrightarrow>
     assertIsbn v = Inr n \<and>
     (\<exists>ol gb. fetchOpenLibraryByIsbn w n = Inr ol \<and> fetchGoogleBooksByIsbn w n = Inr gb \<and>
        cs = (case ol of None \<Rightarrow> gb | Some c \<Rightarrow> c # gb))"
  by (simp add: resolveByIsbn_Inr_iff filter_candidates_merge)

text \<open>
  C16 (error). The resolution is all or nothing: when one provider call rejects, the
  resolution fails with the reason of a call that rejected, also when the other call
  returned candidates.
\<close>

theorem resolveByIsbn_all_or_nothing:
  assumes "assertIsbn v = Inr n"
    and "(\<exists>e. fetchOpenLibraryByIsbn w n = Inl e) \<or> (\<exists>e. fetchGoogleBooksByIsbn w n = Inl e)"
  shows "\<exists>e. resolveByIsbn w ord v = Inl e \<and>
     (fetchOpenLibraryByIsbn w n = Inl e \<or> fetchGoogleBooksByIsbn w n = Inl e)"
proof -
  from resolveByIsbn_fails [OF assms] obtain e where e: "resolveByIsbn w ord v = Inl e" ..
  with assms(1) have "fetchOpenLibraryByIsbn w n = Inl e \<or> fetchGoogleBooksByIsbn w n = Inl e"
    by (auto dest: resolveByIsbn_Inl)
  with e show ?thesis by blast
qed

theorem resolveByIsbn_all_or_nothing_witness:
  "\<exists>e. resolveByIsbn (always unavailable) FirstSettlesFirst (JStr (lit ''978-0-441-01359-3'')) = Inl e \<and>
     (fetchOpenLibraryByIsbn (always unavailable) (lit ''9780441013593'') = Inl e \<or>
      fetchGoogleBooksByIsbn (always unavailable) (lit ''9780441013593'') = Inl e)"
proof -
  have "\<exists>e. fetchOpenLibraryByIsbn (always unavailable) (lit ''9780441013593'') = Inl e"
    by (simp add: fetchOpenLibraryByIsbn_def fetchJson_always_unavailable)
  then show ?thesis by (intro resolveByIsbn_all_or_nothing [OF assertIsbn_Dune] disjI1)
qed

text \<open>
  C3 (safety). \<open>POST /identify\<close> reports success exactly when it resolved its
  input: a truthy \<open>isbn\<close> whose resolution succeeded, or, with no truthy
  \<open>isbn\<close>, a truthy \<open>query\<close> whose lookup succeeded. The reply then carries the
  input it used and the candidates found, and nothing else is ever sent with a status
  from 200 to 299.
\<close>

theorem identify_success_iff:
  "success (identify w ord b) \<longleftrightarrow>
     (let i = lookup_prop (js_or b (JObj [])) (lit ''isbn'');
          q = lookup_prop (js_or b (JObj [])) (lit ''query'') in
      if truthy i
      then \<exists>n cs. resolveByIsbn w ord i = Inr (n, cs) \<and>
             identify w ord b = json_reply (Candidates (InputIsbn n) cs)
      else truthy q \<and>
        (\<exists>cs. fetchGoogleBooksByQuery w q = Inr cs \<and>
           identify w ord b = json_reply (Candidates (InputQuery q) cs)))"
proof -
  let ?i = "lookup_prop (js_or b (JObj [])) (lit ''isbn'')"
  let ?q = "lookup_prop (js_or b (JObj [])) (lit ''query'')"
  consider (isbn) "truthy ?i" | (query) "\<not> truthy ?i" "truthy ?q" | (none) "\<not> truthy ?i" "\<not> truthy ?q"
    by blast
  then show ?thesis
  proof cases
    case isbn
    from isbn show ?thesis
    proof (cases rule: identify_isbn_cases [where w = w and ord = ord])
      case (unresolved e)
      moreover from unresolved have "\<not> success (error_handler e)"
        by (blast dest: resolveByIsbn_not_success)
      ultimately show ?thesis using isbn by (simp add: Let_def)
    next
      case (resolved n cs)
      with isbn show ?thesis by (simp add: Let_def)
    qed
  next
    case query
    show ?thesis
    proof (cases "fetchGoogleBooksByQuery w ?q")
      case (Inl e)
      then have "\<not> success (error_handler e)"
        by (blast dest: fetchGoogleBooksByQuery_error provider_error_not_success)
      with Inl query show ?thesis by (simp add: Let_def identify_query)
    next
      case (Inr cs)
      with query show ?thesis by (simp add: Let_def identify_query)
    qed
  next
    case none
    then show ?thesis
      by (cases "truthy (lookup_prop (js_or b (JObj [])) (lit ''imageBase64''))")
        (simp_all add: Let_def identify_image identify_nothing)
  qed
qed

text \<open>
  A truthy \<open>isbn\<close> that does not normalise is answered with the status
  400 and the message of the validator, whatever else the body holds and whatever the
  providers would have answered: no provider is called.
\<close>

theorem identify_invalid_isbn:
  assumes "truthy (lookup_prop (js_or b (JObj [])) (lit ''isbn''))"
    and "normalizeIsbn (lookup_prop (js_or b (JObj [])) (lit ''isbn'')) = Inr None"
  shows "identify w ord b =
     status_reply 400 (ErrorBody (Text (lit ''Invalid ISBN. Provide a 10 or 13 digit ISBN.'')))"
proof -
  from assms(2) have "resolveByIsbn w ord (lookup_prop (js_or b (JObj [])) (lit ''isbn'')) = Inl invalid_isbn"
    by (simp add: resolveByIsbn_def assertIsbn_cases)
  with assms(1) show ?thesis
    by (simp add: identify_isbn error_handler_def invalid_isbn_def lit_eval)
qed

theorem identify_invalid_isbn_witness:
  "identify dune_world FirstSettlesFirst
     (JObj [(lit ''isbn'', JStr (lit ''12345'')), (lit ''query'', JStr (lit ''Dune''))]) =
   status_reply 400 (ErrorBody (Text (lit ''Invalid ISBN. Provide a 10 or 13 digit ISBN.'')))"
proof -
  let ?b = "JObj [(lit ''isbn'', JStr (lit ''12345'')), (lit ''query'', JStr (lit ''Dune''))]"
  have i: "lookup_prop (js_or ?b (JObj [])) (lit ''isbn'') = JStr (lit ''12345'')"
    by (simp add: js_or_def)
  have "truthy (lookup_prop (js_or ?b (JObj [])) (lit ''isbn''))"
    "normalizeIsbn (lookup_prop (js_or ?b (JObj [])) (lit ''isbn'')) = Inr None"
    unfolding i by (simp_all add: normalizeIsbn_JStr lit_eval isbn_eval)
  then show ?thesis by (rule identify_invalid_isbn)
qed

text \<open>
  With neither a truthy \<open>isbn\<close> nor a truthy \<open>query\<close>,
  \<open>POST /identify\<close> calls no provider: an image is answered with the status 501
  and anything else with the status 400, each with the message of the source.
\<close>

theorem identify_without_input:
  assumes "\<not> truthy (lookup_prop (js_or b (JObj [])) (lit ''isbn''))"
    and "\<not> truthy (lookup_prop (js_or b (JObj [])) (lit ''query''))"
  shows "identify w ord b =
     (if truthy (lookup_prop (js_or b (JObj [])) (lit ''imageBase64''))
      then status_reply 501 (ErrorBody (Text
        (lit ''OCR pipeline not implemented. Provide an ISBN or query for now.'')))
      else status_reply 400 (ErrorBody (Text (lit ''Provide isbn, query, or imageBase64.''))))"
  using assms by (simp add: identify_image identify_nothing)

theorem identify_without_input_witness:
  "identify dune_world FirstSettlesFirst (JObj [(lit ''imageBase64'', JStr (lit ''aGVsbG8=''))]) =
     status_reply 501 (ErrorBody (Text
       (lit ''OCR pipeline not implemented. Provide an ISBN or query for now.''))) \<and>
   identify dune_world FirstSettlesFirst JUndefined =
     status_reply 400 (ErrorBody (Text (lit ''Provide isbn, query, or imageBase64.'')))"
  using identify_without_input [of "JObj [(lit ''imageBase64'', JStr (lit ''aGVsbG8=''))]"
      dune_world FirstSettlesFirst]
    identify_without_input [of JUndefined dune_world FirstSettlesFirst]
  by (simp add: js_or_def)

text \<open>
  C2 (functional). \<open>GET /kindle-link\<close> reports success exactly when the
  resolution found at least one candidate and both links could be built; the reply
  then carries the normalised identifier, the product link for the \<open>asin\<close> and
  the \<open>locale\<close> of the request, all candidates, and the fallback links of the first
  candidate.
\<close>

theorem kindle_link_success_iff:
  "success (kindle_link w ord q) \<longleftrightarrow>
     (\<exists>n c cs u fl.
        resolveByIsbn w ord (lookup_prop q (lit ''isbn'')) = Inr (n, c # cs) \<and>
        buildAmazonProductUrl (lookup_prop q (lit ''asin'')) (lookup_prop q (lit ''locale'')) = Inr u \<and>
        buildFallbackLinks c (lookup_prop q (lit ''locale'')) = Inr fl \<and>
        kindle_link w ord q = json_reply (KindleLinks (InputIsbn n) u (c # cs) fl))"
proof (cases rule: kindle_link_cases [where w = w and ord = ord and q = q])
  case (unresolved e)
  moreover from unresolved have "\<not> success (error_handler e)"
    by (blast dest: resolveByIsbn_not_success)
  ultimately show ?thesis by simp
qed (simp_all add: json_reply_def status_reply_def success_def)

text \<open>
  C15 (error). \<open>GET /kindle-link\<close> answers 404 with \<open>No matches found.\<close> exactly
  when the identifier is accepted, OpenLibrary has no entry for it and Google Books
  returns no candidate; no failure of a provider is reported that way.
\<close>

theorem kindle_link_not_found_iff:
  "kindle_link w ord q = status_reply 404 (ErrorBody (Text (lit ''No matches found.''))) \<longleftrightarrow>
     (\<exists>n. assertIsbn (lookup_prop q (lit ''isbn'')) = Inr n \<and>
        fetchOpenLibraryByIsbn w n = Inr None \<and> fetchGoogleBooksByIsbn w n = Inr [])"
proof -
  have "kindle_link w ord q = status_reply 404 (ErrorBody (Text (lit ''No matches found.''))) \<longleftrightarrow>
      (\<exists>n. resolveByIsbn w ord (lookup_prop q (lit ''isbn'')) = Inr (n, []))"
  proof (cases rule: kindle_link_cases [where w = w and ord = ord and q = q])
    case (unresolved e)
    moreover from unresolved
    have "error_handler e \<noteq> status_reply 404 (ErrorBody (Text (lit ''No matches found.'')))"
      by (blast dest: error_handler_not_found)
    ultimately show ?thesis by simp
  qed (simp_all add: json_reply_def status_reply_def)
  then show ?thesis by (simp add: resolveByIsbn_Nil_iff)
qed

text \<open>
  C18 (equivalence). A successful reply of either handler does not depend on the
  order in which the two provider calls settle.
\<close>

theorem success_order_independent:
  "(success (identify w ord b) \<longrightarrow> identify w ord' b = identify w ord b) \<and>
   (success (kindle_link w ord q) \<longrightarrow> kindle_link w ord' q = kindle_link w ord q)"
proof -
  have "identify w ord' b = identify w ord b" if "success (identify w ord b)"
  proof (cases "truthy (lookup_prop (js_or b (JObj [])) (lit ''isbn''))")
    case True
    from True that obtain r where
      "resolveByIsbn w ord (lookup_prop (js_or b (JObj [])) (lit ''isbn'')) = Inr r"
      by (cases rule: identify_isbn_cases [where w = w and ord = ord])
        (auto dest: resolveByIsbn_not_success)
    from this resolveByIsbn_order [OF this, of ord'] True show ?thesis
      by (simp add: identify_isbn)
  next
    case False
    then show ?thesis by (simp add: identify_def Let_def)
  qed
  moreover have "kindle_link w ord' q = kindle_link w ord q" if "success (kindle_link w ord q)"
  proof -
    from that obtain r where "resolveByIsbn w ord (lookup_prop q (lit ''isbn'')) = Inr r"
      by (cases rule: kindle_link_cases [where w = w and ord = ord and q = q]) (auto dest: resolveByIsbn_not_success)
    from this resolveByIsbn_order [OF this, of ord'] show ?thesis
      by (simp add: kindle_link_unfold)
  qed
  ultimately show ?thesis by blast
qed

theorem success_order_independent_witness:
  "identify dune_world SecondSettlesFirst (JObj [(lit ''isbn'', JStr (lit ''978-0-441-01359-3''))]) =
   identify dune_world FirstSettlesFirst (JObj [(lit ''isbn'', JStr (lit ''978-0-441-01359-3''))])"
proof -
  let ?b = "JObj [(lit ''isbn'', JStr (lit ''978-0-441-01359-3''))]"
  have i: "lookup_prop (js_or ?b (JObj [])) (lit ''isbn'') = JStr (lit ''978-0-441-01359-3'')"
    by (simp add: js_or_def)
  have "identify dune_world FirstSettlesFirst ?b =
      json_reply (Candidates (InputIsbn (lit ''9780441013593'')) dune_candidates)"
    by (simp add: identify_isbn i resolveByIsbn_Dune)
  then have "success (identify dune_world FirstSettlesFirst ?b)" by simp
  with success_order_independent [of dune_world FirstSettlesFirst ?b SecondSettlesFirst]
  show ?thesis by blast
qed

text \<open>
  C19 (error). The reply of \<open>GET /kindle-link\<close> depends on the order in which the
  provider calls settle exactly when the identifier is accepted and both calls reject
  with reasons the error middleware answers differently; the reply is then that for
  the reason of OpenLibrary when its call is seen to reject first, and that for the
  reason of Google Books otherwise.
\<close>

theorem kindle_link_error_depends_on_order:
  "kindle_link w FirstSettlesFirst q \<noteq> kindle_link w SecondSettlesFirst q \<longleftrightarrow>
     (\<exists>n e1 e2. assertIsbn (lookup_prop q (lit ''isbn'')) = Inr n \<and>
        fetchOpenLibraryByIsbn w n = Inl e1 \<and> fetchGoogleBooksByIsbn w n = Inl e2 \<and>
        kindle_link w FirstSettlesFirst q = error_handler e1 \<and>
        kindle_link w SecondSettlesFirst q = error_handler e2 \<and>
        error_handler e1 \<noteq> error_handler e2)"
proof (cases rule: resolveByIsbn_order_cases [of w "lookup_prop q (lit ''isbn'')"])
  case same
  then have "kindle_link w FirstSettlesFirst q = kindle_link w SecondSettlesFirst q"
    by (simp add: kindle_link_unfold)
  then show ?thesis by auto
next
  case (both_reject n e1 e2)
  from resolveByIsbn_rejected [OF this]
  have "kindle_link w FirstSettlesFirst q = error_handler e1"
    "kindle_link w SecondSettlesFirst q = error_handler e2"
    by (simp_all add: kindle_link_unresolved)
  with both_reject show ?thesis by auto
qed

theorem kindle_link_error_depends_on_order_witness:
  "\<exists>e1 e2.
     kindle_link outage_world FirstSettlesFirst (JObj [(lit ''isbn'', JStr (lit ''9780441013593''))]) =
       error_handler e1 \<and>
     kindle_link outage_world SecondSettlesFirst (JObj [(lit ''isbn'', JStr (lit ''9780441013593''))]) =
       error_handler e2 \<and> statusCode (error_handler e1) = 503 \<and> statusCode (error_handler e2) = 500"
proof -
  let ?q = "JObj [(lit ''isbn'', JStr (lit ''9780441013593''))]"
  have "kindle_link outage_world FirstSettlesFirst ?q \<noteq> kindle_link outage_world SecondSettlesFirst ?q"
    by (simp add: kindle_link_outage status_reply_def)
  then obtain e1 e2 where "kindle_link outage_world FirstSettlesFirst ?q = error_handler e1"
    "kindle_link outage_world SecondSettlesFirst ?q = error_handler e2"
    unfolding kindle_link_error_depends_on_order by blast
  with kindle_link_outage show ?thesis by (metis reply_simps(3))
qed

text \<open>
  C23 (functional). Both links of a reply of \<open>GET /kindle-link\<close> are on one site:
  the British one exactly when the \<open>locale\<close> of the query is the string \<open>uk\<close>,
  the American one for every other value and without one. The search link has a query
  of unreserved units and \<open>%\<close>; the product link is \<open>null\<close> exactly without a
  truthy \<open>asin\<close>, which is put into it as it is; the provider links are those of the
  first candidate, or \<open>null\<close>.
\<close>

theorem kindle_link_same_retailer:
  assumes "body (kindle_link w ord q) = KindleLinks inp u cs fl"
    and "d = (if lookup_prop q (lit ''locale'') = JStr (lit ''uk'')
          then lit ''https://www.amazon.co.uk'' else lit ''https://www.amazon.com'')"
  shows "(\<exists>k. amazonSearchUrl fl = d @ lit ''/s?k='' @ k \<and> list_all uri_safe k) \<and>
     (if truthy (lookup_prop q (lit ''asin''))
      then \<exists>a. to_string (lookup_prop q (lit ''asin'')) = Inr a \<and> u = JStr (d @ lit ''/dp/'' @ a)
      else u = JNull) \<and>
     (\<exists>c rest. cs = c # rest \<and>
        fallback_googleBooksPreviewUrl fl = js_or (googleBooksPreviewUrl c) JNull \<and>
        fallback_openLibraryUrl fl = js_or (openLibraryUrl c) JNull)"
proof (cases rule: kindle_link_cases [where w = w and ord = ord and q = q])
  case (links n c cs' u' fl')
  with assms(1) have "u' = u" "fl' = fl" "cs = c # cs'" by simp_all
  with links(2,3) buildAmazonProductUrl_domain [of "lookup_prop q (lit ''asin'')" _ u]
    buildAmazonSearchUrl_domain [of "title c" "authors c" _ "amazonSearchUrl fl"]
  show ?thesis
    unfolding amazon_domain_address assms(2) by (simp add: buildFallbackLinks_Inr_iff)
qed (use assms(1) in simp_all)

theorem kindle_link_same_retailer_witness:
  "(\<exists>k. lit ''https://www.amazon.co.uk/s?k=Dune%20Frank%20Herbert'' =
       lit ''https://www.amazon.co.uk'' @ lit ''/s?k='' @ k \<and> list_all uri_safe k) \<and>
   JStr (lit ''https://www.amazon.co.uk/dp/B00B7NPRY8'') =
     JStr (lit ''https://www.amazon.co.uk'' @ lit ''/dp/'' @ lit ''B00B7NPRY8'')"
proof -
  have "body (kindle_link dune_world FirstSettlesFirst uk_query) =
      KindleLinks (InputIsbn (lit ''9780441013593''))
       (JStr (lit ''https://www.amazon.co.uk/dp/B00B7NPRY8'')) dune_candidates
       \<lparr>amazonSearchUrl = lit ''https://www.amazon.co.uk/s?k=Dune%20Frank%20Herbert'',
         fallback_googleBooksPreviewUrl = JNull,
         fallback_openLibraryUrl = JStr (lit ''https://openlibrary.org/books/OL1M/Dune'')\<rparr>"
    by (simp add: kindle_link_uk)
  from kindle_link_same_retailer [OF this refl] show ?thesis
    by (simp add: uk_query_def)
qed

text \<open>
  C5 (refinement). The resolution is what the join of its two provider calls yields:
  for an accepted identifier, the results \<open>resolveByIsbn\<close> has over the two settle
  orders are exactly the merges of the outcomes the state machine of \<open>Promise.all\<close>
  reaches, run on the two calls until both have settled.
\<close>

theorem resolveByIsbn_refines_join:
  assumes "assertIsbn v = Inr n"
  shows "(\<exists>ord. resolveByIsbn w ord v = r) \<longleftrightarrow>
     (\<exists>s out. join_reachable (fetchOpenLibraryByIsbn w n) (fetchGoogleBooksByIsbn w n) s \<and>
        join_complete s \<and> joined s = Some out \<and>
        r = bind_result out (\<lambda>(openLibrary, googleBooks).
              Inr (n, filter_candidates (openLibrary # map Some googleBooks))))"
proof -
  let ?merge = "\<lambda>out. bind_result out (\<lambda>(openLibrary, googleBooks).
      Inr (n, filter_candidates (openLibrary # map Some googleBooks)))"
  let ?r1 = "fetchOpenLibraryByIsbn w n" and ?r2 = "fetchGoogleBooksByIsbn w n"
  from assms have "resolveByIsbn w ord v = ?merge (promise_all2 ord ?r1 ?r2)" for ord
    by (simp add: resolveByIsbn_def)
  then have "(\<exists>ord. resolveByIsbn w ord v = r) \<longleftrightarrow>
      (\<exists>out. (\<exists>ord. out = promise_all2 ord ?r1 ?r2) \<and> r = ?merge out)"
    by auto
  also have "\<dots> \<longleftrightarrow> (\<exists>out. (\<exists>s. join_reachable ?r1 ?r2 s \<and> join_complete s \<and> joined s = Some out) \<and>
      r = ?merge out)"
    by (simp only: join_refines_promise_all2)
  finally show ?thesis by blast
qed

theorem resolveByIsbn_refines_join_witness:
  "\<exists>s out. join_reachable (fetchOpenLibraryByIsbn dune_world (lit ''9780441013593''))
       (fetchGoogleBooksByIsbn dune_world (lit ''9780441013593'')) s \<and>
     join_complete s \<and> joined s = Some out \<and>
     Inr (lit ''9780441013593'', dune_candidates) =
       bind_result out (\<lambda>(openLibrary, googleBooks).
         Inr (lit ''9780441013593'', filter_candidates (openLibrary # map Some googleBooks)))"
  using resolveByIsbn_refines_join [OF assertIsbn_Dune, of dune_world
      "Inr (lit ''9780441013593'', dune_candidates)"]
    resolveByIsbn_Dune [of FirstSettlesFirst]
  by blast

end
