(* ===== verification/JSON.thy ===== *)
theory JSON
  imports JS_Values
begin

text \<open>
  JSON text as the engine writes and reads it. \<open>stringify\<close> is
  \<open>JSON.stringify\<close> with one argument, which \<open>res.json\<close> in
  \<open>src/src/index.js\<close> and the request of \<open>src/expo-app/App.js\<close> call;
  \<open>parse_json\<close> is \<open>JSON.parse\<close>, which \<open>express.json()\<close>,
  \<open>response.json()\<close> and the client call. Both follow the ECMAScript definition.

  The parser has two stages, neither of which needs fuel: \<open>lex\<close> is a state machine
  over the code units of the text and yields tokens, \<open>parse_tokens\<close> is a pushdown
  machine over the tokens whose stack holds the arrays and objects under construction.

  Numbers are integers, as everywhere in the development. A number of the text that
  is not an integer of magnitude below \<open>2^53\<close> is valid JSON that the model has no
  value for: the parser answers \<open>Unrepresented\<close>, and \<open>Malformed\<close> exactly where
  the engine throws a \<open>SyntaxError\<close>. \<open>-0\<close> is \<open>0\<close>. A property \<open>toJSON\<close>
  is never called: no value the sources build has a callable one.

  The facts: the text \<open>stringify\<close> writes is read back as the value with absent
  elements replaced by \<open>null\<close> and absent properties removed; the parser returns
  nothing but JSON values; so writing and reading is the identity on what the parser
  returns.
\<close>

section \<open>Property order\<close>

text \<open>
  An object enumerates its array-index keys first, in ascending order, and its other
  keys in the order of their creation. An array index is the canonical numeral of a
  number below \<open>2^32 - 1\<close>. \<open>obj_put\<close> is the definition of a property on an
  object whose properties are in that order (\<open>CreateDataProperty\<close>): an existing
  key keeps its place and takes the new value. \<open>ordered_props\<close> says a list is in
  that order, with no key twice; the engine's objects all are.
\<close>

definition digits_value :: "jsstring \<Rightarrow> nat" where
  "digits_value t = foldl (\<lambda>a c. 10 * a + (unat c - 48)) 0 t"

definition index_of :: "jsstring \<Rightarrow> nat option" where
  "index_of k =
     (if k \<noteq> [] \<and> list_all is_digit_unit k \<and> (hd k \<noteq> 0x30 \<or> length k = 1) \<and>
         digits_value k < 2 ^ 32 - 1
      then Some (digits_value k) else None)"

definition comes_before :: "jsstring \<Rightarrow> jsstring \<Rightarrow> bool" where
  "comes_before k k' \<longleftrightarrow>
     (case index_of k of
        None \<Rightarrow> False
      | Some n \<Rightarrow> (case index_of k' of None \<Rightarrow> True | Some n' \<Rightarrow> n < n'))"

fun obj_put :: "(jsstring \<times> jsval) list \<Rightarrow> jsstring \<Rightarrow> jsval \<Rightarrow> (jsstring \<times> jsval) list" where
  "obj_put [] k v = [(k, v)]"
| "obj_put ((k', v') # kvs) k v =
     (if k' = k then (k, v) # kvs
      else if comes_before k k' then (k, v) # (k', v') # kvs
      else (k', v') # obj_put kvs k v)"

fun ordered_props :: "(jsstring \<times> jsval) list \<Rightarrow> bool" where
  "ordered_props [] = True"
| "ordered_props ((k, v) # kvs) \<longleftrightarrow>
     list_all (\<lambda>(k', v'). k' \<noteq> k \<and> \<not> comes_before k' k) kvs \<and> ordered_props kvs"

text \<open>The properties after a sequence of writes.\<close>

definition puts :: "(jsstring \<times> jsval) list \<Rightarrow> (jsstring \<times> jsval) list \<Rightarrow> (jsstring \<times> jsval) list" where
  "puts kvs ms = foldl (\<lambda>a kv. obj_put a (fst kv) (snd kv)) kvs ms"

section \<open>Writing\<close>

text \<open>
  \<open>quote\<close> is \<open>QuoteJSONString\<close>: the string between double quotes, with the
  two-character escapes for backspace, tab, line feed, form feed, carriage return,
  the double quote and the backslash, and \<open>\u\<close> with four lower-case hexadecimal
  digits for every other unit below \<open>0x20\<close> and for a surrogate that is not part
  of a pair.

  \<open>stringify\<close> is \<open>SerializeJSONProperty\<close>: \<open>None\<close> is the result
  \<open>undefined\<close>, for \<open>undefined\<close> and for a function. An absent element of an
  array is written \<open>null\<close>; an absent property of an object is left out. The
  properties are written in the order of the list.
\<close>

definition hex_digit :: "nat \<Rightarrow> code_unit" where
  "hex_digit d = (if d < 10 then of_nat (48 + d) else of_nat (87 + d))"

definition hex4 :: "code_unit \<Rightarrow> jsstring" where
  "hex4 c = (let n = unat c in
     map hex_digit [n div 4096, n div 256 mod 16, n div 16 mod 16, n mod 16])"

definition quote_unit :: "code_unit \<Rightarrow> jsstring" where
  "quote_unit c =
     (if c = 0x08 then [0x5C, 0x62]
      else if c = 0x09 then [0x5C, 0x74]
      else if c = 0x0A then [0x5C, 0x6E]
      else if c = 0x0C then [0x5C, 0x66]
      else if c = 0x0D then [0x5C, 0x72]
      else if c = 0x22 then [0x5C, 0x22]
      else if c = 0x5C then [0x5C, 0x5C]
      else if c < 0x20 \<or> is_lead c \<or> is_trail c then [0x5C, 0x75] @ hex4 c
      else [c])"

definition quote_point :: "jsstring \<Rightarrow> jsstring" where
  "quote_point p = (case p of [c] \<Rightarrow> quote_unit c | _ \<Rightarrow> p)"

definition quote :: "jsstring \<Rightarrow> jsstring" where
  "quote s = 0x22 # concat (map quote_point (code_points s)) @ [0x22]"

fun absent :: "jsval \<Rightarrow> bool" where
  "absent JUndefined = True"
| "absent (JFunction name n) = True"
| "absent _ = False"

fun stringify :: "jsval \<Rightarrow> jsstring option"
  and stringify_elements :: "jsval list \<Rightarrow> jsstring list"
  and stringify_members :: "(jsstring \<times> jsval) list \<Rightarrow> jsstring list" where
  "stringify JUndefined = None"
| "stringify (JFunction name n) = None"
| "stringify JNull = Some (lit ''null'')"
| "stringify (JBool b) = Some (if b then lit ''true'' else lit ''false'')"
| "stringify (JNum n) = Some (int_digits n)"
| "stringify (JStr s) = Some (quote s)"
| "stringify (JArr xs) = Some (0x5B # join_strings (lit '','') (stringify_elements xs) @ [0x5D])"
| "stringify (JObj kvs) = Some (0x7B # join_strings (lit '','') (stringify_members kvs) @ [0x7D])"
| "stringify_elements [] = []"
| "stringify_elements (x # xs) =
     (case stringify x of None \<Rightarrow> lit ''null'' | Some t \<Rightarrow> t) # stringify_elements xs"
| "stringify_members [] = []"
| "stringify_members ((k, v) # kvs) =
     (case stringify v of
        None \<Rightarrow> stringify_members kvs
      | Some t \<Rightarrow> (quote k @ 0x3A # t) # stringify_members kvs)"

section \<open>Tokens\<close>

text \<open>
  The tokens of a JSON text. \<open>Scalar\<close> carries a string, a number, a boolean or
  \<open>null\<close>; \<open>Beyond\<close> is a number of the text that the model has no value for.
\<close>

datatype token = LBrace | RBrace | LBracket | RBracket | Colon | Comma | Scalar jsval | Beyond

subsection \<open>Numbers\<close>

text \<open>
  A number is an optional minus, the digits of the integer part (a single \<open>0\<close> or
  digits that do not start with \<open>0\<close>), an optional fraction (a point and at least
  one digit) and an optional exponent (\<open>e\<close> or \<open>E\<close>, an optional sign and at
  least one digit). Its value is the digits of the integer part and the fraction read
  as one numeral, times ten to the exponent less the length of the fraction.
\<close>

definition fraction_of :: "jsstring \<Rightarrow> (jsstring \<times> jsstring) option" where
  "fraction_of t =
     (case t of
        c # r \<Rightarrow>
          if c = 0x2E then
            (if takeWhile is_digit_unit r = [] then None
             else Some (takeWhile is_digit_unit r, dropWhile is_digit_unit r))
          else Some ([], t)
      | [] \<Rightarrow> Some ([], t))"

definition unsigned_of :: "jsstring \<Rightarrow> nat option" where
  "unsigned_of t = (if t \<noteq> [] \<and> list_all is_digit_unit t then Some (digits_value t) else None)"

definition exponent_of :: "jsstring \<Rightarrow> int option" where
  "exponent_of t =
     (case t of
        [] \<Rightarrow> Some 0
      | c # r \<Rightarrow>
          if c = 0x65 \<or> c = 0x45 then
            (case r of
               [] \<Rightarrow> None
             | s # ds \<Rightarrow>
                 if s = 0x2D then map_option (\<lambda>n. - int n) (unsigned_of ds)
                 else if s = 0x2B then map_option int (unsigned_of ds)
                 else map_option int (unsigned_of r))
          else None)"

definition safe_integer :: "int \<Rightarrow> bool" where
  "safe_integer n \<longleftrightarrow> - (2 ^ 53) < n \<and> n < 2 ^ 53"

definition number_value :: "bool \<Rightarrow> jsstring \<Rightarrow> jsstring \<Rightarrow> int \<Rightarrow> token" where
  "number_value neg ip fp e =
     (let m = int (digits_value (ip @ fp)); k = e - int (length fp) in
      if 0 \<le> k then
        (if m * 10 ^ nat k < 2 ^ 53 then Scalar (JNum ((if neg then - 1 else 1) * (m * 10 ^ nat k)))
         else Beyond)
      else if m mod 10 ^ nat (- k) = 0 \<and> m div 10 ^ nat (- k) < 2 ^ 53
        then Scalar (JNum ((if neg then - 1 else 1) * (m div 10 ^ nat (- k))))
      else Beyond)"

definition number_token :: "jsstring \<Rightarrow> token option" where
  "number_token t =
     (let neg = (t \<noteq> [] \<and> hd t = 0x2D);
          r = (if neg then tl t else t);
          ip = takeWhile is_digit_unit r
      in
        if ip = [] \<or> (hd ip = 0x30 \<and> length ip \<noteq> 1) then None
        else
          (case fraction_of (dropWhile is_digit_unit r) of
             None \<Rightarrow> None
           | Some (fp, r') \<Rightarrow>
               (case exponent_of r' of
                  None \<Rightarrow> None
                | Some e \<Rightarrow> Some (number_value neg ip fp e))))"

definition word_token :: "jsstring \<Rightarrow> token option" where
  "word_token t =
     (if t = lit ''true'' then Some (Scalar (JBool True))
      else if t = lit ''false'' then Some (Scalar (JBool False))
      else if t = lit ''null'' then Some (Scalar JNull)
      else None)"

subsection \<open>The lexer\<close>

text \<open>
  The lexer reads one unit at a time. Between tokens it skips white space, yields a
  token for a punctuation mark, and enters a string, a number or a word. In a string
  it collects units up to the closing quote, decoding escapes; a unit below \<open>0x20\<close>
  is an error. A number or a word extends as far as its units go and is checked when
  it ends; the unit that ends it is then read between tokens.
\<close>

datatype lex_mode =
    Between
  | InString jsstring
  | Escape jsstring
  | Unicode jsstring "nat list"
  | InNumber jsstring
  | InWord jsstring

definition is_space :: "code_unit \<Rightarrow> bool" where
  "is_space c \<longleftrightarrow> c = 0x20 \<or> c = 0x09 \<or> c = 0x0A \<or> c = 0x0D"

definition number_unit :: "code_unit \<Rightarrow> bool" where
  "number_unit c \<longleftrightarrow> is_digit_unit c \<or> c = 0x2D \<or> c = 0x2B \<or> c = 0x2E \<or> c = 0x65 \<or> c = 0x45"

definition word_unit :: "code_unit \<Rightarrow> bool" where
  "word_unit c \<longleftrightarrow> 0x61 \<le> c \<and> c \<le> 0x7A"

definition hex_value :: "code_unit \<Rightarrow> nat option" where
  "hex_value c =
     (if 0x30 \<le> c \<and> c \<le> 0x39 then Some (unat c - 48)
      else if 0x61 \<le> c \<and> c \<le> 0x66 then Some (unat c - 87)
      else if 0x41 \<le> c \<and> c \<le> 0x46 then Some (unat c - 55)
      else None)"

definition escaped :: "code_unit \<Rightarrow> code_unit option" where
  "escaped c =
     (if c = 0x22 \<or> c = 0x5C \<or> c = 0x2F then Some c
      else if c = 0x62 then Some 0x08
      else if c = 0x66 then Some 0x0C
      else if c = 0x6E then Some 0x0A
      else if c = 0x72 then Some 0x0D
      else if c = 0x74 then Some 0x09
      else None)"

definition between_step :: "code_unit \<Rightarrow> (token list \<times> lex_mode) option" where
  "between_step c =
     (if is_space c then Some ([], Between)
      else if c = 0x7B then Some ([LBrace], Between)
      else if c = 0x7D then Some ([RBrace], Between)
      else if c = 0x5B then Some ([LBracket], Between)
      else if c = 0x5D then Some ([RBracket], Between)
      else if c = 0x3A then Some ([Colon], Between)
      else if c = 0x2C then Some ([Comma], Between)
      else if c = 0x22 then Some ([], InString [])
      else if c = 0x2D \<or> is_digit_unit c then Some ([], InNumber [c])
      else if word_unit c then Some ([], InWord [c])
      else None)"

definition after_token :: "token option \<Rightarrow> code_unit \<Rightarrow> (token list \<times> lex_mode) option" where
  "after_token tok c =
     (case tok of
        None \<Rightarrow> None
      | Some t \<Rightarrow> (case between_step c of None \<Rightarrow> None | Some (ts, m) \<Rightarrow> Some (t # ts, m)))"

fun lex_step :: "lex_mode \<Rightarrow> code_unit \<Rightarrow> (token list \<times> lex_mode) option" where
  "lex_step Between c = between_step c"
| "lex_step (InString acc) c =
     (if c = 0x22 then Some ([Scalar (JStr acc)], Between)
      else if c = 0x5C then Some ([], Escape acc)
      else if c < 0x20 then None
      else Some ([], InString (acc @ [c])))"
| "lex_step (Escape acc) c =
     (if c = 0x75 then Some ([], Unicode acc [])
      else (case escaped c of None \<Rightarrow> None | Some u \<Rightarrow> Some ([], InString (acc @ [u]))))"
| "lex_step (Unicode acc ds) c =
     (case hex_value c of
        None \<Rightarrow> None
      | Some d \<Rightarrow>
          if length ds < 3 then Some ([], Unicode acc (ds @ [d]))
          else Some ([], InString (acc @ [of_nat (foldl (\<lambda>a x. 16 * a + x) 0 (ds @ [d]))])))"
| "lex_step (InNumber t) c =
     (if number_unit c then Some ([], InNumber (t @ [c])) else after_token (number_token t) c)"
| "lex_step (InWord t) c =
     (if word_unit c then Some ([], InWord (t @ [c])) else after_token (word_token t) c)"

fun lex_end :: "lex_mode \<Rightarrow> token list option" where
  "lex_end Between = Some []"
| "lex_end (InNumber t) = map_option (\<lambda>tok. [tok]) (number_token t)"
| "lex_end (InWord t) = map_option (\<lambda>tok. [tok]) (word_token t)"
| "lex_end _ = None"

fun lex :: "lex_mode \<Rightarrow> jsstring \<Rightarrow> token list option" where
  "lex m [] = lex_end m"
| "lex m (c # cs) =
     (case lex_step m c of
        None \<Rightarrow> None
      | Some (ts, m') \<Rightarrow> map_option ((@) ts) (lex m' cs))"

section \<open>The parser\<close>

text \<open>
  A frame is an array or an object under construction, with what may come next:
  after \<open>[\<close> a value or \<open>]\<close>; after a value \<open>,\<close> or \<open>]\<close>; after \<open>,\<close> a
  value; and for an object the key, the colon, the value, and \<open>,\<close> or \<open>}\<close>. The
  bottom of the stack is \<open>Top\<close> before the value of the text and \<open>Final\<close> after
  it. A token that does not fit the top frame is an error.
\<close>

datatype frame =
    Top
  | Final jsval
  | ArrOpen
  | ArrValue "jsval list"
  | ArrComma "jsval list"
  | ObjOpen
  | ObjKey "(jsstring \<times> jsval) list" jsstring
  | ObjColon "(jsstring \<times> jsval) list" jsstring
  | ObjValue "(jsstring \<times> jsval) list"
  | ObjComma "(jsstring \<times> jsval) list"

fun push_value :: "jsval \<Rightarrow> frame list \<Rightarrow> frame list option" where
  "push_value v (Top # fs) = Some (Final v # fs)"
| "push_value v (ArrOpen # fs) = Some (ArrValue [v] # fs)"
| "push_value v (ArrComma vs # fs) = Some (ArrValue (vs @ [v]) # fs)"
| "push_value v (ObjColon kvs k # fs) = Some (ObjValue (obj_put kvs k v) # fs)"
| "push_value v _ = None"

fun expects_value :: "frame list \<Rightarrow> bool" where
  "expects_value (Top # fs) = True"
| "expects_value (ArrOpen # fs) = True"
| "expects_value (ArrComma vs # fs) = True"
| "expects_value (ObjColon kvs k # fs) = True"
| "expects_value _ = False"

fun scalar_step :: "jsval \<Rightarrow> frame list \<Rightarrow> frame list option" where
  "scalar_step v (ObjOpen # fs) = (case v of JStr k \<Rightarrow> Some (ObjKey [] k # fs) | _ \<Rightarrow> None)"
| "scalar_step v (ObjComma kvs # fs) = (case v of JStr k \<Rightarrow> Some (ObjKey kvs k # fs) | _ \<Rightarrow> None)"
| "scalar_step v fs = push_value v fs"

fun close_array :: "frame list \<Rightarrow> frame list option" where
  "close_array (ArrOpen # fs) = push_value (JArr []) fs"
| "close_array (ArrValue vs # fs) = push_value (JArr vs) fs"
| "close_array _ = None"

fun close_object :: "frame list \<Rightarrow> frame list option" where
  "close_object (ObjOpen # fs) = push_value (JObj []) fs"
| "close_object (ObjValue kvs # fs) = push_value (JObj kvs) fs"
| "close_object _ = None"

fun comma_step :: "frame list \<Rightarrow> frame list option" where
  "comma_step (ArrValue vs # fs) = Some (ArrComma vs # fs)"
| "comma_step (ObjValue kvs # fs) = Some (ObjComma kvs # fs)"
| "comma_step _ = None"

fun colon_step :: "frame list \<Rightarrow> frame list option" where
  "colon_step (ObjKey kvs k # fs) = Some (ObjColon kvs k # fs)"
| "colon_step _ = None"

fun parse_step :: "token \<Rightarrow> frame list \<Rightarrow> frame list option" where
  "parse_step (Scalar v) fs = scalar_step v fs"
| "parse_step Beyond fs = push_value JUndefined fs"
| "parse_step LBracket fs = (if expects_value fs then Some (ArrOpen # fs) else None)"
| "parse_step LBrace fs = (if expects_value fs then Some (ObjOpen # fs) else None)"
| "parse_step RBracket fs = close_array fs"
| "parse_step RBrace fs = close_object fs"
| "parse_step Comma fs = comma_step fs"
| "parse_step Colon fs = colon_step fs"

fun parse_tokens :: "token list \<Rightarrow> frame list \<Rightarrow> frame list option" where
  "parse_tokens [] fs = Some fs"
| "parse_tokens (t # ts) fs =
     (case parse_step t fs of None \<Rightarrow> None | Some fs' \<Rightarrow> parse_tokens ts fs')"

text \<open>
  The parser pushes \<open>undefined\<close> for a number beyond the model; a text is within
  the model when its value holds none.
\<close>

fun within_model :: "jsval \<Rightarrow> bool" where
  "within_model JUndefined = False"
| "within_model (JArr xs) = list_all within_model xs"
| "within_model (JObj kvs) = list_all (\<lambda>kv. within_model (snd kv)) kvs"
| "within_model _ = True"

datatype parsed = Parsed jsval | Malformed | Unrepresented

definition parse_json :: "jsstring \<Rightarrow> parsed" where
  "parse_json t =
     (case lex Between t of
        None \<Rightarrow> Malformed
      | Some ts \<Rightarrow>
          (case parse_tokens ts [Top] of
             Some [Final v] \<Rightarrow> if within_model v then Parsed v else Unrepresented
           | _ \<Rightarrow> Malformed))"


section \<open>What the printer writes\<close>

text \<open>
  The tokens of the text \<open>stringify\<close> writes, and the value the text denotes: an
  absent element of an array is written \<open>null\<close>, an absent property is left out.
\<close>

fun tokens :: "jsval \<Rightarrow> token list"
  and element_tokens :: "jsval list \<Rightarrow> token list list"
  and member_tokens :: "(jsstring \<times> jsval) list \<Rightarrow> token list list" where
  "tokens (JArr xs) = LBracket # join_strings [Comma] (element_tokens xs) @ [RBracket]"
| "tokens (JObj kvs) = LBrace # join_strings [Comma] (member_tokens kvs) @ [RBrace]"
| "tokens JUndefined = []"
| "tokens (JFunction name n) = []"
| "tokens JNull = [Scalar JNull]"
| "tokens (JBool b) = [Scalar (JBool b)]"
| "tokens (JNum n) = [Scalar (JNum n)]"
| "tokens (JStr s) = [Scalar (JStr s)]"
| "element_tokens [] = []"
| "element_tokens (x # xs) = (if absent x then [Scalar JNull] else tokens x) # element_tokens xs"
| "member_tokens [] = []"
| "member_tokens ((k, v) # kvs) =
     (if absent v then member_tokens kvs
      else (Scalar (JStr k) # Colon # tokens v) # member_tokens kvs)"

fun json_clean :: "jsval \<Rightarrow> jsval"
  and clean_elements :: "jsval list \<Rightarrow> jsval list"
  and clean_members :: "(jsstring \<times> jsval) list \<Rightarrow> (jsstring \<times> jsval) list" where
  "json_clean (JArr xs) = JArr (clean_elements xs)"
| "json_clean (JObj kvs) = JObj (clean_members kvs)"
| "json_clean JUndefined = JUndefined"
| "json_clean (JFunction name n) = JFunction name n"
| "json_clean JNull = JNull"
| "json_clean (JBool b) = JBool b"
| "json_clean (JNum n) = JNum n"
| "json_clean (JStr s) = JStr s"
| "clean_elements [] = []"
| "clean_elements (x # xs) = (if absent x then JNull else json_clean x) # clean_elements xs"
| "clean_members [] = []"
| "clean_members ((k, v) # kvs) =
     (if absent v then clean_members kvs else (k, json_clean v) # clean_members kvs)"

text \<open>
  The values the engine can hold, called canonical here: every number is a safe integer, and the properties
  of every object are in the order the engine enumerates them.
\<close>

fun canonical :: "jsval \<Rightarrow> bool"
  and canonical_elements :: "jsval list \<Rightarrow> bool"
  and canonical_members :: "(jsstring \<times> jsval) list \<Rightarrow> bool" where
  "canonical (JArr xs) = canonical_elements xs"
| "canonical (JObj kvs) \<longleftrightarrow> ordered_props kvs \<and> canonical_members kvs"
| "canonical (JNum n) = safe_integer n"
| "canonical JUndefined = True"
| "canonical (JFunction name n) = True"
| "canonical JNull = True"
| "canonical (JBool b) = True"
| "canonical (JStr s) = True"
| "canonical_elements [] = True"
| "canonical_elements (x # xs) \<longleftrightarrow> canonical x \<and> canonical_elements xs"
| "canonical_members [] = True"
| "canonical_members ((k, v) # kvs) \<longleftrightarrow> canonical v \<and> canonical_members kvs"

text \<open>
  A text after which a number or a word ends, and a text that yields the given tokens
  whatever delimited text follows it.
\<close>

fun delimited :: "jsstring \<Rightarrow> bool" where
  "delimited [] = True"
| "delimited (c # cs) \<longleftrightarrow> \<not> number_unit c \<and> \<not> word_unit c"

definition lexes_to :: "jsstring \<Rightarrow> token list \<Rightarrow> bool" where
  "lexes_to t ts \<longleftrightarrow>
     (\<forall>rest. delimited rest \<longrightarrow> lex Between (t @ rest) = map_option ((@) ts) (lex Between rest))"

section \<open>The values of JSON\<close>

text \<open>
  A JSON value holds no function and no \<open>undefined\<close>, its numbers are safe
  integers and its objects are ordered. \<open>plausible\<close>, \<open>token_ok\<close> and
  \<open>frame_ok\<close> are the invariant of the parser: what a token and a frame hold is
  well formed and free of functions.
\<close>

fun function_free :: "jsval \<Rightarrow> bool" where
  "function_free (JFunction name n) = False"
| "function_free (JArr xs) = list_all function_free xs"
| "function_free (JObj kvs) = list_all (\<lambda>kv. function_free (snd kv)) kvs"
| "function_free _ = True"

definition json_value :: "jsval \<Rightarrow> bool" where
  "json_value v \<longleftrightarrow> canonical v \<and> function_free v \<and> within_model v"

definition plausible :: "jsval \<Rightarrow> bool" where
  "plausible v \<longleftrightarrow> canonical v \<and> function_free v"

fun token_ok :: "token \<Rightarrow> bool" where
  "token_ok (Scalar v) = plausible v"
| "token_ok _ = True"

fun frame_ok :: "frame \<Rightarrow> bool" where
  "frame_ok (Final v) = plausible v"
| "frame_ok (ArrValue vs) = list_all plausible vs"
| "frame_ok (ArrComma vs) = list_all plausible vs"
| "frame_ok (ObjKey kvs k) = plausible (JObj kvs)"
| "frame_ok (ObjColon kvs k) = plausible (JObj kvs)"
| "frame_ok (ObjValue kvs) = plausible (JObj kvs)"
| "frame_ok (ObjComma kvs) = plausible (JObj kvs)"
| "frame_ok _ = True"

section \<open>Scenarios\<close>

text \<open>
  An object with an absent property and an array with an absent element, and a text
  with white space, an escape, a fraction that is an integer and a repeated key.
\<close>

definition sparse_value :: jsval where
  "sparse_value =
     JObj [(lit ''title'', JStr (lit ''Dune'')), (lit ''cover'', JFunction (lit ''small'') 0),
           (lit ''ids'', JArr [JNum (- 1), JUndefined])]"

definition sparse_text :: jsstring where
  "sparse_text = 0x7B # quote (lit ''title'') @ 0x3A # quote (lit ''Dune'') @ 0x2C #
     quote (lit ''ids'') @ lit '':[-1,null]}''"

definition spaced_text :: jsstring where
  "spaced_text = lit ''[ 1.0e1, '' @ [0x22, 0x5C] @ lit ''u0041'' @ [0x22] @ lit '' ]''"

section \<open>Facts\<close>

subsection \<open>Digits\<close>

lemma unat_digit_unit: "d < 10 \<Longrightarrow> unat (digit_unit d) = 48 + d"
  unfolding digit_unit_def by (rule unat_of_nat_small) simp

lemma digits_value_Nil [simp]: "digits_value [] = 0"
  by (simp add: digits_value_def)

lemma digits_value_snoc [simp]: "digits_value (t @ [c]) = 10 * digits_value t + (unat c - 48)"
  by (simp add: digits_value_def)

lemma digits_value_single [simp]: "digits_value [c] = unat c - 48"
  by (simp add: digits_value_def)

lemma digits_value_nat_digits [simp]: "digits_value (nat_digits n) = n"
proof (induction n rule: nat_digits.induct)
  case (1 n)
  show ?case
  proof (cases "n < 10")
    case True
    then show ?thesis by (subst nat_digits.simps) (simp add: unat_digit_unit)
  next
    case False
    with "1.IH" show ?thesis by (subst nat_digits.simps) (simp add: unat_digit_unit)
  qed
qed

lemma nat_digits_0: "nat_digits 0 = [0x30]"
  by (subst nat_digits.simps) (simp add: digit_unit_def)

lemma digit_unit_eq_0_iff: "d < 10 \<Longrightarrow> digit_unit d = 0x30 \<longleftrightarrow> d = 0"
proof -
  assume "d < 10"
  then have "unat (digit_unit d) = 48 + d" by (rule unat_digit_unit)
  moreover have "unat (0x30 :: code_unit) = 48" by simp
  ultimately show ?thesis by (auto simp: digit_unit_def)
qed

lemma hd_nat_digits: "n \<noteq> 0 \<Longrightarrow> hd (nat_digits n) \<noteq> 0x30"
proof (induction n rule: nat_digits.induct)
  case (1 n)
  show ?case
  proof (cases "n < 10")
    case True
    with "1.prems" show ?thesis by (subst nat_digits.simps) (simp add: digit_unit_eq_0_iff)
  next
    case False
    then have "n div 10 \<noteq> 0" by simp
    with "1.IH" False show ?thesis by (subst nat_digits.simps) simp
  qed
qed

lemma leading_zero_nat_digits: "hd (nat_digits n) \<noteq> 0x30 \<or> length (nat_digits n) = 1"
  by (cases "n = 0") (simp_all add: nat_digits_0 hd_nat_digits)

lemma takeWhile_nat_digits [simp]: "takeWhile is_digit_unit (nat_digits n) = nat_digits n"
  using nat_digits_all_digits [of n] by (simp add: list_all_iff)

lemma dropWhile_nat_digits [simp]: "dropWhile is_digit_unit (nat_digits n) = []"
  using nat_digits_all_digits [of n] by (simp add: list_all_iff)

lemma not_digit_minus [simp]: "\<not> is_digit_unit 0x2D"
  by (simp add: is_digit_unit_def)

lemma hd_nat_digits_not_minus [simp]: "hd (nat_digits n) \<noteq> 0x2D"
proof -
  have "is_digit_unit (hd (nat_digits n))"
    using nat_digits_all_digits [of n] nat_digits_nonempty [of n]
    by (cases "nat_digits n") (simp_all add: list_all_iff)
  then show ?thesis by auto
qed


subsection \<open>Numbers and words\<close>

lemma map_option_append_Nil [simp]: "map_option ((@) []) x = x"
  by (cases x) simp_all

lemma map_option_append_Cons [simp]:
  "map_option ((@) (t # ts)) x = map_option ((#) t) (map_option ((@) ts) x)"
  by (cases x) simp_all

lemma number_token_nat_digits:
  "int n < 2 ^ 53 \<Longrightarrow> number_token (nat_digits n) = Some (Scalar (JNum (int n)))"
  using leading_zero_nat_digits [of n]
  by (auto simp: number_token_def fraction_of_def exponent_of_def number_value_def Let_def)

lemma number_token_int_digits:
  assumes "safe_integer n"
  shows "number_token (int_digits n) = Some (Scalar (JNum n))"
proof (cases "n < 0")
  case True
  with assms have "int (nat (- n)) < 2 ^ 53" by (simp add: safe_integer_def)
  with True leading_zero_nat_digits [of "nat (- n)"] show ?thesis
    by (auto simp: int_digits_def number_token_def fraction_of_def exponent_of_def
        number_value_def Let_def)
next
  case False
  with assms number_token_nat_digits [of "nat n"] show ?thesis
    by (simp add: int_digits_def safe_integer_def)
qed

lemma digit_number_unit: "is_digit_unit c \<Longrightarrow> number_unit c"
  by (simp add: number_unit_def)

lemma number_units_nat_digits [simp]: "list_all number_unit (nat_digits n)"
  using nat_digits_all_digits [of n] by (auto simp: list_all_iff intro: digit_number_unit)

lemma int_digits_Cons:
  "\<exists>c t. int_digits n = c # t \<and> (c = 0x2D \<or> is_digit_unit c) \<and> list_all number_unit t"
proof (cases "n < 0")
  case True
  then show ?thesis by (simp add: int_digits_def)
next
  case False
  obtain c t where ct: "nat_digits (nat n) = c # t"
    using nat_digits_nonempty [of "nat n"] by (cases "nat_digits (nat n)") auto
  with nat_digits_all_digits [of "nat n"] number_units_nat_digits [of "nat n"] False
  show ?thesis by (simp add: int_digits_def)
qed

lemma digit_not_space: "c = 0x2D \<or> is_digit_unit c \<Longrightarrow> between_step c = Some ([], InNumber [c])"
  by (auto simp: between_step_def is_space_def is_digit_unit_def)

lemma lex_InNumber_units:
  "list_all number_unit t \<Longrightarrow> lex (InNumber acc) (t @ rest) = lex (InNumber (acc @ t)) rest"
  by (induction t arbitrary: acc) simp_all

lemma lex_InWord_units:
  "list_all word_unit t \<Longrightarrow> lex (InWord acc) (t @ rest) = lex (InWord (acc @ t)) rest"
  by (induction t arbitrary: acc) simp_all

lemma lex_after_token:
  "(case after_token (Some tok) c of None \<Rightarrow> None | Some (ts, m) \<Rightarrow> map_option ((@) ts) (lex m cs)) =
     map_option ((#) tok) (lex Between (c # cs))"
  by (cases "between_step c") (auto simp: after_token_def option.map_comp comp_def)

lemma lex_InNumber_end:
  "delimited rest \<Longrightarrow> number_token t = Some tok \<Longrightarrow>
   lex (InNumber t) rest = map_option ((#) tok) (lex Between rest)"
  by (cases rest) (simp_all add: lex_after_token)

lemma lex_InWord_end:
  "delimited rest \<Longrightarrow> word_token t = Some tok \<Longrightarrow>
   lex (InWord t) rest = map_option ((#) tok) (lex Between rest)"
  by (cases rest) (simp_all add: lex_after_token)

lemma lexes_to_int_digits:
  assumes "safe_integer n"
  shows "lexes_to (int_digits n) [Scalar (JNum n)]"
proof -
  obtain c t where ct: "int_digits n = c # t" "c = 0x2D \<or> is_digit_unit c" "list_all number_unit t"
    using int_digits_Cons [of n] by blast
  have "lex Between (int_digits n @ rest) = map_option ((@) [Scalar (JNum n)]) (lex Between rest)"
    if "delimited rest" for rest
  proof -
    have "lex Between (int_digits n @ rest) = lex (InNumber (int_digits n)) rest"
      using ct by (simp add: digit_not_space lex_InNumber_units)
    with that number_token_int_digits [OF assms] show ?thesis
      by (simp add: lex_InNumber_end)
  qed
  then show ?thesis by (simp add: lexes_to_def)
qed

lemma lexes_to_word:
  assumes "word_token (c # t) = Some tok" and "word_unit c" and "list_all word_unit t"
  shows "lexes_to (c # t) [tok]"
proof -
  from assms(2) have "between_step c = Some ([], InWord [c])"
    unfolding between_step_def word_unit_def is_space_def is_digit_unit_def
    by (auto simp: unat_arith_simps)
  then have "lex Between ((c # t) @ rest) = lex (InWord (c # t)) rest" for rest
    using assms(3) by (simp add: lex_InWord_units)
  with assms(1) show ?thesis
    by (simp add: lexes_to_def lex_InWord_end)
qed

lemma lexes_to_null: "lexes_to (lit ''null'') [Scalar JNull]"
  unfolding lit_Cons lit_Nil
  by (rule lexes_to_word) (simp_all add: word_token_def word_unit_def lit_eval)

lemma lexes_to_true: "lexes_to (lit ''true'') [Scalar (JBool True)]"
  unfolding lit_Cons lit_Nil
  by (rule lexes_to_word) (simp_all add: word_token_def word_unit_def lit_eval)

lemma lexes_to_false: "lexes_to (lit ''false'') [Scalar (JBool False)]"
  unfolding lit_Cons lit_Nil
  by (rule lexes_to_word) (simp_all add: word_token_def word_unit_def lit_eval)


subsection \<open>Strings\<close>

lemma unat_hex_digit:
  assumes "d < 16"
  shows "unat (hex_digit d) = (if d < 10 then 48 + d else 87 + d)"
proof -
  have "unat (of_nat (48 + d) :: code_unit) = 48 + d" "unat (of_nat (87 + d) :: code_unit) = 87 + d"
    by (rule unat_of_nat_small, use assms in simp)+
  then show ?thesis by (simp add: hex_digit_def)
qed

lemma hex_value_hex_digit: "d < 16 \<Longrightarrow> hex_value (hex_digit d) = Some d"
  unfolding hex_value_def word_le_nat_alt by (simp add: unat_hex_digit)

lemma hex_parts:
  fixes n :: nat
  shows "16 * (16 * (16 * (n div 4096) + n div 256 mod 16) + n div 16 mod 16) + n mod 16 = n"
proof -
  have "n div 256 = n div 16 div 16" "n div 4096 = n div 16 div 16 div 16"
    by (simp_all add: div_mult2_eq)
  then show ?thesis
    by (simp add: div_mult2_eq mod_div_mult_eq)
qed

lemma lex_hex4: "lex (Unicode acc []) (hex4 c @ rest) = lex (InString (acc @ [c])) rest"
proof -
  have "unat c < 65536" using unsigned_less [of c, where 'a = nat] by simp
  then have d: "unat c div 4096 < 16" by simp
  have "lex (Unicode acc [])
      ([hex_digit (unat c div 4096), hex_digit (unat c div 256 mod 16),
        hex_digit (unat c div 16 mod 16), hex_digit (unat c mod 16)] @ rest) =
      lex (InString (acc @ [of_nat (16 * (16 * (16 * (unat c div 4096) + unat c div 256 mod 16) +
        unat c div 16 mod 16) + unat c mod 16)])) rest"
    using d by (simp add: hex_value_hex_digit)
  then show ?thesis
    by (simp only: hex_parts hex4_def Let_def list.map) simp
qed


lemma lex_literal:
  "c \<noteq> 0x22 \<Longrightarrow> c \<noteq> 0x5C \<Longrightarrow> \<not> c < 0x20 \<Longrightarrow>
   lex (InString acc) (c # rest) = lex (InString (acc @ [c])) rest"
  by simp

lemma lex_escape:
  "escaped e = Some u \<Longrightarrow> e \<noteq> 0x75 \<Longrightarrow>
   lex (InString acc) (0x5C # e # rest) = lex (InString (acc @ [u])) rest"
  by simp

lemma lex_unicode_escape:
  "lex (InString acc) (0x5C # 0x75 # hex4 c @ rest) = lex (InString (acc @ [c])) rest"
  by (simp add: lex_hex4)

lemma lex_quote_unit: "lex (InString acc) (quote_unit c @ rest) = lex (InString (acc @ [c])) rest"
proof (cases "c \<in> {0x08, 0x09, 0x0A, 0x0C, 0x0D, 0x22, 0x5C}")
  case True
  then show ?thesis
    by (auto simp: quote_unit_def escaped_def)
next
  case False
  show ?thesis
  proof (cases "c < 0x20 \<or> is_lead c \<or> is_trail c")
    case True
    with False have "quote_unit c = 0x5C # 0x75 # hex4 c" by (simp add: quote_unit_def)
    then show ?thesis by (simp only: lex_unicode_escape append_Cons)
  next
    case unescaped: False
    with False have "quote_unit c = [c]" by (simp add: quote_unit_def)
    with False unescaped show ?thesis by simp
  qed
qed

lemma surrogate_literal:
  "is_lead c \<or> is_trail c \<Longrightarrow> c \<noteq> 0x22 \<and> c \<noteq> 0x5C \<and> \<not> c < 0x20"
  by (auto simp: is_lead_def is_trail_def unat_arith_simps)


lemma lex_quote_points:
  "lex (InString acc) (concat (map quote_point (code_points s)) @ rest) = lex (InString (acc @ s)) rest"
proof (induction s arbitrary: acc rule: code_points.induct)
  case 1
  show ?case by simp
next
  case (2 c)
  show ?case by (simp only: code_points.simps list.map concat.simps quote_point_def list.case
        append_Nil2 lex_quote_unit)
next
  case (3 c d cs)
  let ?tail = "concat (map quote_point (code_points cs)) @ rest"
  show ?case
  proof (cases "is_lead c \<and> is_trail d")
    case True
    then have "concat (map quote_point (code_points (c # d # cs))) @ rest = c # d # ?tail"
      by (simp add: quote_point_def)
    moreover have "lex (InString acc) (c # d # ?tail) = lex (InString (acc @ [c, d])) ?tail"
      using surrogate_literal [of c] surrogate_literal [of d] True by (simp add: lex_literal)
    ultimately show ?thesis
      using "3.IH"(1) [OF True, of "acc @ [c, d]"] by simp
  next
    case False
    then have "concat (map quote_point (code_points (c # d # cs))) @ rest =
        quote_unit c @ concat (map quote_point (code_points (d # cs))) @ rest"
      by (auto simp: quote_point_def)
    then show ?thesis
      using "3.IH"(2) [OF False, of "acc @ [c]"] by (simp only: lex_quote_unit) simp
  qed
qed

lemma lex_quote: "lex Between (quote s @ rest) = map_option ((#) (Scalar (JStr s))) (lex Between rest)"
  by (simp add: quote_def between_step_def is_space_def lex_quote_points)

lemma lexes_to_quote: "lexes_to (quote s) [Scalar (JStr s)]"
  by (simp add: lexes_to_def lex_quote)


subsection \<open>Texts and their tokens\<close>

lemma lexes_to_Nil [simp]: "lexes_to [] []"
  by (simp add: lexes_to_def)

lemma delimited_append: "t \<noteq> [] \<Longrightarrow> delimited (t @ rest) = delimited t"
  by (cases t) simp_all

lemma lexes_to_append:
  assumes "lexes_to a ta" and "lexes_to b tb" and "b \<noteq> []" and "delimited b"
  shows "lexes_to (a @ b) (ta @ tb)"
  unfolding lexes_to_def
proof (intro allI impI)
  fix rest assume rest: "delimited rest"
  from assms(3,4) have "delimited (b @ rest)" by (simp add: delimited_append)
  with assms(1) have "lex Between (a @ b @ rest) = map_option ((@) ta) (lex Between (b @ rest))"
    by (simp add: lexes_to_def)
  moreover from assms(2) rest have "lex Between (b @ rest) = map_option ((@) tb) (lex Between rest)"
    by (simp add: lexes_to_def)
  ultimately show "lex Between ((a @ b) @ rest) = map_option ((@) (ta @ tb)) (lex Between rest)"
    by (cases "lex Between rest") simp_all
qed

lemma lexes_to_punct:
  assumes "between_step c = Some ([tok], Between)" and "lexes_to t ts"
  shows "lexes_to (c # t) (tok # ts)"
  using assms by (simp add: lexes_to_def option.map_comp comp_def)

lemma delimited_punct: "between_step c = Some ([tok], Between) \<Longrightarrow> delimited (c # t)"
  by (auto simp: between_step_def number_unit_def word_unit_def is_digit_unit_def is_space_def
      unat_arith_simps split: if_splits)

lemma between_step_punct [simp]:
  "between_step 0x5B = Some ([LBracket], Between)" "between_step 0x5D = Some ([RBracket], Between)"
  "between_step 0x7B = Some ([LBrace], Between)" "between_step 0x7D = Some ([RBrace], Between)"
  "between_step 0x3A = Some ([Colon], Between)" "between_step 0x2C = Some ([Comma], Between)"
  by (simp_all add: between_step_def is_space_def)

lemma punct_not_number [simp]:
  "\<not> number_unit 0x5B" "\<not> number_unit 0x5D" "\<not> number_unit 0x7B" "\<not> number_unit 0x7D"
  "\<not> number_unit 0x3A" "\<not> number_unit 0x2C" "\<not> number_unit 0x22"
  by (simp_all add: number_unit_def is_digit_unit_def)

lemma punct_not_word [simp]:
  "\<not> word_unit 0x5B" "\<not> word_unit 0x5D" "\<not> word_unit 0x7B" "\<not> word_unit 0x7D"
  "\<not> word_unit 0x3A" "\<not> word_unit 0x2C" "\<not> word_unit 0x22"
  by (simp_all add: word_unit_def)

lemma lexes_to_closed:
  assumes "between_step c = Some ([tok], Between)" and "lexes_to t ts"
  shows "lexes_to (t @ [c]) (ts @ [tok])"
  using assms(2) lexes_to_punct [OF assms(1) lexes_to_Nil] _ delimited_punct [OF assms(1)]
  by (rule lexes_to_append) simp

lemma join_strings_Cons:
  "join_strings sep (s # ss) = s @ (if ss = [] then [] else sep @ join_strings sep ss)"
  by (cases ss) simp_all

lemma lexes_to_join:
  assumes "list_all2 lexes_to ss tss"
  shows "lexes_to (join_strings (lit '','') ss) (join_strings [Comma] tss)"
  using assms
proof (induction rule: list_all2_induct)
  case Nil
  show ?case by simp
next
  case (Cons s ss ts tss)
  show ?case
  proof (cases "ss = []")
    case True
    with Cons show ?thesis by simp
  next
    case False
    with Cons.hyps have tss: "tss \<noteq> []" by auto
    have "lexes_to (0x2C # join_strings (lit '','') ss) (Comma # join_strings [Comma] tss)"
      using between_step_punct(6) Cons.IH by (rule lexes_to_punct)
    with Cons.hyps(1) have "lexes_to (s @ 0x2C # join_strings (lit '','') ss)
        (ts @ Comma # join_strings [Comma] tss)"
      by (rule lexes_to_append) simp_all
    with False tss show ?thesis
      by (simp add: join_strings_Cons lit_eval)
  qed
qed


lemma stringify_None_iff: "stringify v = None \<longleftrightarrow> absent v"
  by (cases v) simp_all

lemma stringify_absent [simp]: "absent v \<Longrightarrow> stringify v = None"
  by (simp add: stringify_None_iff)

lemma stringify_Some_absent [simp]: "stringify v = Some t \<Longrightarrow> \<not> absent v"
  by (auto simp flip: stringify_None_iff)

lemma lexes_to_stringify:
  "canonical v \<Longrightarrow> stringify v = Some t \<Longrightarrow> lexes_to t (tokens v)"
  "canonical_elements xs \<Longrightarrow> list_all2 lexes_to (stringify_elements xs) (element_tokens xs)"
  "canonical_members kvs \<Longrightarrow> list_all2 lexes_to (stringify_members kvs) (member_tokens kvs)"
proof (induction v and xs and kvs arbitrary: t
    rule: stringify_stringify_elements_stringify_members.induct)
  case (5 n)
  then show ?case by (auto simp: lexes_to_int_digits)
next
  case (6 s)
  then show ?case by (auto simp: lexes_to_quote)
next
  case (7 xs)
  then have "lexes_to (join_strings (lit '','') (stringify_elements xs))
      (join_strings [Comma] (element_tokens xs))"
    by (simp add: lexes_to_join)
  then have "lexes_to (0x5B # join_strings (lit '','') (stringify_elements xs) @ [0x5D])
      (LBracket # join_strings [Comma] (element_tokens xs) @ [RBracket])"
    by (intro lexes_to_punct lexes_to_closed between_step_punct)
  with "7.prems" show ?case by auto
next
  case (8 kvs)
  then have "lexes_to (join_strings (lit '','') (stringify_members kvs))
      (join_strings [Comma] (member_tokens kvs))"
    by (simp add: lexes_to_join)
  then have "lexes_to (0x7B # join_strings (lit '','') (stringify_members kvs) @ [0x7D])
      (LBrace # join_strings [Comma] (member_tokens kvs) @ [RBrace])"
    by (intro lexes_to_punct lexes_to_closed between_step_punct)
  with "8.prems" show ?case by auto
next
  case (10 x xs)
  then show ?case
    by (cases "stringify x") (auto simp: lexes_to_null stringify_None_iff)
next
  case (12 k v kvs)
  show ?case
  proof (cases "stringify v")
    case None
    with 12 show ?thesis by (auto simp: stringify_None_iff)
  next
    case (Some t)
    with 12 have "lexes_to t (tokens v)" by simp
    then have "lexes_to (0x3A # t) (Colon # tokens v)"
      by (intro lexes_to_punct between_step_punct)
    with lexes_to_quote [of k] have "lexes_to (quote k @ 0x3A # t) ([Scalar (JStr k)] @ Colon # tokens v)"
      by (rule lexes_to_append) simp_all
    with 12 Some show ?thesis by auto
  qed
qed (auto simp: lexes_to_null lexes_to_true lexes_to_false)


subsection \<open>Property order\<close>

lemma ordered_props_prefix: "ordered_props (xs @ ys) \<Longrightarrow> ordered_props xs"
  by (induction xs) auto

lemma obj_put_last: "ordered_props (kvs @ [(k, v)]) \<Longrightarrow> obj_put kvs k v = kvs @ [(k, v)]"
  by (induction kvs) auto

lemma puts_simps [simp]: "puts kvs [] = kvs" "puts kvs ((k, v) # ms) = puts (obj_put kvs k v) ms"
  by (simp_all add: puts_def)

lemma puts_ordered: "ordered_props (kvs @ ms) \<Longrightarrow> puts kvs ms = kvs @ ms"
proof (induction ms arbitrary: kvs)
  case (Cons m ms)
  obtain k v where m: "m = (k, v)" by (cases m)
  from Cons.prems have ord: "ordered_props ((kvs @ [(k, v)]) @ ms)" by (simp add: m)
  then have "ordered_props (kvs @ [(k, v)])" by (rule ordered_props_prefix)
  then have put: "obj_put kvs k v = kvs @ [(k, v)]" by (rule obj_put_last)
  have "puts kvs (m # ms) = puts (kvs @ [(k, v)]) ms" by (simp add: m put)
  also have "\<dots> = (kvs @ [(k, v)]) @ ms" using ord by (rule Cons.IH)
  finally show ?case by (simp add: m)
qed simp

lemma list_all_clean_members:
  "list_all (\<lambda>(k, v). P k) kvs \<Longrightarrow> list_all (\<lambda>(k, v). P k) (clean_members kvs)"
  by (induction kvs) auto

lemma ordered_clean_members: "ordered_props kvs \<Longrightarrow> ordered_props (clean_members kvs)"
  by (induction kvs) (auto intro: list_all_clean_members)

lemma comes_before_irrefl [simp]: "\<not> comes_before k k"
  by (simp add: comes_before_def split: option.splits)

lemma comes_before_asym: "comes_before k k' \<Longrightarrow> \<not> comes_before k' k"
  by (auto simp: comes_before_def split: option.splits)

lemma comes_before_trans: "comes_before a b \<Longrightarrow> comes_before b c \<Longrightarrow> comes_before a c"
  by (auto simp: comes_before_def split: option.splits)

lemma comes_before_later:
  "comes_before k k' \<Longrightarrow> \<not> comes_before k'' k' \<Longrightarrow> k'' \<noteq> k \<and> \<not> comes_before k'' k"
  by (auto simp: comes_before_def split: option.splits)

lemma list_all_obj_put:
  "list_all P kvs \<Longrightarrow> P (k, v) \<Longrightarrow> list_all P (obj_put kvs k v)"
  by (induction kvs) auto

lemma ordered_obj_put: "ordered_props kvs \<Longrightarrow> ordered_props (obj_put kvs k v)"
proof (induction kvs)
  case (Cons kv kvs)
  obtain k' v' where kv: "kv = (k', v')" by (cases kv)
  consider "k' = k" | "k' \<noteq> k" "comes_before k k'" | "k' \<noteq> k" "\<not> comes_before k k'" by blast
  then show ?case
  proof cases
    case 1
    with Cons.prems show ?thesis by (simp add: kv)
  next
    case 2
    have "list_all (\<lambda>(k'', v''). k'' \<noteq> k \<and> \<not> comes_before k'' k) kvs"
      using Cons.prems 2(2) by (auto simp: kv list_all_iff dest: comes_before_later)
    with 2 Cons.prems show ?thesis
      by (auto simp: kv dest: comes_before_asym)
  next
    case 3
    with Cons show ?thesis
      by (auto simp: kv intro!: list_all_obj_put)
  qed
qed simp


subsection \<open>Parsing the tokens of a value\<close>

lemma parse_tokens_append:
  "parse_tokens (ts @ us) fs =
     (case parse_tokens ts fs of None \<Rightarrow> None | Some fs' \<Rightarrow> parse_tokens us fs')"
  by (induction ts arbitrary: fs) (auto split: option.splits)

lemma scalar_step_value: "expects_value fs \<Longrightarrow> scalar_step v fs = push_value v fs"
  by (cases "(v, fs)" rule: scalar_step.cases) auto

lemma expects_value_cases:
  assumes "expects_value fs"
  obtains fs' where "fs = Top # fs'" | fs' where "fs = ArrOpen # fs'"
  | vs fs' where "fs = ArrComma vs # fs'" | kvs k fs' where "fs = ObjColon kvs k # fs'"
  using assms by (cases fs rule: expects_value.cases) auto

lemma element_tokens_Nil_iff [simp]: "element_tokens xs = [] \<longleftrightarrow> xs = []"
  by (cases xs) auto

lemma member_tokens_Nil_iff: "member_tokens kvs = [] \<longleftrightarrow> clean_members kvs = []"
  by (induction kvs) (auto split: if_splits)


lemma push_value_array:
  "f = ArrOpen \<and> vs = [] \<or> f = ArrComma vs \<Longrightarrow>
   push_value v (f # fs) = Some (ArrValue (vs @ [v]) # fs) \<and> expects_value (f # fs)"
  by auto

lemma scalar_step_key:
  "g = ObjOpen \<and> acc = [] \<or> g = ObjComma acc \<Longrightarrow>
   scalar_step (JStr k) (g # fs) = Some (ObjKey acc k # fs)"
  by auto

lemma parse_tokens_scalar:
  "expects_value fs \<Longrightarrow>
   parse_tokens (Scalar v # ts) fs =
     (case push_value v fs of None \<Rightarrow> None | Some fs' \<Rightarrow> parse_tokens ts fs')"
  by (simp add: scalar_step_value)

lemma parse_tokens_value:
  "\<not> absent v \<Longrightarrow> canonical v \<Longrightarrow> expects_value fs \<Longrightarrow>
     parse_tokens (tokens v @ ts) fs =
       (case push_value (json_clean v) fs of None \<Rightarrow> None | Some fs' \<Rightarrow> parse_tokens ts fs')"
  "xs \<noteq> [] \<Longrightarrow> canonical_elements xs \<Longrightarrow> f = ArrOpen \<and> vs = [] \<or> f = ArrComma vs \<Longrightarrow>
     parse_tokens (join_strings [Comma] (element_tokens xs) @ ts) (f # fs) =
       parse_tokens ts (ArrValue (vs @ clean_elements xs) # fs)"
  "clean_members kvs \<noteq> [] \<Longrightarrow> canonical_members kvs \<Longrightarrow>
     g = ObjOpen \<and> acc = [] \<or> g = ObjComma acc \<Longrightarrow>
     parse_tokens (join_strings [Comma] (member_tokens kvs) @ ts) (g # fs) =
       parse_tokens ts (ObjValue (puts acc (clean_members kvs)) # fs)"
proof (induction v and xs and kvs arbitrary: ts fs and ts fs f vs and ts fs g acc
    rule: tokens_element_tokens_member_tokens.induct)
  case (1 xs)
  show ?case
  proof (cases "xs = []")
    case True
    with "1.prems" show ?thesis by simp
  next
    case False
    with "1.prems" "1.IH" [of ArrOpen "[]" "RBracket # ts" fs] show ?thesis by simp
  qed
next
  case (2 kvs)
  show ?case
  proof (cases "clean_members kvs = []")
    case True
    then have "member_tokens kvs = []" by (simp add: member_tokens_Nil_iff)
    with True "2.prems" show ?thesis by simp
  next
    case False
    from "2.prems" have "puts [] (clean_members kvs) = clean_members kvs"
      using puts_ordered [of "[]" "clean_members kvs"] by (simp add: ordered_clean_members)
    with False "2.prems" "2.IH" [of ObjOpen "[]" "RBrace # ts" fs] show ?thesis by simp
  qed
next
  case (10 x xs)
  let ?ex = "if absent x then [Scalar JNull] else tokens x"
  let ?cx = "if absent x then JNull else json_clean x"
  note f = push_value_array [OF "10.prems"(3)]
  have first: "parse_tokens (?ex @ us) (f # fs) = parse_tokens us (ArrValue (vs @ [?cx]) # fs)" for us
  proof (cases "absent x")
    case True
    then show ?thesis by (simp add: f scalar_step_value)
  next
    case False
    with "10.prems" "10.IH"(1) [of "f # fs" us] show ?thesis by (simp add: f)
  qed
  show ?case
  proof (cases "xs = []")
    case True
    with first [of ts] show ?thesis by simp
  next
    case False
    with "10.prems" have "parse_tokens (join_strings [Comma] (element_tokens xs) @ ts)
        (ArrComma (vs @ [?cx]) # fs) = parse_tokens ts (ArrValue ((vs @ [?cx]) @ clean_elements xs) # fs)"
      by (intro "10.IH"(2)) simp_all
    with False first [of "Comma # join_strings [Comma] (element_tokens xs) @ ts"]
    show ?thesis by (simp add: join_strings_Cons)
  qed
next
  case (12 k v kvs)
  show ?case
  proof (cases "absent v")
    case True
    with "12.prems" "12.IH"(1) [of g acc ts fs] show ?thesis by simp
  next
    case False
    note key = scalar_step_key [OF "12.prems"(3), of k fs]
    have first: "parse_tokens (Scalar (JStr k) # Colon # tokens v @ us) (g # fs) =
        parse_tokens us (ObjValue (obj_put acc k (json_clean v)) # fs)" for us
      using False "12.prems" key "12.IH"(2) [of "ObjColon acc k # fs" us] by simp
    show ?thesis
    proof (cases "clean_members kvs = []")
      case True
      then have "member_tokens kvs = []" by (simp add: member_tokens_Nil_iff)
      with True False show ?thesis by (simp add: first del: parse_tokens.simps)
    next
      case more: False
      with "12.prems" False have "parse_tokens (join_strings [Comma] (member_tokens kvs) @ ts)
          (ObjComma (obj_put acc k (json_clean v)) # fs) =
          parse_tokens ts (ObjValue (puts (obj_put acc k (json_clean v)) (clean_members kvs)) # fs)"
        by (intro "12.IH"(3)) simp_all
      moreover from more have "member_tokens kvs \<noteq> []" by (simp add: member_tokens_Nil_iff)
      ultimately show ?thesis
        using False by (simp add: join_strings_Cons first del: parse_tokens.simps) simp
    qed
  qed
qed (simp_all add: scalar_step_value)


subsection \<open>The round trip\<close>

lemma within_model_clean:
  "\<not> absent v \<Longrightarrow> within_model (json_clean v)"
  "list_all within_model (clean_elements xs)"
  "list_all (\<lambda>kv. within_model (snd kv)) (clean_members kvs)"
  by (induction v and xs and kvs rule: json_clean_clean_elements_clean_members.induct) simp_all

lemma lex_stringify:
  assumes "stringify v = Some t" and "canonical v"
  shows "lex Between t = Some (tokens v)"
proof -
  from lexes_to_stringify(1) [OF assms(2,1)]
  have "lex Between (t @ []) = map_option ((@) (tokens v)) (lex Between [])"
    unfolding lexes_to_def by (rule allE [where x = "[]"]) simp
  then show ?thesis by simp
qed

lemma parse_tokens_tokens:
  assumes "\<not> absent v" and "canonical v"
  shows "parse_tokens (tokens v) [Top] = Some [Final (json_clean v)]"
  using parse_tokens_value(1) [OF assms, of "[Top]" "[]"] by simp

lemma parse_json_stringify:
  assumes "stringify v = Some t" and "canonical v"
  shows "parse_json t = Parsed (json_clean v)"
proof -
  from assms(1) have "\<not> absent v" by simp
  with assms show ?thesis
    by (simp add: parse_json_def lex_stringify parse_tokens_tokens within_model_clean)
qed


subsection \<open>What the parser returns\<close>

lemma canonical_elements_iff: "canonical_elements xs \<longleftrightarrow> list_all canonical xs"
  by (induction xs) simp_all

lemma canonical_members_iff:
  "canonical_members kvs \<longleftrightarrow> list_all (\<lambda>kv. canonical (snd kv)) kvs"
  by (induction kvs) auto

lemma plausible_JArr: "plausible (JArr vs) \<longleftrightarrow> list_all plausible vs"
  by (auto simp: plausible_def canonical_elements_iff list_all_iff)

lemma plausible_JObj:
  "plausible (JObj kvs) \<longleftrightarrow> ordered_props kvs \<and> list_all (\<lambda>kv. plausible (snd kv)) kvs"
  by (auto simp: plausible_def canonical_members_iff list_all_iff)

lemma plausible_scalars [simp]:
  "plausible JNull" "plausible (JBool b)" "plausible (JStr s)" "plausible JUndefined"
  "plausible (JNum n) \<longleftrightarrow> safe_integer n"
  by (simp_all add: plausible_def)

lemma plausible_obj_put:
  "plausible (JObj kvs) \<Longrightarrow> plausible v \<Longrightarrow> plausible (JObj (obj_put kvs k v))"
  by (simp add: plausible_JObj ordered_obj_put list_all_obj_put)

lemma token_ok_number_value: "token_ok (number_value neg ip fp e)"
proof -
  have "safe_integer ((if neg then - 1 else 1) * x)" if "0 \<le> x" "x < 2 ^ 53" for x :: int
    using that by (simp add: safe_integer_def)
  then show ?thesis
    by (simp add: number_value_def Let_def pos_imp_zdiv_nonneg_iff)
qed

lemma token_ok_number_token: "number_token t = Some tok \<Longrightarrow> token_ok tok"
  by (auto simp: number_token_def Let_def token_ok_number_value split: option.splits if_splits)

lemma token_ok_word_token: "word_token t = Some tok \<Longrightarrow> token_ok tok"
  by (auto simp: word_token_def split: if_splits)

lemma token_ok_between_step: "between_step c = Some (ts, m) \<Longrightarrow> list_all token_ok ts"
  by (auto simp: between_step_def split: if_splits)

lemma token_ok_after_token:
  "after_token tok c = Some (ts, m) \<Longrightarrow> (\<And>t. tok = Some t \<Longrightarrow> token_ok t) \<Longrightarrow> list_all token_ok ts"
  by (auto simp: after_token_def split: option.splits dest: token_ok_between_step)

lemma token_ok_lex_step: "lex_step m c = Some (ts, m') \<Longrightarrow> list_all token_ok ts"
  by (cases m)
    (auto split: if_splits option.splits
      dest: token_ok_between_step token_ok_after_token token_ok_number_token token_ok_word_token)

lemma token_ok_lex: "lex m t = Some ts \<Longrightarrow> list_all token_ok ts"
proof (induction t arbitrary: m ts)
  case Nil
  then show ?case
    by (cases m) (auto dest: token_ok_number_token token_ok_word_token)
next
  case (Cons c cs)
  then show ?case
    by (auto split: option.splits dest: token_ok_lex_step)
qed

lemma frame_ok_push_value:
  "push_value v fs = Some fs' \<Longrightarrow> plausible v \<Longrightarrow> list_all frame_ok fs \<Longrightarrow> list_all frame_ok fs'"
  by (cases "(v, fs)" rule: push_value.cases) (auto simp: plausible_obj_put)

lemma frame_ok_parse_step:
  assumes "parse_step t fs = Some fs'" and "token_ok t" and "list_all frame_ok fs"
  shows "list_all frame_ok fs'"
proof (cases t)
  case (Scalar v)
  with assms show ?thesis
    by (cases "(v, fs)" rule: scalar_step.cases)
      (auto split: jsval.splits simp: plausible_JObj ordered_obj_put list_all_obj_put)
next
  case Beyond
  with assms show ?thesis by (auto dest: frame_ok_push_value)
next
  case RBracket
  with assms show ?thesis
    by (cases fs rule: close_array.cases) (auto dest: frame_ok_push_value simp: plausible_JArr)
next
  case RBrace
  with assms show ?thesis
    by (cases fs rule: close_object.cases) (auto dest: frame_ok_push_value simp: plausible_JObj)
next
  case Comma
  with assms show ?thesis by (cases fs rule: comma_step.cases) auto
next
  case Colon
  with assms show ?thesis by (cases fs rule: colon_step.cases) auto
qed (use assms in \<open>auto split: if_splits\<close>)

lemma frame_ok_parse_tokens:
  "parse_tokens ts fs = Some fs' \<Longrightarrow> list_all token_ok ts \<Longrightarrow> list_all frame_ok fs \<Longrightarrow>
   list_all frame_ok fs'"
  by (induction ts arbitrary: fs) (auto split: option.splits dest: frame_ok_parse_step)

lemma parse_json_value:
  assumes "parse_json t = Parsed v"
  shows "json_value v"
proof -
  from assms obtain ts where ts: "lex Between t = Some ts" "parse_tokens ts [Top] = Some [Final v]"
    and v: "within_model v"
    by (auto simp: parse_json_def split: option.splits list.splits frame.splits if_splits)
  from ts(1) have "list_all token_ok ts" by (rule token_ok_lex)
  with ts(2) have "list_all frame_ok [Final v]" by (rule frame_ok_parse_tokens) simp
  with v show ?thesis by (simp add: json_value_def plausible_def)
qed


lemma json_clean_id:
  "within_model v \<Longrightarrow> function_free v \<Longrightarrow> json_clean v = v"
  "list_all within_model xs \<Longrightarrow> list_all function_free xs \<Longrightarrow> clean_elements xs = xs"
  "list_all (\<lambda>kv. within_model (snd kv)) kvs \<Longrightarrow> list_all (\<lambda>kv. function_free (snd kv)) kvs \<Longrightarrow>
     clean_members kvs = kvs"
proof (induction v and xs and kvs rule: json_clean_clean_elements_clean_members.induct)
  case (10 x xs)
  then show ?case by (cases x) simp_all
next
  case (12 k v kvs)
  then show ?case by (cases v) simp_all
qed simp_all

lemma json_value_stringify: "json_value v \<Longrightarrow> \<exists>t. stringify v = Some t"
  by (cases v) (simp_all add: json_value_def)

lemma stringify_parse_json:
  assumes "json_value v"
  shows "\<exists>t. stringify v = Some t \<and> parse_json t = Parsed v"
proof -
  from assms obtain t where t: "stringify v = Some t" using json_value_stringify by blast
  from assms have "canonical v" "json_clean v = v"
    by (simp_all add: json_value_def json_clean_id)
  with parse_json_stringify [OF t] t show ?thesis by simp
qed

lemma json_value_clean: "canonical v \<Longrightarrow> \<not> absent v \<Longrightarrow> json_value (json_clean v)"
proof -
  assume wf: "canonical v" and "\<not> absent v"
  then obtain t where "stringify v = Some t" by (cases "stringify v") (auto simp: stringify_None_iff)
  from parse_json_stringify [OF this wf] show ?thesis by (rule parse_json_value)
qed


subsection \<open>Reading a JSON value\<close>

lemma json_value_JObj:
  "json_value (JObj kvs) \<longleftrightarrow> ordered_props kvs \<and> list_all (\<lambda>kv. json_value (snd kv)) kvs"
  by (auto simp: json_value_def canonical_members_iff list_all_iff)

lemma json_value_JArr: "json_value (JArr xs) \<longleftrightarrow> list_all json_value xs"
  by (auto simp: json_value_def canonical_elements_iff list_all_iff)

lemma json_value_lookup_prop:
  assumes "json_value v" and "k \<noteq> lit ''length''" and "k \<noteq> lit ''small''"
  shows "lookup_prop v k = JUndefined \<or> json_value (lookup_prop v k)"
proof (cases v)
  case (JObj kvs)
  with assms(1) have "json_value x" if "map_of kvs k = Some x" for x
    using map_of_SomeD [OF that] by (auto simp: json_value_JObj list_all_iff)
  with JObj show ?thesis by (auto split: option.splits)
next
  case (JFunction name n)
  with assms(1) show ?thesis by (simp add: json_value_def)
qed (use assms in simp_all)

subsection \<open>Examples\<close>

lemma quote_ascii: "quote (lit ''title'') = 0x22 # lit ''title'' @ [0x22]"
  "quote (lit ''Dune'') = 0x22 # lit ''Dune'' @ [0x22]" "quote (lit ''ids'') = 0x22 # lit ''ids'' @ [0x22]"
  by (simp_all add: quote_def quote_point_def quote_unit_def is_lead_def is_trail_def lit_eval)

lemma index_of_names [simp]:
  "index_of (lit ''title'') = None" "index_of (lit ''cover'') = None" "index_of (lit ''ids'') = None"
  by (simp_all add: index_of_def is_digit_unit_def lit_eval)

lemma stringify_sparse: "stringify sparse_value = Some sparse_text"
  by (simp add: sparse_value_def sparse_text_def int_digits_def nat_digits.simps digit_unit_def)
    (simp add: lit_eval)

lemma canonical_sparse: "canonical sparse_value"
  by (simp add: sparse_value_def comes_before_def safe_integer_def)

lemma parse_json_spaced: "parse_json spaced_text = Parsed (JArr [JNum 10, JStr (lit ''A'')])"
  by (simp add: spaced_text_def parse_json_def lit_eval between_step_def is_space_def
      is_digit_unit_def number_unit_def word_unit_def after_token_def number_token_def
      fraction_of_def exponent_of_def unsigned_of_def number_value_def digits_value_def
      hex_value_def escaped_def Let_def)

section \<open>The round trip, both ways\<close>

text \<open>
  What \<open>JSON.stringify\<close> writes for a value with safe integers and
  ordered properties, \<open>JSON.parse\<close> reads back as the value with its absent array
  elements replaced by \<open>null\<close> and its absent properties removed, and that is a
  JSON value.
\<close>

theorem stringify_parse_round_trip:
  assumes "stringify v = Some t" and "canonical v"
  shows "parse_json t = Parsed (json_clean v) \<and> json_value (json_clean v)"
proof -
  from assms(1) have "\<not> absent v" by simp
  with assms show ?thesis by (simp add: parse_json_stringify json_value_clean)
qed

lemma stringify_parse_sparse:
  "parse_json sparse_text =
     Parsed (JObj [(lit ''title'', JStr (lit ''Dune'')), (lit ''ids'', JArr [JNum (- 1), JNull])])"
  using stringify_parse_round_trip [OF stringify_sparse canonical_sparse]
  by (simp add: sparse_value_def)

text \<open>
  \<open>JSON.parse\<close> returns nothing but JSON values: no function and no
  \<open>undefined\<close>, safe integers, and objects whose keys are distinct and in the
  order the engine enumerates them; and writing such a value and reading the text
  gives the value back.
\<close>

theorem parse_json_returns_json:
  assumes "parse_json t = Parsed v"
  shows "json_value v \<and> (\<exists>t'. stringify v = Some t' \<and> parse_json t' = Parsed v)"
  using parse_json_value [OF assms] by (simp add: stringify_parse_json)

lemma parse_json_returns_json_spaced:
  "json_value (JArr [JNum 10, JStr (lit ''A'')]) \<and>
   (\<exists>t'. stringify (JArr [JNum 10, JStr (lit ''A'')]) = Some t' \<and>
      parse_json t' = Parsed (JArr [JNum 10, JStr (lit ''A'')]))"
  using parse_json_returns_json [OF parse_json_spaced] .

end
