(* ===== verification/Wire.thy ===== *)
theory Wire
  imports Server JSON
begin

text \<open>
  What the server puts on the wire: the objects the handlers of
  \<open>src/src/index.js\<close> pass to \<open>res.json\<close>, with the candidate objects of
  \<open>src/src/services/books.js\<close> and the link bundle of
  \<open>src/src/services/links.js\<close> inside them, and the text \<open>res.json\<close> sends, which
  is \<open>JSON.stringify\<close> of the object.

  A reply body of the handlers is one of four shapes; \<open>body_json\<close> is the object
  literal of each. The text of an error the engine raised is the engine's, so
  \<open>body_json\<close> takes it as a parameter.
\<close>

section \<open>Objects\<close>

text \<open>The object literals of \<open>normalizeOpenLibrary\<close> and \<open>normalizeGoogleBooks\<close>.\<close>

definition openLibrary_json :: "candidate \<Rightarrow> jsval" where
  "openLibrary_json c =
     JObj [(lit ''source'', JStr (lit ''openlibrary'')),
           (lit ''isbn'', isbn c),
           (lit ''title'', title c),
           (lit ''authors'', authors c),
           (lit ''coverUrl'', coverUrl c),
           (lit ''openLibraryUrl'', openLibraryUrl c)]"

definition googleBooks_json :: "candidate \<Rightarrow> jsval" where
  "googleBooks_json c =
     JObj [(lit ''source'', JStr (lit ''googlebooks'')),
           (lit ''isbn'', isbn c),
           (lit ''title'', title c),
           (lit ''authors'', authors c),
           (lit ''coverUrl'', coverUrl c),
           (lit ''googleBooksPreviewUrl'', googleBooksPreviewUrl c),
           (lit ''googleBooksInfoUrl'', googleBooksInfoUrl c)]"

definition candidate_json :: "candidate \<Rightarrow> jsval" where
  "candidate_json c = (case source c of OpenLibrary \<Rightarrow> openLibrary_json c | GoogleBooks \<Rightarrow> googleBooks_json c)"

text \<open>The object literal of \<open>buildFallbackLinks\<close>.\<close>

definition links_json :: "fallback_links \<Rightarrow> jsval" where
  "links_json fl =
     JObj [(lit ''amazonSearchUrl'', JStr (amazonSearchUrl fl)),
           (lit ''googleBooksPreviewUrl'', fallback_googleBooksPreviewUrl fl),
           (lit ''openLibraryUrl'', fallback_openLibraryUrl fl)]"

text \<open>\<open>{ isbn: normalizedIsbn }\<close> and \<open>{ query }\<close>.\<close>

fun input_json :: "input \<Rightarrow> jsval" where
  "input_json (InputIsbn i) = JObj [(lit ''isbn'', JStr i)]"
| "input_json (InputQuery q) = JObj [(lit ''query'', q)]"

text \<open>\<open>error.message\<close> as a string.\<close>

fun message_text :: "(js_error \<Rightarrow> jsstring) \<Rightarrow> message \<Rightarrow> jsstring" where
  "message_text engine_text (Text s) = s"
| "message_text engine_text (EngineMessage e) = engine_text e"

text \<open>The argument of \<open>res.json\<close> in each handler and in the error middleware.\<close>

fun body_json :: "(js_error \<Rightarrow> jsstring) \<Rightarrow> reply_body \<Rightarrow> jsval" where
  "body_json engine_text StatusOk = JObj [(lit ''status'', JStr (lit ''ok''))]"
| "body_json engine_text (Candidates inp cs) =
     JObj [(lit ''input'', input_json inp), (lit ''candidates'', JArr (map candidate_json cs))]"
| "body_json engine_text (KindleLinks inp amazonUrl cs fl) =
     JObj [(lit ''input'', input_json inp),
           (lit ''amazonUrl'', amazonUrl),
           (lit ''candidates'', JArr (map candidate_json cs)),
           (lit ''fallbackLinks'', links_json fl)]"
| "body_json engine_text (ErrorBody m) = JObj [(lit ''error'', JStr (message_text engine_text m))]"

section \<open>The response\<close>

text \<open>
  \<open>res.status(n).json(obj)\<close>: the status, the content type Express sets, and the
  text of the object. \<open>JSON.stringify\<close> of an object is never \<open>undefined\<close>, which
  \<open>res_json_text\<close> shows; the empty text stands for that case here.
\<close>

record response =
  response_status :: nat
  content_type :: jsstring
  response_text :: jsstring

definition res_json :: "(js_error \<Rightarrow> jsstring) \<Rightarrow> reply \<Rightarrow> response" where
  "res_json engine_text rep =
     \<lparr>response_status = statusCode rep,
      content_type = lit ''application/json; charset=utf-8'',
      response_text = (case stringify (body_json engine_text (body rep)) of None \<Rightarrow> [] | Some t \<Rightarrow> t)\<rparr>"

text \<open>
  What a client that parses the text holds: the keys of a candidate whose value is
  not absent.
\<close>

definition wire_keys :: "candidate \<Rightarrow> jsstring list" where
  "wire_keys c = (case json_clean (candidate_json c) of JObj kvs \<Rightarrow> map fst kvs | _ \<Rightarrow> [])"

text \<open>
  A network whose JSON bodies are what \<open>JSON.parse\<close> returns: \<open>response.json()\<close>
  parses the body.
\<close>

definition json_world :: "world \<Rightarrow> bool" where
  "json_world w \<longleftrightarrow> (\<forall>url r doc. w url = Some r \<longrightarrow> json r = Some doc \<longrightarrow> json_value doc)"

text \<open>A candidate every field of which is a value the engine can hold.\<close>

definition canonical_candidate :: "candidate \<Rightarrow> bool" where
  "canonical_candidate c \<longleftrightarrow>
     canonical (isbn c) \<and> canonical (title c) \<and> canonical (authors c) \<and> canonical (coverUrl c) \<and>
     canonical (openLibraryUrl c) \<and> canonical (googleBooksPreviewUrl c) \<and>
     canonical (googleBooksInfoUrl c)"

section \<open>Scenarios\<close>

text \<open>
  The query of a request for the book of the examples, and a document of OpenLibrary
  in which the cover is an address instead of an object of addresses.
\<close>

definition dune_query :: jsval where
  "dune_query = JObj [(lit ''isbn'', JStr (lit ''978-0-441-01359-3'')), (lit ''locale'', JStr (lit ''uk''))]"

definition plain_cover_document :: jsval where
  "plain_cover_document =
     JObj [(lit ''ISBN:9780441013593'',
       JObj [(lit ''title'', JStr (lit ''Dune'')),
             (lit ''cover'', JStr (lit ''https://covers.openlibrary.org/b/id/1-M.jpg''))])]"

section \<open>Facts\<close>

subsection \<open>The keys of the objects\<close>

lemma index_of_keys [simp]:
  "index_of (lit ''source'') = None" "index_of (lit ''isbn'') = None"
  "index_of (lit ''authors'') = None" "index_of (lit ''coverUrl'') = None"
  "index_of (lit ''openLibraryUrl'') = None" "index_of (lit ''googleBooksPreviewUrl'') = None"
  "index_of (lit ''googleBooksInfoUrl'') = None" "index_of (lit ''amazonSearchUrl'') = None"
  "index_of (lit ''query'') = None" "index_of (lit ''status'') = None" "index_of (lit ''input'') = None"
  "index_of (lit ''candidates'') = None" "index_of (lit ''amazonUrl'') = None"
  "index_of (lit ''fallbackLinks'') = None" "index_of (lit ''error'') = None"
  by (simp_all add: index_of_def is_digit_unit_def lit_eval)

lemma canonical_openLibrary_json:
  "canonical (openLibrary_json c) \<longleftrightarrow>
     canonical (isbn c) \<and> canonical (title c) \<and> canonical (authors c) \<and>
     canonical (coverUrl c) \<and> canonical (openLibraryUrl c)"
  by (simp add: openLibrary_json_def comes_before_def)

lemma canonical_googleBooks_json:
  "canonical (googleBooks_json c) \<longleftrightarrow>
     canonical (isbn c) \<and> canonical (title c) \<and> canonical (authors c) \<and>
     canonical (coverUrl c) \<and> canonical (googleBooksPreviewUrl c) \<and>
     canonical (googleBooksInfoUrl c)"
  by (simp add: googleBooks_json_def comes_before_def)

lemma canonical_candidate_json: "canonical_candidate c \<Longrightarrow> canonical (candidate_json c)"
  by (cases "source c")
    (simp_all add: candidate_json_def canonical_candidate_def canonical_openLibrary_json
      canonical_googleBooks_json)

lemma canonical_links_json:
  "canonical (links_json fl) \<longleftrightarrow>
     canonical (fallback_googleBooksPreviewUrl fl) \<and> canonical (fallback_openLibraryUrl fl)"
  by (simp add: links_json_def comes_before_def)

lemma canonical_input_json: "canonical (input_json inp) \<longleftrightarrow> (\<forall>q. inp = InputQuery q \<longrightarrow> canonical q)"
  by (cases inp) simp_all

lemma canonical_body_json:
  "canonical (body_json e b) \<longleftrightarrow>
     (case b of
        Candidates inp cs \<Rightarrow> canonical (input_json inp) \<and> list_all (\<lambda>c. canonical (candidate_json c)) cs
      | KindleLinks inp u cs fl \<Rightarrow>
          canonical (input_json inp) \<and> canonical u \<and>
          list_all (\<lambda>c. canonical (candidate_json c)) cs \<and> canonical (links_json fl)
      | _ \<Rightarrow> True)"
  by (cases b) (auto simp: comes_before_def canonical_elements_iff list_all_iff)

subsection \<open>Values read from a well-formed value\<close>

lemma canonical_lookup_prop:
  "canonical v \<Longrightarrow> k \<noteq> lit ''length'' \<Longrightarrow> canonical (lookup_prop v k)"
proof (cases v)
  case (JObj kvs)
  assume "canonical v"
  with JObj have "list_all (\<lambda>kv. canonical (snd kv)) kvs" by (simp add: canonical_members_iff)
  then have "canonical x" if "map_of kvs k = Some x" for x
    using map_of_SomeD [OF that] by (auto simp: list_all_iff)
  with JObj show ?thesis by (simp split: option.splits)
qed simp_all

lemma canonical_opt_get:
  "canonical v \<Longrightarrow> k \<noteq> lit ''length'' \<Longrightarrow> canonical (opt_get v k)"
  by (simp add: opt_get_def canonical_lookup_prop)

lemma canonical_js_or: "canonical a \<Longrightarrow> canonical b \<Longrightarrow> canonical (js_or a b)"
  by (simp add: js_or_def)

lemmas canonical_reads = canonical_lookup_prop canonical_opt_get canonical_js_or

lemma canonical_JArr: "canonical (JArr xs) \<longleftrightarrow> list_all canonical xs"
  by (simp add: canonical_elements_iff)

lemma json_value_canonical: "json_value v \<Longrightarrow> canonical v"
  by (simp add: json_value_def)


subsection \<open>Candidates of a well-formed document\<close>

lemma names_not_length [simp]:
  "lit ''ISBN:'' @ i \<noteq> lit ''length''" "lit ''title'' \<noteq> lit ''length''"
  "lit ''authors'' \<noteq> lit ''length''" "lit ''name'' \<noteq> lit ''length''"
  "lit ''cover'' \<noteq> lit ''length''" "lit ''large'' \<noteq> lit ''length''"
  "lit ''medium'' \<noteq> lit ''length''" "lit ''small'' \<noteq> lit ''length''"
  "lit ''url'' \<noteq> lit ''length''" "lit ''volumeInfo'' \<noteq> lit ''length''"
  "lit ''imageLinks'' \<noteq> lit ''length''" "lit ''thumbnail'' \<noteq> lit ''length''"
  "lit ''previewLink'' \<noteq> lit ''length''" "lit ''infoLink'' \<noteq> lit ''length''"
  "lit ''items'' \<noteq> lit ''length''" "lit ''isbn'' \<noteq> lit ''length''"
  "lit ''query'' \<noteq> lit ''length''" "lit ''locale'' \<noteq> lit ''length''"
  "lit ''asin'' \<noteq> lit ''length''"
  by (simp_all add: lit_eval)

lemma canonical_openLibrary_authors:
  assumes "openLibrary_authors entry = Inr a" and "canonical entry"
  shows "canonical a"
proof (cases "nullish (lookup_prop entry (lit ''authors''))")
  case True
  with assms(1) show ?thesis by (auto simp: openLibrary_authors_def)
next
  case False
  with assms(1) obtain xs names where xs: "lookup_prop entry (lit ''authors'') = JArr xs"
    and names: "list_all2 (\<lambda>x y. get_prop x (lit ''name'') = Inr y) xs names"
    and a: "a = js_or (JArr (filter_Boolean names)) (JArr [])"
    by (auto simp: openLibrary_authors_def Let_def bind_result_eq_Inr_iff js_map_Inr_iff)
  from assms(2) xs have "list_all canonical xs"
    using canonical_lookup_prop [of entry "lit ''authors''"] by (simp add: canonical_elements_iff)
  with names have "list_all canonical names"
    by (induction rule: list_all2_induct)
      (auto simp: get_prop_def canonical_lookup_prop split: if_splits)
  with a show ?thesis
    by (simp add: canonical_elements_iff filter_Boolean_def list_all_iff)
qed

lemma canonical_openLibrary_cover: "canonical entry \<Longrightarrow> canonical (openLibrary_cover entry)"
  by (simp add: openLibrary_cover_def Let_def canonical_reads)

lemma canonical_openLibrary_url: "openLibrary_url entry = Inr u \<Longrightarrow> canonical u"
  by (auto dest: openLibrary_url_Inr)

lemma canonical_normalizeOpenLibrary:
  assumes "normalizeOpenLibrary data i = Inr (Some c)" and "canonical data"
  shows "canonical_candidate c"
proof -
  let ?entry = "opt_get data (lit ''ISBN:'' @ i)"
  from assms(1) obtain a u where a: "openLibrary_authors ?entry = Inr a"
    and u: "openLibrary_url ?entry = Inr u"
    and c: "c = \<lparr>source = OpenLibrary, isbn = JStr i, title = lookup_prop ?entry (lit ''title''),
      authors = a, coverUrl = openLibrary_cover ?entry, openLibraryUrl = u,
      googleBooksPreviewUrl = JUndefined, googleBooksInfoUrl = JUndefined\<rparr>"
    by (auto simp: normalizeOpenLibrary_def Let_def bind_result_eq_Inr_iff split: if_splits)
  from assms(2) have entry: "canonical ?entry" by (simp add: canonical_reads)
  with a u c show ?thesis
    by (simp add: canonical_candidate_def canonical_openLibrary_authors
        canonical_openLibrary_cover canonical_openLibrary_url canonical_reads)
qed

lemma canonical_normalizeGoogleBooks:
  assumes "normalizeGoogleBooks volume i = Some c" and "canonical volume" and "canonical i"
  shows "canonical_candidate c"
  using assms
  by (auto simp: normalizeGoogleBooks_def Let_def canonical_candidate_def canonical_reads
      split: if_splits)

lemma canonical_normalize_items:
  assumes "normalize_items data i = Inr cs" and "canonical data" and "canonical i"
  shows "list_all canonical_candidate cs"
proof -
  from normalize_items_Inr [OF assms(1)] show ?thesis
  proof
    assume "cs = []"
    then show ?thesis by simp
  next
    assume "\<exists>xs. lookup_prop data (lit ''items'') = JArr xs \<and> xs \<noteq> [] \<and>
      cs = filter_candidates (map (\<lambda>x. normalizeGoogleBooks x i) xs)"
    then obtain xs where xs: "lookup_prop data (lit ''items'') = JArr xs"
      and cs: "cs = filter_candidates (map (\<lambda>x. normalizeGoogleBooks x i) xs)" by blast
    from assms(2) xs have "list_all canonical xs"
      using canonical_lookup_prop [of data "lit ''items''"] by (simp add: canonical_elements_iff)
    with assms(3) show ?thesis
      unfolding cs list_all_filter_candidates
      by (auto simp: list_all_iff dest: canonical_normalizeGoogleBooks [OF sym])
  qed
qed

subsection \<open>Replies in a world of parsed documents\<close>

lemma fetchJson_json_world: "json_world w \<Longrightarrow> fetchJson w url = Inr data \<Longrightarrow> canonical data"
  by (auto simp: fetchJson_Inr_iff json_world_def json_value_def)

lemma canonical_resolveByIsbn:
  assumes "json_world w" and "resolveByIsbn w ord v = Inr (n, cs)"
  shows "list_all canonical_candidate cs"
proof -
  from assms(2) obtain ol gb where ol: "fetchOpenLibraryByIsbn w n = Inr ol"
    and gb: "fetchGoogleBooksByIsbn w n = Inr gb" and cs: "cs = filter_candidates (ol # map Some gb)"
    by (auto simp: resolveByIsbn_Inr_iff)
  from gb assms(1) have "list_all canonical_candidate gb"
    by (auto simp: fetchGoogleBooksByIsbn_Inr_iff dest: fetchJson_json_world
        intro: canonical_normalize_items)
  moreover from ol assms(1) have "canonical_candidate c" if "ol = Some c" for c
    using that by (auto simp: fetchOpenLibraryByIsbn_Inr_iff dest: fetchJson_json_world
        intro: canonical_normalizeOpenLibrary)
  ultimately show ?thesis
    unfolding cs by (cases ol) (simp_all add: filter_candidates_merge)
qed

lemma canonical_fetchGoogleBooksByQuery:
  assumes "json_world w" and "fetchGoogleBooksByQuery w q = Inr cs"
  shows "list_all canonical_candidate cs"
  using assms
  by (auto simp: fetchGoogleBooksByQuery_Inr_iff dest: fetchJson_json_world
      intro: canonical_normalize_items)


lemma canonical_candidates_json:
  "list_all canonical_candidate cs \<Longrightarrow> list_all (\<lambda>c. canonical (candidate_json c)) cs"
  by (simp add: list_all_iff canonical_candidate_json)

lemma canonical_buildAmazonProductUrl: "buildAmazonProductUrl asin loc = Inr u \<Longrightarrow> canonical u"
  by (cases "truthy asin")
    (auto simp: buildAmazonProductUrl_falsy buildAmazonProductUrl_truthy bind_result_eq_Inr_iff)

lemma canonical_buildFallbackLinks:
  "buildFallbackLinks c loc = Inr fl \<Longrightarrow> canonical_candidate c \<Longrightarrow> canonical (links_json fl)"
  by (simp add: buildFallbackLinks_Inr_iff canonical_links_json canonical_candidate_def
      canonical_js_or)

lemma canonical_respond:
  "(\<And>rep. r = Inr rep \<Longrightarrow> canonical (body_json e (body rep))) \<Longrightarrow>
   canonical (body_json e (body (respond r)))"
  by (cases r) simp_all

lemma canonical_health: "canonical (body_json e (body health))"
  by (simp add: health_def)

lemma canonical_identify:
  assumes "json_world w" and "canonical req_body"
  shows "canonical (body_json e (body (identify w ord req_body)))"
proof -
  let ?b = "js_or req_body (JObj [])"
  from assms(2) have b: "canonical ?b" by (simp add: canonical_js_or)
  then have q: "canonical (lookup_prop ?b (lit ''query''))" by (simp add: canonical_lookup_prop)
  show ?thesis
    unfolding identify_def Let_def
  proof (rule canonical_respond)
    fix rep
    assume "(if truthy (lookup_prop ?b (lit ''isbn''))
        then bind_result (resolveByIsbn w ord (lookup_prop ?b (lit ''isbn'')))
          (\<lambda>(normalizedIsbn, candidates).
             Inr (json_reply (Candidates (InputIsbn normalizedIsbn) candidates)))
        else if truthy (lookup_prop ?b (lit ''query''))
        then bind_result (fetchGoogleBooksByQuery w (lookup_prop ?b (lit ''query'')))
          (\<lambda>candidates. Inr (json_reply (Candidates (InputQuery (lookup_prop ?b (lit ''query''))) candidates)))
        else if truthy (lookup_prop ?b (lit ''imageBase64''))
        then Inr (status_reply 501 (ErrorBody (Text
          (lit ''OCR pipeline not implemented. Provide an ISBN or query for now.''))))
        else Inr (status_reply 400 (ErrorBody (Text (lit ''Provide isbn, query, or imageBase64.''))))) =
      Inr rep"
    with assms(1) q show "canonical (body_json e (body rep))"
      by (auto simp: bind_result_eq_Inr_iff canonical_body_json canonical_candidates_json
          split: if_splits dest: canonical_resolveByIsbn canonical_fetchGoogleBooksByQuery)
  qed
qed

lemma canonical_kindle_link:
  assumes "json_world w"
  shows "canonical (body_json e (body (kindle_link w ord req_query)))"
  unfolding kindle_link_def Let_def
proof (rule canonical_respond)
  fix rep
  assume "bind_result (resolveByIsbn w ord (lookup_prop req_query (lit ''isbn'')))
      (\<lambda>(normalizedIsbn, candidates).
         case candidates of
           [] \<Rightarrow> Inr (status_reply 404 (ErrorBody (Text (lit ''No matches found.''))))
         | primary # rest \<Rightarrow>
             bind_result (buildAmazonProductUrl (lookup_prop req_query (lit ''asin''))
               (lookup_prop req_query (lit ''locale''))) (\<lambda>amazonUrl.
             bind_result (buildFallbackLinks primary (lookup_prop req_query (lit ''locale'')))
               (\<lambda>fallbackLinks.
                  Inr (json_reply
                    (KindleLinks (InputIsbn normalizedIsbn) amazonUrl candidates fallbackLinks))))) =
    Inr rep"
  then obtain n cs where res: "resolveByIsbn w ord (lookup_prop req_query (lit ''isbn'')) = Inr (n, cs)"
    and rep: "(case cs of
        [] \<Rightarrow> Inr (status_reply 404 (ErrorBody (Text (lit ''No matches found.''))))
      | primary # rest \<Rightarrow>
          bind_result (buildAmazonProductUrl (lookup_prop req_query (lit ''asin''))
            (lookup_prop req_query (lit ''locale''))) (\<lambda>amazonUrl.
          bind_result (buildFallbackLinks primary (lookup_prop req_query (lit ''locale'')))
            (\<lambda>fallbackLinks.
               Inr (json_reply (KindleLinks (InputIsbn n) amazonUrl cs fallbackLinks))))) = Inr rep"
    by (auto simp: bind_result_eq_Inr_iff)
  from canonical_resolveByIsbn [OF assms res] have cs: "list_all canonical_candidate cs" .
  show "canonical (body_json e (body rep))"
  proof (cases cs)
    case Nil
    with rep show ?thesis by auto
  next
    case (Cons primary rest)
    with rep cs show ?thesis
      by (auto simp: bind_result_eq_Inr_iff canonical_body_json canonical_candidates_json
          canonical_candidate_json
          dest: canonical_buildAmazonProductUrl canonical_buildFallbackLinks)
  qed
qed


subsection \<open>The text of a reply\<close>

lemma stringify_body_json: "\<exists>t. stringify (body_json e b) = Some t"
  by (cases b) simp_all

lemma response_text_res_json:
  "stringify (body_json e (body rep)) = Some (response_text (res_json e rep))"
  using stringify_body_json [of e "body rep"] by (auto simp: res_json_def)

lemma parse_response_text:
  "canonical (body_json e (body rep)) \<Longrightarrow>
   parse_json (response_text (res_json e rep)) = Parsed (json_clean (body_json e (body rep)))"
  using response_text_res_json by (rule parse_json_stringify)

subsection \<open>Keys on the wire\<close>

lemma wire_keys_openLibrary:
  "source c = OpenLibrary \<Longrightarrow>
   wire_keys c = map fst (filter (\<lambda>kv. \<not> absent (snd kv))
     [(lit ''source'', JStr (lit ''openlibrary'')), (lit ''isbn'', isbn c), (lit ''title'', title c),
      (lit ''authors'', authors c), (lit ''coverUrl'', coverUrl c),
      (lit ''openLibraryUrl'', openLibraryUrl c)])"
  by (simp add: wire_keys_def candidate_json_def openLibrary_json_def)

subsection \<open>Examples\<close>

lemma index_of_document_keys [simp]:
  "index_of (lit ''ISBN:9780441013593'') = None" "index_of (lit ''items'') = None"
  "index_of (lit ''name'') = None" "index_of (lit ''cover'') = None" "index_of (lit ''medium'') = None"
  "index_of (lit ''url'') = None" "index_of (lit ''volumeInfo'') = None"
  "index_of (lit ''previewLink'') = None" "index_of (lit ''locale'') = None"
  by (simp_all add: index_of_def is_digit_unit_def lit_eval)

lemma json_value_dune_document: "json_value dune_document"
  by (simp add: json_value_def dune_document_def dune_entry_def dune_volume_def comes_before_def)

lemma json_world_dune: "json_world dune_world"
  by (simp add: json_world_def dune_world_def always_def ok_response_def json_value_dune_document)

lemma canonical_dune_query: "canonical dune_query"
  by (simp add: dune_query_def comes_before_def)

lemma normalizeOpenLibrary_plain_cover:
  "normalizeOpenLibrary plain_cover_document (lit ''9780441013593'') =
     Inr (Some \<lparr>source = OpenLibrary, isbn = JStr (lit ''9780441013593''), title = JStr (lit ''Dune''),
       authors = JArr [], coverUrl = JFunction (lit ''small'') 0, openLibraryUrl = JNull,
       googleBooksPreviewUrl = JUndefined, googleBooksInfoUrl = JUndefined\<rparr>)"
  by (simp add: normalizeOpenLibrary_def plain_cover_document_def openLibrary_authors_def
      openLibrary_cover_def openLibrary_url_def Let_def opt_get_def js_or_def lit_eval)

section \<open>Properties\<close>

text \<open>
  C9 (roundtrip). What a client reads from the reply of a handler. When the bodies the
  providers send are parsed JSON and the body of the request is, the text of every
  reply of \<open>GET /health\<close>, \<open>POST /identify\<close> and \<open>GET /kindle-link\<close> parses, and
  the value is the object the handler passed to \<open>res.json\<close> without its absent
  properties.
\<close>

theorem reply_read_back:
  assumes "json_world w" and "canonical req"
    and "rep = health \<or> rep = identify w ord req \<or> rep = kindle_link w ord req"
  shows "parse_json (response_text (res_json e rep)) = Parsed (json_clean (body_json e (body rep)))"
  using assms canonical_health [of e] canonical_identify [of w req e ord]
    canonical_kindle_link [of w e ord req]
  by (auto intro: parse_response_text)

theorem reply_read_back_witness:
  "parse_json (response_text (res_json (\<lambda>e. []) (kindle_link dune_world FirstSettlesFirst dune_query))) =
     Parsed (json_clean (body_json (\<lambda>e. []) (body (kindle_link dune_world FirstSettlesFirst dune_query))))"
  using reply_read_back [OF json_world_dune canonical_dune_query, of _ FirstSettlesFirst] by blast

text \<open>
  C26 (error). A candidate can reach the client without its cover. When OpenLibrary
  sends \<open>cover\<close> as a string, \<open>entry.cover?.small\<close> is the method
  \<open>String.prototype.small\<close>: the candidate passes every check of the server, and
  \<open>JSON.stringify\<close> leaves the key \<open>coverUrl\<close> out of the reply.
\<close>

theorem cover_string_dropped:
  assumes "normalizeOpenLibrary data i = Inr (Some c)"
    and "lookup_prop (opt_get data (lit ''ISBN:'' @ i)) (lit ''cover'') = JStr s"
  shows "well_formed_candidate c \<and> lit ''coverUrl'' \<notin> set (wire_keys c) \<and>
     lit ''source'' \<in> set (wire_keys c)"
proof -
  from assms have "coverUrl c = JFunction (lit ''small'') 0"
    by (auto simp: normalizeOpenLibrary_def Let_def bind_result_eq_Inr_iff openLibrary_cover_def
        opt_get_def js_or_def lit_eval split: if_splits)
  with normalizeOpenLibrary_Some [OF assms(1)] show ?thesis
    by (simp add: wire_keys_openLibrary)
qed

theorem cover_string_dropped_witness:
  "wire_keys \<lparr>source = OpenLibrary, isbn = JStr (lit ''9780441013593''), title = JStr (lit ''Dune''),
       authors = JArr [], coverUrl = JFunction (lit ''small'') 0, openLibraryUrl = JNull,
       googleBooksPreviewUrl = JUndefined, googleBooksInfoUrl = JUndefined\<rparr> =
     [lit ''source'', lit ''isbn'', lit ''title'', lit ''authors'', lit ''openLibraryUrl'']"
proof -
  have "lookup_prop (opt_get plain_cover_document (lit ''ISBN:'' @ lit ''9780441013593''))
      (lit ''cover'') = JStr (lit ''https://covers.openlibrary.org/b/id/1-M.jpg'')"
    by (simp add: plain_cover_document_def opt_get_def flip: lit_append)
  from cover_string_dropped [OF normalizeOpenLibrary_plain_cover this] show ?thesis
    by (simp add: wire_keys_openLibrary)
qed

end
