(* ===== verification/Express.thy ===== *)
theory Express
  imports Wire
begin

text \<open>
  The wiring of \<open>src/src/index.js\<close>: the application with its body parser, the
  three routes, the error middleware and the port. A request passes through
  \<open>express.json({ limit: "4mb" })\<close> first, whatever its method and path; an error
  of the parser reaches the error middleware like one a handler throws. Then the
  route of the method and the path runs its handler; a request that matches no route
  is answered by the framework, not by the code of the repository.

  What the framework does is modelled from its documentation: routes match without
  regard to the case of ASCII letters and to one trailing slash, a \<open>GET\<close> route
  also answers \<open>HEAD\<close> (without a body), the JSON body parser reads a body only
  when the content type is JSON, treats an empty body as \<open>{}\<close>, refuses a body
  over the limit with the status 413 and a text that does not start an object or an
  array, or that is not JSON, with the status 400. \<open>OPTIONS\<close> requests, the
  character set of the body and the headers of the reply other than the content type
  are not modelled. A body with a number outside the model has no answer here:
  \<open>server\<close> is \<open>None\<close> for it.
\<close>

section \<open>Requests\<close>

datatype http_method = GET | HEAD | POST | PUT | PATCH | DELETE

record request =
  request_method :: http_method
  request_path :: jsstring
  request_query :: jsval
  json_content :: bool
  content_length :: nat
  request_text :: jsstring

section \<open>The body parser\<close>

text \<open>\<open>limit: "4mb"\<close>, in bytes.\<close>

definition body_limit :: nat where
  "body_limit = 4 * 1024 * 1024"

text \<open>The first unit of the text after white space starts an object or an array.\<close>

definition strict_start :: "jsstring \<Rightarrow> bool" where
  "strict_start t = (case dropWhile is_space t of [] \<Rightarrow> False | c # cs \<Rightarrow> c = 0x7B \<or> c = 0x5B)"

text \<open>
  \<open>req.body\<close> after the parser, or the error it passes on. A request without a
  JSON body leaves \<open>req.body\<close> as it is, \<open>undefined\<close>. The text of a syntax error
  is the engine's.
\<close>

definition express_json :: "(js_error \<Rightarrow> jsstring) \<Rightarrow> request \<Rightarrow> jsval result option" where
  "express_json engine_text req =
     (if \<not> json_content req then Some (Inr JUndefined)
      else if body_limit < content_length req
        then Some (Inl (Thrown 413 (lit ''request entity too large'')))
      else if request_text req = [] then Some (Inr (JObj []))
      else if \<not> strict_start (request_text req) then Some (Inl (Thrown 400 (engine_text SyntaxError)))
      else
        (case parse_json (request_text req) of
           Parsed v \<Rightarrow> Some (Inr v)
         | Malformed \<Rightarrow> Some (Inl (Thrown 400 (engine_text SyntaxError)))
         | Unrepresented \<Rightarrow> None))"

section \<open>Routes\<close>

text \<open>A path matches a pattern without regard to case and to one trailing slash.\<close>

definition path_matches :: "jsstring \<Rightarrow> jsstring \<Rightarrow> bool" where
  "path_matches pattern path \<longleftrightarrow>
     toUpperCase path = toUpperCase pattern \<or> toUpperCase path = toUpperCase pattern @ lit ''/''"

text \<open>\<open>app.get("/health", ...)\<close>.\<close>

definition health_route :: "request \<Rightarrow> bool" where
  "health_route req \<longleftrightarrow>
     (request_method req = GET \<or> request_method req = HEAD) \<and>
     path_matches (lit ''/health'') (request_path req)"

text \<open>\<open>app.post("/identify", ...)\<close>.\<close>

definition identify_route :: "request \<Rightarrow> bool" where
  "identify_route req \<longleftrightarrow>
     request_method req = POST \<and> path_matches (lit ''/identify'') (request_path req)"

text \<open>\<open>app.get("/kindle-link", ...)\<close>.\<close>

definition kindle_link_route :: "request \<Rightarrow> bool" where
  "kindle_link_route req \<longleftrightarrow>
     (request_method req = GET \<or> request_method req = HEAD) \<and>
     path_matches (lit ''/kindle-link'') (request_path req)"

section \<open>The application\<close>

text \<open>
  The handler of the first route that matches, in the order of the registrations, on
  \<open>req.body\<close> as the parser left it and on \<open>req.query\<close>; \<open>None\<close> when no
  route matches.
\<close>

definition dispatch :: "world \<Rightarrow> settle_order \<Rightarrow> request \<Rightarrow> jsval \<Rightarrow> reply option" where
  "dispatch w ord req req_body =
     (if health_route req then Some health
      else if identify_route req then Some (identify w ord req_body)
      else if kindle_link_route req then Some (kindle_link w ord (request_query req))
      else None)"

text \<open>
  What the server sends: a reply of the code as JSON, without the text for a
  \<open>HEAD\<close> request, or the page of the framework for a request no route matches.
\<close>

datatype outcome = Sent response | NoRoute

definition send :: "(js_error \<Rightarrow> jsstring) \<Rightarrow> request \<Rightarrow> reply \<Rightarrow> outcome" where
  "send engine_text req rep =
     Sent (if request_method req = HEAD then (res_json engine_text rep)\<lparr>response_text := []\<rparr>
           else res_json engine_text rep)"

text \<open>
  The application: the body parser, then the routes, with the error middleware for
  what the parser passes on. What a handler throws is caught in the handler and
  reaches the same middleware there (\<open>respond\<close>).
\<close>

definition server ::
  "(js_error \<Rightarrow> jsstring) \<Rightarrow> world \<Rightarrow> settle_order \<Rightarrow> request \<Rightarrow> outcome option" where
  "server engine_text w ord req =
     (case express_json engine_text req of
        None \<Rightarrow> None
      | Some (Inl e) \<Rightarrow> Some (send engine_text req (error_handler e))
      | Some (Inr req_body) \<Rightarrow>
          Some (case dispatch w ord req req_body of
                  None \<Rightarrow> NoRoute
                | Some rep \<Rightarrow> send engine_text req rep))"

section \<open>Start\<close>

text \<open>
  \<open>process.env.PORT || 3000\<close>, the variable being a string or unset, and the line
  the server logs when it listens.
\<close>

definition port :: "jsstring option \<Rightarrow> jsval" where
  "port env_PORT = js_or (case env_PORT of None \<Rightarrow> JUndefined | Some s \<Rightarrow> JStr s) (JNum 3000)"

definition listening_message :: "jsstring option \<Rightarrow> jsstring result" where
  "listening_message env_PORT =
     bind_result (to_string (port env_PORT)) (\<lambda>p. Inr (lit ''kindle-downloader server listening on '' @ p))"

section \<open>A scenario\<close>

text \<open>A client posts the identifier of the book as JSON.\<close>

definition dune_body :: jsstring where
  "dune_body = lit ''{'' @ quote (lit ''isbn'') @ lit '':'' @ quote (lit ''978-0-441-01359-3'') @ lit ''}''"

definition dune_request :: request where
  "dune_request =
     \<lparr>request_method = POST, request_path = lit ''/identify'', request_query = JObj [],
      json_content = True, content_length = 28, request_text = dune_body\<rparr>"

text \<open>A client asks for the health of the server and sends a body that is not JSON.\<close>

definition broken_request :: request where
  "broken_request =
     \<lparr>request_method = GET, request_path = lit ''/health'', request_query = JObj [],
      json_content = True, content_length = 1, request_text = lit ''{''\<rparr>"

section \<open>The body parser\<close>

lemma express_json_absent [simp]: "\<not> json_content req \<Longrightarrow> express_json e req = Some (Inr JUndefined)"
  by (simp add: express_json_def)

lemma express_json_None_iff:
  "express_json e req = None \<longleftrightarrow>
     json_content req \<and> content_length req \<le> body_limit \<and> strict_start (request_text req) \<and>
     parse_json (request_text req) = Unrepresented"
  by (auto simp: express_json_def strict_start_def split: parsed.splits)

lemma express_json_Inr:
  assumes "express_json e req = Some (Inr v)"
  shows "v = JUndefined \<or> json_value v"
proof -
  have "json_value (JObj [])" by (simp add: json_value_def)
  with assms show ?thesis
    by (auto simp: express_json_def split: if_splits parsed.splits dest: parse_json_value)
qed

lemma express_json_canonical: "express_json e req = Some (Inr v) \<Longrightarrow> canonical v"
  by (auto dest!: express_json_Inr simp: json_value_def)

lemma express_json_Inl:
  assumes "express_json e req = Some (Inl err)"
  shows "err = Thrown 413 (lit ''request entity too large'') \<and> body_limit < content_length req \<or>
     err = Thrown 400 (e SyntaxError) \<and> content_length req \<le> body_limit"
  using assms by (auto simp: express_json_def split: if_splits parsed.splits)

lemma express_json_parsed:
  "json_content req \<Longrightarrow> content_length req \<le> body_limit \<Longrightarrow> strict_start (request_text req) \<Longrightarrow>
   parse_json (request_text req) = Parsed v \<Longrightarrow> express_json e req = Some (Inr v)"
  by (auto simp: express_json_def strict_start_def)

text \<open>
  A handler cannot tell a body parser that leaves \<open>req.body\<close> undefined from one
  that sets it to the empty object.
\<close>

lemma identify_body_absent: "identify w ord JUndefined = identify w ord (JObj [])"
  by (simp add: identify_def js_or_def)

section \<open>Routes\<close>

lemma routes_disjoint:
  "\<not> (health_route req \<and> identify_route req)" "\<not> (health_route req \<and> kindle_link_route req)"
  "\<not> (identify_route req \<and> kindle_link_route req)"
  by (auto simp: health_route_def identify_route_def kindle_link_route_def path_matches_def
      toUpperCase_def lit_eval)

lemma dispatch_Some_iff:
  "dispatch w ord req b = Some rep \<longleftrightarrow>
     health_route req \<and> rep = health \<or>
     identify_route req \<and> rep = identify w ord b \<or>
     kindle_link_route req \<and> rep = kindle_link w ord (request_query req)"
  using routes_disjoint [of req] by (auto simp: dispatch_def)

lemma dispatch_None_iff:
  "dispatch w ord req b = None \<longleftrightarrow> \<not> health_route req \<and> \<not> identify_route req \<and> \<not> kindle_link_route req"
  by (simp add: dispatch_def)

lemma canonical_dispatch:
  assumes "json_world w" and "canonical b" and "dispatch w ord req b = Some rep"
  shows "canonical (body_json e (body rep))"
  using assms canonical_health [of e] canonical_identify [of w b e ord]
    canonical_kindle_link [of w e ord "request_query req"]
  by (auto simp: dispatch_Some_iff)

section \<open>The application\<close>

lemma server_None_iff:
  "server e w ord req = None \<longleftrightarrow>
     json_content req \<and> content_length req \<le> body_limit \<and> strict_start (request_text req) \<and>
     parse_json (request_text req) = Unrepresented"
proof -
  have "server e w ord req = None \<longleftrightarrow> express_json e req = None"
    by (simp add: server_def split: option.splits sum.splits)
  then show ?thesis by (simp add: express_json_None_iff)
qed

lemma server_Sent:
  assumes "server e w ord req = Some (Sent r)"
  obtains (parser) err where "express_json e req = Some (Inl err)"
      and "send e req (error_handler err) = Sent r"
  | (handler) b rep where "express_json e req = Some (Inr b)" and "dispatch w ord req b = Some rep"
      and "send e req rep = Sent r"
  using assms by (auto simp: server_def split: option.splits sum.splits)

lemma send_Sent_iff:
  "send e req rep = Sent r \<longleftrightarrow>
     r = (if request_method req = HEAD then (res_json e rep)\<lparr>response_text := []\<rparr> else res_json e rep)"
  by (auto simp: send_def)

lemma status_res_json: "response_status (res_json e rep) = statusCode rep"
  by (simp add: res_json_def)

lemma status_send: "send e req rep = Sent r \<Longrightarrow> response_status r = statusCode rep"
  by (auto simp: send_def res_json_def)

section \<open>Start\<close>

lemma port_cases:
  "port None = JNum 3000" "port (Some []) = JNum 3000" "s \<noteq> [] \<Longrightarrow> port (Some s) = JStr s"
  by (simp_all add: port_def js_or_def)

lemma listening_message_default:
  "listening_message None = Inr (lit ''kindle-downloader server listening on 3000'')"
  by (simp add: listening_message_def port_cases int_digits_def nat_digits.simps digit_unit_def lit_eval)

lemma listening_message_total: "\<exists>t. listening_message env_PORT = Inr t"
  by (cases env_PORT; cases "the env_PORT = []") (auto simp: listening_message_def port_def js_or_def)

section \<open>The scenario\<close>

lemma parse_dune_body:
  "parse_json dune_body = Parsed (JObj [(lit ''isbn'', JStr (lit ''978-0-441-01359-3''))])"
proof -
  let ?v = "JObj [(lit ''isbn'', JStr (lit ''978-0-441-01359-3''))]"
  have "json_value ?v" by (simp add: json_value_def)
  moreover have "stringify ?v = Some dune_body" by (simp add: dune_body_def lit_eval)
  ultimately show ?thesis using stringify_parse_json [of ?v] by auto
qed

lemma strict_start_dune [simp]: "strict_start dune_body"
  by (simp add: strict_start_def dune_body_def is_space_def lit_eval)

lemma server_dune:
  "server e dune_world FirstSettlesFirst dune_request =
     Some (Sent (res_json e (json_reply (Candidates (InputIsbn (lit ''9780441013593'')) dune_candidates))))"
proof -
  let ?b = "JObj [(lit ''isbn'', JStr (lit ''978-0-441-01359-3''))]"
  have "express_json e dune_request = Some (Inr ?b)"
    by (rule express_json_parsed) (simp_all add: dune_request_def body_limit_def parse_dune_body)
  moreover have "dispatch dune_world FirstSettlesFirst dune_request ?b =
      Some (identify dune_world FirstSettlesFirst ?b)"
    by (simp add: dispatch_def health_route_def identify_route_def dune_request_def path_matches_def)
  moreover have "lookup_prop (js_or ?b (JObj [])) (lit ''isbn'') = JStr (lit ''978-0-441-01359-3'')"
    by (simp add: js_or_def)
  then have "identify dune_world FirstSettlesFirst ?b =
      json_reply (Candidates (InputIsbn (lit ''9780441013593'')) dune_candidates)"
    by (simp add: identify_isbn resolveByIsbn_Dune)
  ultimately show ?thesis by (simp add: server_def send_def dune_request_def)
qed

section \<open>Properties\<close>

text \<open>
  C10 (refinement). From the request to what the client reads. When the bodies the
  providers send are parsed JSON, every reply the server sends to a request other than
  \<open>HEAD\<close>, whether a handler or the error middleware built it, is a text that
  parses to the object passed to \<open>res.json\<close> without its absent properties, with
  the status of that reply; the reply is that of the error middleware for what the
  body parser passed on, and otherwise that of the handler whose route matches the
  request, on the body as parsed. Nothing is assumed of the request.
\<close>

theorem server_reply_read_back:
  assumes "json_world w" and "server e w ord req = Some (Sent r)" and "request_method req \<noteq> HEAD"
  shows "\<exists>rep. r = res_json e rep \<and> response_status r = statusCode rep \<and>
     parse_json (response_text r) = Parsed (json_clean (body_json e (body rep))) \<and>
     ((\<exists>err. express_json e req = Some (Inl err) \<and> rep = error_handler err) \<or>
      (\<exists>b. express_json e req = Some (Inr b) \<and>
         (health_route req \<and> rep = health \<or>
          identify_route req \<and> rep = identify w ord b \<or>
          kindle_link_route req \<and> rep = kindle_link w ord (request_query req))))"
  using assms(2)
proof (cases rule: server_Sent)
  case (parser err)
  from parser(2) assms(3) have "r = res_json e (error_handler err)"
    by (simp add: send_Sent_iff)
  moreover have "canonical (body_json e (body (error_handler err)))" by simp
  ultimately show ?thesis
    using parser(1) parse_response_text [of e "error_handler err"]
    by (auto simp: status_res_json)
next
  case (handler b rep)
  from handler(1) have "canonical b" by (rule express_json_canonical)
  with assms(1) have "canonical (body_json e (body rep))" using handler(2) by (rule canonical_dispatch)
  moreover from handler(3) assms(3) have "r = res_json e rep" by (simp add: send_Sent_iff)
  ultimately show ?thesis
    using handler(1,2) parse_response_text [of e rep]
    by (auto simp: status_res_json dispatch_Some_iff)
qed

theorem server_reply_read_back_witness:
  "\<exists>rep. res_json (\<lambda>e. []) (json_reply (Candidates (InputIsbn (lit ''9780441013593'')) dune_candidates)) =
       res_json (\<lambda>e. []) rep \<and>
     parse_json (response_text (res_json (\<lambda>e. [])
       (json_reply (Candidates (InputIsbn (lit ''9780441013593'')) dune_candidates)))) =
     Parsed (json_clean (body_json (\<lambda>e. []) (body rep)))"
  using server_reply_read_back [OF json_world_dune server_dune]
  by (auto simp: dune_request_def)

text \<open>
  C20 (error). The body parser runs before every route. A request whose body is
  announced as JSON and is not is answered with the status 400 and the engine's text
  for the syntax error, whatever its method and its path: also on \<open>GET /health\<close>,
  and also on a path no route matches.
\<close>

theorem malformed_body_rejected:
  assumes "json_content req" and "content_length req \<le> body_limit" and "request_text req \<noteq> []"
    and "parse_json (request_text req) = Malformed"
  shows "server e w ord req = Some (send e req (status_reply 400 (ErrorBody (Text
     (if e SyntaxError = [] then lit ''Unexpected error'' else e SyntaxError)))))"
  using assms by (simp add: server_def express_json_def error_handler_def)

theorem malformed_body_rejected_witness:
  "server (\<lambda>e. lit ''Unexpected end of JSON input'') dune_world FirstSettlesFirst broken_request =
     Some (Sent (res_json (\<lambda>e. lit ''Unexpected end of JSON input'')
       (status_reply 400 (ErrorBody (Text (lit ''Unexpected end of JSON input''))))))"
proof -
  have "parse_json (request_text broken_request) = Malformed"
    by (simp add: broken_request_def parse_json_def lit_eval)
  with malformed_body_rejected [of broken_request "\<lambda>e. lit ''Unexpected end of JSON input''"
      dune_world FirstSettlesFirst]
  show ?thesis by (simp add: broken_request_def body_limit_def send_def)
qed

end
