(* ===== verification/OpenAI.thy ===== *)
theory OpenAI
  imports JSON
begin

text \<open>
  The request the mobile client sends to the vision model, from the \<open>try\<close> block
  of \<open>resolveWithOpenAI\<close> in \<open>src/expo-app/App.js\<close>: the payload object, the
  headers, and the body, which is \<open>JSON.stringify\<close> of the payload. The two template
  literals apply \<open>ToString\<close> to the picture and to the API key, which is where
  building the request can throw.
\<close>

section \<open>The payload\<close>

definition OPENAI_MODEL :: jsstring where
  "OPENAI_MODEL = lit ''gpt-4o-mini''"

definition prompt :: jsstring where
  "prompt = lit ''Identify the book in this photo. Return JSON with title, author, '' @
     lit ''and kindleUrl if you can find it. If unsure, return an error field.''"

text \<open>The template literal \<open>data:image/jpeg;base64,${base64}\<close>.\<close>

definition image_url :: "jsval \<Rightarrow> jsstring result" where
  "image_url base64 = bind_result (to_string base64) (\<lambda>b. Inr (lit ''data:image/jpeg;base64,'' @ b))"

definition payload :: "jsstring \<Rightarrow> jsval" where
  "payload url =
     JObj [(lit ''model'', JStr OPENAI_MODEL),
           (lit ''messages'',
             JArr [JObj [(lit ''role'', JStr (lit ''user'')),
                         (lit ''content'',
                           JArr [JObj [(lit ''type'', JStr (lit ''text'')), (lit ''text'', JStr prompt)],
                                 JObj [(lit ''type'', JStr (lit ''image_url'')),
                                       (lit ''image_url'', JObj [(lit ''url'', JStr url)])]])]]),
           (lit ''response_format'', JObj [(lit ''type'', JStr (lit ''json_object''))])]"

section \<open>The request\<close>

record http_request =
  request_url :: jsstring
  request_method :: jsstring
  request_headers :: "(jsstring \<times> jsstring) list"
  request_body :: jsstring

text \<open>
  The arguments of \<open>fetch\<close>. The payload is built first, then the headers with the
  template literal \<open>Bearer ${API_KEY}\<close>, then the body. \<open>JSON.stringify\<close> of an
  object is a string; the empty text stands for \<open>undefined\<close>, which
  \<open>stringify_payload\<close> excludes.
\<close>

definition openai_request :: "jsval \<Rightarrow> jsval \<Rightarrow> http_request result" where
  "openai_request API_KEY base64 =
     bind_result (image_url base64) (\<lambda>url.
     bind_result (to_string API_KEY) (\<lambda>key.
       Inr \<lparr>request_url = lit ''https://api.openai.com/v1/chat/completions'',
            request_method = lit ''POST'',
            request_headers =
              [(lit ''Content-Type'', lit ''application/json''),
               (lit ''Authorization'', lit ''Bearer '' @ key)],
            request_body = (case stringify (payload url) of None \<Rightarrow> [] | Some t \<Rightarrow> t)\<rparr>))"

section \<open>Facts\<close>

lemma index_of_payload_keys [simp]:
  "index_of (lit ''model'') = None" "index_of (lit ''messages'') = None"
  "index_of (lit ''role'') = None" "index_of (lit ''content'') = None"
  "index_of (lit ''type'') = None" "index_of (lit ''text'') = None"
  "index_of (lit ''image_url'') = None" "index_of (lit ''url'') = None"
  "index_of (lit ''response_format'') = None"
  by (simp_all add: index_of_def is_digit_unit_def lit_eval)

lemma json_value_payload: "json_value (payload url)"
  by (simp add: json_value_def payload_def comes_before_def)

lemma stringify_payload: "\<exists>t. stringify (payload url) = Some t"
  by (simp add: payload_def)

lemma image_url_Inr_iff:
  "image_url base64 = Inr u \<longleftrightarrow> (\<exists>b. to_string base64 = Inr b \<and> u = lit ''data:image/jpeg;base64,'' @ b)"
  by (auto simp: image_url_def bind_result_eq_Inr_iff)

lemma openai_request_Inr_iff:
  "openai_request API_KEY base64 = Inr r \<longleftrightarrow>
     (\<exists>b key. to_string base64 = Inr b \<and> to_string API_KEY = Inr key \<and>
        r = \<lparr>request_url = lit ''https://api.openai.com/v1/chat/completions'',
             request_method = lit ''POST'',
             request_headers =
               [(lit ''Content-Type'', lit ''application/json''),
                (lit ''Authorization'', lit ''Bearer '' @ key)],
             request_body =
               (case stringify (payload (lit ''data:image/jpeg;base64,'' @ b)) of
                  None \<Rightarrow> [] | Some t \<Rightarrow> t)\<rparr>)"
  by (auto simp: openai_request_def image_url_def bind_result_eq_Inr_iff)

lemma openai_request_error: "openai_request API_KEY base64 = Inl e \<Longrightarrow> e = TypeError"
  by (auto simp: openai_request_def image_url_def bind_result_eq_Inl_iff dest: to_string_error)

lemma openai_request_strings [simp]:
  "openai_request (JStr key) (JStr b) =
     Inr \<lparr>request_url = lit ''https://api.openai.com/v1/chat/completions'',
          request_method = lit ''POST'',
          request_headers =
            [(lit ''Content-Type'', lit ''application/json''),
             (lit ''Authorization'', lit ''Bearer '' @ key)],
          request_body =
            (case stringify (payload (lit ''data:image/jpeg;base64,'' @ b)) of
               None \<Rightarrow> [] | Some t \<Rightarrow> t)\<rparr>"
  by (simp add: openai_request_def image_url_def)

lemma parse_request_body:
  assumes "openai_request API_KEY base64 = Inr r"
  shows "\<exists>b. to_string base64 = Inr b \<and>
    parse_json (request_body r) = Parsed (payload (lit ''data:image/jpeg;base64,'' @ b))"
proof -
  from assms obtain b where b: "to_string base64 = Inr b"
    and r: "request_body r =
      (case stringify (payload (lit ''data:image/jpeg;base64,'' @ b)) of None \<Rightarrow> [] | Some t \<Rightarrow> t)"
    by (auto simp: openai_request_Inr_iff)
  let ?p = "payload (lit ''data:image/jpeg;base64,'' @ b)"
  from stringify_parse_json [OF json_value_payload [of "lit ''data:image/jpeg;base64,'' @ b"]]
  obtain t where "stringify ?p = Some t" "parse_json t = Parsed ?p" by blast
  with r b show ?thesis by auto
qed


section \<open>Properties\<close>

text \<open>
  C32 (functional). The request the client sends: it goes by \<open>POST\<close> to the
  completions address of the model, carries the key as a bearer token, and its body
  is JSON text that parses to the payload of the source with the picture as a data
  URL. Building it fails only where \<open>ToString\<close> of the picture or of the key
  throws.
\<close>

theorem openai_request_sent:
  assumes "openai_request API_KEY base64 = Inr r"
  shows "\<exists>b key. to_string base64 = Inr b \<and> to_string API_KEY = Inr key \<and>
     request_url r = lit ''https://api.openai.com/v1/chat/completions'' \<and>
     request_method r = lit ''POST'' \<and>
     map_of (request_headers r) (lit ''Authorization'') = Some (lit ''Bearer '' @ key) \<and>
     map_of (request_headers r) (lit ''Content-Type'') = Some (lit ''application/json'') \<and>
     parse_json (request_body r) = Parsed (payload (lit ''data:image/jpeg;base64,'' @ b))"
proof -
  from parse_request_body [OF assms] obtain b where b: "to_string base64 = Inr b"
    and body: "parse_json (request_body r) = Parsed (payload (lit ''data:image/jpeg;base64,'' @ b))"
    by blast
  from assms b obtain key where "to_string API_KEY = Inr key"
    and "request_url r = lit ''https://api.openai.com/v1/chat/completions''"
    and "request_method r = lit ''POST''"
    and "request_headers r =
      [(lit ''Content-Type'', lit ''application/json''), (lit ''Authorization'', lit ''Bearer '' @ key)]"
    by (auto simp: openai_request_Inr_iff)
  with b body show ?thesis by simp
qed

theorem openai_request_sent_witness:
  "\<exists>r. openai_request (JStr (lit ''sk-test'')) (JStr (lit ''/9j/4AAQ'')) = Inr r \<and>
     map_of (request_headers r) (lit ''Authorization'') = Some (lit ''Bearer sk-test'') \<and>
     parse_json (request_body r) = Parsed (payload (lit ''data:image/jpeg;base64,/9j/4AAQ''))"
proof -
  obtain r where r: "openai_request (JStr (lit ''sk-test'')) (JStr (lit ''/9j/4AAQ'')) = Inr r"
    by simp
  from openai_request_sent [OF r] r show ?thesis
    by (auto simp flip: lit_append)
qed

end
