(* ===== verification/App.thy ===== *)
theory App
  imports Fetch OpenAI
begin

text \<open>
  The mobile client of \<open>src/expo-app/App.js\<close>: the state of the \<open>App\<close>
  component, its two asynchronous handlers \<open>handleCapture\<close> and
  \<open>resolveWithOpenAI\<close>, the choice of what is rendered, and the events the
  rendered controls and the environment can raise.

  The component state is the eight \<open>useState\<close> and hook values. An asynchronous
  handler is split at its \<open>await\<close>s: \<open>handleCapture_begin\<close> runs up to the call
  of \<open>takePictureAsync\<close>, \<open>handleCapture_resume\<close> from the photo to the call of
  \<open>fetch\<close> (through \<open>resolveWithOpenAI_begin\<close>), and
  \<open>resolveWithOpenAI_end\<close> from the response to the end of the \<open>finally\<close>
  block. What is in flight between the parts (pictures being taken, requests awaiting
  their response) is the rest of the \<open>system\<close> state, and \<open>app_step\<close> is the
  transition for one event. A handler reads the state of the last render; the model
  takes every state change as rendered before the next event.

  The environment is a parameter: the configured API key, \<open>JSON.parse\<close> as a
  function from a text to the value it denotes (\<open>None\<close> where it throws), and, with
  each response event, the response and the clock reading \<open>Date.now()\<close>.
\<close>

section \<open>State\<close>

record book =
  book_id :: jsstring
  book_title :: jsval
  book_author :: jsval
  kindleUrl :: jsval
  imageUri :: jsval

record app_state =
  books :: "book list"
  cameraActive :: bool
  photoUri :: jsval
  result :: "book option"
  error :: "message option"
  loading :: bool
  cameraRef :: bool
  permission :: "bool option"

text \<open>
  The initial values of the hooks. \<open>cameraRef\<close> records whether the reference is
  set; \<open>permission\<close> is \<open>None\<close> while the permission hook has no response, and
  otherwise the \<open>granted\<close> flag of the response.
\<close>

definition initial_state :: app_state where
  "initial_state =
     \<lparr>books = [], cameraActive = False, photoUri = JNull, result = None, error = None,
      loading = False, cameraRef = False, permission = None\<rparr>"

definition headerTitle :: "app_state \<Rightarrow> jsstring" where
  "headerTitle s =
     (if cameraActive s then lit ''Capture''
      else if loading s then lit ''Finding your Kindle link''
      else lit ''Your Kindle Shelf'')"

section \<open>Handlers\<close>

type_synonym parser = "jsstring \<Rightarrow> jsval option"

text \<open>
  \<open>JSON.parse\<close> as a parser of that type: the value \<open>parse_json\<close> reads, and
  \<open>None\<close> for a text that is not JSON. It is \<open>None\<close> also for a text with a
  number outside the model, for which the engine returns a value; the handlers are
  stated for any parser, the examples and the properties of parsed answers for this
  one.
\<close>

definition engine_parse :: parser where
  "engine_parse source_text = (case parse_json source_text of Parsed v \<Rightarrow> Some v | _ \<Rightarrow> None)"

text \<open>
  \<open>handleCapture\<close> up to its first \<open>await\<close>: the state, and whether
  \<open>takePictureAsync\<close> was called.
\<close>

definition handleCapture_begin :: "app_state \<Rightarrow> app_state \<times> bool" where
  "handleCapture_begin s = (if \<not> cameraRef s then (s, False) else (s\<lparr>error := None\<rparr>, True))"

text \<open>\<open>err.message || "Something went wrong."\<close>.\<close>

fun catch_message :: "js_error \<Rightarrow> message" where
  "catch_message (Thrown st m) = Text (if m = [] then lit ''Something went wrong.'' else m)"
| "catch_message e = EngineMessage e"

text \<open>
  \<open>resolveWithOpenAI\<close> up to its \<open>await fetch\<close>: the state, and the image
  addresses of the requests sent. None is sent without an API key, and none when
  building the request throws, which the \<open>catch\<close> and the \<open>finally\<close> of the
  function turn into a message; otherwise one is.
\<close>

definition resolveWithOpenAI_begin ::
  "jsval \<Rightarrow> jsval \<Rightarrow> jsval \<Rightarrow> app_state \<Rightarrow> app_state \<times> jsval list" where
  "resolveWithOpenAI_begin API_KEY base64 uri s =
     (let s1 = s\<lparr>loading := True, result := None, error := None\<rparr> in
      if \<not> truthy API_KEY
      then (s1\<lparr>loading := False,
               error := Some (Text (lit ''Missing EXPO_PUBLIC_OPENAI_API_KEY in app config.''))\<rparr>, [])
      else
        (case openai_request API_KEY base64 of
           Inl e \<Rightarrow> (s1\<lparr>error := Some (catch_message e), loading := False\<rparr>, [])
         | Inr request \<Rightarrow> (s1, [uri])))"

text \<open>
  \<open>handleCapture\<close> from the photo on. Reading \<open>photo.uri\<close> of a photo that is
  \<open>null\<close> or \<open>undefined\<close> throws, which ends the handler with the state as it
  is.
\<close>

definition handleCapture_resume :: "jsval \<Rightarrow> jsval \<Rightarrow> app_state \<Rightarrow> app_state \<times> jsval list" where
  "handleCapture_resume API_KEY photo s =
     (if nullish photo then (s, [])
      else
        let uri = lookup_prop photo (lit ''uri'') in
        resolveWithOpenAI_begin API_KEY (lookup_prop photo (lit ''base64'')) uri
          (s\<lparr>photoUri := uri, cameraActive := False\<rparr>))"

text \<open>\<open>data.choices?.[0]?.message?.content\<close>.\<close>

definition openai_content :: "jsval \<Rightarrow> jsval result" where
  "openai_content data =
     bind_result (get_prop data (lit ''choices'')) (\<lambda>choices.
       Inr (opt_get (opt_get (opt_at choices 0) (lit ''message'')) (lit ''content'')))"

definition JSON_parse :: "parser \<Rightarrow> jsval \<Rightarrow> jsval result" where
  "JSON_parse parse content =
     bind_result (to_string content) (\<lambda>source_text.
       case parse source_text of None \<Rightarrow> Inl SyntaxError | Some v \<Rightarrow> Inr v)"

definition make_book :: "nat \<Rightarrow> jsval \<Rightarrow> jsval \<Rightarrow> book" where
  "make_book now uri parsed =
     \<lparr>book_id = nat_digits now,
      book_title = js_or (lookup_prop parsed (lit ''title'')) (JStr (lit ''Unknown title'')),
      book_author = js_or (lookup_prop parsed (lit ''author'')) (JStr (lit ''Unknown author'')),
      kindleUrl = js_or (lookup_prop parsed (lit ''kindleUrl'')) JNull,
      imageUri = uri\<rparr>"

text \<open>
  The body of the \<open>try\<close> block from the response on: the book, or what is thrown.
  An error built with \<open>new Error\<close> has no status, which is the status 0.
\<close>

definition openai_book :: "parser \<Rightarrow> nat \<Rightarrow> jsval \<Rightarrow> http_response option \<Rightarrow> book result" where
  "openai_book parse now uri response =
     (case response of
        None \<Rightarrow> Inl FetchFailed
      | Some r \<Rightarrow>
          if \<not> ok r then
            Inl (Thrown 0 (lit ''OpenAI request failed ('' @ int_digits (int (status r)) @ lit '')''))
          else
            (case json r of
               None \<Rightarrow> Inl SyntaxError
             | Some data \<Rightarrow>
                 bind_result (openai_content data) (\<lambda>content.
                   if \<not> truthy content then Inl (Thrown 0 (lit ''OpenAI returned no content.''))
                   else
                     bind_result (JSON_parse parse content) (\<lambda>parsed.
                     bind_result (get_prop parsed (lit ''error'')) (\<lambda>err.
                       if truthy err then bind_result (to_string err) (\<lambda>m. Inl (Thrown 0 m))
                       else Inr (make_book now uri parsed))))))"

text \<open>The end of \<open>resolveWithOpenAI\<close>: the state updates, the \<open>catch\<close> and the \<open>finally\<close>.\<close>

definition resolveWithOpenAI_end :: "book result \<Rightarrow> app_state \<Rightarrow> app_state" where
  "resolveWithOpenAI_end outcome s =
     (case outcome of
        Inr b \<Rightarrow> s\<lparr>books := b # books s, result := Some b, loading := False\<rparr>
      | Inl e \<Rightarrow> s\<lparr>error := Some (catch_message e), loading := False\<rparr>)"

section \<open>What is rendered\<close>

datatype screen_view = Blank | PermissionPrompt | Camera | Shelf

definition current_view :: "app_state \<Rightarrow> screen_view" where
  "current_view s =
     (if cameraActive s then
        (case permission s of
           None \<Rightarrow> Blank
         | Some granted \<Rightarrow> if \<not> granted then PermissionPrompt else Camera)
      else Shelf)"

definition processing :: "app_state \<Rightarrow> bool" where
  "processing s \<longleftrightarrow> loading s \<and> truthy (photoUri s)"

definition empty_state_visible :: "app_state \<Rightarrow> bool" where
  "empty_state_visible s \<longleftrightarrow> current_view s = Shelf \<and> \<not> processing s \<and> books s = []"

definition fab_visible :: "app_state \<Rightarrow> bool" where
  "fab_visible s \<longleftrightarrow> current_view s = Shelf \<and> \<not> loading s \<and> \<not> cameraActive s"

section \<open>Events\<close>

record system =
  app :: app_state
  captures :: nat
  requests :: "jsval list"

definition initial_system :: system where
  "initial_system = \<lparr>app = initial_state, captures = 0, requests = []\<rparr>"

text \<open>
  The controls, by the label or the role they have in the source, and what the
  environment does. \<open>Enable camera\<close> calls \<open>requestPermission\<close>, which changes
  nothing by itself: the permission hook delivers a response, the camera view sets or
  clears its reference, a picture is taken or fails, a request is answered (with the
  image address of the request, the clock reading and the response).
\<close>

datatype event =
    PressCaptureFirst
  | PressPlus
  | PressEnableCamera
  | PressBack
  | PressCancel
  | PressSnap
  | PermissionChanged "bool option"
  | CameraRef bool
  | PhotoTaken jsval
  | PhotoFailed
  | Responded jsval nat "http_response option"

definition setCameraActive :: "bool \<Rightarrow> system \<Rightarrow> system" where
  "setCameraActive b s = s\<lparr>app := (app s)\<lparr>cameraActive := b\<rparr>\<rparr>"

text \<open>
  One event: the next state, or \<open>None\<close> when the event cannot happen in the state
  (the control is not rendered, nothing is in flight).
\<close>

fun app_step :: "jsval \<Rightarrow> parser \<Rightarrow> event \<Rightarrow> system \<Rightarrow> system option" where
  "app_step API_KEY parse PressCaptureFirst s =
     (if empty_state_visible (app s) then Some (setCameraActive True s) else None)"
| "app_step API_KEY parse PressPlus s =
     (if fab_visible (app s) then Some (setCameraActive True s) else None)"
| "app_step API_KEY parse PressEnableCamera s =
     (if current_view (app s) = PermissionPrompt then Some s else None)"
| "app_step API_KEY parse PressBack s =
     (if current_view (app s) = PermissionPrompt then Some (setCameraActive False s) else None)"
| "app_step API_KEY parse PressCancel s =
     (if current_view (app s) = Camera then Some (setCameraActive False s) else None)"
| "app_step API_KEY parse PressSnap s =
     (if current_view (app s) = Camera then
        (case handleCapture_begin (app s) of
           (a, called) \<Rightarrow> Some (s\<lparr>app := a, captures := captures s + (if called then 1 else 0)\<rparr>))
      else None)"
| "app_step API_KEY parse (PermissionChanged p) s = Some (s\<lparr>app := (app s)\<lparr>permission := p\<rparr>\<rparr>)"
| "app_step API_KEY parse (CameraRef b) s =
     (if b = (current_view (app s) = Camera) then Some (s\<lparr>app := (app s)\<lparr>cameraRef := b\<rparr>\<rparr>)
      else None)"
| "app_step API_KEY parse (PhotoTaken photo) s =
     (if captures s = 0 then None
      else
        (case handleCapture_resume API_KEY photo (app s) of
           (a, sent) \<Rightarrow> Some \<lparr>app = a, captures = captures s - 1, requests = requests s @ sent\<rparr>))"
| "app_step API_KEY parse PhotoFailed s =
     (if captures s = 0 then None else Some (s\<lparr>captures := captures s - 1\<rparr>))"
| "app_step API_KEY parse (Responded uri now response) s =
     (if uri \<in> set (requests s) then
        Some (s\<lparr>app := resolveWithOpenAI_end (openai_book parse now uri response) (app s),
                requests := remove1 uri (requests s)\<rparr>)
      else None)"

text \<open>A sequence of events, from the first on.\<close>

fun run :: "jsval \<Rightarrow> parser \<Rightarrow> event list \<Rightarrow> system \<Rightarrow> system option" where
  "run API_KEY parse [] s = Some s"
| "run API_KEY parse (ev # evs) s =
     (case app_step API_KEY parse ev s of None \<Rightarrow> None | Some t \<Rightarrow> run API_KEY parse evs t)"

inductive app_reachable :: "jsval \<Rightarrow> parser \<Rightarrow> system \<Rightarrow> bool"
  for API_KEY :: jsval and parse :: parser where
  init: "app_reachable API_KEY parse initial_system"
| step: "app_reachable API_KEY parse s \<Longrightarrow> app_step API_KEY parse ev s = Some t \<Longrightarrow>
     app_reachable API_KEY parse t"

text \<open>
  A book of the shelf: its identifier is a decimal numeral, its title and author are
  truthy, and its link is a truthy value or \<open>null\<close>.
\<close>

definition well_formed_book :: "book \<Rightarrow> bool" where
  "well_formed_book b \<longleftrightarrow>
     book_id b \<noteq> [] \<and> list_all is_digit_unit (book_id b) \<and>
     truthy (book_title b) \<and> truthy (book_author b) \<and>
     (kindleUrl b = JNull \<or> truthy (kindleUrl b))"

text \<open>
  The invariant of the client: the book announced is on the shelf, every book of the
  shelf is well formed, the progress display is on only while a request is in flight,
  and no request is in flight without an API key.
\<close>

definition app_inv :: "jsval \<Rightarrow> system \<Rightarrow> bool" where
  "app_inv API_KEY s \<longleftrightarrow>
     set_option (result (app s)) \<subseteq> set (books (app s)) \<and>
     list_all well_formed_book (books (app s)) \<and>
     (loading (app s) \<longrightarrow> requests s \<noteq> []) \<and>
     (requests s \<noteq> [] \<longrightarrow> truthy API_KEY)"


section \<open>Scenarios\<close>

text \<open>
  A photo, the answer of the model for it, and a response that carries the answer as
  the content of its first choice, as JSON text.
\<close>

definition dune_photo :: jsval where
  "dune_photo = JObj [(lit ''uri'', JStr (lit ''file:///dune.jpg'')), (lit ''base64'', JStr (lit ''/9j/4AAQ''))]"

definition dune_answer :: jsval where
  "dune_answer = JObj [(lit ''title'', JStr (lit ''Dune'')), (lit ''author'', JStr (lit ''Frank Herbert''))]"

definition dune_text :: jsstring where
  "dune_text =
     lit ''{'' @ quote (lit ''title'') @ lit '':'' @ quote (lit ''Dune'') @ lit '','' @
     quote (lit ''author'') @ lit '':'' @ quote (lit ''Frank Herbert'') @ lit ''}''"

definition dune_completion :: http_response where
  "dune_completion =
     ok_response (JObj [(lit ''choices'',
       JArr [JObj [(lit ''message'', JObj [(lit ''content'', JStr dune_text)])]])])"

definition dune_book :: book where
  "dune_book =
     \<lparr>book_id = lit ''1700000000000'', book_title = JStr (lit ''Dune''),
      book_author = JStr (lit ''Frank Herbert''), kindleUrl = JNull,
      imageUri = JStr (lit ''file:///dune.jpg'')\<rparr>"

definition test_key :: jsval where
  "test_key = JStr (lit ''sk-test'')"

text \<open>The events of one capture, from the first press to the response.\<close>

definition capture_events :: "http_response option \<Rightarrow> event list" where
  "capture_events response =
     [PermissionChanged (Some True), PressCaptureFirst, CameraRef True, PressSnap,
      PhotoTaken dune_photo, Responded (JStr (lit ''file:///dune.jpg'')) 1700000000000 response]"

text \<open>
  The states of that capture: with the camera open, before the response and after
  it.
\<close>

definition dune_camera :: system where
  "dune_camera =
     \<lparr>app = \<lparr>books = [], cameraActive = True, photoUri = JNull, result = None, error = None,
        loading = False, cameraRef = True, permission = Some True\<rparr>,
      captures = 0, requests = []\<rparr>"

definition dune_awaiting :: system where
  "dune_awaiting =
     \<lparr>app = \<lparr>books = [], cameraActive = False, photoUri = JStr (lit ''file:///dune.jpg''),
        result = None, error = None, loading = True, cameraRef = True, permission = Some True\<rparr>,
      captures = 0, requests = [JStr (lit ''file:///dune.jpg'')]\<rparr>"

definition dune_shelf :: system where
  "dune_shelf =
     \<lparr>app = \<lparr>books = [dune_book], cameraActive = False, photoUri = JStr (lit ''file:///dune.jpg''),
        result = Some dune_book, error = None, loading = False, cameraRef = True,
        permission = Some True\<rparr>,
      captures = 0, requests = []\<rparr>"

text \<open>Two presses of \<open>Snap\<close> before the first picture arrives, and one response.\<close>

definition double_snap_events :: "event list" where
  "double_snap_events =
     [PermissionChanged (Some True), PressCaptureFirst, CameraRef True, PressSnap, PressSnap,
      PhotoTaken dune_photo, PhotoTaken dune_photo,
      Responded (JStr (lit ''file:///dune.jpg'')) 1700000000000 (Some dune_completion)]"

section \<open>Facts\<close>

lemmas view_defs = current_view_def processing_def empty_state_visible_def fab_visible_def

lemmas handler_defs =
  handleCapture_begin_def handleCapture_resume_def resolveWithOpenAI_begin_def
  resolveWithOpenAI_end_def setCameraActive_def

subsection \<open>Books\<close>

lemma well_formed_make_book [simp]: "well_formed_book (make_book now uri parsed)"
  by (simp add: well_formed_book_def make_book_def js_or_def nat_digits_all_digits)

lemma imageUri_make_book [simp]: "imageUri (make_book now uri parsed) = uri"
  by (simp add: make_book_def)

lemma openai_book_Inr_iff:
  "openai_book parse now uri response = Inr b \<longleftrightarrow>
     (\<exists>r data content parsed.
        response = Some r \<and> ok r \<and> json r = Some data \<and>
        openai_content data = Inr content \<and> truthy content \<and>
        JSON_parse parse content = Inr parsed \<and> \<not> nullish parsed \<and>
        \<not> truthy (lookup_prop parsed (lit ''error'')) \<and> b = make_book now uri parsed)"
  by (auto simp: openai_book_def bind_result_eq_Inr_iff get_prop_def
      split: option.splits if_splits)

lemma openai_book_well_formed:
  "openai_book parse now uri response = Inr b \<Longrightarrow> well_formed_book b \<and> imageUri b = uri"
  by (auto simp: openai_book_Inr_iff)

lemma openai_book_not_ok:
  "\<not> ok r \<Longrightarrow>
     openai_book parse now uri (Some r) =
       Inl (Thrown 0 (lit ''OpenAI request failed ('' @ int_digits (int (status r)) @ lit '')''))"
  by (simp add: openai_book_def)

lemma catch_message_nonempty: "catch_message e \<noteq> Text []"
  by (cases e) auto

subsection \<open>The end of a request\<close>

lemma resolveWithOpenAI_end_Inr [simp]:
  "resolveWithOpenAI_end (Inr b) s = s\<lparr>books := b # books s, result := Some b, loading := False\<rparr>"
  by (simp add: resolveWithOpenAI_end_def)

lemma resolveWithOpenAI_end_Inl [simp]:
  "resolveWithOpenAI_end (Inl e) s = s\<lparr>error := Some (catch_message e), loading := False\<rparr>"
  by (simp add: resolveWithOpenAI_end_def)

lemma loading_resolveWithOpenAI_end [simp]: "\<not> loading (resolveWithOpenAI_end outcome s)"
  by (cases outcome) simp_all

lemma books_resolveWithOpenAI_end:
  "books (resolveWithOpenAI_end outcome s) = (case outcome of Inl e \<Rightarrow> books s | Inr b \<Rightarrow> b # books s)"
  by (cases outcome) simp_all

subsection \<open>The shelf under one event\<close>

lemma books_handleCapture_resume [simp]:
  "books (fst (handleCapture_resume API_KEY photo a)) = books a"
  by (simp add: handleCapture_resume_def resolveWithOpenAI_begin_def Let_def split: sum.splits)

lemma books_handleCapture_begin [simp]: "books (fst (handleCapture_begin a)) = books a"
  by (simp add: handleCapture_begin_def)

lemma app_step_books:
  assumes "app_step API_KEY parse ev s = Some t"
  shows "books (app t) = books (app s) \<or>
     (\<exists>uri now response b. ev = Responded uri now response \<and> uri \<in> set (requests s) \<and>
        openai_book parse now uri response = Inr b \<and> books (app t) = b # books (app s) \<and>
        result (app t) = Some b)"
proof (cases ev)
  case (Responded uri now response)
  with assms show ?thesis
    by (cases "openai_book parse now uri response") (auto split: if_splits)
next
  case PressSnap
  with assms show ?thesis
    by (auto simp: handleCapture_begin_def split: if_splits)
next
  case (PhotoTaken photo)
  with assms show ?thesis
    using books_handleCapture_resume [of API_KEY photo "app s"]
    by (auto simp: case_prod_beta split: if_splits)
qed (use assms in \<open>auto simp: setCameraActive_def split: if_splits\<close>)

subsection \<open>Runs\<close>

lemma run_append:
  "run API_KEY parse (evs @ evs') s =
     (case run API_KEY parse evs s of None \<Rightarrow> None | Some t \<Rightarrow> run API_KEY parse evs' t)"
  by (induction evs arbitrary: s) (simp_all split: option.splits)

lemma run_reachable:
  "app_reachable API_KEY parse s \<Longrightarrow> run API_KEY parse evs s = Some t \<Longrightarrow>
     app_reachable API_KEY parse t"
  by (induction evs arbitrary: s) (auto split: option.splits intro: app_reachable.step)

lemma reachable_run:
  "app_reachable API_KEY parse t \<Longrightarrow> \<exists>evs. run API_KEY parse evs initial_system = Some t"
proof (induction rule: app_reachable.induct)
  case init
  have "run API_KEY parse [] initial_system = Some initial_system" by simp
  then show ?case ..
next
  case (step s ev t)
  then obtain evs where "run API_KEY parse evs initial_system = Some s" by blast
  with step.hyps(2) have "run API_KEY parse (evs @ [ev]) initial_system = Some t"
    by (simp add: run_append)
  then show ?case ..
qed

subsection \<open>The invariant\<close>

lemma app_inv_init: "app_inv API_KEY initial_system"
  by (simp add: app_inv_def initial_system_def initial_state_def)

lemma app_inv_view:
  "app_inv API_KEY s \<Longrightarrow> app_inv API_KEY (setCameraActive b s)"
  "app_inv API_KEY s \<Longrightarrow> app_inv API_KEY (s\<lparr>app := (app s)\<lparr>permission := p\<rparr>\<rparr>)"
  "app_inv API_KEY s \<Longrightarrow> app_inv API_KEY (s\<lparr>app := (app s)\<lparr>cameraRef := c\<rparr>\<rparr>)"
  "app_inv API_KEY s \<Longrightarrow> app_inv API_KEY (s\<lparr>captures := n\<rparr>)"
  by (simp_all add: app_inv_def setCameraActive_def)

lemma app_inv_photo:
  "app_inv API_KEY s \<Longrightarrow>
     app_inv API_KEY
       \<lparr>app = fst (handleCapture_resume API_KEY photo (app s)), captures = n,
        requests = requests s @ snd (handleCapture_resume API_KEY photo (app s))\<rparr>"
  by (auto simp: app_inv_def handleCapture_resume_def resolveWithOpenAI_begin_def Let_def
      split: sum.splits)

lemma app_inv_responded:
  assumes "app_inv API_KEY s" and "uri \<in> set (requests s)"
  shows "app_inv API_KEY
     (s\<lparr>app := resolveWithOpenAI_end (openai_book parse now uri response) (app s),
        requests := remove1 uri (requests s)\<rparr>)"
proof (cases "openai_book parse now uri response")
  case (Inl e)
  with assms show ?thesis by (auto simp: app_inv_def)
next
  case (Inr b)
  with assms openai_book_well_formed [OF Inr] show ?thesis
    by (auto simp: app_inv_def)
qed

lemma app_step_inv:
  assumes "app_step API_KEY parse ev s = Some t" and "app_inv API_KEY s"
  shows "app_inv API_KEY t"
proof (cases ev)
  case PressSnap
  with assms show ?thesis
    by (auto simp: app_inv_def handleCapture_begin_def split: if_splits)
next
  case (PhotoTaken photo)
  with assms app_inv_photo [of API_KEY s photo] show ?thesis
    by (auto simp: case_prod_beta split: if_splits)
next
  case (Responded uri now response)
  with assms show ?thesis by (auto split: if_splits intro: app_inv_responded)
qed (use assms in \<open>auto split: if_splits intro: app_inv_view\<close>)

lemma app_reachable_inv: "app_reachable API_KEY parse s \<Longrightarrow> app_inv API_KEY s"
  by (induction rule: app_reachable.induct) (auto intro: app_inv_init app_step_inv)

subsection \<open>Examples\<close>

lemma index_of_answer_keys [simp]:
  "index_of (lit ''author'') = None" "index_of (lit ''kindleUrl'') = None"
  "index_of (lit ''main'') = None" "index_of (lit ''sub'') = None"
  by (simp_all add: index_of_def is_digit_unit_def lit_eval)

lemma engine_parse_stringify:
  "json_value v \<Longrightarrow> stringify v = Some t \<Longrightarrow> engine_parse t = Some v"
  using stringify_parse_json [of v] by (auto simp: engine_parse_def)

lemma engine_parse_json_value: "engine_parse t = Some v \<Longrightarrow> json_value v"
  by (auto simp: engine_parse_def split: parsed.splits dest: parse_json_value)

lemma engine_parse_dune: "engine_parse dune_text = Some dune_answer"
proof (rule engine_parse_stringify)
  show "json_value dune_answer"
    by (simp add: json_value_def dune_answer_def comes_before_def)
  show "stringify dune_answer = Some dune_text"
    by (simp add: dune_answer_def dune_text_def lit_eval)
qed

lemma dune_text_nonempty [simp]: "dune_text \<noteq> []"
  by (simp add: dune_text_def)

lemma openai_book_Dune:
  "openai_book engine_parse 1700000000000 (JStr (lit ''file:///dune.jpg'')) (Some dune_completion) =
     Inr dune_book"
proof -
  have "nat_digits 1700000000000 = lit ''1700000000000''"
    by (simp add: nat_digits.simps digit_unit_def lit_eval)
  then show ?thesis
    by (simp add: openai_book_def dune_completion_def openai_content_def get_prop_def opt_get_def
        opt_at_def JSON_parse_def engine_parse_dune dune_answer_def make_book_def dune_book_def
        js_or_def)
qed


lemmas scenario_defs =
  initial_system_def initial_state_def capture_events_def double_snap_events_def dune_photo_def
  dune_awaiting_def dune_shelf_def test_key_def Let_def

lemma run_capture_awaiting:
  "run test_key parse (butlast (capture_events response)) initial_system = Some dune_awaiting"
  by (simp add: scenario_defs view_defs handler_defs)

lemma app_step_Dune:
  "app_step test_key engine_parse
     (Responded (JStr (lit ''file:///dune.jpg'')) 1700000000000 (Some dune_completion)) dune_awaiting =
   Some dune_shelf"
proof -
  have "requests dune_awaiting = [JStr (lit ''file:///dune.jpg'')]"
    by (simp add: dune_awaiting_def)
  then show ?thesis
    by (simp add: openai_book_Dune) (simp add: dune_awaiting_def dune_shelf_def)
qed

lemma run_capture_Dune:
  "run test_key engine_parse (capture_events (Some dune_completion)) initial_system = Some dune_shelf"
proof -
  have "capture_events (Some dune_completion) =
      butlast (capture_events (Some dune_completion)) @
      [Responded (JStr (lit ''file:///dune.jpg'')) 1700000000000 (Some dune_completion)]"
    by (simp add: capture_events_def)
  then have "run test_key engine_parse (capture_events (Some dune_completion)) initial_system =
      run test_key engine_parse (butlast (capture_events (Some dune_completion)) @
        [Responded (JStr (lit ''file:///dune.jpg'')) 1700000000000 (Some dune_completion)])
        initial_system"
    by (rule arg_cong)
  then show ?thesis
    by (simp only: run_append run_capture_awaiting option.case run.simps app_step_Dune)
qed

lemma run_without_key:
  "run JUndefined parse (butlast (capture_events response)) initial_system =
     Some (dune_awaiting\<lparr>app := (app dune_awaiting)\<lparr>loading := False,
       error := Some (Text (lit ''Missing EXPO_PUBLIC_OPENAI_API_KEY in app config.''))\<rparr>,
       requests := []\<rparr>)"
  by (simp add: scenario_defs view_defs handler_defs)

subsection \<open>Two captures\<close>

lemma stringify_JObj_nonempty: "stringify (JObj kvs) = Some t \<Longrightarrow> t \<noteq> []"
  by auto

lemma in_remove1_pending: "y \<in> set (remove1 x (xs @ [x, y]))"
  by (cases "x = y") (auto simp: remove1_append)

lemma current_view_error [simp]: "current_view (a\<lparr>error := e\<rparr>) = current_view a"
  by (simp add: current_view_def)

lemma app_step_PressSnap:
  assumes "current_view (app s) = Camera" and "cameraRef (app s)"
  shows "app_step API_KEY parse PressSnap s =
     Some (s\<lparr>app := (app s)\<lparr>error := None\<rparr>, captures := captures s + 1\<rparr>)"
  using assms by (simp add: handleCapture_begin_def)

lemma app_step_PhotoTaken:
  assumes "truthy API_KEY" and "\<not> nullish photo"
    and "openai_request API_KEY (lookup_prop photo (lit ''base64'')) = Inr q" and "0 < captures s"
  shows "app_step API_KEY parse (PhotoTaken photo) s =
     Some \<lparr>app = (app s)\<lparr>photoUri := lookup_prop photo (lit ''uri''), cameraActive := False,
              loading := True, result := None, error := None\<rparr>,
            captures = captures s - 1,
            requests = requests s @ [lookup_prop photo (lit ''uri'')]\<rparr>"
  using assms by (simp add: handleCapture_resume_def resolveWithOpenAI_begin_def Let_def)

lemma resolveWithOpenAI_end_view [simp]:
  "cameraActive (resolveWithOpenAI_end outcome a) = cameraActive a"
  "permission (resolveWithOpenAI_end outcome a) = permission a"
  by (simp_all add: resolveWithOpenAI_end_def split: sum.splits)

lemma run_to_camera:
  "run test_key parse [PermissionChanged (Some True), PressCaptureFirst, CameraRef True] initial_system =
     Some dune_camera"
  by (simp add: scenario_defs view_defs handler_defs dune_camera_def)

section \<open>Properties\<close>

text \<open>
  C6 (invariant). In every state the client can reach, the book announced as found
  is on the shelf, every book of the shelf is well formed, the progress display is on
  only while a request is in flight, and no request is in flight without an API
  key.
\<close>

theorem app_reachable_invariant: "app_reachable API_KEY parse s \<Longrightarrow> app_inv API_KEY s"
  by (induction rule: app_reachable.induct) (auto intro: app_inv_init app_step_inv)

theorem app_reachable_invariant_witness: "app_inv test_key dune_shelf"
  using app_reachable_invariant [OF run_reachable [OF app_reachable.init run_capture_Dune]] .

text \<open>
  C14 (safety). The shelf only grows: an event leaves the books as they are or puts
  one book in front of them, and the new book is well formed, is the one announced,
  and comes from the response to a request that was in flight.
\<close>

theorem app_step_shelf_grows:
  assumes "app_step API_KEY parse ev s = Some t"
  shows "books (app t) = books (app s) \<or>
     (\<exists>b uri now response. books (app t) = b # books (app s) \<and> result (app t) = Some b \<and>
        well_formed_book b \<and> imageUri b = uri \<and> uri \<in> set (requests s) \<and>
        ev = Responded uri now response)"
  using app_step_books [OF assms] by (auto dest: openai_book_well_formed)

theorem app_step_shelf_grows_witness:
  "books (app dune_shelf) = books (app dune_awaiting) \<or>
   (\<exists>b uri now response. books (app dune_shelf) = b # books (app dune_awaiting) \<and>
      result (app dune_shelf) = Some b \<and> well_formed_book b \<and> imageUri b = uri \<and>
      uri \<in> set (requests dune_awaiting) \<and>
      Responded (JStr (lit ''file:///dune.jpg'')) 1700000000000 (Some dune_completion) =
        Responded uri now response)"
  using app_step_shelf_grows [OF app_step_Dune] .

text \<open>
  C35 (functional). The book of an answer. When the model answers with the JSON text
  of an object that has no truthy \<open>error\<close>, the book built from the response has
  the clock reading as its identifier, the address of the photo as its image, and as
  title, author and link the values of the keys \<open>title\<close>, \<open>author\<close> and
  \<open>kindleUrl\<close> of that object when they are truthy, and \<open>Unknown title\<close>,
  \<open>Unknown author\<close> and \<open>null\<close> otherwise.
\<close>

theorem openai_book_defaults:
  assumes "ok r" and "json r = Some data" and "openai_content data = Inr (JStr answer_text)"
    and "stringify (JObj answer) = Some answer_text" and "json_value (JObj answer)"
    and "\<not> truthy (lookup_prop (JObj answer) (lit ''error''))"
  shows "openai_book engine_parse now uri (Some r) =
     Inr \<lparr>book_id = nat_digits now,
          book_title = (if truthy (lookup_prop (JObj answer) (lit ''title''))
            then lookup_prop (JObj answer) (lit ''title'') else JStr (lit ''Unknown title'')),
          book_author = (if truthy (lookup_prop (JObj answer) (lit ''author''))
            then lookup_prop (JObj answer) (lit ''author'') else JStr (lit ''Unknown author'')),
          kindleUrl = (if truthy (lookup_prop (JObj answer) (lit ''kindleUrl''))
            then lookup_prop (JObj answer) (lit ''kindleUrl'') else JNull),
          imageUri = uri\<rparr>"
proof -
  from assms(4,5) have "engine_parse answer_text = Some (JObj answer)"
    by (simp add: engine_parse_stringify)
  then have "JSON_parse engine_parse (JStr answer_text) = Inr (JObj answer)"
    by (simp add: JSON_parse_def)
  moreover from assms(4) have "truthy (JStr answer_text)"
    by (auto dest: stringify_JObj_nonempty)
  ultimately have "openai_book engine_parse now uri (Some r) = Inr (make_book now uri (JObj answer))"
    using assms(1,2,3,6) by (subst openai_book_Inr_iff) auto
  then show ?thesis by (simp add: make_book_def js_or_def)
qed

theorem openai_book_defaults_witness:
  "openai_book engine_parse 1700000000000 (JStr (lit ''file:///dune.jpg'')) (Some dune_completion) =
     Inr \<lparr>book_id = nat_digits 1700000000000, book_title = JStr (lit ''Dune''),
          book_author = JStr (lit ''Frank Herbert''), kindleUrl = JNull,
          imageUri = JStr (lit ''file:///dune.jpg'')\<rparr>"
proof -
  have "openai_content (JObj [(lit ''choices'',
      JArr [JObj [(lit ''message'', JObj [(lit ''content'', JStr dune_text)])]])]) = Inr (JStr dune_text)"
    by (simp add: openai_content_def get_prop_def opt_get_def opt_at_def)
  moreover have "stringify dune_answer = Some dune_text"
    by (simp add: dune_answer_def dune_text_def lit_eval)
  moreover have "json_value dune_answer"
    by (simp add: json_value_def dune_answer_def comes_before_def)
  ultimately show ?thesis
    using openai_book_defaults [of dune_completion _ dune_text
        "[(lit ''title'', JStr (lit ''Dune'')), (lit ''author'', JStr (lit ''Frank Herbert''))]"
        1700000000000 "JStr (lit ''file:///dune.jpg'')"]
    by (simp add: dune_completion_def dune_answer_def ok_response_def ok_def)
qed

text \<open>
  A response with a status outside 200 to 299 adds no book: the request
  ends with the progress display off and the message \<open>OpenAI request failed\<close> with
  the status in parentheses.
\<close>

theorem request_failed_message:
  assumes "\<not> ok r"
  shows "resolveWithOpenAI_end (openai_book parse now uri (Some r)) s =
     s\<lparr>error := Some (Text (lit ''OpenAI request failed ('' @ int_digits (int (status r)) @ lit '')'')),
       loading := False\<rparr>"
  using assms by (simp add: openai_book_not_ok)

theorem request_failed_message_witness:
  "resolveWithOpenAI_end (openai_book engine_parse 0 JNull (Some unavailable)) (app dune_awaiting) =
     (app dune_awaiting)\<lparr>error := Some (Text (lit ''OpenAI request failed (503)'')), loading := False\<rparr>"
proof -
  have "int_digits (int (status unavailable)) = lit ''503''"
    by (simp add: unavailable_def int_digits_def nat_digits.simps digit_unit_def lit_eval)
  with request_failed_message [OF not_ok_unavailable, of engine_parse 0 JNull "app dune_awaiting"]
  show ?thesis by (simp add: lit_eval)
qed

text \<open>
  C34 (error). Without an API key the client never sends a request: in every
  reachable state nothing is in flight, the progress display is off, and the shelf is
  empty with no book announced.
\<close>

theorem no_request_without_key:
  assumes "\<not> truthy API_KEY" and "app_reachable API_KEY parse s"
  shows "requests s = [] \<and> \<not> loading (app s) \<and> books (app s) = [] \<and> result (app s) = None"
proof -
  have r: "requests u = []" "\<not> loading (app u)" if "app_reachable API_KEY parse u" for u
    using app_reachable_inv [OF that] assms(1) by (auto simp: app_inv_def)
  from assms(2) have "books (app s) = []"
  proof (induction rule: app_reachable.induct)
    case init
    show ?case by (simp add: initial_system_def initial_state_def)
  next
    case (step u ev t)
    with app_step_books [OF step.hyps(2)] r(1) [OF step.hyps(1)] show ?case by auto
  qed
  moreover from this app_reachable_inv [OF assms(2)] have "result (app s) = None"
    by (cases "result (app s)") (auto simp: app_inv_def)
  ultimately show ?thesis using r [OF assms(2)] by simp
qed

theorem no_request_without_key_witness:
  "\<exists>t. run JUndefined engine_parse (butlast (capture_events None)) initial_system = Some t \<and>
     error (app t) = Some (Text (lit ''Missing EXPO_PUBLIC_OPENAI_API_KEY in app config.'')) \<and>
     requests t = [] \<and> \<not> loading (app t) \<and> books (app t) = [] \<and> result (app t) = None"
proof -
  have "\<not> truthy JUndefined" by simp
  from no_request_without_key [OF this run_reachable [OF app_reachable.init run_without_key]]
  show ?thesis by (simp add: run_without_key)
qed

text \<open>
  The header shows \<open>Capture\<close> exactly while the camera is active,
  \<open>Finding your Kindle link\<close> exactly while a lookup is in progress with the camera
  closed, and \<open>Your Kindle Shelf\<close> exactly when neither holds.
\<close>

theorem headerTitle_cases:
  "(headerTitle s = lit ''Capture'' \<longleftrightarrow> cameraActive s) \<and>
   (headerTitle s = lit ''Finding your Kindle link'' \<longleftrightarrow> \<not> cameraActive s \<and> loading s) \<and>
   (headerTitle s = lit ''Your Kindle Shelf'' \<longleftrightarrow> \<not> cameraActive s \<and> \<not> loading s)"
  by (simp add: headerTitle_def)

text \<open>
  C36 (safety). A picture is taken only from the camera view: an event starts a
  capture only if it is a press of \<open>Snap\<close> with the camera active, the permission
  granted and the camera reference set, and it starts one capture.
\<close>

theorem capture_needs_permission:
  assumes "app_step API_KEY parse ev s = Some t" and "captures s < captures t"
  shows "ev = PressSnap \<and> cameraActive (app s) \<and> permission (app s) = Some True \<and>
     cameraRef (app s) \<and> captures t = captures s + 1"
  using assms
  by (cases ev)
    (auto simp: setCameraActive_def handleCapture_begin_def current_view_def case_prod_beta
      split: if_splits option.splits)

theorem capture_needs_permission_witness:
  "PressSnap = PressSnap \<and> cameraActive (app dune_camera) \<and>
   permission (app dune_camera) = Some True \<and> cameraRef (app dune_camera) \<and>
   captures (dune_camera\<lparr>captures := 1\<rparr>) = captures dune_camera + 1"
proof -
  have "app_step test_key engine_parse PressSnap dune_camera = Some (dune_camera\<lparr>captures := 1\<rparr>)"
    by (simp add: dune_camera_def current_view_def handleCapture_begin_def)
  moreover have "captures dune_camera < captures (dune_camera\<lparr>captures := 1\<rparr>)"
    by (simp add: dune_camera_def)
  ultimately show ?thesis by (rule capture_needs_permission)
qed

text \<open>
  C37 (functional). A request in flight can always be answered, and any answer, also a
  failure of the network, ends the progress display and takes the request out of
  flight.
\<close>

theorem response_ends_loading:
  assumes "uri \<in> set (requests s)"
  shows "\<exists>t. app_step API_KEY parse (Responded uri now response) s = Some t \<and>
     \<not> loading (app t) \<and> length (requests t) < length (requests s)"
  using assms by (auto simp: length_remove1 dest: length_pos_if_in_set)

theorem response_ends_loading_witness:
  "\<exists>t. app_step test_key engine_parse (Responded (JStr (lit ''file:///dune.jpg'')) 0 None) dune_awaiting =
       Some t \<and>
     \<not> loading (app t) \<and> length (requests t) < length (requests dune_awaiting)"
proof -
  have "JStr (lit ''file:///dune.jpg'') \<in> set (requests dune_awaiting)"
    by (simp add: dune_awaiting_def)
  then show ?thesis by (rule response_ends_loading)
qed

text \<open>
  C40 (functional). The progress display does not cover the lookup. From every state
  that shows the camera with its reference set, two presses of \<open>Snap\<close> before the
  first picture arrives start two requests, whatever the two pictures are, and
  whatever the response to the first request is, it turns the progress display off and
  brings the \<open>+\<close> control back while the second request is still in flight.
\<close>

theorem overlapping_requests:
  assumes "truthy API_KEY" and "current_view (app s) = Camera" and "cameraRef (app s)"
    and "\<not> nullish p1" and "\<not> nullish p2"
    and "openai_request API_KEY (lookup_prop p1 (lit ''base64'')) = Inr q1"
    and "openai_request API_KEY (lookup_prop p2 (lit ''base64'')) = Inr q2"
  shows "\<exists>t. run API_KEY parse
       [PressSnap, PressSnap, PhotoTaken p1, PhotoTaken p2,
        Responded (lookup_prop p1 (lit ''uri'')) now response] s = Some t \<and>
     \<not> loading (app t) \<and> lookup_prop p2 (lit ''uri'') \<in> set (requests t) \<and> fab_visible (app t)"
proof -
  let ?u1 = "lookup_prop p1 (lit ''uri'')" and ?u2 = "lookup_prop p2 (lit ''uri'')"
  let ?s1 = "s\<lparr>app := (app s)\<lparr>error := None\<rparr>, captures := captures s + 1\<rparr>"
  let ?s2 = "?s1\<lparr>app := (app ?s1)\<lparr>error := None\<rparr>, captures := captures ?s1 + 1\<rparr>"
  let ?s3 = "\<lparr>app = (app ?s2)\<lparr>photoUri := ?u1, cameraActive := False,
                loading := True, result := None, error := None\<rparr>,
              captures = captures ?s2 - 1, requests = requests ?s2 @ [?u1]\<rparr>"
  let ?s4 = "\<lparr>app = (app ?s3)\<lparr>photoUri := ?u2, cameraActive := False,
                loading := True, result := None, error := None\<rparr>,
              captures = captures ?s3 - 1, requests = requests ?s3 @ [?u2]\<rparr>"
  let ?t = "?s4\<lparr>app := resolveWithOpenAI_end (openai_book parse now ?u1 response) (app ?s4),
      requests := remove1 ?u1 (requests ?s4)\<rparr>"
  have 1: "app_step API_KEY parse PressSnap s = Some ?s1"
    using assms(2,3) by (rule app_step_PressSnap)
  have 2: "app_step API_KEY parse PressSnap ?s1 = Some ?s2"
    using assms(2,3) by (intro app_step_PressSnap) simp_all
  have 3: "app_step API_KEY parse (PhotoTaken p1) ?s2 = Some ?s3"
    using assms(1,4,6) by (intro app_step_PhotoTaken) simp_all
  have 4: "app_step API_KEY parse (PhotoTaken p2) ?s3 = Some ?s4"
    using assms(1,5,7) by (intro app_step_PhotoTaken) simp_all
  have 5: "app_step API_KEY parse (Responded ?u1 now response) ?s4 = Some ?t"
    by simp
  have "run API_KEY parse [PressSnap, PressSnap, PhotoTaken p1, PhotoTaken p2,
      Responded ?u1 now response] s = Some ?t"
    by (simp only: run.simps 1 2 3 4 5 option.case)
  moreover have "\<not> loading (app ?t)" by simp
  moreover have "?u2 \<in> set (requests ?t)" by (simp add: in_remove1_pending)
  moreover have "fab_visible (app ?t)" by (simp add: view_defs)
  ultimately show ?thesis by blast
qed

theorem overlapping_requests_witness:
  "\<exists>t. run test_key engine_parse double_snap_events initial_system = Some t \<and>
     \<not> loading (app t) \<and> JStr (lit ''file:///dune.jpg'') \<in> set (requests t) \<and> fab_visible (app t)"
proof -
  let ?race = "[PressSnap, PressSnap, PhotoTaken dune_photo, PhotoTaken dune_photo,
      Responded (lookup_prop dune_photo (lit ''uri'')) 1700000000000 (Some dune_completion)]"
  have "current_view (app dune_camera) = Camera" "cameraRef (app dune_camera)"
    by (simp_all add: dune_camera_def current_view_def)
  moreover have "\<exists>q. openai_request test_key (lookup_prop dune_photo (lit ''base64'')) = Inr q"
    by (simp add: openai_request_Inr_iff test_key_def dune_photo_def image_url_Inr_iff)
  moreover have "truthy test_key" "\<not> nullish dune_photo"
    by (simp_all add: test_key_def dune_photo_def)
  ultimately obtain t where r: "run test_key engine_parse ?race dune_camera = Some t"
    and t: "\<not> loading (app t)" "lookup_prop dune_photo (lit ''uri'') \<in> set (requests t)"
      "fab_visible (app t)"
    using overlapping_requests [of test_key dune_camera dune_photo dune_photo _ _ engine_parse
        1700000000000 "Some dune_completion"]
    by blast
  have e: "double_snap_events =
      [PermissionChanged (Some True), PressCaptureFirst, CameraRef True] @ ?race"
    by (simp add: double_snap_events_def dune_photo_def)
  have "run test_key engine_parse double_snap_events initial_system =
      run test_key engine_parse ?race dune_camera"
    by (subst e, subst run_append) (simp only: run_to_camera option.case)
  with r t show ?thesis by (auto simp: dune_photo_def)
qed


text \<open>
  C33 (type). A book the client shelves from an answer parsed by \<open>JSON.parse\<close> holds
  JSON values: its title and author are truthy JSON values and its link is one or
  \<open>null\<close>. Nothing makes them strings.
\<close>

theorem shelved_book_is_json:
  assumes "openai_book engine_parse now uri response = Inr b"
  shows "json_value (book_title b) \<and> truthy (book_title b) \<and>
     json_value (book_author b) \<and> truthy (book_author b) \<and> json_value (kindleUrl b)"
proof -
  from assms obtain content parsed where "JSON_parse engine_parse content = Inr parsed"
    and b: "b = make_book now uri parsed"
    by (auto simp: openai_book_Inr_iff)
  then have parsed: "json_value parsed"
    by (auto simp: JSON_parse_def bind_result_eq_Inr_iff split: option.splits
        dest: engine_parse_json_value)
  have "json_value (js_or (lookup_prop parsed k) d) \<and> (truthy d \<longrightarrow> truthy (js_or (lookup_prop parsed k) d))"
    if "json_value d" "k \<noteq> lit ''length''" "k \<noteq> lit ''small''" for k d
    using json_value_lookup_prop [OF parsed that(2,3)] that(1) by (auto simp: js_or_def)
  from this [of "JStr (lit ''Unknown title'')" "lit ''title''"]
    this [of "JStr (lit ''Unknown author'')" "lit ''author''"] this [of JNull "lit ''kindleUrl''"]
  show ?thesis
    by (simp add: b make_book_def json_value_def lit_eval)
qed

theorem shelved_book_is_json_witness:
  "json_value (book_title dune_book) \<and> truthy (book_title dune_book) \<and>
   json_value (book_author dune_book) \<and> truthy (book_author dune_book) \<and>
   json_value (kindleUrl dune_book)"
  using shelved_book_is_json [OF openai_book_Dune] .

end
