(* ===== verification/Styles.thy ===== *)
theory Styles
  imports Main
begin

text \<open>
  The style sheet of the mobile client, \<open>StyleSheet.create({...})\<close> at the end of
  \<open>src/expo-app/App.js\<close>: for every style name the properties the source gives it,
  in the order of the source. A value is a number, a decimal fraction (\<open>SDec m d\<close>
  is \<open>m / 10^d\<close>), a string, or a nested object (the shadow offset). The sheet is
  split into the groups the source lists one after the other; \<open>styles\<close> is the
  whole object.
\<close>

datatype style_value =
    SNum int
  | SDec nat nat
  | SStr string
  | SObj "(string \<times> style_value) list"

type_synonym style = "(string \<times> style_value) list"
type_synonym style_sheet = "(string \<times> style) list"

text \<open>The styles of the screen, the header and the list.\<close>

definition layout_styles :: style_sheet where
  "layout_styles =
    [(''container'',
       [(''flex'', SNum 1),
        (''backgroundColor'', SStr ''#F8FAFC'')]),
     (''header'',
       [(''paddingHorizontal'', SNum 24),
        (''paddingVertical'', SNum 16)]),
     (''headerTitle'',
       [(''fontSize'', SNum 22),
        (''fontWeight'', SStr ''700''),
        (''color'', SStr ''#111827'')]),
     (''listContent'',
       [(''paddingHorizontal'', SNum 20),
        (''paddingBottom'', SNum 120),
        (''gap'', SNum 16)]),
     (''listEmpty'',
       [(''flexGrow'', SNum 1)]),
     (''emptyState'',
       [(''flex'', SNum 1),
        (''alignItems'', SStr ''center''),
        (''justifyContent'', SStr ''center''),
        (''padding'', SNum 32)]),
     (''emptyTitle'',
       [(''fontSize'', SNum 24),
        (''fontWeight'', SStr ''700''),
        (''marginBottom'', SNum 8),
        (''color'', SStr ''#0F172A'')]),
     (''emptySubtitle'',
       [(''textAlign'', SStr ''center''),
        (''color'', SStr ''#475569''),
        (''marginBottom'', SNum 24)])]"

text \<open>The styles of the two kinds of button.\<close>

definition button_styles :: style_sheet where
  "button_styles =
    [(''primaryButton'',
       [(''backgroundColor'', SStr ''#111827''),
        (''paddingVertical'', SNum 14),
        (''paddingHorizontal'', SNum 20),
        (''borderRadius'', SNum 12)]),
     (''primaryButtonText'',
       [(''color'', SStr ''#F9FAFB''),
        (''fontWeight'', SStr ''600'')]),
     (''secondaryButton'',
       [(''marginTop'', SNum 12),
        (''paddingVertical'', SNum 10),
        (''paddingHorizontal'', SNum 16)]),
     (''secondaryButtonText'',
       [(''color'', SStr ''#E2E8F0''),
        (''fontWeight'', SStr ''600'')])]"

text \<open>The styles of a card of the shelf.\<close>

definition book_styles :: style_sheet where
  "book_styles =
    [(''bookCard'',
       [(''flexDirection'', SStr ''row''),
        (''backgroundColor'', SStr ''#FFFFFF''),
        (''borderRadius'', SNum 16),
        (''padding'', SNum 12),
        (''shadowColor'', SStr ''#0F172A''),
        (''shadowOpacity'', SDec 8 2),
        (''shadowRadius'', SNum 10),
        (''shadowOffset'', SObj [(''width'', SNum 0), (''height'', SNum 6)]),
        (''elevation'', SNum 2)]),
     (''bookImage'',
       [(''width'', SNum 72),
        (''height'', SNum 96),
        (''borderRadius'', SNum 8),
        (''backgroundColor'', SStr ''#E2E8F0'')]),
     (''bookInfo'',
       [(''flex'', SNum 1),
        (''marginLeft'', SNum 12),
        (''justifyContent'', SStr ''center'')]),
     (''bookTitle'',
       [(''fontSize'', SNum 16),
        (''fontWeight'', SStr ''600''),
        (''color'', SStr ''#0F172A'')]),
     (''bookAuthor'',
       [(''marginTop'', SNum 4),
        (''color'', SStr ''#64748B'')]),
     (''bookLink'',
       [(''marginTop'', SNum 8),
        (''color'', SStr ''#2563EB'')]),
     (''bookLinkMuted'',
       [(''marginTop'', SNum 8),
        (''color'', SStr ''#94A3B8'')])]"

text \<open>The styles of the camera view.\<close>

definition camera_styles :: style_sheet where
  "camera_styles =
    [(''cameraContainer'',
       [(''flex'', SNum 1),
        (''backgroundColor'', SStr ''#000'')]),
     (''camera'',
       [(''flex'', SNum 1)]),
     (''cameraOverlay'',
       [(''flex'', SNum 1),
        (''justifyContent'', SStr ''flex-end''),
        (''padding'', SNum 24),
        (''backgroundColor'', SStr ''rgba(0,0,0,0.2)'')]),
     (''cameraTitle'',
       [(''color'', SStr ''#F8FAFC''),
        (''fontSize'', SNum 18),
        (''fontWeight'', SStr ''600''),
        (''marginBottom'', SNum 16)]),
     (''captureButton'',
       [(''backgroundColor'', SStr ''#F8FAFC''),
        (''paddingVertical'', SNum 14),
        (''alignItems'', SStr ''center''),
        (''borderRadius'', SNum 999)]),
     (''captureButtonText'',
       [(''color'', SStr ''#0F172A''),
        (''fontWeight'', SStr ''700'')])]"

text \<open>The styles of the progress display.\<close>

definition processing_styles :: style_sheet where
  "processing_styles =
    [(''processingContainer'',
       [(''flex'', SNum 1)]),
     (''processingImage'',
       [(''width'', SStr ''100%''),
        (''height'', SStr ''65%'')]),
     (''processingPanel'',
       [(''flex'', SNum 1),
        (''alignItems'', SStr ''center''),
        (''justifyContent'', SStr ''center''),
        (''backgroundColor'', SStr ''#F8FAFC'')]),
     (''processingText'',
       [(''marginTop'', SNum 12),
        (''color'', SStr ''#0F172A''),
        (''fontWeight'', SStr ''600'')])]"

text \<open>The styles of the two toasts.\<close>

definition toast_styles :: style_sheet where
  "toast_styles =
    [(''toastError'',
       [(''position'', SStr ''absolute''),
        (''bottom'', SNum 24),
        (''left'', SNum 20),
        (''right'', SNum 20),
        (''backgroundColor'', SStr ''#FEF2F2''),
        (''borderRadius'', SNum 12),
        (''padding'', SNum 14),
        (''borderColor'', SStr ''#FCA5A5''),
        (''borderWidth'', SNum 1)]),
     (''toastErrorText'',
       [(''color'', SStr ''#B91C1C''),
        (''textAlign'', SStr ''center'')]),
     (''toastSuccess'',
       [(''position'', SStr ''absolute''),
        (''bottom'', SNum 90),
        (''left'', SNum 20),
        (''right'', SNum 20),
        (''backgroundColor'', SStr ''#ECFDF3''),
        (''borderRadius'', SNum 12),
        (''padding'', SNum 12),
        (''borderColor'', SStr ''#86EFAC''),
        (''borderWidth'', SNum 1)]),
     (''toastSuccessTitle'',
       [(''fontWeight'', SStr ''700''),
        (''color'', SStr ''#166534''),
        (''textAlign'', SStr ''center'')]),
     (''toastSuccessText'',
       [(''color'', SStr ''#15803D''),
        (''textAlign'', SStr ''center''),
        (''marginTop'', SNum 4)])]"

text \<open>The styles of the floating control and the permission prompt.\<close>

definition overlay_styles :: style_sheet where
  "overlay_styles =
    [(''fab'',
       [(''position'', SStr ''absolute''),
        (''right'', SNum 24),
        (''bottom'', SNum 24),
        (''backgroundColor'', SStr ''#111827''),
        (''width'', SNum 56),
        (''height'', SNum 56),
        (''borderRadius'', SNum 28),
        (''alignItems'', SStr ''center''),
        (''justifyContent'', SStr ''center''),
        (''shadowColor'', SStr ''#0F172A''),
        (''shadowOpacity'', SDec 2 1),
        (''shadowRadius'', SNum 10),
        (''shadowOffset'', SObj [(''width'', SNum 0), (''height'', SNum 6)])]),
     (''fabText'',
       [(''color'', SStr ''#F8FAFC''),
        (''fontSize'', SNum 24),
        (''fontWeight'', SStr ''700'')]),
     (''permissionContainer'',
       [(''flex'', SNum 1),
        (''backgroundColor'', SStr ''#0F172A''),
        (''alignItems'', SStr ''center''),
        (''justifyContent'', SStr ''center''),
        (''padding'', SNum 24)]),
     (''permissionText'',
       [(''color'', SStr ''#E2E8F0''),
        (''textAlign'', SStr ''center''),
        (''marginBottom'', SNum 16)])]"

definition styles :: style_sheet where
  "styles =
     layout_styles @ button_styles @ book_styles @ camera_styles @ processing_styles @
     toast_styles @ overlay_styles"

text \<open>
  \<open>styles.name\<close>: the style of a name, \<open>None\<close> standing for \<open>undefined\<close>. A
  property of a style is read the same way.
\<close>

definition style_of :: "string \<Rightarrow> style option" where
  "style_of name = map_of styles name"

definition style_names :: "string list" where
  "style_names = map fst styles"

definition style_prop :: "string \<Rightarrow> string \<Rightarrow> style_value option" where
  "style_prop name p = (case style_of name of None \<Rightarrow> None | Some st \<Rightarrow> map_of st p)"

text \<open>\<open>styles.name\<close> is \<open>undefined\<close> for a name the sheet does not define.\<close>

definition defined_style :: "string \<Rightarrow> bool" where
  "defined_style name \<longleftrightarrow> style_of name \<noteq> None"

section \<open>Facts\<close>

lemmas style_groups =
  layout_styles_def button_styles_def book_styles_def camera_styles_def processing_styles_def
  toast_styles_def overlay_styles_def

lemma style_names_eq:
  "style_names =
     [''container'', ''header'', ''headerTitle'', ''listContent'', ''listEmpty'', ''emptyState'',
      ''emptyTitle'', ''emptySubtitle'', ''primaryButton'', ''primaryButtonText'',
      ''secondaryButton'', ''secondaryButtonText'', ''bookCard'', ''bookImage'', ''bookInfo'',
      ''bookTitle'', ''bookAuthor'', ''bookLink'', ''bookLinkMuted'', ''cameraContainer'',
      ''camera'', ''cameraOverlay'', ''cameraTitle'', ''captureButton'', ''captureButtonText'',
      ''processingContainer'', ''processingImage'', ''processingPanel'', ''processingText'',
      ''toastError'', ''toastErrorText'', ''toastSuccess'', ''toastSuccessTitle'',
      ''toastSuccessText'', ''fab'', ''fabText'', ''permissionContainer'', ''permissionText'']"
  by (simp add: style_names_def styles_def style_groups)

lemma distinct_style_names: "distinct style_names"
  unfolding style_names_eq by simp

lemma style_of_Some_iff: "(\<exists>st. style_of name = Some st) \<longleftrightarrow> name \<in> set style_names"
proof -
  have "map_of styles name = None \<longleftrightarrow> name \<notin> set style_names"
    by (simp add: style_names_def map_of_eq_None_iff)
  then show ?thesis by (auto simp: style_of_def)
qed

lemma length_style_names: "length style_names = 38"
  unfolding style_names_eq by simp

lemma defined_style_iff: "defined_style name \<longleftrightarrow> name \<in> set style_names"
  using style_of_Some_iff [of name] by (auto simp: defined_style_def)

lemma defined_style_names: "list_all defined_style style_names"
  by (simp add: list_all_iff defined_style_iff)

lemmas defined_style_simps [simp] = defined_style_names [unfolded style_names_eq list.pred_inject simp_thms]

end
