(* ===== verification/View.thy ===== *)
theory View
  imports App Styles
begin

text \<open>
  What the mobile client renders: the element tree the \<open>App\<close> component of
  \<open>src/expo-app/App.js\<close> returns for a state, with \<open>renderEmptyState\<close> and
  \<open>renderBook\<close>. An element carries the name of its style (\<open>styles.name\<close>), a
  control carries the event its \<open>onPress\<close> raises, and a text carries its children:
  the literals of the source and the values it interpolates.

  \<open>FlatList\<close> is modelled by what it renders: the style of its content container,
  the keys \<open>keyExtractor\<close> gives the rows, and the rows \<open>renderItem\<close> returns, or
  the \<open>ListEmptyComponent\<close> when there is no row. The text element is \<open>TextEl\<close>,
  the name \<open>Text\<close> being the constructor of a message.
\<close>

section \<open>Elements\<close>

datatype child = Literal jsstring | Value jsval | Shown message

datatype element =
    View string "element list"
  | SafeAreaView string "element list"
  | TextEl string "child list"
  | Image string jsval
  | Pressable string event "element list"
  | ActivityIndicator string string
  | StatusBar string
  | CameraView string string "element list"
  | FlatList string "jsstring list" "element list"

section \<open>The component\<close>

definition renderEmptyState :: element where
  "renderEmptyState =
     View ''emptyState''
       [TextEl ''emptyTitle'' [Literal (lit ''No books yet'')],
        TextEl ''emptySubtitle'' [Literal (lit ''Capture a cover to get a Kindle sample link.'')],
        Pressable ''primaryButton'' PressCaptureFirst
          [TextEl ''primaryButtonText'' [Literal (lit ''Capture your first book'')]]]"

definition renderBook :: "book \<Rightarrow> element" where
  "renderBook item =
     View ''bookCard''
       [Image ''bookImage'' (imageUri item),
        View ''bookInfo''
          [TextEl ''bookTitle'' [Value (book_title item)],
           TextEl ''bookAuthor'' [Value (book_author item)],
           (if truthy (kindleUrl item) then TextEl ''bookLink'' [Value (kindleUrl item)]
            else TextEl ''bookLinkMuted'' [Literal (lit ''Kindle link unavailable'')])]]"

text \<open>The view while the camera is active: nothing, the permission prompt, or the camera.\<close>

definition render_camera :: "app_state \<Rightarrow> element" where
  "render_camera s =
     (case permission s of
        None \<Rightarrow> View ''container'' []
      | Some granted \<Rightarrow>
          if \<not> granted then
            SafeAreaView ''permissionContainer''
              [TextEl ''permissionText''
                 [Literal (lit ''Camera access is required to capture a book cover.'')],
               Pressable ''primaryButton'' PressEnableCamera
                 [TextEl ''primaryButtonText'' [Literal (lit ''Enable camera'')]],
               Pressable ''secondaryButton'' PressBack
                 [TextEl ''secondaryButtonText'' [Literal (lit ''Back'')]]]
          else
            View ''cameraContainer''
              [CameraView ''camera'' ''back''
                 [View ''cameraOverlay''
                    [TextEl ''cameraTitle'' [Literal (lit ''Align the cover'')],
                     Pressable ''captureButton'' PressSnap
                       [TextEl ''captureButtonText'' [Literal (lit ''Snap'')]],
                     Pressable ''secondaryButton'' PressCancel
                       [TextEl ''secondaryButtonText'' [Literal (lit ''Cancel'')]]]],
               StatusBar ''light''])"

text \<open>The parts of the shelf view, in the order of the source.\<close>

definition render_list :: "app_state \<Rightarrow> element" where
  "render_list s =
     (if loading s \<and> truthy (photoUri s) then
        View ''processingContainer''
          [Image ''processingImage'' (photoUri s),
           View ''processingPanel''
             [ActivityIndicator ''large'' ''#111827'',
              TextEl ''processingText'' [Literal (lit ''Scanning for a Kindle sample'' @ [0x2026])]]]
      else
        FlatList (if books s \<noteq> [] then ''listContent'' else ''listEmpty'')
          (map book_id (books s))
          (if books s = [] then [renderEmptyState] else map renderBook (books s)))"

text \<open>\<open>error ? ... : null\<close> on the message of the state: the empty text is falsy.\<close>

definition message_truthy :: "message \<Rightarrow> bool" where
  "message_truthy m \<longleftrightarrow> m \<noteq> Text []"

definition render_toasts :: "app_state \<Rightarrow> element list" where
  "render_toasts s =
     (case error s of
        None \<Rightarrow> []
      | Some m \<Rightarrow> if message_truthy m then [View ''toastError'' [TextEl ''toastErrorText'' [Shown m]]]
          else []) @
     (case result s of
        None \<Rightarrow> []
      | Some b \<Rightarrow>
          [View ''toastSuccess''
             [TextEl ''toastSuccessTitle'' [Literal (lit ''Found!'')],
              TextEl ''toastSuccessText'' [Value (book_title b)]]])"

definition render_fab :: "app_state \<Rightarrow> element list" where
  "render_fab s =
     (if \<not> loading s \<and> \<not> cameraActive s
      then [Pressable ''fab'' PressPlus [TextEl ''fabText'' [Literal (lit ''+'')]]] else [])"

definition render :: "app_state \<Rightarrow> element" where
  "render s =
     (if cameraActive s then render_camera s
      else
        SafeAreaView ''container''
          ([StatusBar ''dark'',
            View ''header'' [TextEl ''headerTitle'' [Value (JStr (headerTitle s))]],
            render_list s] @ render_toasts s @ render_fab s))"

section \<open>Reading a tree\<close>

text \<open>The events of the controls of a tree, the style names it uses, and its text children.\<close>

fun pressables :: "element \<Rightarrow> event list" where
  "pressables (View st es) = concat (map pressables es)"
| "pressables (SafeAreaView st es) = concat (map pressables es)"
| "pressables (Pressable st ev es) = ev # concat (map pressables es)"
| "pressables (CameraView st facing es) = concat (map pressables es)"
| "pressables (FlatList st keys es) = concat (map pressables es)"
| "pressables _ = []"

fun styles_used :: "element \<Rightarrow> string list" where
  "styles_used (View st es) = st # concat (map styles_used es)"
| "styles_used (SafeAreaView st es) = st # concat (map styles_used es)"
| "styles_used (TextEl st cs) = [st]"
| "styles_used (Image st src) = [st]"
| "styles_used (Pressable st ev es) = st # concat (map styles_used es)"
| "styles_used (CameraView st facing es) = st # concat (map styles_used es)"
| "styles_used (FlatList st keys es) = st # concat (map styles_used es)"
| "styles_used _ = []"

fun children :: "element \<Rightarrow> child list" where
  "children (View st es) = concat (map children es)"
| "children (SafeAreaView st es) = concat (map children es)"
| "children (TextEl st cs) = cs"
| "children (Pressable st ev es) = concat (map children es)"
| "children (CameraView st facing es) = concat (map children es)"
| "children (FlatList st keys es) = concat (map children es)"
| "children _ = []"

fun has_camera :: "element \<Rightarrow> bool" where
  "has_camera (View st es) = list_ex has_camera es"
| "has_camera (SafeAreaView st es) = list_ex has_camera es"
| "has_camera (Pressable st ev es) = list_ex has_camera es"
| "has_camera (CameraView st facing es) = True"
| "has_camera (FlatList st keys es) = list_ex has_camera es"
| "has_camera _ = False"

text \<open>
  What React accepts as the child of a text: a string or a number is shown, a
  boolean, \<open>null\<close> and \<open>undefined\<close> show nothing, an array shows its elements, and
  an object makes the render throw.
\<close>

fun renderable :: "jsval \<Rightarrow> bool" where
  "renderable (JObj kvs) = False"
| "renderable (JArr xs) = list_all renderable xs"
| "renderable _ = True"

fun child_ok :: "child \<Rightarrow> bool" where
  "child_ok (Value v) = renderable v"
| "child_ok _ = True"

definition mounts :: "element \<Rightarrow> bool" where
  "mounts e \<longleftrightarrow> list_all child_ok (children e)"

text \<open>The events that are presses of a control.\<close>

fun is_press :: "event \<Rightarrow> bool" where
  "is_press PressCaptureFirst = True"
| "is_press PressPlus = True"
| "is_press PressEnableCamera = True"
| "is_press PressBack = True"
| "is_press PressCancel = True"
| "is_press PressSnap = True"
| "is_press _ = False"

section \<open>Scenarios\<close>

text \<open>
  An answer of the model whose title is an object with the title and a subtitle, its
  JSON text, and the response that carries the text.
\<close>

definition boxed_answer :: jsval where
  "boxed_answer =
     JObj [(lit ''title'', JObj [(lit ''main'', JStr (lit ''Dune'')), (lit ''sub'', JNull)]),
           (lit ''author'', JStr (lit ''Frank Herbert''))]"

definition boxed_text :: jsstring where
  "boxed_text =
     lit ''{'' @ quote (lit ''title'') @ lit '':{'' @ quote (lit ''main'') @ lit '':'' @
     quote (lit ''Dune'') @ lit '','' @ quote (lit ''sub'') @ lit '':null},'' @
     quote (lit ''author'') @ lit '':'' @ quote (lit ''Frank Herbert'') @ lit ''}''"

definition boxed_completion :: http_response where
  "boxed_completion =
     ok_response (JObj [(lit ''choices'',
       JArr [JObj [(lit ''message'', JObj [(lit ''content'', JStr boxed_text)])]])])"

definition boxed_book :: book where
  "boxed_book =
     \<lparr>book_id = lit ''1700000000000'',
      book_title = JObj [(lit ''main'', JStr (lit ''Dune'')), (lit ''sub'', JNull)],
      book_author = JStr (lit ''Frank Herbert''), kindleUrl = JNull,
      imageUri = JStr (lit ''file:///dune.jpg'')\<rparr>"

definition boxed_shelf :: system where
  "boxed_shelf =
     \<lparr>app = \<lparr>books = [boxed_book], cameraActive = False, photoUri = JStr (lit ''file:///dune.jpg''),
        result = Some boxed_book, error = None, loading = False, cameraRef = True,
        permission = Some True\<rparr>,
      captures = 0, requests = []\<rparr>"

section \<open>Facts\<close>

lemmas render_defs =
  render_def render_camera_def render_list_def render_toasts_def render_fab_def
  renderEmptyState_def renderBook_def

subsection \<open>Controls\<close>

lemma pressables_renderBook [simp]: "pressables (renderBook b) = []"
  by (simp add: renderBook_def)

lemma pressables_rows [simp]: "concat (map (pressables \<circ> renderBook) bs) = []"
  by (induction bs) simp_all

lemma pressables_toasts [simp]: "concat (map pressables (render_toasts s)) = []"
  by (cases "error s"; cases "result s") (simp_all add: render_toasts_def)

lemma pressables_render_camera:
  "pressables (render_camera s) =
     (case permission s of None \<Rightarrow> []
      | Some granted \<Rightarrow> if granted then [PressSnap, PressCancel] else [PressEnableCamera, PressBack])"
  by (simp add: render_camera_def split: option.splits)

lemma pressables_render_list:
  "pressables (render_list s) =
     (if \<not> (loading s \<and> truthy (photoUri s)) \<and> books s = [] then [PressCaptureFirst] else [])"
  by (simp add: render_list_def renderEmptyState_def)

lemma pressables_render:
  "pressables (render s) =
     (if cameraActive s then pressables (render_camera s)
      else pressables (render_list s) @ (if loading s then [] else [PressPlus]))"
  by (simp add: render_def render_fab_def)

lemma set_pressables_render:
  "set (pressables (render s)) =
     {ev. (ev = PressCaptureFirst \<and> empty_state_visible s) \<or> (ev = PressPlus \<and> fab_visible s) \<or>
          ((ev = PressEnableCamera \<or> ev = PressBack) \<and> current_view s = PermissionPrompt) \<or>
          ((ev = PressSnap \<or> ev = PressCancel) \<and> current_view s = Camera)}"
  by (auto simp: pressables_render pressables_render_camera pressables_render_list view_defs
      split: option.splits if_splits)

lemma has_camera_renderBook [simp]: "\<not> has_camera (renderBook b)"
  by (simp add: renderBook_def)

lemma has_camera_rows [simp]: "\<not> list_ex has_camera (map renderBook bs)"
  by (simp add: list_ex_iff)

lemma has_camera_toasts [simp]: "\<not> list_ex has_camera (render_toasts s)"
  by (cases "error s"; cases "result s") (simp_all add: render_toasts_def)

lemma has_camera_render_list [simp]: "\<not> has_camera (render_list s)"
  by (simp add: render_list_def renderEmptyState_def)

lemma has_camera_render: "has_camera (render s) \<longleftrightarrow> current_view s = Camera"
  by (cases "permission s")
    (simp_all add: render_def render_camera_def render_fab_def current_view_def)

subsection \<open>Styles\<close>

lemma styles_used_renderBook [simp]: "list_all defined_style (styles_used (renderBook b))"
  by (simp add: renderBook_def)

lemma styles_used_rows [simp]:
  "list_all defined_style (concat (map (styles_used \<circ> renderBook) bs))"
  by (induction bs) simp_all

lemma styles_used_render_camera [simp]: "list_all defined_style (styles_used (render_camera s))"
  by (cases "permission s") (simp_all add: render_camera_def)

lemma styles_used_render_list [simp]: "list_all defined_style (styles_used (render_list s))"
  by (simp add: render_list_def renderEmptyState_def)

lemma styles_used_render_toasts [simp]:
  "list_all defined_style (concat (map styles_used (render_toasts s)))"
  by (cases "error s"; cases "result s") (simp_all add: render_toasts_def)

lemma styles_used_render_fab [simp]:
  "list_all defined_style (concat (map styles_used (render_fab s)))"
  by (simp add: render_fab_def)

lemma styles_used_render: "list_all defined_style (styles_used (render s))"
  by (simp add: render_def)

subsection \<open>Text children\<close>

lemma falsy_renderable: "\<not> truthy v \<Longrightarrow> renderable v"
  by (cases v) auto

lemma mounts_renderBook:
  "mounts (renderBook b) \<longleftrightarrow>
     renderable (book_title b) \<and> renderable (book_author b) \<and> renderable (kindleUrl b)"
  by (auto simp: mounts_def renderBook_def dest: falsy_renderable)

lemma children_rows:
  "list_all child_ok (concat (map (children \<circ> renderBook) bs)) \<longleftrightarrow>
     list_all (\<lambda>b. mounts (renderBook b)) bs"
  by (induction bs) (simp_all add: mounts_def)

lemma children_render_list:
  "list_all child_ok (children (render_list s)) \<longleftrightarrow>
     processing s \<or> list_all (\<lambda>b. mounts (renderBook b)) (books s)"
  by (auto simp: render_list_def renderEmptyState_def processing_def children_rows)

lemma children_render_toasts:
  "list_all child_ok (concat (map children (render_toasts s))) \<longleftrightarrow>
     (case result s of None \<Rightarrow> True | Some b \<Rightarrow> renderable (book_title b))"
  by (cases "error s"; cases "result s") (simp_all add: render_toasts_def)

lemma children_render_camera [simp]: "list_all child_ok (children (render_camera s))"
  by (cases "permission s") (simp_all add: render_camera_def)

lemma mounts_render:
  "mounts (render s) \<longleftrightarrow>
     cameraActive s \<or>
     (processing s \<or> list_all (\<lambda>b. mounts (renderBook b)) (books s)) \<and>
     (case result s of None \<Rightarrow> True | Some b \<Rightarrow> renderable (book_title b))"
  by (simp add: mounts_def render_def render_fab_def children_render_list children_render_toasts)

lemma unmountable_book_stays:
  assumes "app_step API_KEY parse ev s = Some t"
    and "\<not> list_all (\<lambda>b. mounts (renderBook b)) (books (app s))"
  shows "\<not> list_all (\<lambda>b. mounts (renderBook b)) (books (app t))"
  using app_step_books [OF assms(1)] assms(2) by auto

lemma run_unmountable_book_stays:
  "run API_KEY parse evs s = Some t \<Longrightarrow>
   \<not> list_all (\<lambda>b. mounts (renderBook b)) (books (app s)) \<Longrightarrow>
   \<not> list_all (\<lambda>b. mounts (renderBook b)) (books (app t))"
proof (induction evs arbitrary: s)
  case (Cons ev evs)
  then obtain u where u: "app_step API_KEY parse ev s = Some u" "run API_KEY parse evs u = Some t"
    by (auto split: option.splits)
  from unmountable_book_stays [OF u(1) Cons.prems(2)] Cons.IH [OF u(2)] show ?case by blast
qed simp

subsection \<open>Examples\<close>

lemma engine_parse_boxed: "engine_parse boxed_text = Some boxed_answer"
proof (rule engine_parse_stringify)
  show "json_value boxed_answer"
    by (simp add: json_value_def boxed_answer_def comes_before_def)
  show "stringify boxed_answer = Some boxed_text"
    by (simp add: boxed_answer_def boxed_text_def lit_eval)
qed

lemma boxed_text_nonempty [simp]: "boxed_text \<noteq> []"
  by (simp add: boxed_text_def)

lemma openai_book_boxed:
  "openai_book engine_parse 1700000000000 (JStr (lit ''file:///dune.jpg'')) (Some boxed_completion) =
     Inr boxed_book"
proof -
  have content: "openai_content (JObj [(lit ''choices'',
      JArr [JObj [(lit ''message'', JObj [(lit ''content'', JStr boxed_text)])]])]) =
      Inr (JStr boxed_text)"
    by (simp add: openai_content_def get_prop_def opt_get_def opt_at_def)
  have digits: "nat_digits 1700000000000 = lit ''1700000000000''"
    by (simp add: nat_digits.simps lit_eval digit_unit_def)
  show ?thesis
    by (simp add: openai_book_def boxed_completion_def content JSON_parse_def engine_parse_boxed
        boxed_answer_def get_prop_def make_book_def boxed_book_def digits)
qed

lemma app_step_boxed:
  "app_step test_key engine_parse
     (Responded (JStr (lit ''file:///dune.jpg'')) 1700000000000 (Some boxed_completion)) dune_awaiting =
   Some boxed_shelf"
proof -
  have "requests dune_awaiting = [JStr (lit ''file:///dune.jpg'')]"
    by (simp add: dune_awaiting_def)
  then show ?thesis
    by (simp add: openai_book_boxed) (simp add: dune_awaiting_def boxed_shelf_def)
qed

lemma run_capture_boxed:
  "run test_key engine_parse (capture_events (Some boxed_completion)) initial_system =
     Some boxed_shelf"
proof -
  have "capture_events (Some boxed_completion) =
      butlast (capture_events (Some boxed_completion)) @
      [Responded (JStr (lit ''file:///dune.jpg'')) 1700000000000 (Some boxed_completion)]"
    by (simp add: capture_events_def)
  then have "run test_key engine_parse (capture_events (Some boxed_completion)) initial_system =
      run test_key engine_parse (butlast (capture_events (Some boxed_completion)) @
        [Responded (JStr (lit ''file:///dune.jpg'')) 1700000000000 (Some boxed_completion)])
        initial_system"
    by (rule arg_cong)
  then show ?thesis
    by (simp only: run_append run_capture_awaiting option.case run.simps app_step_boxed)
qed

lemma not_mounts_boxed_book: "\<not> mounts (renderBook boxed_book)"
  by (simp add: mounts_renderBook boxed_book_def)

section \<open>Properties\<close>

text \<open>
  C7 (refinement). The controls of the rendered tree are exactly the presses the
  transition function accepts: a press is possible in a state if and only if the tree
  rendered for the state holds a control that raises it.
\<close>

theorem rendered_controls_enabled:
  "set (pressables (render (app s))) = {ev. is_press ev \<and> app_step API_KEY parse ev s \<noteq> None}"
proof (intro set_eqI iffI)
  fix ev assume "ev \<in> set (pressables (render (app s)))"
  then show "ev \<in> {ev. is_press ev \<and> app_step API_KEY parse ev s \<noteq> None}"
    by (auto simp: set_pressables_render split: prod.splits)
next
  fix ev assume "ev \<in> {ev. is_press ev \<and> app_step API_KEY parse ev s \<noteq> None}"
  then show "ev \<in> set (pressables (render (app s)))"
    by (cases ev) (auto simp: set_pressables_render split: if_splits)
qed

text \<open>
  C39 (safety). Every style the rendered tree names is defined in the style sheet, in
  every state: no element is laid out with \<open>undefined\<close>.
\<close>

theorem rendered_styles_defined: "list_all defined_style (styles_used (render s))"
  by (simp add: render_def)

text \<open>
  C8 (error). Rendering throws exactly when a text has an object among its children:
  outside the camera views, when the list is shown and the title, the author or the
  link of a book of the shelf is not renderable, or when the title of the book
  announced is not. The checks of the handler do not exclude it: the capture whose
  answer has an object as its title ends in a state that cannot be rendered.
\<close>

theorem render_throws_iff:
  "(mounts (render s) \<longleftrightarrow>
      cameraActive s \<or>
      (processing s \<or> list_all (\<lambda>b. mounts (renderBook b)) (books s)) \<and>
      (case result s of None \<Rightarrow> True | Some b \<Rightarrow> renderable (book_title b))) \<and>
   (\<exists>t. run test_key engine_parse (capture_events (Some boxed_completion)) initial_system = Some t \<and>
      list_all well_formed_book (books (app t)) \<and> \<not> mounts (render (app t)))"
proof -
  have "list_all well_formed_book (books (app boxed_shelf))"
    using app_reachable_inv [OF run_reachable [OF app_reachable.init run_capture_boxed]]
    by (simp add: app_inv_def)
  moreover have "\<not> mounts (render (app boxed_shelf))"
    by (simp add: mounts_render boxed_shelf_def processing_def not_mounts_boxed_book)
  ultimately show ?thesis
    using run_capture_boxed by (simp add: mounts_render)
qed

text \<open>
  C38 (safety). A book that cannot be rendered stays: once the shelf holds one, every
  later state holds one, and every later state that shows the list cannot be
  rendered.
\<close>

theorem unrenderable_book_persists:
  assumes "run API_KEY parse evs s = Some t"
    and "\<not> list_all (\<lambda>b. mounts (renderBook b)) (books (app s))"
    and "current_view (app t) = Shelf" and "\<not> processing (app t)"
  shows "\<not> mounts (render (app t))"
  using run_unmountable_book_stays [OF assms(1,2)] assms(3,4)
  by (simp add: mounts_render current_view_def split: if_splits option.splits)

theorem unrenderable_book_persists_witness:
  "\<not> mounts (render (app (boxed_shelf\<lparr>app := (app boxed_shelf)\<lparr>permission := None\<rparr>\<rparr>)))"
proof -
  have "run test_key engine_parse [PermissionChanged None] boxed_shelf =
      Some (boxed_shelf\<lparr>app := (app boxed_shelf)\<lparr>permission := None\<rparr>\<rparr>)"
    by simp
  from unrenderable_book_persists [OF this] show ?thesis
    by (simp add: boxed_shelf_def not_mounts_boxed_book view_defs)
qed

end
