(* ===== verification/Layout.thy ===== *)
theory Layout
  imports View
begin

text \<open>
  Where the overlays of the shelf view are drawn. The two toasts and the \<open>+\<close>
  control are children of the root of the tree \<open>render\<close> returns, with
  \<open>position: "absolute"\<close> in the style sheet: each is placed by the offsets of its
  style from the edges of the root, and a later child is drawn over an earlier one.

  A box is given by the distances of its left and right edges from the left edge of
  the root and of its bottom and top edges from the bottom edge of the root.
  \<open>absolute_box\<close> reads it off a style, for a root of a given width and a content of
  a given height, in the two forms the sheet uses: \<open>left\<close> and \<open>right\<close> without a
  width, and \<open>right\<close> with a width. A style without \<open>height\<close> is as high as its
  content, its padding and its border. What the platform does with these numbers is
  taken from its documentation.
\<close>

section \<open>Boxes\<close>

record box =
  box_left :: int
  box_right :: int
  box_bottom :: int
  box_top :: int

definition style_number :: "string \<Rightarrow> string \<Rightarrow> int option" where
  "style_number name p = (case style_prop name p of Some (SNum n) \<Rightarrow> Some n | _ \<Rightarrow> None)"

text \<open>A padding or a border width, which is 0 when the style gives none.\<close>

definition spacing :: "string \<Rightarrow> string \<Rightarrow> int" where
  "spacing name p = (case style_number name p of None \<Rightarrow> 0 | Some n \<Rightarrow> n)"

definition absolute :: "string \<Rightarrow> bool" where
  "absolute name \<longleftrightarrow> style_prop name ''position'' = Some (SStr ''absolute'')"

definition box_height :: "int \<Rightarrow> string \<Rightarrow> int" where
  "box_height content name =
     (case style_number name ''height'' of
        Some h \<Rightarrow> h
      | None \<Rightarrow> content + 2 * spacing name ''padding'' + 2 * spacing name ''borderWidth'')"

definition absolute_box :: "int \<Rightarrow> int \<Rightarrow> string \<Rightarrow> box option" where
  "absolute_box root_width content name =
     (if \<not> absolute name then None
      else
        (case (style_number name ''bottom'', style_number name ''left'',
               style_number name ''right'', style_number name ''width'') of
           (Some b, Some l, Some r, None) \<Rightarrow>
             Some \<lparr>box_left = l, box_right = root_width - r, box_bottom = b,
                   box_top = b + box_height content name\<rparr>
         | (Some b, None, Some r, Some w) \<Rightarrow>
             Some \<lparr>box_left = root_width - r - w, box_right = root_width - r, box_bottom = b,
                   box_top = b + box_height content name\<rparr>
         | _ \<Rightarrow> None))"

text \<open>Two boxes share an area.\<close>

definition boxes_overlap :: "box \<Rightarrow> box \<Rightarrow> bool" where
  "boxes_overlap a b \<longleftrightarrow>
     max (box_left a) (box_left b) < min (box_right a) (box_right b) \<and>
     max (box_bottom a) (box_bottom b) < min (box_top a) (box_top b)"

section \<open>The overlays of a tree\<close>

text \<open>The style an element is given, for the elements that take one.\<close>

fun style_name :: "element \<Rightarrow> string option" where
  "style_name (View st es) = Some st"
| "style_name (SafeAreaView st es) = Some st"
| "style_name (TextEl st cs) = Some st"
| "style_name (Image st src) = Some st"
| "style_name (Pressable st ev es) = Some st"
| "style_name (CameraView st facing es) = Some st"
| "style_name (FlatList st keys es) = None"
| "style_name (ActivityIndicator sz color) = None"
| "style_name (StatusBar st) = None"

text \<open>
  The children of the root that are positioned absolutely, by their styles, in the
  order in which they are drawn.
\<close>

fun overlays :: "element \<Rightarrow> string list" where
  "overlays (SafeAreaView st es) = filter absolute (List.map_filter style_name es)"
| "overlays (View st es) = filter absolute (List.map_filter style_name es)"
| "overlays _ = []"

section \<open>Facts\<close>

lemmas sheet_defs = style_prop_def style_of_def styles_def style_groups

lemma absolute_names [simp]:
  "absolute ''toastError''" "absolute ''toastSuccess''" "absolute ''fab''"
  "\<not> absolute ''header''" "\<not> absolute ''processingContainer''"
  by (simp_all add: absolute_def sheet_defs)

lemma absolute_box_toastError:
  "absolute_box w h ''toastError'' =
     Some \<lparr>box_left = 20, box_right = w - 20, box_bottom = 24, box_top = 54 + h\<rparr>"
  by (simp add: absolute_box_def box_height_def spacing_def style_number_def sheet_defs)

lemma absolute_box_toastSuccess:
  "absolute_box w h ''toastSuccess'' =
     Some \<lparr>box_left = 20, box_right = w - 20, box_bottom = 90, box_top = 116 + h\<rparr>"
  by (simp add: absolute_box_def box_height_def spacing_def style_number_def sheet_defs)

lemma absolute_box_fab:
  "absolute_box w h ''fab'' =
     Some \<lparr>box_left = w - 80, box_right = w - 24, box_bottom = 24, box_top = 80\<rparr>"
  by (simp add: absolute_box_def box_height_def spacing_def style_number_def sheet_defs)

lemma overlays_render:
  assumes "\<not> cameraActive s"
  shows "overlays (render s) =
     (case error s of None \<Rightarrow> [] | Some m \<Rightarrow> if message_truthy m then [''toastError''] else []) @
     (case result s of None \<Rightarrow> [] | Some b \<Rightarrow> [''toastSuccess'']) @
     (if loading s then [] else [''fab''])"
  using assms
  by (simp add: render_def render_list_def render_toasts_def render_fab_def List.map_filter_def
      split: option.splits)

section \<open>Properties\<close>

text \<open>
  C28 (bounds). The \<open>+\<close> control is drawn over the error toast. Whenever the shelf
  view shows an error while no lookup is running, the toast and the control are both
  overlays of the root, the control drawn last; on a root at least 100 wide the box of
  the control lies within the width of the toast, both stand 24 above the bottom edge,
  and the two boxes share an area, whatever the height of the message. The success
  toast stands 90 above the bottom edge, clear of the control, which ends at 80.
\<close>

theorem error_toast_under_fab:
  assumes "\<not> cameraActive s" and "\<not> loading s" and "error s = Some m" and "message_truthy m"
    and "100 \<le> w" and "0 \<le> h"
  shows "\<exists>a b c. ''toastError'' \<in> set (overlays (render s)) \<and> last (overlays (render s)) = ''fab'' \<and>
     absolute_box w h ''toastError'' = Some a \<and> absolute_box w 0 ''fab'' = Some b \<and>
     absolute_box w h ''toastSuccess'' = Some c \<and>
     boxes_overlap a b \<and> box_left a \<le> box_left b \<and> box_right b \<le> box_right a \<and>
     box_bottom a = box_bottom b \<and> \<not> boxes_overlap c b"
  using assms
  by (simp add: overlays_render absolute_box_toastError absolute_box_fab absolute_box_toastSuccess
      boxes_overlap_def split: option.splits)

theorem error_toast_under_fab_witness:
  "\<exists>t a b. run test_key engine_parse (capture_events None) initial_system = Some t \<and>
     ''toastError'' \<in> set (overlays (render (app t))) \<and> last (overlays (render (app t))) = ''fab'' \<and>
     absolute_box 390 17 ''toastError'' = Some a \<and> absolute_box 390 0 ''fab'' = Some b \<and>
     boxes_overlap a b"
proof -
  let ?t = "dune_awaiting\<lparr>app := (app dune_awaiting)\<lparr>error := Some (EngineMessage FetchFailed),
      loading := False\<rparr>, requests := []\<rparr>"
  have e: "capture_events None =
      butlast (capture_events None) @ [Responded (JStr (lit ''file:///dune.jpg'')) 1700000000000 None]"
    by (simp add: capture_events_def)
  have "app_step test_key engine_parse (Responded (JStr (lit ''file:///dune.jpg'')) 1700000000000 None)
      dune_awaiting = Some ?t"
    by (simp add: dune_awaiting_def openai_book_def)
  then have "run test_key engine_parse (capture_events None) initial_system = Some ?t"
    by (subst e, subst run_append) (simp only: run_capture_awaiting option.case run.simps)
  moreover have "\<not> cameraActive (app ?t)" "\<not> loading (app ?t)"
    "error (app ?t) = Some (EngineMessage FetchFailed)" "message_truthy (EngineMessage FetchFailed)"
    by (simp_all add: dune_awaiting_def message_truthy_def)
  from error_toast_under_fab [OF this, of 390 17]
  have "\<exists>a b. ''toastError'' \<in> set (overlays (render (app ?t))) \<and>
      last (overlays (render (app ?t))) = ''fab'' \<and>
      absolute_box 390 17 ''toastError'' = Some a \<and> absolute_box 390 0 ''fab'' = Some b \<and>
      boxes_overlap a b"
    by auto
  ultimately show ?thesis by blast
qed

end
