(* ===== verification/Spec2Isabelle.thy ===== *)
theory Spec2Isabelle
  imports Express Layout
begin

text \<open>
  A verification development for \<^verbatim>\<open>kindle-downloader\<close>: a small Express server
  that resolves a book identifier or a free-text query to bibliographic candidates
  and to retailer links, and an Expo client that photographs a cover and asks a
  vision model for the book.

  \<^bold>\<open>The program.\<close> The server (\<^verbatim>\<open>src/src\<close>) has four parts. The validator
  (\<^verbatim>\<open>utils/validation.js\<close>) cleans an identifier and accepts it when ten or
  thirteen digits or \<^verbatim>\<open>X\<close> remain. The provider adapters
  (\<^verbatim>\<open>services/books.js\<close>) build the request URLs of OpenLibrary and Google Books,
  fetch them, and normalise the answers to candidate records. The link builder
  (\<^verbatim>\<open>services/links.js\<close>) builds a product link, a search link and the fallback
  bundle. The handlers (\<^verbatim>\<open>index.js\<close>) validate, call both providers in parallel,
  merge the candidates with the OpenLibrary one first, and reply; what they throw
  reaches the error middleware; the application (\<^verbatim>\<open>index.js\<close>) puts the JSON body
  parser before the routes. The server keeps no state between requests. The client
  (\<^verbatim>\<open>src/expo-app/App.js\<close>) is one React component: its state is eight hook
  values, its handlers take a picture and send it to the model, and what it renders
  decides which controls can be pressed; the style sheet at the end of the file names
  the styles the rendered elements use.

  \<^bold>\<open>The theories.\<close>
  \<^item> \<open>JS_Prelude\<close>: strings as lists of 16-bit code units, literals, decimal
    numerals, the error type \<open>js_error\<close>, the result type and its bind, list lemmas.
  \<^item> \<open>JS_Values\<close>: the values of parsed JSON and the language operations the
    sources apply to them (truthiness, \<open>||\<close>, property reads, optional chaining,
    \<open>ToString\<close>, \<open>join\<close>, spread, \<open>map\<close>), each with the \<open>TypeError\<close> the
    engine throws.
  \<^item> \<open>URI_Encoding\<close>: \<open>encodeURIComponent\<close> (UTF-16 decoding, UTF-8, percent
    escapes, \<open>URIError\<close> on a lone surrogate) and the serialiser behind
    \<open>url.searchParams.set\<close> and \<open>url.toString()\<close>. Lemmas: the output alphabet, the
    error, totality on well-formed strings, identity on unreserved strings, length
    bounds.
  \<^item> \<open>Validation\<close>: \<open>normalizeIsbn\<close> and \<open>assertIsbn\<close> of
    \<^verbatim>\<open>utils/validation.js\<close>. Lemmas: the shape of what is accepted, idempotence,
    the error of each rejected input.
  \<^item> \<open>Candidate\<close>: the candidate record both normalisers build, and its
    well-formedness.
  \<^item> \<open>Fetch\<close>: a response as the sources read it, and the network as a function
    from a URL to a response.
  \<^item> \<open>Books\<close>: \<open>fetchJson\<close>, \<open>normalizeOpenLibrary\<close>,
    \<open>normalizeGoogleBooks\<close>, \<open>fetchOpenLibraryByIsbn\<close>,
    \<open>fetchGoogleBooksByIsbn\<close> and \<open>fetchGoogleBooksByQuery\<close> of
    \<^verbatim>\<open>services/books.js\<close>. Lemmas: when a normaliser returns \<open>null\<close>, what a
    candidate holds, the request URLs, what each function can throw.
  \<^item> \<open>Links\<close>: \<open>buildAmazonProductUrl\<close>, \<open>buildAmazonSearchUrl\<close> and
    \<open>buildFallbackLinks\<close> of \<^verbatim>\<open>services/links.js\<close>. Lemmas: the domain of a
    locale, the alphabet of the query, the inputs on which the search link cannot be
    built.
  \<^item> \<open>Promise\<close>: \<open>Promise.all\<close> on two calls, as a step relation on the state of
    the join and as the function \<open>promise_all2\<close> of the two results and the order in
    which the calls settle, with the invariant of the relation and the refinement
    between the two. Both are the semantics of the built-in: the sources only call it.
  \<^item> \<open>Server\<close>: the handlers \<open>health\<close>, \<open>identify\<close> and \<open>kindle_link\<close> and
    the error middleware \<open>error_handler\<close> of \<^verbatim>\<open>index.js\<close>; \<open>resolveByIsbn\<close> is
    the validate, fetch, join and merge sequence both handlers start with. A handler is
    a function from the network, the order in which the provider calls settle, and the
    request to the reply. Lemmas: the order and well-formedness of the candidates,
    all-or-nothing failure, that the resolution is what the join of its two calls
    yields, exactly when a reply reports success, exactly when the reply is 404, that
    a successful reply does not depend on the settle order and exactly when a failing
    one does, and the site both links of a reply are on.
  \<^item> \<open>JSON\<close>: \<open>JSON.stringify\<close> (\<open>stringify\<close>, with \<open>quote\<close> for
    strings) and \<open>JSON.parse\<close> (\<open>parse_json\<close>: the lexer \<open>lex\<close>, a state machine
    over code units, and the parser \<open>parse_tokens\<close>, a pushdown machine over
    tokens), with the order in which an object enumerates its keys (\<open>obj_put\<close>).
    Lemmas: the text written for a value is read back as the value without what JSON
    cannot carry (\<open>json_clean\<close>), and the parser returns nothing but JSON values.
  \<^item> \<open>Wire\<close>: the objects the handlers pass to \<open>res.json\<close>
    (\<open>body_json\<close>, with \<open>candidate_json\<close>, \<open>links_json\<close> and
    \<open>input_json\<close> for the literals of \<^verbatim>\<open>books.js\<close>, \<^verbatim>\<open>links.js\<close> and
    \<^verbatim>\<open>index.js\<close>) and the response \<open>res_json\<close> sends. Lemmas: every value a
    handler puts into a reply is one the engine can hold when the providers' bodies
    are, the text of every reply parses to the object without its absent properties,
    and which keys of a candidate reach the client.
  \<^item> \<open>Express\<close>: the application of \<^verbatim>\<open>index.js\<close> as the function \<open>server\<close>
    from a request to what is sent: the body parser \<open>express_json\<close> with the limit
    \<open>body_limit\<close>, the routes \<open>health_route\<close>, \<open>identify_route\<close> and
    \<open>kindle_link_route\<close> tried in the order of their registration (\<open>dispatch\<close>),
    the error middleware for what the parser passes on, and \<open>port\<close> with the line
    logged on start. Lemmas: the routes exclude each other, the server answers every
    request whose body is within the model, every reply it sends parses to the object
    the handler built, and a malformed body is refused before any route is tried.
  \<^item> \<open>OpenAI\<close>: the request the client sends to the vision model:
    \<open>payload\<close>, the data URL \<open>image_url\<close> of the picture, and
    \<open>openai_request\<close> with its address, headers and body. Lemmas: the body is the
    JSON text of the payload and parses back to it, and the request cannot be built
    exactly when a template literal throws.
  \<^item> \<open>App\<close>: the component state, \<open>headerTitle\<close>, \<open>handleCapture\<close> and
    \<open>resolveWithOpenAI\<close> split at their \<open>await\<close>s, the choice of the rendered
    view, and \<open>app_step\<close>, the transition for one event of a control or of the
    environment; \<open>engine_parse\<close> is \<open>JSON.parse\<close> as the client calls it.
    Lemmas: the invariant of the reachable states, monotonicity of the shelf, the book a
    response yields and that it holds JSON values, the messages of failures, and that
    two captures started from the camera view overlap.
  \<^item> \<open>Styles\<close>: the object passed to \<open>StyleSheet.create\<close>, every style name
    with its properties, in the groups \<open>layout_styles\<close> to \<open>overlay_styles\<close>.
    Lemmas: the names of the sheet, that they are distinct, and which names are defined.
  \<^item> \<open>View\<close>: the element tree the component returns for a state:
    \<open>renderEmptyState\<close>, \<open>renderBook\<close> and \<open>render\<close> (with its parts
    \<open>render_camera\<close>, \<open>render_list\<close>, \<open>render_toasts\<close>, \<open>render_fab\<close>), and
    the functions that read a tree: its controls, its style names, its text children.
    Lemmas: the controls of the tree are the presses \<open>app_step\<close> accepts, every
    style used is defined, and exactly when rendering throws because a text has an
    object as a child.
  \<^item> \<open>Layout\<close>: the boxes of the overlays of the shelf view (the two toasts and the
    \<open>+\<close> control), read off the numbers of their styles by \<open>absolute_box\<close>, and
    \<open>overlays\<close>, the absolutely positioned children of a tree in drawing order.
    Lemmas: the three boxes, and that the control is drawn over the error toast.
  \<^item> This theory: the properties that relate the validator to the adapters.

  \<^bold>\<open>Conventions.\<close> A function of the source that can throw returns
  \<open>js_error + 'a\<close>, \<open>Inl\<close> carrying what is thrown, so every \<open>throw\<close> and every
  engine error on the modelled paths is a branch of the model. An argument that comes
  from a request or from a provider is a \<open>jsval\<close>, not a string: the sources do not
  check types, and the lemmas say what happens for every value. Definitions keep the
  names of the source; the fields of a book of the client are prefixed (\<open>book_id\<close>,
  \<open>book_title\<close>, \<open>book_author\<close>) where the name is taken. Examples are built
  around one book (\<open>dune_openLibrary\<close>, \<open>dune_document\<close>, \<open>dune_world\<close>,
  \<open>dune_completion\<close>) and evaluate by simplification.

  \<^bold>\<open>Assumptions and bounds.\<close> Numbers are integers of magnitude below \<open>2^53\<close>,
  where \<open>ToString\<close> is the decimal numeral. \<open>toUpperCase\<close> is modelled on ASCII
  letters, which is all the validator applies it to. A property read is exact for the
  property names the sources use; other inherited methods are not modelled. The text
  of an engine-raised error is the engine's and is carried as \<open>EngineMessage\<close>.
  The transition function of the client takes its parser as an argument, and the
  scenarios and the theorems about what is shelved run it with \<open>engine_parse\<close>,
  which refuses a text with a number outside the model where the engine returns a
  value: those theorems speak of the answers within the model. The
  API key, the clock and the responses of the network are arguments as well. What the
  framework of the server does on a request (matching a path, answering \<open>HEAD\<close>
  on a \<open>GET\<close> route, the statuses of the body parser) is taken from its
  documentation, and a handler is proved not to tell the body parser of version 4,
  which leaves an empty object where no body was read, from that of version 5, which
  leaves \<open>undefined\<close>. A number of a JSON text that is not
  an integer of that magnitude is reported by \<open>parse_json\<close> as \<open>Unrepresented\<close>,
  never as a syntax error. No definition uses fuel: every recursion is structural or
  on the length of a string, the lexer and the parser of JSON consume one unit or one
  token per step, and the join ends after two steps, one for each provider call.

  \<^bold>\<open>Not modelled.\<close> The \<open>require\<close>, \<open>import\<close> and \<open>module.exports\<close>
  lines, which bind names and compute nothing. Of the server: \<open>OPTIONS\<close>
  requests, which the framework answers itself, the headers of a reply other than its
  content type, the character set of a request body, and the sockets behind
  \<open>app.listen\<close>. Of the client: colours, fonts, shadows and the flex layout of
  the elements that are not positioned absolutely, the camera, and the transport of
  the request to the model, whose response is an event of the environment. A handler
  of the client reads the latest state: the closure of an older render is not
  modelled. A provider call that never settles is not modelled either: the network is
  a function, so every call has a result, and nothing is claimed about the time a
  request takes. Numbers that are not integers below \<open>2^53\<close>: the
  server reads no number from a provider and the client none from the model, and a
  text that holds one is reported as outside the model.
\<close>

section \<open>The validator and the provider requests\<close>

lemma normalized_isbn_form_safe: "normalized_isbn i \<Longrightarrow> list_all form_safe i"
  by (auto simp: normalized_isbn_def is_normal_unit_def list_all_iff intro: form_safe_normal)

text \<open>
  C27 (functional). For an identifier the validator accepts, the two provider
  requests are the addresses of the two APIs with the parameters the source sets:
  the colon of the key is percent-encoded, the identifier is sent as it is, and
  nothing of it can add or end a parameter.
\<close>

theorem provider_request_urls:
  assumes "assertIsbn v = Inr i"
  shows "openLibrary_request i =
       lit ''https://openlibrary.org/api/books?bibkeys=ISBN%3A'' @ i @ lit ''&format=json&jscmd=data'' \<and>
     googleBooks_request (lit ''isbn:'' @ i) =
       lit ''https://www.googleapis.com/books/v1/volumes?q=isbn%3A'' @ i @ lit ''&maxResults=5'' \<and>
     set i \<inter> {0x26, 0x3D, 0x23, 0x25} = {}"
proof -
  from assms have n: "normalized_isbn i" by (rule assertIsbn_normalized)
  then have "list_all form_safe i" by (rule normalized_isbn_form_safe)
  moreover from n have "set i \<inter> {0x26, 0x3D, 0x23, 0x25} = {}"
    by (auto simp: normalized_isbn_def is_normal_unit_def is_digit_unit_def list_all_iff
        word_le_nat_alt)
  ultimately show ?thesis
    by (simp add: openLibrary_request_safe googleBooks_request_isbn)
qed

theorem provider_request_urls_witness:
  "openLibrary_request (lit ''9780441013593'') =
     lit ''https://openlibrary.org/api/books?bibkeys=ISBN%3A9780441013593&format=json&jscmd=data'' \<and>
   googleBooks_request (lit ''isbn:'' @ lit ''9780441013593'') =
     lit ''https://www.googleapis.com/books/v1/volumes?q=isbn%3A9780441013593&maxResults=5''"
  using provider_request_urls [OF assertIsbn_Dune] by (simp add: lit_eval)

end
